(* ===== verification/Prelude.thy ===== *)
theory Prelude
  imports Main "HOL-Library.Word"
begin

text \<open>
  Shared vocabulary of the development: the type names of the Go code, its errors and
  HTTP replies as values, the collections of facts the component theories extend, and the
  list and map lemmas that the table operations share.

  Go's \<open>(T, error)\<close> results are values of the sum type, \<open>Inl\<close> for a non-nil
  error; a nil pointer is \<open>None\<close>.  \<open>int64\<close>, \<open>time.Time\<close> (nanoseconds
  since the epoch) and \<open>time.Duration\<close> (nanoseconds) are integers; where the
  width of an integer matters (TOTP) the words of \<open>HOL-Library.Word\<close> are used.
\<close>

named_theorems row_update "how a table operation acts on the rows of a table"
named_theorems inv_step "preservation of a component's invariant by its operations"
named_theorems handler_unfold "the definitions a request handler is made of"

type_synonym byte = "8 word"
type_synonym bytes = "8 word list"
type_synonym gotime = int
type_synonym duration = int

subsection \<open>Errors and replies\<close>

text \<open>
  \<open>FiberError\<close> is \<open>fiber.NewError(code, msg)\<close>, \<open>ErrNoRows\<close> is
  \<open>pgx.ErrNoRows\<close> (compared with \<open>==\<close> by the handlers), \<open>OtherErr\<close>
  any other error and \<open>GoPanic\<close> a run-time panic of the goroutine.
\<close>

datatype err =
    FiberError nat string
  | ErrNoRows
  | OtherErr string
  | GoPanic string

type_synonym 'a res = "err + 'a"

datatype 'b reply = JSON nat 'b | SendStatus nat

fun reply_status :: "'b reply \<Rightarrow> nat" where
  "reply_status (JSON c b) = c"
| "reply_status (SendStatus c) = c"

abbreviation is_ok :: "'a res \<Rightarrow> bool" where
  "is_ok r \<equiv> \<not> isl r"

lemma is_ok_iff: "is_ok r \<longleftrightarrow> (\<exists>v. r = Inr v)"
  by (cases r) auto

subsection \<open>Width of int64\<close>

definition int64_ok :: "int \<Rightarrow> bool" where
  "int64_ok i \<longleftrightarrow> - (2 ^ 63) \<le> i \<and> i < 2 ^ 63"

subsection \<open>JSON objects\<close>

text \<open>
  A JSON object is the list of its members, in order; a \<open>time.Time\<close> member is kept as its
  number of nanoseconds, which its text (RFC 3339 with nanoseconds) determines.
\<close>

datatype jval = JInt int | JStr string | JTime gotime | JNull | JOther

type_synonym json = "(string \<times> jval) list"

subsection \<open>Rows of a table\<close>

text \<open>
  A table is the list of its rows in heap order.  \<open>UPDATE ... SET f WHERE p\<close> is
  \<open>update_where p f\<close>; \<open>RETURNING\<close> yields the new versions of the rows it
  changed, \<open>returning p f\<close>.
\<close>

definition update_where :: "('r \<Rightarrow> bool) \<Rightarrow> ('r \<Rightarrow> 'r) \<Rightarrow> 'r list \<Rightarrow> 'r list" where
  "update_where p f rows = map (\<lambda>r. if p r then f r else r) rows"

definition returning :: "('r \<Rightarrow> bool) \<Rightarrow> ('r \<Rightarrow> 'r) \<Rightarrow> 'r list \<Rightarrow> 'r list" where
  "returning p f rows = map f (filter p rows)"

text \<open>\<open>tx.QueryRow(...).Scan(...)\<close>: the first row, or \<open>pgx.ErrNoRows\<close>.\<close>

definition query_row :: "'r list \<Rightarrow> 'r res" where
  "query_row rows = (case rows of [] \<Rightarrow> Inl ErrNoRows | r # _ \<Rightarrow> Inr r)"

text \<open>\<open>LIMIT l OFFSET o\<close>.\<close>

definition limit_offset :: "int \<Rightarrow> int \<Rightarrow> 'r list \<Rightarrow> 'r list" where
  "limit_offset l off rows = take (nat l) (drop (nat off) rows)"

lemma length_update_where [simp]: "length (update_where p f rows) = length rows"
  by (simp add: update_where_def)

lemma update_where_Nil [simp]: "update_where p f [] = []"
  by (simp add: update_where_def)

lemma update_where_Cons [simp]:
  "update_where p f (r # rows) = (if p r then f r else r) # update_where p f rows"
  by (simp add: update_where_def)

lemma update_where_append [simp]:
  "update_where p f (xs @ ys) = update_where p f xs @ update_where p f ys"
  by (simp add: update_where_def)

lemma set_update_where [row_update]:
  "set (update_where p f rows) = f ` {r \<in> set rows. p r} \<union> {r \<in> set rows. \<not> p r}"
  by (auto simp: update_where_def)

lemma update_where_none:
  "(\<And>r. r \<in> set rows \<Longrightarrow> \<not> p r) \<Longrightarrow> update_where p f rows = rows"
  by (simp add: update_where_def map_idI)

lemma map_key_update_where [row_update]:
  "(\<And>r. k (f r) = k r) \<Longrightarrow> map k (update_where p f rows) = map k rows"
  by (simp add: update_where_def)

lemma nth_update_where:
  "i < length rows \<Longrightarrow>
     update_where p f rows ! i = (if p (rows ! i) then f (rows ! i) else rows ! i)"
  by (simp add: update_where_def)

lemma query_row_Inr [simp]: "query_row rows = Inr r \<longleftrightarrow> (\<exists>rs. rows = r # rs)"
  by (auto simp: query_row_def split: list.splits)

lemma query_row_Inl [simp]: "query_row rows = Inl e \<longleftrightarrow> rows = [] \<and> e = ErrNoRows"
  by (auto simp: query_row_def split: list.splits)

lemma query_row_in_set: "query_row rows = Inr r \<Longrightarrow> r \<in> set rows"
  by auto

lemma query_row_filter: "query_row (filter p rows) = Inr r \<Longrightarrow> r \<in> set rows \<and> p r"
proof -
  assume "query_row (filter p rows) = Inr r"
  then have "r \<in> set (filter p rows)" by (rule query_row_in_set)
  then show "r \<in> set rows \<and> p r" by simp
qed

lemma returning_in_set: "r \<in> set (returning p f rows) \<Longrightarrow> \<exists>r0 \<in> set rows. p r0 \<and> r = f r0"
  by (auto simp: returning_def)

lemma returning_empty [simp]: "returning p f rows = [] \<longleftrightarrow> (\<forall>r \<in> set rows. \<not> p r)"
  by (auto simp: returning_def filter_empty_conv)

lemma set_limit_offset: "set (limit_offset l off rows) \<subseteq> set rows"
  unfolding limit_offset_def by (meson in_set_dropD in_set_takeD subsetI)

lemma length_limit_offset: "0 \<le> l \<Longrightarrow> int (length (limit_offset l off rows)) \<le> l"
  by (simp add: limit_offset_def)

text \<open>\<open>WHERE key = k\<close> on a key without duplicates selects at most one row.\<close>

lemma filter_key_unique:
  assumes "distinct (map k rows)" and "r \<in> set rows" and "k r = x" and "p r"
  shows "filter (\<lambda>r. k r = x \<and> p r) rows = [r]"
  using assms
proof (induction rows)
  case Nil
  then show ?case by simp
next
  case (Cons a rows)
  show ?case
  proof (cases "r = a")
    case True
    with Cons.prems have "filter (\<lambda>r. k r = x \<and> p r) rows = []"
      by (auto simp: filter_empty_conv rev_image_eqI)
    with True Cons.prems show ?thesis by simp
  next
    case False
    with Cons.prems have "k a \<noteq> x" by (auto simp: rev_image_eqI)
    with False Cons show ?thesis by auto
  qed
qed

lemma distinct_key_eq:
  "distinct (map k rows) \<Longrightarrow> r \<in> set rows \<Longrightarrow> s \<in> set rows \<Longrightarrow> k r = k s \<Longrightarrow> r = s"
  by (metis distinct_map inj_on_def)

text \<open>
  A table that grows: rows are only appended, and the row at each place is related to the row
  that was there before.
\<close>

definition grows :: "('r \<Rightarrow> 'r \<Rightarrow> bool) \<Rightarrow> 'r list \<Rightarrow> 'r list \<Rightarrow> bool" where
  "grows P xs ys \<longleftrightarrow> length xs \<le> length ys \<and> (\<forall>i < length xs. P (xs ! i) (ys ! i))"

lemma grows_refl: "(\<And>r. P r r) \<Longrightarrow> grows P xs xs"
  by (simp add: grows_def)

lemma grows_trans: "(\<And>a b c. P a b \<Longrightarrow> P b c \<Longrightarrow> P a c) \<Longrightarrow> grows P xs ys \<Longrightarrow> grows P ys zs \<Longrightarrow> grows P xs zs"
  unfolding grows_def by (meson less_le_trans order.trans)

lemma grows_append: "(\<And>r. P r r) \<Longrightarrow> grows P xs (xs @ ys)"
  by (simp add: grows_def nth_append)

lemma grows_update_where: "(\<And>r. P r r) \<Longrightarrow> (\<And>r. p r \<Longrightarrow> P r (f r)) \<Longrightarrow> grows P xs (update_where p f xs)"
  by (simp add: grows_def nth_update_where)

lemma grows_mem: "grows P xs ys \<Longrightarrow> x \<in> set xs \<Longrightarrow> \<exists>y \<in> set ys. P x y"
  unfolding grows_def in_set_conv_nth by (metis less_le_trans nth_mem)

end
