(* ===== verification/GoStd.thy ===== *)
theory GoStd
  imports Prelude
begin

text \<open>
  The parts of Go's standard library that the services call on strings and numbers
  (\<open>strings\<close>, \<open>strconv\<close>, \<open>encoding/hex\<close>, \<open>math\<close>), as executable functions.  A Go string is
  the list of its bytes.  Case mapping and white space are those of ASCII; the Unicode
  cases of \<open>strings.ToUpper\<close> and \<open>strings.TrimSpace\<close> are outside the model.
\<close>

subsection \<open>Bytes and characters\<close>

definition char_ord :: "char \<Rightarrow> nat" where
  "char_ord c = of_char c"

definition byte_of_char :: "char \<Rightarrow> byte" where
  "byte_of_char c = word_of_nat (of_char c)"

definition char_of_byte :: "byte \<Rightarrow> char" where
  "char_of_byte b = char_of (unat b)"

text \<open>The conversions \<open>[]byte(s)\<close> and \<open>string(b)\<close>.\<close>

definition bytes_of :: "string \<Rightarrow> bytes" where
  "bytes_of s = map byte_of_char s"

definition string_of :: "bytes \<Rightarrow> string" where
  "string_of bs = map char_of_byte bs"

lemma char_ord_less: "char_ord c < 256"
  by (cases c) (simp add: char_ord_def of_char_Char horner_sum_simps)

lemma char_of_byte_of_char [simp]: "char_of_byte (byte_of_char c) = c"
  using char_ord_less [of c]
  by (simp add: char_of_byte_def byte_of_char_def unat_of_nat char_ord_def)

lemma string_of_bytes_of [simp]: "string_of (bytes_of s) = s"
  by (simp add: string_of_def bytes_of_def o_def)

lemma bytes_of_eq_iff [simp]: "bytes_of s = bytes_of t \<longleftrightarrow> s = t"
  by (metis string_of_bytes_of)

lemma length_bytes_of [simp]: "length (bytes_of s) = length s"
  by (simp add: bytes_of_def)

subsection \<open>strings\<close>

definition is_space :: "char \<Rightarrow> bool" where
  "is_space c \<longleftrightarrow> char_ord c \<in> {9, 10, 11, 12, 13, 32}"

definition TrimSpace :: "string \<Rightarrow> string" where
  "TrimSpace s = rev (dropWhile is_space (rev (dropWhile is_space s)))"

definition upper_char :: "char \<Rightarrow> char" where
  "upper_char c = (if 97 \<le> char_ord c \<and> char_ord c \<le> 122 then char_of (char_ord c - 32) else c)"

definition lower_char :: "char \<Rightarrow> char" where
  "lower_char c = (if 65 \<le> char_ord c \<and> char_ord c \<le> 90 then char_of (char_ord c + 32) else c)"

definition ToUpper :: "string \<Rightarrow> string" where
  "ToUpper s = map upper_char s"

definition ToLower :: "string \<Rightarrow> string" where
  "ToLower s = map lower_char s"

definition EqualFold :: "string \<Rightarrow> string \<Rightarrow> bool" where
  "EqualFold a b \<longleftrightarrow> ToLower a = ToLower b"

text \<open>\<open>strings.ReplaceAll(s, " ", "")\<close>\<close>

definition remove_spaces :: "string \<Rightarrow> string" where
  "remove_spaces s = filter (\<lambda>c. c \<noteq> CHR '' '') s"

text \<open>\<open>strings.SplitN(s, " ", 2)\<close>\<close>

definition SplitN2 :: "string \<Rightarrow> string list" where
  "SplitN2 s = (let pre = takeWhile (\<lambda>c. c \<noteq> CHR '' '') s;
                    rest = dropWhile (\<lambda>c. c \<noteq> CHR '' '') s
                in if rest = [] then [pre] else [pre, tl rest])"

definition HasPrefix :: "string \<Rightarrow> string \<Rightarrow> bool" where
  "HasPrefix s p \<longleftrightarrow> take (length p) s = p"

lemma length_ToUpper [simp]: "length (ToUpper s) = length s"
  by (simp add: ToUpper_def)

lemma char_ord_char_of: "n < 256 \<Longrightarrow> char_ord (char_of n) = n"
  by (simp add: char_ord_def)

lemma ToUpper_idem [simp]: "ToUpper (ToUpper s) = ToUpper s"
proof -
  have "upper_char (upper_char c) = upper_char c" for c
    using char_ord_char_of [of "char_ord c - 32"] by (auto simp: upper_char_def)
  then show ?thesis by (simp add: ToUpper_def)
qed

lemma SplitN2_pair:
  "SplitN2 s = [a, b] \<longleftrightarrow> s = a @ CHR '' '' # b \<and> CHR '' '' \<notin> set a"
proof (induction s arbitrary: a)
  case Nil
  then show ?case by (simp add: SplitN2_def)
next
  case (Cons c s)
  show ?case
  proof (cases "c = CHR '' ''")
    case True
    then show ?thesis by (cases a) (auto simp: SplitN2_def)
  next
    case False
    then have "SplitN2 (c # s) = (case SplitN2 s of pre # rest \<Rightarrow> (c # pre) # rest)"
      by (auto simp: SplitN2_def Let_def)
    moreover have "\<exists>pre rest. SplitN2 s = pre # rest" by (simp add: SplitN2_def Let_def)
    ultimately show ?thesis using False Cons.IH [of "tl a"]
      by (cases a) (auto simp: SplitN2_def Let_def split: if_splits)
  qed
qed

subsection \<open>strconv\<close>

definition is_digit :: "char \<Rightarrow> bool" where
  "is_digit c \<longleftrightarrow> 48 \<le> char_ord c \<and> char_ord c \<le> 57"

definition digit_val :: "char \<Rightarrow> nat" where
  "digit_val c = char_ord c - 48"

definition digit_char :: "nat \<Rightarrow> char" where
  "digit_char d = char_of (48 + d)"

datatype num_error = ErrSyntax | ErrRange

text \<open>
  The scanning loop of \<open>strconv.ParseUint(s, 10, 64)\<close>: a range error is reported at the
  digit that overflows, before the rest of the text is looked at.
\<close>

fun scan_uint :: "nat \<Rightarrow> string \<Rightarrow> nat \<times> num_error option" where
  "scan_uint n [] = (n, None)"
| "scan_uint n (c # cs) =
     (if \<not> is_digit c then (0, Some ErrSyntax)
      else if 10 * n + digit_val c \<ge> 2 ^ 64 then (2 ^ 64 - 1, Some ErrRange)
      else scan_uint (10 * n + digit_val c) cs)"

text \<open>
  \<open>strconv.ParseInt(s, 10, 64)\<close> (and \<open>strconv.Atoi\<close>, the same on a 64-bit platform): the
  value and the error, both, since some callers ignore the error and use the value.
\<close>

definition ParseInt :: "string \<Rightarrow> int \<times> num_error option" where
  "ParseInt s =
     (if s = [] then (0, Some ErrSyntax)
      else let neg = (hd s = CHR ''-'');
               body = (if hd s = CHR ''+'' \<or> neg then tl s else s)
           in if body = [] then (0, Some ErrSyntax)
              else case scan_uint 0 body of
                (un, Some ErrSyntax) \<Rightarrow> (0, Some ErrSyntax)
              | (un, e) \<Rightarrow>
                  if \<not> neg \<and> un \<ge> 2 ^ 63 then (2 ^ 63 - 1, Some ErrRange)
                  else if neg \<and> un > 2 ^ 63 then (- (2 ^ 63), Some ErrRange)
                  else (if neg then - int un else int un, None))"

text \<open>The same on integers, for evaluation.\<close>

fun scan_int :: "int \<Rightarrow> string \<Rightarrow> int \<times> num_error option" where
  "scan_int n [] = (n, None)"
| "scan_int n (c # cs) =
     (if \<not> is_digit c then (0, Some ErrSyntax)
      else if 10 * n + int (digit_val c) \<ge> 2 ^ 64 then (2 ^ 64 - 1, Some ErrRange)
      else scan_int (10 * n + int (digit_val c)) cs)"

lemma scan_int_uint: "scan_int (int n) cs = map_prod int (\<lambda>e. e) (scan_uint n cs)"
proof (induction cs arbitrary: n)
  case Nil
  then show ?case by simp
next
  case (Cons c cs)
  let ?m = "10 * n + digit_val c"
  have p: "(2::int) ^ 64 = int (2 ^ 64)" by (simp only: of_nat_power of_nat_numeral)
  have m: "10 * int n + int (digit_val c) = int ?m" by simp
  have le: "(2::int) ^ 64 \<le> int ?m \<longleftrightarrow> 2 ^ 64 \<le> ?m" unfolding p by (rule of_nat_le_iff)
  have one: "(2::int) ^ 64 - 1 = int (2 ^ 64 - 1)" by simp
  show ?case
    unfolding scan_int.simps scan_uint.simps m le Cons.IH one
    by (simp only: if_distrib [where f = "map_prod int (\<lambda>e. e)"] map_prod_simp) (simp del: power_numeral)
qed

lemma ParseInt_code [code]:
  "ParseInt s =
     (if s = [] then (0, Some ErrSyntax)
      else let neg = (hd s = CHR ''-'');
               body = (if hd s = CHR ''+'' \<or> neg then tl s else s)
           in if body = [] then (0, Some ErrSyntax)
              else case scan_int 0 body of
                (un, Some ErrSyntax) \<Rightarrow> (0, Some ErrSyntax)
              | (un, e) \<Rightarrow>
                  if \<not> neg \<and> un \<ge> 2 ^ 63 then (2 ^ 63 - 1, Some ErrRange)
                  else if neg \<and> un > 2 ^ 63 then (- (2 ^ 63), Some ErrRange)
                  else (if neg then - un else un, None))"
proof -
  have "(case scan_int 0 body of
                (un, Some ErrSyntax) \<Rightarrow> (0, Some ErrSyntax)
              | (un, e) \<Rightarrow>
                  if \<not> neg \<and> un \<ge> 2 ^ 63 then (2 ^ 63 - 1, Some ErrRange)
                  else if neg \<and> un > 2 ^ 63 then (- (2 ^ 63), Some ErrRange)
                  else (if neg then - un else un, None)) =
        (case scan_uint 0 body of
                (un, Some ErrSyntax) \<Rightarrow> (0, Some ErrSyntax)
              | (un, e) \<Rightarrow>
                  if \<not> neg \<and> un \<ge> 2 ^ 63 then (2 ^ 63 - 1, Some ErrRange)
                  else if neg \<and> un > 2 ^ 63 then (- (2 ^ 63), Some ErrRange)
                  else (if neg then - int un else int un, None))" for neg body
  proof -
    obtain un e where u: "scan_uint 0 body = (un, e)" by (cases "scan_uint 0 body")
    then have i: "scan_int 0 body = (int un, e)" using scan_int_uint [of 0 body] by simp
    have "(2::int) ^ 63 = int (2 ^ 63)" by (simp only: of_nat_power of_nat_numeral)
    then have "(2::int) ^ 63 \<le> int un \<longleftrightarrow> 2 ^ 63 \<le> un" "(2::int) ^ 63 < int un \<longleftrightarrow> 2 ^ 63 < un"
      by (simp_all only: of_nat_le_iff of_nat_less_iff)
    then show ?thesis unfolding i u prod.case by (simp only:)
  qed
  then show ?thesis by (simp only: ParseInt_def Let_def)
qed

fun parsed :: "int \<times> num_error option \<Rightarrow> int option" where
  "parsed (v, None) = Some v"
| "parsed (v, Some e) = None"

abbreviation parse_int64 :: "string \<Rightarrow> int option" where
  "parse_int64 s \<equiv> parsed (ParseInt s)"

text \<open>\<open>strconv.FormatInt(i, 10)\<close> and \<open>strconv.Itoa\<close>\<close>

fun fmt_nat :: "nat \<Rightarrow> string" where
  "fmt_nat n = (if n < 10 then [digit_char n] else fmt_nat (n div 10) @ [digit_char (n mod 10)])"

declare fmt_nat.simps [simp del]

definition FormatInt :: "int \<Rightarrow> string" where
  "FormatInt i = (if i < 0 then CHR ''-'' # fmt_nat (nat (- i)) else fmt_nat (nat i))"

lemma digit_char_eval:
  "digit_char 0 = CHR ''0''" "digit_char (Suc 0) = CHR ''1''" "digit_char 1 = CHR ''1''"
  "digit_char 2 = CHR ''2''" "digit_char 3 = CHR ''3''" "digit_char 4 = CHR ''4''"
  "digit_char 5 = CHR ''5''" "digit_char 6 = CHR ''6''" "digit_char 7 = CHR ''7''"
  "digit_char 8 = CHR ''8''" "digit_char 9 = CHR ''9''"
  by (simp_all add: digit_char_def char_of_def bit_Suc_0_iff)

lemmas decimal_eval = FormatInt_def fmt_nat.simps digit_char_eval

text \<open>The same on integers, for evaluation.\<close>

function fmt_int :: "int \<Rightarrow> string" where
  "fmt_int i = (if i < 10 then [digit_char (nat i)] else fmt_int (i div 10) @ [digit_char (nat (i mod 10))])"
  by pat_completeness auto
termination by (relation "measure nat") auto

declare fmt_int.simps [simp del]

lemma fmt_int_nat: "0 \<le> i \<Longrightarrow> fmt_int i = fmt_nat (nat i)"
proof (induction i rule: fmt_int.induct)
  case (1 i)
  then show ?case
    by (subst fmt_int.simps, subst fmt_nat.simps)
      (auto simp: nat_div_distrib nat_mod_distrib nat_less_iff)
qed

lemma FormatInt_code [code]: "FormatInt i = (if i < 0 then CHR ''-'' # fmt_int (- i) else fmt_int i)"
  by (simp add: FormatInt_def fmt_int_nat)

lemma char_ord_digit [simp]: "d < 10 \<Longrightarrow> char_ord (digit_char d) = 48 + d"
  by (simp add: digit_char_def char_ord_def)

lemma is_digit_digit_char [simp]: "d < 10 \<Longrightarrow> is_digit (digit_char d)"
  by (simp add: is_digit_def)

lemma digit_val_digit_char [simp]: "d < 10 \<Longrightarrow> digit_val (digit_char d) = d"
  by (simp add: digit_val_def)

lemma fmt_nat_nonempty [simp]: "fmt_nat n \<noteq> []"
  by (subst fmt_nat.simps) simp

lemma fmt_nat_digits: "c \<in> set (fmt_nat n) \<Longrightarrow> is_digit c"
proof (induction n rule: fmt_nat.induct)
  case (1 n)
  then show ?case
    by (subst (asm) fmt_nat.simps) (auto split: if_splits)
qed

lemma scan_uint_append:
  "scan_uint n xs = (m, None) \<Longrightarrow> scan_uint n (xs @ ys) = scan_uint m ys"
  by (induction xs arbitrary: n) (auto split: if_splits)

lemma scan_uint_fmt_nat: "n < 2 ^ 64 \<Longrightarrow> scan_uint 0 (fmt_nat n) = (n, None)"
proof (induction n rule: fmt_nat.induct)
  case (1 n)
  show ?case
  proof (cases "n < 10")
    case True
    then show ?thesis by (subst fmt_nat.simps) simp
  next
    case False
    with "1" have IH: "scan_uint 0 (fmt_nat (n div 10)) = (n div 10, None)" by simp
    have "10 * (n div 10) + n mod 10 = n" by simp
    with False "1.prems" show ?thesis
      by (subst fmt_nat.simps) (simp add: scan_uint_append [OF IH])
  qed
qed

lemma hd_fmt_nat: "is_digit (hd (fmt_nat n))"
  using fmt_nat_digits [of "hd (fmt_nat n)" n] by simp

lemma digit_not_sign: "is_digit c \<Longrightarrow> c \<noteq> CHR ''-'' \<and> c \<noteq> CHR ''+''"
  by (auto simp: is_digit_def char_ord_def)

lemma parse_int64_FormatInt:
  assumes "int64_ok i"
  shows "parse_int64 (FormatInt i) = Some i"
proof (cases "i < 0")
  case True
  with assms have "nat (- i) \<le> 2 ^ 63" by (auto simp: int64_ok_def)
  moreover from this have "scan_uint 0 (fmt_nat (nat (- i))) = (nat (- i), None)"
    by (intro scan_uint_fmt_nat) simp
  ultimately show ?thesis
    using True by (auto simp: ParseInt_def FormatInt_def Let_def)
next
  case False
  with assms have n: "nat i < 2 ^ 63" by (auto simp: int64_ok_def)
  then have "scan_uint 0 (fmt_nat (nat i)) = (nat i, None)"
    by (intro scan_uint_fmt_nat) simp
  with False n digit_not_sign [OF hd_fmt_nat [of "nat i"]] show ?thesis
    by (auto simp: ParseInt_def FormatInt_def Let_def)
qed

lemma scan_uint_less: "scan_uint n cs = (m, None) \<Longrightarrow> n < 2 ^ 64 \<Longrightarrow> m < 2 ^ 64"
  by (induction cs arbitrary: n) (auto split: if_splits)

lemma parse_int64_ok: "parse_int64 s = Some i \<Longrightarrow> int64_ok i"
  by (auto simp: ParseInt_def Let_def int64_ok_def split: if_splits prod.splits option.splits
      num_error.splits)

subsection \<open>Query parameters: parseInt and clampInt\<close>

text \<open>
  Four services declare the same two helpers, \<open>parseInt(s, def)\<close> and \<open>clampInt(v, min, max)\<close>,
  for their paging parameters.  A locale states what every copy owes its handler.
\<close>

locale int_param =
  fixes parse_i :: "string \<Rightarrow> int \<Rightarrow> int"
    and clamp_i :: "int \<Rightarrow> int \<Rightarrow> int \<Rightarrow> int"
  assumes parse_empty: "parse_i [] d = d"
    and parse_format: "int64_ok i \<Longrightarrow> parse_i (FormatInt i) d = i"
    and parse_bad: "parse_int64 s = None \<Longrightarrow> parse_i s d = d"
    and clamp_low: "lo \<le> hi \<Longrightarrow> v < lo \<Longrightarrow> clamp_i v lo hi = lo"
    and clamp_high: "lo \<le> hi \<Longrightarrow> hi < v \<Longrightarrow> clamp_i v lo hi = hi"
    and clamp_id: "lo \<le> v \<Longrightarrow> v \<le> hi \<Longrightarrow> clamp_i v lo hi = v"
begin

lemma clamp_bounds: "lo \<le> hi \<Longrightarrow> lo \<le> clamp_i v lo hi \<and> clamp_i v lo hi \<le> hi"
  by (cases "v < lo"; cases "hi < v") (auto simp: clamp_low clamp_high clamp_id)

lemma param_default: "lo \<le> d \<Longrightarrow> d \<le> hi \<Longrightarrow> clamp_i (parse_i [] d) lo hi = d"
  by (simp add: parse_empty clamp_id)

lemma param_given:
  "lo \<le> i \<Longrightarrow> i \<le> hi \<Longrightarrow> int64_ok i \<Longrightarrow> clamp_i (parse_i (FormatInt i) d) lo hi = i"
  by (simp add: parse_format clamp_id)

lemma page_bounded:
  assumes "0 \<le> lo" and "lo \<le> hi"
  shows "int (length (limit_offset (clamp_i (parse_i s d) lo hi) off rows)) \<le> hi"
proof -
  have b: "lo \<le> clamp_i (parse_i s d) lo hi \<and> clamp_i (parse_i s d) lo hi \<le> hi"
    by (rule clamp_bounds [OF assms(2)])
  with assms(1) have "int (length (limit_offset (clamp_i (parse_i s d) lo hi) off rows))
      \<le> clamp_i (parse_i s d) lo hi"
    by (intro length_limit_offset) simp
  with b show ?thesis by simp
qed

end

text \<open>The body all four copies have owes what the locale asks.\<close>

lemma int_param_copy:
  assumes "\<And>s def. p s def = (if s = [] then def else case ParseInt s of (i, Some e) \<Rightarrow> def | (i, None) \<Rightarrow> i)"
    and "\<And>v mn mx. c v mn mx = (if v < mn then mn else if v > mx then mx else v)"
  shows "int_param p c"
proof
  fix i d assume "int64_ok i"
  then have "parse_int64 (FormatInt i) = Some i" by (rule parse_int64_FormatInt)
  moreover have "FormatInt i \<noteq> []" by (simp add: FormatInt_def)
  ultimately show "p (FormatInt i) d = i"
    by (cases "ParseInt (FormatInt i)" rule: parsed.cases) (auto simp: assms(1))
next
  fix s d assume "parse_int64 s = None"
  then show "p s d = d" by (cases "ParseInt s" rule: parsed.cases) (auto simp: assms(1))
qed (simp_all add: assms)

subsection \<open>encoding/hex\<close>

definition hex_digit :: "nat \<Rightarrow> char" where
  "hex_digit d = (if d < 10 then char_of (48 + d) else char_of (87 + d))"

definition hex_encode :: "bytes \<Rightarrow> string" where
  "hex_encode bs = concat (map (\<lambda>b. [hex_digit (unat b div 16), hex_digit (unat b mod 16)]) bs)"

lemma length_hex_encode [simp]: "length (hex_encode bs) = 2 * length bs"
  by (induction bs) (simp_all add: hex_encode_def)

lemma hex_digit_inj: "a < 16 \<Longrightarrow> b < 16 \<Longrightarrow> hex_digit a = hex_digit b \<Longrightarrow> a = b"
proof -
  assume h: "a < 16" "b < 16" "hex_digit a = hex_digit b"
  then have "char_ord (hex_digit a) = char_ord (hex_digit b)" by simp
  with h(1,2) show "a = b"
    by (auto simp: hex_digit_def char_ord_char_of split: if_splits)
qed

lemma hex_encode_inj: "hex_encode xs = hex_encode ys \<Longrightarrow> xs = ys"
proof (induction xs arbitrary: ys)
  case Nil
  then show ?case by (cases ys) (simp_all add: hex_encode_def)
next
  case (Cons x xs)
  from Cons.prems obtain y ys' where ys: "ys = y # ys'"
    by (cases ys) (auto simp: hex_encode_def)
  have lt: "unat x < 256" "unat y < 256" using unsigned_less [of x, where 'a = nat] unsigned_less [of y, where 'a = nat] by simp_all
  from Cons.prems ys have "hex_digit (unat x div 16) = hex_digit (unat y div 16)"
    and "hex_digit (unat x mod 16) = hex_digit (unat y mod 16)"
    and rest: "hex_encode xs = hex_encode ys'"
    by (simp_all add: hex_encode_def)
  with lt have "unat x div 16 = unat y div 16" and "unat x mod 16 = unat y mod 16"
    by (auto intro: hex_digit_inj)
  then have "x = y" by (metis div_mult_mod_eq word_unat_eq_iff)
  with rest ys Cons.IH show ?case by simp
qed

end
