(* ===== verification/GoCrypto.thy ===== *)
theory GoCrypto
  imports GoStd
begin

unbundle bit_operations_syntax

text \<open>
  \<open>crypto/sha1\<close> and \<open>crypto/hmac\<close> of Go's standard library, which \<open>shared/mfax\<close> calls for
  the one-time passwords (FIPS 180-4, RFC 2104), and \<open>encoding/base32\<close> with the standard
  alphabet and no padding, decoder and encoder.  The 32-bit words inside SHA-1 are
  integers reduced by \<open>u32\<close>, so that the simplifier evaluates the digest on concrete
  input; the interface is lists of bytes.
\<close>

subsection \<open>SHA-1\<close>

definition u32 :: "int \<Rightarrow> int" where
  "u32 x = take_bit 32 x"

definition rotl32 :: "nat \<Rightarrow> int \<Rightarrow> int" where
  "rotl32 n w = u32 (push_bit n w) OR drop_bit (32 - n) w"

definition u32_of_be :: "byte \<Rightarrow> byte \<Rightarrow> byte \<Rightarrow> byte \<Rightarrow> int" where
  "u32_of_be a b c d = ((uint a * 256 + uint b) * 256 + uint c) * 256 + uint d"

definition be_of_u32 :: "int \<Rightarrow> bytes" where
  "be_of_u32 w = [word_of_int (w div 2 ^ 24 mod 256), word_of_int (w div 2 ^ 16 mod 256),
                  word_of_int (w div 2 ^ 8 mod 256), word_of_int (w mod 256)]"

text \<open>\<open>binary.BigEndian.PutUint64\<close>\<close>

definition PutUint64 :: "64 word \<Rightarrow> bytes" where
  "PutUint64 w =
     map (\<lambda>i. word_of_int (uint w div 2 ^ i mod 256)) [56, 48, 40, 32, 24, 16, 8, 0]"

fun u32s_of_bytes :: "bytes \<Rightarrow> int list" where
  "u32s_of_bytes (a # b # c # d # rest) = u32_of_be a b c d # u32s_of_bytes rest"
| "u32s_of_bytes _ = []"

definition sha1_pad :: "bytes \<Rightarrow> bytes" where
  "sha1_pad m = m @ [128] @ replicate ((119 - length m mod 64) mod 64) 0
                  @ PutUint64 (word_of_int (8 * int (length m)))"

text \<open>The message schedule, kept as the last sixteen words, newest last.\<close>

definition sha1_next :: "int list \<Rightarrow> int" where
  "sha1_next ws = rotl32 1 (ws ! 13 XOR ws ! 8 XOR ws ! 2 XOR ws ! 0)"

type_synonym sha1_state = "int \<times> int \<times> int \<times> int \<times> int"

definition sha1_f :: "nat \<Rightarrow> int \<Rightarrow> int \<Rightarrow> int \<Rightarrow> int" where
  "sha1_f t b c d =
     (if t < 20 then (b AND c) OR ((0xFFFFFFFF XOR b) AND d)
      else if t < 40 then b XOR c XOR d
      else if t < 60 then (b AND c) OR (b AND d) OR (c AND d)
      else b XOR c XOR d)"

definition sha1_k :: "nat \<Rightarrow> int" where
  "sha1_k t = (if t < 20 then 0x5A827999 else if t < 40 then 0x6ED9EBA1
               else if t < 60 then 0x8F1BBCDC else 0xCA62C1D6)"

fun sha1_rounds :: "nat \<Rightarrow> nat \<Rightarrow> int list \<Rightarrow> sha1_state \<Rightarrow> sha1_state" where
  "sha1_rounds 0 t ws s = s"
| "sha1_rounds (Suc n) t ws (a, b, c, d, e) =
     sha1_rounds n (Suc t) (tl ws @ [sha1_next ws])
       (u32 (rotl32 5 a + sha1_f t b c d + e + sha1_k t + hd ws), a, rotl32 30 b, c, d)"

fun sha1_add :: "sha1_state \<Rightarrow> sha1_state \<Rightarrow> sha1_state" where
  "sha1_add (a, b, c, d, e) (a', b', c', d', e') =
     (u32 (a + a'), u32 (b + b'), u32 (c + c'), u32 (d + d'), u32 (e + e'))"

definition sha1_block :: "int list \<Rightarrow> sha1_state \<Rightarrow> sha1_state" where
  "sha1_block ws s = sha1_add s (sha1_rounds 80 0 ws s)"

fun sha1_blocks :: "nat \<Rightarrow> int list \<Rightarrow> sha1_state \<Rightarrow> sha1_state" where
  "sha1_blocks 0 ws s = s"
| "sha1_blocks (Suc n) ws s = sha1_blocks n (drop 16 ws) (sha1_block (take 16 ws) s)"

fun sha1_out :: "sha1_state \<Rightarrow> bytes" where
  "sha1_out (a, b, c, d, e) =
     be_of_u32 a @ be_of_u32 b @ be_of_u32 c @ be_of_u32 d @ be_of_u32 e"

definition sha1_init :: sha1_state where
  "sha1_init = (0x67452301, 0xEFCDAB89, 0x98BADCFE, 0x10325476, 0xC3D2E1F0)"

definition sha1 :: "bytes \<Rightarrow> bytes" where
  "sha1 m = (let p = sha1_pad m in
     sha1_out (sha1_blocks (length p div 64) (u32s_of_bytes p) sha1_init))"

subsection \<open>HMAC\<close>

definition hmac_sha1 :: "bytes \<Rightarrow> bytes \<Rightarrow> bytes" where
  "hmac_sha1 key msg =
     (let k0 = (if length key > 64 then sha1 key else key);
          k = k0 @ replicate (64 - length k0) 0
      in sha1 (map (\<lambda>x. x XOR 0x5C) k @ sha1 (map (\<lambda>x. x XOR 0x36) k @ msg)))"

lemma length_sha1 [simp]: "length (sha1 m) = 20"
proof -
  have "length (sha1_out s) = 20" for s
    by (cases s) (simp add: be_of_u32_def)
  then show ?thesis by (simp add: sha1_def Let_def)
qed

lemma length_hmac_sha1 [simp]: "length (hmac_sha1 k m) = 20"
  by (simp add: hmac_sha1_def Let_def)

subsection \<open>Base32 without padding\<close>

definition b32_char :: "nat \<Rightarrow> char" where
  "b32_char v = (if v < 26 then char_of (65 + v) else char_of (24 + v))"

definition b32_value :: "char \<Rightarrow> nat option" where
  "b32_value c =
     (let n = char_ord c in
      if 65 \<le> n \<and> n \<le> 90 then Some (n - 65)
      else if 50 \<le> n \<and> n \<le> 55 then Some (n - 24) else None)"

text \<open>
  One quantum: up to five bytes give two, four, five, seven or eight 5-bit digits, and
  back.  Digit counts of one, three or six hold no whole byte: Go's decoder writes no byte
  for them and reports no error.
\<close>

fun b32_group :: "nat list \<Rightarrow> nat list" where
  "b32_group [a] = [a div 8, a mod 8 * 4]"
| "b32_group [a, b] = [a div 8, a mod 8 * 4 + b div 64, b div 2 mod 32, b mod 2 * 16]"
| "b32_group [a, b, c] =
     [a div 8, a mod 8 * 4 + b div 64, b div 2 mod 32, b mod 2 * 16 + c div 16, c mod 16 * 2]"
| "b32_group [a, b, c, d] =
     [a div 8, a mod 8 * 4 + b div 64, b div 2 mod 32, b mod 2 * 16 + c div 16,
      c mod 16 * 2 + d div 128, d div 4 mod 32, d mod 4 * 8]"
| "b32_group [a, b, c, d, e] =
     [a div 8, a mod 8 * 4 + b div 64, b div 2 mod 32, b mod 2 * 16 + c div 16,
      c mod 16 * 2 + d div 128, d div 4 mod 32, d mod 4 * 8 + e div 32, e mod 32]"
| "b32_group _ = []"

fun b32_ungroup :: "nat list \<Rightarrow> nat list" where
  "b32_ungroup [p, q] = [p * 8 + q div 4]"
| "b32_ungroup [p, q, r, s] = [p * 8 + q div 4, q mod 4 * 64 + r * 2 + s div 16]"
| "b32_ungroup [p, q, r, s, t] =
     [p * 8 + q div 4, q mod 4 * 64 + r * 2 + s div 16, s mod 16 * 16 + t div 2]"
| "b32_ungroup [p, q, r, s, t, u, v] =
     [p * 8 + q div 4, q mod 4 * 64 + r * 2 + s div 16, s mod 16 * 16 + t div 2,
      t mod 2 * 128 + u * 4 + v div 8]"
| "b32_ungroup [p, q, r, s, t, u, v, w] =
     [p * 8 + q div 4, q mod 4 * 64 + r * 2 + s div 16, s mod 16 * 16 + t div 2,
      t mod 2 * 128 + u * 4 + v div 8, v mod 8 * 32 + w]"
| "b32_ungroup _ = []"

fun b32_values :: "string \<Rightarrow> nat list option" where
  "b32_values [] = Some []"
| "b32_values (c # cs) =
     (case b32_value c of None \<Rightarrow> None | Some v \<Rightarrow> map_option (Cons v) (b32_values cs))"

fun b32_encode_nats :: "nat list \<Rightarrow> string" where
  "b32_encode_nats bs =
     (if bs = [] then []
      else map b32_char (b32_group (take 5 bs)) @ b32_encode_nats (drop 5 bs))"

fun b32_decode_nats :: "string \<Rightarrow> nat list option" where
  "b32_decode_nats s =
     (if s = [] then Some []
      else case b32_values (take 8 s) of None \<Rightarrow> None
           | Some vs \<Rightarrow> map_option (\<lambda>r. b32_ungroup vs @ r) (b32_decode_nats (drop 8 s)))"

declare b32_encode_nats.simps [simp del] b32_decode_nats.simps [simp del]

definition base32_encode :: "bytes \<Rightarrow> string" where
  "base32_encode bs = b32_encode_nats (map unat bs)"

text \<open>\<open>DecodeString\<close> first drops the newline characters.\<close>

definition base32_decode :: "string \<Rightarrow> bytes option" where
  "base32_decode s =
     map_option (map word_of_nat)
       (b32_decode_nats (filter (\<lambda>c. char_ord c \<noteq> 10 \<and> char_ord c \<noteq> 13) s))"

lemma char_ord_b32_char: "v < 32 \<Longrightarrow> char_ord (b32_char v) = (if v < 26 then 65 + v else 24 + v)"
  by (simp add: b32_char_def char_ord_char_of)

lemma b32_value_char [simp]: "v < 32 \<Longrightarrow> b32_value (b32_char v) = Some v"
  by (simp add: b32_value_def char_ord_b32_char)

lemma b32_values_chars: "\<forall>v \<in> set vs. v < 32 \<Longrightarrow> b32_values (map b32_char vs) = Some vs"
  by (induction vs) auto

lemma b32_high:
  fixes b :: nat
  assumes "b < 256"
  shows "b div 64 div 4 = 0" "b div 64 mod 4 = b div 64"
    and "b div 16 div 16 = 0" "b div 16 mod 16 = b div 16"
    and "b div 128 div 2 = 0" "b div 128 mod 2 = b div 128"
    and "b div 32 div 8 = 0" "b div 32 mod 8 = b div 32"
  using assms by (simp_all add: div_mult2_eq [symmetric] less_mult_imp_div_less)

lemma b32_join:
  fixes b :: nat
  shows "b div 64 * 64 + b div 2 mod 32 * 2 + b mod 2 = b"
    and "b div 16 * 16 + b mod 16 = b" "b div 128 * 128 + b div 4 mod 32 * 4 + b mod 4 = b"
    and "b div 32 * 32 + b mod 32 = b"
  using mod_mult2_eq [of b 2 32] mod_mult2_eq [of b 4 32] div_mult_mod_eq [of b 64]
    div_mult_mod_eq [of b 128] by simp_all

lemma b32_ungroup_group:
  "g \<noteq> [] \<Longrightarrow> length g \<le> 5 \<Longrightarrow> \<forall>x \<in> set g. x < 256 \<Longrightarrow> b32_ungroup (b32_group g) = g"
  by (cases g rule: b32_group.cases) (simp_all add: b32_high b32_join)

lemma length_b32_group: "length g = 5 \<Longrightarrow> length (b32_group g) = 8"
  by (cases g rule: b32_group.cases) simp_all

lemma length_b32_group_le: "length (b32_group g) \<le> 8"
  by (cases g rule: b32_group.cases) simp_all

lemma b32_group_nonempty: "g \<noteq> [] \<Longrightarrow> length g \<le> 5 \<Longrightarrow> b32_group g \<noteq> []"
  by (cases g rule: b32_group.cases) simp_all

lemma b32_group_less: "length g \<le> 5 \<Longrightarrow> \<forall>x \<in> set g. x < 256 \<Longrightarrow> \<forall>v \<in> set (b32_group g). v < 32"
  by (cases g rule: b32_group.cases) auto

lemma b32_decode_encode_nats:
  "\<forall>x \<in> set bs. x < 256 \<Longrightarrow> b32_decode_nats (b32_encode_nats bs) = Some bs"
proof (induction bs rule: b32_encode_nats.induct)
  case (1 bs)
  show ?case
  proof (cases "bs = []")
    case True
    then show ?thesis by (simp add: b32_encode_nats.simps b32_decode_nats.simps)
  next
    case False
    let ?g = "take 5 bs" and ?cs = "map b32_char (b32_group (take 5 bs))"
    have g: "?g \<noteq> []" "length ?g \<le> 5" "\<forall>x \<in> set ?g. x < 256"
      using False "1.prems" by (auto dest: in_set_takeD)
    have IH: "b32_decode_nats (b32_encode_nats (drop 5 bs)) = Some (drop 5 bs)"
      using "1.IH" False "1.prems" by (auto dest: in_set_dropD)
    have enc: "b32_encode_nats bs = ?cs @ b32_encode_nats (drop 5 bs)"
      using False by (subst b32_encode_nats.simps) simp
    have "take 8 (?cs @ b32_encode_nats (drop 5 bs)) = ?cs
        \<and> drop 8 (?cs @ b32_encode_nats (drop 5 bs)) = b32_encode_nats (drop 5 bs)"
    proof (cases "length bs \<ge> 5")
      case True
      then have "length ?cs = 8" by (simp add: length_b32_group)
      then show ?thesis by simp
    next
      case short: False
      then have "b32_encode_nats (drop 5 bs) = []" by (simp add: b32_encode_nats.simps)
      then show ?thesis using length_b32_group_le [of ?g] by simp
    qed
    moreover have "?cs \<noteq> []" using b32_group_nonempty [OF g(1,2)] by simp
    moreover have "b32_values ?cs = Some (b32_group ?g)"
      by (rule b32_values_chars) (rule b32_group_less [OF g(2,3)])
    ultimately show ?thesis
      using b32_ungroup_group [OF g] IH
      by (subst b32_decode_nats.simps) (simp add: enc del: take_append drop_append)
  qed
qed

lemma b32_encode_chars:
  "\<forall>x \<in> set bs. x < 256 \<Longrightarrow> c \<in> set (b32_encode_nats bs) \<Longrightarrow> \<exists>v < 32. c = b32_char v"
proof (induction bs rule: b32_encode_nats.induct)
  case (1 bs)
  show ?case
  proof (cases "bs = []")
    case True
    with "1.prems" show ?thesis by (simp add: b32_encode_nats.simps)
  next
    case False
    have "\<forall>v \<in> set (b32_group (take 5 bs)). v < 32"
      using "1.prems"(1) by (intro b32_group_less) (auto dest: in_set_takeD)
    moreover have "c \<in> set (map b32_char (b32_group (take 5 bs))) \<or> c \<in> set (b32_encode_nats (drop 5 bs))"
      using "1.prems"(2) False by (subst (asm) b32_encode_nats.simps) auto
    ultimately show ?thesis
      using "1.IH" [OF False] "1.prems"(1) by (auto dest: in_set_dropD)
  qed
qed

lemma base32_char_facts:
  assumes "c \<in> set (base32_encode bs)"
  shows "char_ord c \<noteq> 10" "char_ord c \<noteq> 13" "upper_char c = c" "\<not> is_space c" "c \<noteq> CHR '' ''"
proof -
  have "\<forall>x \<in> set (map unat bs). x < 256"
    using unsigned_less [where ?'b = 8 and ?'a = nat] by auto
  with assms obtain v where v: "v < 32" "c = b32_char v"
    unfolding base32_encode_def by (blast dest: b32_encode_chars)
  then have o: "char_ord c = (if v < 26 then 65 + v else 24 + v)" by (simp add: char_ord_b32_char)
  have "char_ord (CHR '' '') = 32" by (simp add: char_ord_def)
  then show "char_ord c \<noteq> 10" "char_ord c \<noteq> 13" "upper_char c = c" "\<not> is_space c" "c \<noteq> CHR '' ''"
    using v(1) o by (auto simp: upper_char_def is_space_def split: if_splits)
qed

lemma base32_roundtrip: "base32_decode (base32_encode bs) = Some bs"
proof -
  have "\<forall>x \<in> set (map unat bs). x < 256"
    using unsigned_less [where ?'b = 8 and ?'a = nat] by auto
  then have "b32_decode_nats (base32_encode bs) = Some (map unat bs)"
    unfolding base32_encode_def by (rule b32_decode_encode_nats)
  moreover have "filter (\<lambda>c. char_ord c \<noteq> 10 \<and> char_ord c \<noteq> 13) (base32_encode bs) = base32_encode bs"
    by (rule filter_True) (auto simp: base32_char_facts)
  ultimately show ?thesis by (simp add: base32_decode_def o_def)
qed

lemma ToUpper_base32_encode [simp]: "ToUpper (base32_encode bs) = base32_encode bs"
  unfolding ToUpper_def by (rule map_idI) (rule base32_char_facts)

end
