(* ===== verification/Mfax.thy ===== *)
theory Mfax
  imports GoCrypto
begin

text \<open>
  \<open>shared/mfax/totp.go\<close>: secrets and time-based one-time passwords.  Integers of Go type
  \<open>int\<close>, \<open>int64\<close> and \<open>time.Duration\<close> are \<open>int\<close>; the counter is the 64-bit word and the code the
  32-bit word of the source, so that the wrap-around of \<open>mod *= 10\<close> is the machine's.  The
  random source is an argument; a division by zero is the panic of the goroutine.
\<close>

abbreviation second :: duration where
  "second \<equiv> 1000000000"

text \<open>
  \<open>rand.Read(b)\<close> with \<open>len(b) = n\<close>: an error or \<open>n\<close> bytes, whichever the system's source yields.
\<close>

type_synonym rand_source = "nat \<Rightarrow> err + bytes"

definition GenerateSecretBase32 :: "rand_source \<Rightarrow> int \<Rightarrow> string res" where
  "GenerateSecretBase32 rand bytesLen =
     (let n = (if bytesLen \<le> 0 then 20 else bytesLen)
      in case rand (nat n) of
           Inl e \<Rightarrow> Inl e
         | Inr b \<Rightarrow> Inr (ToUpper (base32_encode b)))"

text \<open>
  \<open>period.Seconds()\<close> truncated to \<open>int64\<close>, for a non-negative period (the \<open>float64\<close> is exact for
  the whole-second periods the services use).
\<close>

definition period_seconds :: "duration \<Rightarrow> int" where
  "period_seconds p = p div second"

text \<open>\<open>t.Unix()\<close> rounds down; Go's integer division \<open>/\<close> truncates towards zero.\<close>

definition unix_seconds :: "gotime \<Rightarrow> int" where
  "unix_seconds t = t div second"

definition trunc_div :: "int \<Rightarrow> int \<Rightarrow> int" where
  "trunc_div a b = sgn a * sgn b * (\<bar>a\<bar> div \<bar>b\<bar>)"

definition totp_counter :: "gotime \<Rightarrow> duration \<Rightarrow> 64 word" where
  "totp_counter t period = word_of_int (trunc_div (unix_seconds t) (period_seconds period))"

text \<open>\<open>mod := uint32(1); for i := 0; i < digits; i++ { mod *= 10 }\<close>\<close>

fun pow10_loop :: "nat \<Rightarrow> 32 word \<Rightarrow> 32 word" where
  "pow10_loop 0 m = m"
| "pow10_loop (Suc n) m = pow10_loop n (m * 10)"

text \<open>Dynamic truncation: four bytes at the offset named by the last nibble, sign bit cleared.\<close>

definition dynamic_truncate :: "bytes \<Rightarrow> 32 word" where
  "dynamic_truncate md =
     (let off = nat (uint (md ! (length md - 1)) AND 0x0f)
      in word_of_int (u32_of_be (md ! off) (md ! (off + 1)) (md ! (off + 2)) (md ! (off + 3)))
           AND 0x7fffffff)"

text \<open>\<open>fmt.Sprintf("%0*d", digits, otp)\<close>: decimal, padded with zeros on the left to the width.\<close>

definition pad_zero :: "nat \<Rightarrow> nat \<Rightarrow> string" where
  "pad_zero width n = (let s = fmt_nat n in replicate (width - length s) (CHR ''0'') @ s)"

definition totp :: "string \<Rightarrow> gotime \<Rightarrow> int \<Rightarrow> duration \<Rightarrow> string res" where
  "totp secretBase32 t digits period =
     (case base32_decode (ToUpper secretBase32) of
        None \<Rightarrow> Inl (OtherErr ''illegal base32 data'')
      | Some key \<Rightarrow>
          if period_seconds period = 0 then Inl (GoPanic ''integer divide by zero'')
          else let md = hmac_sha1 key (PutUint64 (totp_counter t period));
                   bin = dynamic_truncate md;
                   m = pow10_loop (nat digits) 1
               in if m = 0 then Inl (GoPanic ''integer divide by zero'')
                  else Inr (pad_zero (nat digits) (unat (bin mod m))))"

text \<open>
  The window loop \<open>for i := -window; i <= window; i++\<close>.  A panic in \<open>totp\<close> ends the call, any
  other error is skipped by \<open>err == nil && otp == code\<close>.
\<close>

fun totp_window :: "string \<Rightarrow> string \<Rightarrow> gotime \<Rightarrow> int \<Rightarrow> duration \<Rightarrow> int list \<Rightarrow> bool res" where
  "totp_window secret code now digits period [] = Inr False"
| "totp_window secret code now digits period (i # is) =
     (case totp secret (now + i * period) digits period of
        Inl (GoPanic m) \<Rightarrow> Inl (GoPanic m)
      | Inl e \<Rightarrow> totp_window secret code now digits period is
      | Inr otp \<Rightarrow> if otp = code then Inr True
                   else totp_window secret code now digits period is)"

definition VerifyTOTP :: "string \<Rightarrow> string \<Rightarrow> gotime \<Rightarrow> int \<Rightarrow> duration \<Rightarrow> int \<Rightarrow> bool res" where
  "VerifyTOTP secretBase32 code now digits period window =
     (let code = remove_spaces (TrimSpace code);
          secret = remove_spaces (TrimSpace secretBase32)
      in if code = [] then Inr False
         else if secret = [] then Inr False
         else let digits = (if digits \<le> 0 then 6 else digits);
                  period = (if period \<le> 0 then 30 * second else period);
                  window = (if window < 0 then 0 else window)
              in totp_window secret code now digits period [- window..window])"

text \<open>
  \<open>OTPAuthURL\<close>.  \<open>url.PathEscape\<close> and the query encoding of \<open>url.Values\<close> (keys in sorted order)
  keep the unreserved characters and percent-encode the rest; a space is \<open>+\<close> in a query.
\<close>

definition hex_upper :: "nat \<Rightarrow> char" where
  "hex_upper d = (if d < 10 then char_of (48 + d) else char_of (55 + d))"

definition is_alnum :: "char \<Rightarrow> bool" where
  "is_alnum c \<longleftrightarrow> is_digit c \<or> (65 \<le> char_ord c \<and> char_ord c \<le> 90) \<or> (97 \<le> char_ord c \<and> char_ord c \<le> 122)"

definition percent :: "char \<Rightarrow> string" where
  "percent c = [CHR ''%'', hex_upper (char_ord c div 16), hex_upper (char_ord c mod 16)]"

definition PathEscape :: "string \<Rightarrow> string" where
  "PathEscape s = concat (map (\<lambda>c. if is_alnum c \<or> c \<in> set ''-_.~$&+=:@'' then [c] else percent c) s)"

definition QueryEscape :: "string \<Rightarrow> string" where
  "QueryEscape s =
     concat (map (\<lambda>c. if is_alnum c \<or> c \<in> set ''-_.~'' then [c]
                      else if c = CHR '' '' then ''+'' else percent c) s)"

definition OTPAuthURL :: "string \<Rightarrow> string \<Rightarrow> string \<Rightarrow> int \<Rightarrow> duration \<Rightarrow> string" where
  "OTPAuthURL issuer account secret digits period =
     (let digits = (if digits \<le> 0 then 6 else digits);
          period = (if period \<le> 0 then 30 * second else period);
          issuer = (if issuer = [] then ''esppd'' else issuer);
          label = PathEscape (issuer @ '':'' @ account)
      in ''otpauth://totp/'' @ label @ ''?''
         @ ''algorithm=SHA1&digits='' @ FormatInt digits
         @ ''&issuer='' @ QueryEscape issuer
         @ ''&period='' @ FormatInt (period_seconds period)
         @ ''&secret='' @ QueryEscape secret)"

subsection \<open>The modulus\<close>

lemma pow10_loop_eq: "pow10_loop n m = m * 10 ^ n"
  by (induction n arbitrary: m) simp_all

lemma unat_pow10: "unat (pow10_loop n 1) = 10 ^ n mod 2 ^ 32"
proof -
  have "pow10_loop n 1 = word_of_nat (10 ^ n)" by (simp add: pow10_loop_eq)
  then show ?thesis by (simp only: unat_of_nat) simp
qed

text \<open>
  The modulus is the power of ten up to nine digits; from thirty-two digits on it has
  wrapped to zero.
\<close>

lemma unat_pow10_small: "n \<le> 9 \<Longrightarrow> unat (pow10_loop n 1) = 10 ^ n"
proof -
  assume "n \<le> 9"
  then have "(10::nat) ^ n \<le> 10 ^ 9" by (intro power_increasing) simp_all
  then have "(10::nat) ^ n < 2 ^ 32" by simp
  then show ?thesis by (simp only: unat_pow10 mod_less)
qed

lemma pow10_loop_zero_iff: "pow10_loop n 1 = 0 \<longleftrightarrow> 32 \<le> n"
proof -
  have eq: "(10::nat) ^ n = 2 ^ n * 5 ^ n" by (simp flip: power_mult_distrib)
  have "coprime (2::nat) 5" by (simp add: coprime_iff_gcd_eq_1 gcd_non_0_nat)
  then have cop: "coprime ((2::nat) ^ 32) (5 ^ n)"
    by (metis coprime_power_left_iff coprime_power_right_iff)
  have "pow10_loop n 1 = 0 \<longleftrightarrow> unat (pow10_loop n 1) = 0" by (simp only: unat_eq_0)
  also have "\<dots> \<longleftrightarrow> (2::nat) ^ 32 dvd 10 ^ n" by (simp only: unat_pow10 dvd_eq_mod_eq_0)
  also have "\<dots> \<longleftrightarrow> (2::nat) ^ 32 dvd 2 ^ n"
    unfolding eq by (rule coprime_dvd_mult_left_iff [OF cop])
  also have "\<dots> \<longleftrightarrow> 32 \<le> n" by (rule dvd_power_iff_le) simp
  finally show ?thesis .
qed

subsection \<open>Shape of a code\<close>

lemma length_fmt_nat: "0 < k \<Longrightarrow> n < 10 ^ k \<Longrightarrow> length (fmt_nat n) \<le> k"
proof (induction k arbitrary: n)
  case 0
  then show ?case by simp
next
  case (Suc k)
  show ?case
  proof (cases "n < 10")
    case True
    then show ?thesis by (subst fmt_nat.simps) simp
  next
    case False
    with Suc.prems have k: "0 < k" by (cases k) auto
    from Suc.prems have "n div 10 < 10 ^ k" by (simp add: less_mult_imp_div_less)
    with Suc.IH [OF k] False show ?thesis by (subst fmt_nat.simps) simp
  qed
qed

lemma pad_zero_digits: "c \<in> set (pad_zero w n) \<Longrightarrow> is_digit c"
proof -
  have "is_digit (CHR ''0'')" by (simp add: is_digit_def char_ord_def)
  then show "c \<in> set (pad_zero w n) \<Longrightarrow> is_digit c"
    by (auto simp: pad_zero_def Let_def dest: fmt_nat_digits)
qed

lemma length_pad_zero: "0 < w \<Longrightarrow> n < 10 ^ w \<Longrightarrow> length (pad_zero w n) = w"
  using length_fmt_nat [of w n] by (simp add: pad_zero_def Let_def)

lemma totp_shape:
  assumes "totp secret t digits period = Inr otp" and "1 \<le> digits" and "digits \<le> 9"
  shows "length otp = nat digits \<and> (\<forall>c \<in> set otp. is_digit c)"
proof -
  let ?m = "pow10_loop (nat digits) 1"
  from assms(1) obtain bin :: "32 word" where
    otp: "otp = pad_zero (nat digits) (unat (bin mod ?m))" and "?m \<noteq> 0"
    by (auto simp: totp_def Let_def split: option.splits if_splits)
  have "unat ?m = 10 ^ nat digits" using assms(3) by (intro unat_pow10_small) simp
  then have "unat (bin mod ?m) < 10 ^ nat digits"
    by (simp add: unat_mod_distrib)
  with otp assms(2) show ?thesis
    by (auto simp: length_pad_zero pad_zero_digits)
qed

subsection \<open>Specification: HOTP of RFC 4226\<close>

text \<open>
  The abstract contract of a code: \<open>HOTP(K, C) = Truncate(HMAC-SHA-1(K, C)) mod 10^Digit\<close>, on
  numbers, with a counter that is a natural number.
\<close>

definition hotp :: "bytes \<Rightarrow> nat \<Rightarrow> nat \<Rightarrow> string" where
  "hotp key c digits =
     (let h = hmac_sha1 key (map (\<lambda>i. word_of_nat (c div 256 ^ i mod 256)) [7, 6, 5, 4, 3, 2, 1, 0]);
          off = unat (last h) mod 16;
          v = unat (h ! off) mod 128 * 2 ^ 24 + unat (h ! (off + 1)) * 2 ^ 16
              + unat (h ! (off + 2)) * 2 ^ 8 + unat (h ! (off + 3))
      in pad_zero digits (v mod 10 ^ digits))"

lemma byte_bounds: "0 \<le> uint (b::byte)" "uint (b::byte) < 256" "unat (b::byte) < 256"
  using unsigned_less [of b, where 'a = int] unsigned_less [of b, where 'a = nat] by simp_all

lemma PutUint64_of_nat:
  assumes "c < 2 ^ 64"
  shows "PutUint64 (word_of_int (int c))
       = map (\<lambda>i. word_of_nat (c div 256 ^ i mod 256)) [7, 6, 5, 4, 3, 2, 1, 0]"
proof -
  have "uint (word_of_int (int c) :: 64 word) = int c"
    using assms by (simp add: unsigned_of_nat take_bit_nat_eq_self_iff)
  then have "PutUint64 (word_of_int (int c)) =
      map (\<lambda>k. word_of_int (int c div 2 ^ (8 * k) mod 256)) [7, 6, 5, 4, 3, 2, 1, 0]"
    by (simp add: PutUint64_def)
  moreover have "(word_of_int (int c div 2 ^ (8 * k) mod 256) :: byte) = word_of_nat (c div 256 ^ k mod 256)" for k
  proof -
    have "(2::int) ^ (8 * k) = int (256 ^ k)" by (simp add: power_mult)
    then have "int c div 2 ^ (8 * k) mod 256 = int (c div 256 ^ k mod 256)"
      by (simp add: zdiv_int zmod_int)
    then show ?thesis by simp
  qed
  ultimately show ?thesis by simp
qed

lemma unat_and_31: "0 \<le> x \<Longrightarrow> x < 2 ^ 32 \<Longrightarrow> unat (word_of_int x AND 0x7fffffff :: 32 word) = nat (x mod 2 ^ 31)"
proof -
  assume x: "0 \<le> x" "x < 2 ^ 32"
  have "(0x7fffffff :: 32 word) = mask 31" by (simp add: mask_eq_exp_minus_1)
  then have "word_of_int x AND 0x7fffffff = take_bit 31 (word_of_int x :: 32 word)"
    by (simp only: take_bit_eq_mask)
  moreover have "uint (word_of_int x :: 32 word) = x"
    using x by (simp add: unsigned_of_int take_bit_int_eq_self_iff)
  ultimately have "uint (word_of_int x AND 0x7fffffff :: 32 word) = take_bit 31 x"
    by (simp only: unsigned_take_bit_eq)
  then have "uint (word_of_int x AND 0x7fffffff :: 32 word) = x mod 2 ^ 31"
    by (simp only: take_bit_eq_mod)
  then show ?thesis by (simp only: unat_eq_nat_uint)
qed

lemma unat_dynamic_truncate:
  assumes "length h = 20"
  shows "unat (dynamic_truncate h) =
    (let off = unat (last h) mod 16 in
     unat (h ! off) mod 128 * 2 ^ 24 + unat (h ! (off + 1)) * 2 ^ 16
       + unat (h ! (off + 2)) * 2 ^ 8 + unat (h ! (off + 3)))"
proof -
  have l: "last h = h ! (length h - 1)" using assms by (metis last_conv_nth list.size(3) zero_neq_numeral)
  have nib: "nat (uint b AND 0x0f) = unat b mod 16" for b :: byte
  proof -
    have "(0x0f :: int) = mask 4" by (simp add: mask_eq_exp_minus_1)
    then have "uint b AND 0x0f = take_bit 4 (uint b)" by (simp only: take_bit_eq_mask)
    also have "\<dots> = uint b mod 2 ^ 4" by (rule take_bit_eq_mod)
    finally show ?thesis by (simp add: nat_mod_distrib)
  qed
  define off where "off = unat (last h) mod 16"
  have "unat (word_of_int (u32_of_be a b c d) AND 0x7fffffff :: 32 word)
      = unat a mod 128 * 2 ^ 24 + unat b * 2 ^ 16 + unat c * 2 ^ 8 + unat d" for a b c d :: byte
  proof -
    have B: "0 \<le> uint a" "uint a < 256" "0 \<le> uint b" "uint b < 256" "0 \<le> uint c" "uint c < 256"
      "0 \<le> uint d" "uint d < 256" by (rule byte_bounds)+
    then have "0 \<le> u32_of_be a b c d" "u32_of_be a b c d < 2 ^ 32" by (simp_all add: u32_of_be_def)
    then have "unat (word_of_int (u32_of_be a b c d) AND 0x7fffffff :: 32 word)
        = nat (u32_of_be a b c d mod 2 ^ 31)" by (rule unat_and_31)
    also have "u32_of_be a b c d mod 2 ^ 31
        = uint a mod 128 * 2 ^ 24 + uint b * 2 ^ 16 + uint c * 2 ^ 8 + uint d"
    proof -
      let ?r = "uint a mod 128 * 2 ^ 24 + uint b * 2 ^ 16 + uint c * 2 ^ 8 + uint d"
      have "u32_of_be a b c d = uint a div 128 * 2 ^ 31 + ?r"
      proof -
        have "((x * 256 + y) * 256 + z) * 256 + w = q * 2 ^ 31 + (r * 2 ^ 24 + y * 2 ^ 16 + z * 2 ^ 8 + w)"
          if "x = q * 128 + r" for x y z w q r :: int
          using that by simp
        from this [OF div_mult_mod_eq [symmetric]] show ?thesis by (simp only: u32_of_be_def)
      qed
      moreover have "0 \<le> ?r" "?r < 2 ^ 31"
        using B pos_mod_bound [of 128 "uint a"] by simp_all
      ultimately show ?thesis by (simp only: mod_mult_self3 mod_pos_pos_trivial)
    qed
    finally show ?thesis using B by (simp add: nat_add_distrib nat_mult_distrib nat_mod_distrib)
  qed
  then show ?thesis
    using l nib by (simp add: dynamic_truncate_def Let_def off_def)
qed

subsection \<open>The code computes the specification\<close>

lemma trunc_div_nonneg: "0 \<le> a \<Longrightarrow> 0 < b \<Longrightarrow> trunc_div a b = a div b"
  by (cases "a = 0") (simp_all add: trunc_div_def sgn_1_pos)

lemma period_seconds_whole [simp]: "period_seconds (k * second) = k"
  by (simp add: period_seconds_def)

lemma totp_counter_whole:
  assumes "0 \<le> t" and "0 < k"
  shows "totp_counter t (k * second) = word_of_int (t div (k * second))"
proof -
  have "unix_seconds t div k = t div (k * second)"
    using assms(2) zdiv_zmult2_eq [of k t second] by (simp add: unix_seconds_def mult.commute)
  moreover have "0 \<le> unix_seconds t" using assms(1) by (simp add: unix_seconds_def)
  ultimately show ?thesis
    using assms(2) by (simp add: totp_counter_def trunc_div_nonneg)
qed

lemma totp_is_hotp:
  assumes key: "base32_decode (ToUpper secret) = Some key"
    and "0 \<le> t" and "0 < k" and "t div (k * second) < 2 ^ 64"
    and "1 \<le> digits" and "digits \<le> 9"
  shows "totp secret t digits (k * second)
       = Inr (hotp key (nat (t div (k * second))) (nat digits))"
proof -
  let ?c = "t div (k * second)" and ?m = "pow10_loop (nat digits) 1"
  have "0 \<le> ?c" using assms(2,3) by (simp add: pos_imp_zdiv_nonneg_iff)
  then have put: "PutUint64 (totp_counter t (k * second))
      = map (\<lambda>i. word_of_nat (nat ?c div 256 ^ i mod 256)) [7, 6, 5, 4, 3, 2, 1, 0]"
    using PutUint64_of_nat [of "nat ?c"] assms(2,3,4) totp_counter_whole by simp
  have m: "unat ?m = 10 ^ nat digits" using assms(6) by (intro unat_pow10_small) simp
  then have "?m \<noteq> 0" by auto
  then have "totp secret t digits (k * second) = Inr (pad_zero (nat digits)
      (unat (dynamic_truncate (hmac_sha1 key (PutUint64 (totp_counter t (k * second)))) mod ?m)))"
    using assms(3) key by (simp add: totp_def Let_def)
  then show ?thesis
    by (simp only: unat_mod_distrib m unat_dynamic_truncate [OF length_hmac_sha1] put hotp_def Let_def)
qed

lemma totp_window_exists:
  assumes "\<And>i. i \<in> set is \<Longrightarrow> \<exists>otp. totp secret (now + i * period) digits period = Inr otp"
  shows "totp_window secret code now digits period is
       = Inr (\<exists>i \<in> set is. totp secret (now + i * period) digits period = Inr code)"
  using assms
proof (induction "is")
  case Nil
  then show ?case by simp
next
  case (Cons i "is")
  from Cons.prems obtain otp where "totp secret (now + i * period) digits period = Inr otp" by auto
  with Cons show ?case by auto
qed

text \<open>Normalisation of the two arguments, as \<open>VerifyTOTP\<close> does it first.\<close>

abbreviation normal :: "string \<Rightarrow> string" where
  "normal s \<equiv> remove_spaces (TrimSpace s)"

lemma VerifyTOTP_hotp:
  assumes key: "base32_decode (ToUpper (normal secret)) = Some key"
    and ne: "normal secret \<noteq> []" "normal code \<noteq> []"
    and k: "0 < k" and w: "0 \<le> w"
    and low: "w * (k * second) \<le> now" and high: "(now + w * (k * second)) div (k * second) < 2 ^ 64"
    and digits: "1 \<le> digits" "digits \<le> 9"
  shows "VerifyTOTP secret code now digits (k * second) w
       = Inr (\<exists>c. \<bar>int c - now div (k * second)\<bar> \<le> w \<and> hotp key c (nat digits) = normal code)"
proof -
  define p where "p = k * second"
  have p: "0 < p" using k by (simp add: p_def)
  have lowp: "w * p \<le> now" using low by (simp only: p_def)
  have cnt: "(now + i * p) div p = now div p + i" for i using p by simp
  have one: "totp (normal secret) (now + i * p) digits p = Inr (hotp key (nat (now div p + i)) (nat digits))"
    if "i \<in> set [- w..w]" for i
  proof -
    have "- w \<le> i" "i \<le> w" using that by simp_all
    then have "- w * p \<le> i * p" "i * p \<le> w * p" using p by (intro mult_right_mono; simp)+
    then have ge: "0 \<le> now + i * p" and "now + i * p \<le> now + w * p"
      using lowp by linarith+
    then have "(now + i * p) div p \<le> (now + w * p) div p" using p by (intro zdiv_mono1)
    also have "\<dots> < 2 ^ 64" using high by (simp only: p_def)
    finally have lt: "(now + i * p) div p < 2 ^ 64" .
    show ?thesis using totp_is_hotp [OF key _ k _ digits, folded p_def, OF ge lt] by (simp only: cnt)
  qed
  have low': "w \<le> now div p"
    using zdiv_mono1 [OF lowp p] p by simp
  have "VerifyTOTP secret code now digits p w
      = Inr (\<exists>i \<in> set [- w..w]. hotp key (nat (now div p + i)) (nat digits) = normal code)"
    using ne w p digits one totp_window_exists [of "[- w..w]" "normal secret" now p digits]
    by (auto simp: VerifyTOTP_def Let_def)
  moreover have "(\<exists>i \<in> set [- w..w]. hotp key (nat (now div p + i)) (nat digits) = normal code)
      \<longleftrightarrow> (\<exists>c. \<bar>int c - now div p\<bar> \<le> w \<and> hotp key c (nat digits) = normal code)" (is "?L \<longleftrightarrow> ?R")
  proof
    assume ?L
    then obtain i where "- w \<le> i" "i \<le> w" "hotp key (nat (now div p + i)) (nat digits) = normal code"
      by auto
    with low' show ?R by (intro exI [of _ "nat (now div p + i)"]) auto
  next
    assume ?R
    then obtain c where "\<bar>int c - now div p\<bar> \<le> w" "hotp key c (nat digits) = normal code" by blast
    then show ?L by (intro bexI [of _ "int c - now div p"]) auto
  qed
  ultimately show ?thesis by (simp add: p_def)
qed


text \<open>
  C5. \<open>VerifyTOTP\<close> accepts a code exactly when it is the RFC 4226 code of some counter within
  \<open>window\<close> steps of the current one: no code outside the window is accepted and every code
  inside it is.  The period is a whole number of seconds and the window does not reach below
  the epoch or past the last 64-bit counter.
\<close>

theorem VerifyTOTP_correct:
  assumes key: "base32_decode (ToUpper (normal secret)) = Some key"
    and ne: "normal secret \<noteq> []" "normal code \<noteq> []"
    and k: "0 < k" and w: "0 \<le> w"
    and low: "w * (k * second) \<le> now" and high: "(now + w * (k * second)) div (k * second) < 2 ^ 64"
    and digits: "1 \<le> digits" "digits \<le> 9"
  shows "VerifyTOTP secret code now digits (k * second) w
       = Inr (\<exists>c. \<bar>int c - now div (k * second)\<bar> \<le> w \<and> hotp key c (nat digits) = normal code)"
  using assms by (rule VerifyTOTP_hotp)

end
