(* ===== verification/TotpVectors.thy ===== *)
theory TotpVectors
  imports Mfax
begin

text \<open>
  The two RFC 6238 vectors of \<open>shared/mfax/totp_test.go\<close>, evaluated by the simplifier: six
  SHA-1 compressions, one lemma each.
\<close>

lemma sha1_rounds_numeral:
  "sha1_rounds (numeral n) t ws (a, b, c, d, e) =
     sha1_rounds (pred_numeral n) (Suc t) (tl ws @ [sha1_next ws])
       (u32 (rotl32 5 a + sha1_f t b c d + e + sha1_k t + hd ws), a, rotl32 30 b, c, d)"
  by (simp add: numeral_eq_Suc)

lemmas sha1_eval = sha1_block_def sha1_init_def sha1_rounds_numeral rotl32_def sha1_f_def sha1_k_def
  sha1_next_def u32_def

lemma ipad_block:
  "sha1_block [117703938, 50331918, 252053252, 84017920, 17698566, 909522486, 909522486, 909522486,
     909522486, 909522486, 909522486, 909522486, 909522486, 909522486, 909522486, 909522486] sha1_init
   = (3418885260, 4120502956, 3183003698, 3667247555, 4167577637)"
  by (simp add: sha1_eval)

lemma opad_block:
  "sha1_block [1835954024, 1768581988, 1701604718, 1869113706, 1801741676, 1549556828, 1549556828,
     1549556828, 1549556828, 1549556828, 1549556828, 1549556828, 1549556828, 1549556828, 1549556828,
     1549556828] sha1_init
   = (2562571725, 1491106814, 2908544490, 985678603, 4262488101)"
  by (simp add: sha1_eval)

lemma inner_block_1:
  "sha1_block [0, 1, 2147483648, 0, 0, 0, 0, 0, 0, 0, 0, 0, 0, 0, 0, 576]
     (3418885260, 4120502956, 3183003698, 3667247555, 4167577637)
   = (2923006674, 3845772892, 1570953884, 2321626177, 2537110156)"
  by (simp add: sha1_eval)

lemma outer_block_1:
  "sha1_block [2923006674, 3845772892, 1570953884, 2321626177, 2537110156, 2147483648, 0, 0, 0, 0, 0,
     0, 0, 0, 0, 672] (2562571725, 1491106814, 2908544490, 985678603, 4262488101)
   = (1973717529, 3570131200, 1682868929, 964618868, 2049782699)"
  by (simp add: sha1_eval)

lemma inner_block_2:
  "sha1_block [0, 37037036, 2147483648, 0, 0, 0, 0, 0, 0, 0, 0, 0, 0, 0, 0, 576]
     (3418885260, 4120502956, 3183003698, 3667247555, 4167577637)
   = (2798053421, 359996874, 3251026455, 532984307, 3507203994)"
  by (simp add: sha1_eval)

lemma outer_block_2:
  "sha1_block [2798053421, 359996874, 3251026455, 532984307, 3507203994, 2147483648, 0, 0, 0, 0, 0,
     0, 0, 0, 0, 672] (2562571725, 1491106814, 2908544490, 985678603, 4262488101)
   = (663487205, 907081804, 1086165301, 2899578896, 306252308)"
  by (simp add: sha1_eval)

subsection \<open>The digests of the two test messages\<close>

definition rfc_secret :: string where "rfc_secret = ''GEZDGNBVGY3TQOJQGEZDGNBVGY3TQOJQ''"
definition rfc_key :: bytes where
  "rfc_key = [49, 50, 51, 52, 53, 54, 55, 56, 57, 48, 49, 50, 51, 52, 53, 54, 55, 56, 57, 48]"

lemma rfc_key_decodes: "base32_decode (ToUpper (normal rfc_secret)) = Some rfc_key"
  by code_simp

lemma sha1_two_blocks:
  assumes "length (sha1_pad m) = 128" and "u32s_of_bytes (sha1_pad m) = ws1 @ ws2" and "length ws1 = 16"
    and "length ws2 = 16"
  shows "sha1 m = sha1_out (sha1_block ws2 (sha1_block ws1 sha1_init))"
  using assms by (simp add: sha1_def Let_def numeral_2_eq_2)

text \<open>The padded keys, and the message words of the two digests.\<close>

abbreviation ipad_key :: bytes where
  "ipad_key \<equiv> map (\<lambda>x. x XOR 0x36) (rfc_key @ replicate (64 - length rfc_key) 0)"
abbreviation opad_key :: bytes where
  "opad_key \<equiv> map (\<lambda>x. x XOR 0x5C) (rfc_key @ replicate (64 - length rfc_key) 0)"

lemma inner_words_1:
  "u32s_of_bytes (sha1_pad (ipad_key @ PutUint64 1)) =
   [117703938, 50331918, 252053252, 84017920, 17698566, 909522486, 909522486, 909522486,
     909522486, 909522486, 909522486, 909522486, 909522486, 909522486, 909522486, 909522486] @
   [0, 1, 2147483648, 0, 0, 0, 0, 0, 0, 0, 0, 0, 0, 0, 0, 576]"
  by code_simp
lemma inner_words_2:
  "u32s_of_bytes (sha1_pad (ipad_key @ PutUint64 37037036)) =
   [117703938, 50331918, 252053252, 84017920, 17698566, 909522486, 909522486, 909522486,
     909522486, 909522486, 909522486, 909522486, 909522486, 909522486, 909522486, 909522486] @
   [0, 37037036, 2147483648, 0, 0, 0, 0, 0, 0, 0, 0, 0, 0, 0, 0, 576]"
  by code_simp
lemma outer_words_1:
  "u32s_of_bytes (sha1_pad (opad_key @ sha1_out (2923006674, 3845772892, 1570953884, 2321626177, 2537110156))) =
   [1835954024, 1768581988, 1701604718, 1869113706, 1801741676, 1549556828, 1549556828,
     1549556828, 1549556828, 1549556828, 1549556828, 1549556828, 1549556828, 1549556828, 1549556828,
     1549556828] @ [2923006674, 3845772892, 1570953884, 2321626177, 2537110156, 2147483648, 0, 0, 0, 0, 0,
     0, 0, 0, 0, 672]"
  by code_simp
lemma outer_words_2:
  "u32s_of_bytes (sha1_pad (opad_key @ sha1_out (2798053421, 359996874, 3251026455, 532984307, 3507203994))) =
   [1835954024, 1768581988, 1701604718, 1869113706, 1801741676, 1549556828, 1549556828,
     1549556828, 1549556828, 1549556828, 1549556828, 1549556828, 1549556828, 1549556828, 1549556828,
     1549556828] @ [2798053421, 359996874, 3251026455, 532984307, 3507203994, 2147483648, 0, 0, 0, 0, 0,
     0, 0, 0, 0, 672]"
  by code_simp


lemma length_sha1_pad: "length m = 64 + n \<Longrightarrow> n = 8 \<or> n = 20 \<Longrightarrow> length (sha1_pad m) = 128"
  by (auto simp: sha1_pad_def PutUint64_def)

lemma length_sha1_out: "length (sha1_out s) = 20"
  by (cases s) (simp add: be_of_u32_def)

lemma hmac_sha1_blocks:
  assumes "length key \<le> 64" and "length msg = 8"
    and "u32s_of_bytes (sha1_pad (map (\<lambda>x. x XOR 0x36) (key @ replicate (64 - length key) 0) @ msg)) = i1 @ i2"
    and "length i1 = 16" and "length i2 = 16"
    and "sha1_block i1 sha1_init = s1" and "sha1_block i2 s1 = s2"
    and "u32s_of_bytes (sha1_pad (map (\<lambda>x. x XOR 0x5C) (key @ replicate (64 - length key) 0) @ sha1_out s2)) = o1 @ o2"
    and "length o1 = 16" and "length o2 = 16"
    and "sha1_block o1 sha1_init = s3" and "sha1_block o2 s3 = s4"
  shows "hmac_sha1 key msg = sha1_out s4"
proof -
  let ?k = "key @ replicate (64 - length key) 0"
  have "sha1 (map (\<lambda>x. x XOR 0x36) ?k @ msg) = sha1_out s2"
    using sha1_two_blocks [OF _ assms(3,4,5)] length_sha1_pad [where n = 8] assms(1,2,6,7) by simp
  moreover have "sha1 (map (\<lambda>x. x XOR 0x5C) ?k @ sha1_out s2) = sha1_out s4"
    using sha1_two_blocks [OF _ assms(8,9,10)] length_sha1_pad [where n = 20] assms(1,11,12)
    by (simp add: length_sha1_out)
  ultimately show ?thesis using assms(1) by (simp add: hmac_sha1_def Let_def)
qed

lemma hmac_rfc_1: "hmac_sha1 rfc_key (PutUint64 1)
    = sha1_out (1973717529, 3570131200, 1682868929, 964618868, 2049782699)"
  by (rule hmac_sha1_blocks [OF _ _ inner_words_1 _ _ ipad_block inner_block_1 outer_words_1 _ _ opad_block outer_block_1])
    (simp_all add: rfc_key_def PutUint64_def)

lemma hmac_rfc_2: "hmac_sha1 rfc_key (PutUint64 37037036)
    = sha1_out (663487205, 907081804, 1086165301, 2899578896, 306252308)"
  by (rule hmac_sha1_blocks [OF _ _ inner_words_2 _ _ ipad_block inner_block_2 outer_words_2 _ _ opad_block outer_block_2])
    (simp_all add: rfc_key_def PutUint64_def)


lemma truncate_rfc:
  "pad_zero 8 (unat (dynamic_truncate (sha1_out (1973717529, 3570131200, 1682868929, 964618868, 2049782699))
     mod 100000000)) = ''94287082''"
  "pad_zero 8 (unat (dynamic_truncate (sha1_out (663487205, 907081804, 1086165301, 2899578896, 306252308))
     mod 100000000)) = ''07081804''"
  unfolding unat_mod_distrib unat_dynamic_truncate [OF length_sha1_out] Let_def
  by (simp_all add: be_of_u32_def pad_zero_def decimal_eval)

lemma totp_rfc:
  "totp rfc_secret (59 * second) 8 (30 * second) = Inr ''94287082''"
  "totp rfc_secret (1111111109 * second) 8 (30 * second) = Inr ''07081804''"
proof -
  have c: "totp_counter (59 * second) (30 * second) = 1"
    "totp_counter (1111111109 * second) (30 * second) = 37037036"
    by code_simp+
  have m: "pow10_loop (nat 8) 1 = 100000000" by code_simp
  have p: "period_seconds (30 * second) \<noteq> 0" by code_simp
  have k: "base32_decode (ToUpper rfc_secret) = Some rfc_key" by code_simp
  show "totp rfc_secret (59 * second) 8 (30 * second) = Inr ''94287082''"
    using p truncate_rfc(1) hmac_rfc_1 c m k by (simp only: totp_def Let_def option.case if_False) simp
  show "totp rfc_secret (1111111109 * second) 8 (30 * second) = Inr ''07081804''"
    using p truncate_rfc(2) hmac_rfc_2 c m k by (simp only: totp_def Let_def option.case if_False) simp
qed

text \<open>
  The published test vectors (RFC 6238, appendix B) as \<open>totp_test.go\<close> checks them: the two
  eight-digit codes are accepted at their times with no window, and a wrong code is not.
\<close>

theorem VerifyTOTP_rfc6238:
  "VerifyTOTP ''GEZDGNBVGY3TQOJQGEZDGNBVGY3TQOJQ'' ''94287082'' (59 * second) 8 (30 * second) 0 = Inr True
   \<and> VerifyTOTP ''GEZDGNBVGY3TQOJQGEZDGNBVGY3TQOJQ'' ''07081804'' (1111111109 * second) 8 (30 * second) 0 = Inr True
   \<and> VerifyTOTP ''GEZDGNBVGY3TQOJQGEZDGNBVGY3TQOJQ'' ''00000000'' (59 * second) 8 (30 * second) 0 = Inr False"
proof -
  have n: "normal rfc_secret = rfc_secret" "normal ''94287082'' = ''94287082''"
    "normal ''07081804'' = ''07081804''" "normal ''00000000'' = ''00000000''" by code_simp+
  have ne: "rfc_secret \<noteq> []" by (simp add: rfc_secret_def)
  show ?thesis
    unfolding rfc_secret_def [symmetric] VerifyTOTP_def Let_def n
    using ne totp_rfc by simp
qed

text \<open>The general theorem on the first vector.\<close>

theorem VerifyTOTP_correct_witness:
  "VerifyTOTP rfc_secret ''94287082'' (59 * second) 8 (30 * second) 0
     = Inr (\<exists>c. \<bar>int c - 59 * second div (30 * second)\<bar> \<le> 0 \<and> hotp rfc_key c (nat 8) = normal ''94287082'')"
  by (rule VerifyTOTP_correct [OF rfc_key_decodes]) (code_simp | simp)+

end
