(* ===== verification/Jwtx.thy ===== *)
theory Jwtx
  imports Mfax
begin

text \<open>
  \<open>shared/jwtx/jwt.go\<close>: issuing and validating access and refresh tokens.  Signing, parsing and
  \<open>jwt.NewNumericDate\<close> belong to the library \<open>golang-jwt\<close> and are arguments, in the signer and
  the verifier; what the code relies on of them is \<open>jwt_pair\<close>.  A clock is the sequence of
  the readings of \<open>time.Now()\<close>, in the order the code takes them.
\<close>

type_synonym clock = "nat \<Rightarrow> gotime"

definition TokenTypeAccess :: string where
  "TokenTypeAccess = ''access''"

definition TokenTypeRefresh :: string where
  "TokenTypeRefresh = ''refresh''"

record claims =
  Issuer :: string
  Subject :: string
  Audience :: "string list"
  IssuedAt :: "gotime option"
  NotBefore :: "gotime option"
  ExpiresAt :: "gotime option"
  ID :: string
  UserID :: int
  Role :: string
  TokenType :: string

record signer =
  sg_sign :: "claims \<Rightarrow> string res"
  sg_numeric :: "gotime \<Rightarrow> gotime"
  sg_issuer :: string
  sg_audience :: string
  sg_accessTTL :: duration
  sg_refreshTTL :: duration

text \<open>
  \<open>vf_parse tok now\<close>: the library's answer for a token at its own clock reading, the claims and
  \<open>parsed.Valid\<close>.
\<close>

record verifier =
  vf_parse :: "string \<Rightarrow> gotime \<Rightarrow> (claims \<times> bool) res"
  vf_issuer :: string
  vf_audience :: string

definition NewAccessToken :: "signer \<Rightarrow> clock \<Rightarrow> int \<Rightarrow> string \<Rightarrow> string \<Rightarrow> string res" where
  "NewAccessToken s clk userID role tokenID =
     (let now = clk 0 in
      sg_sign s
        \<lparr>Issuer = sg_issuer s, Subject = FormatInt userID, Audience = [sg_audience s],
         IssuedAt = Some (sg_numeric s now),
         NotBefore = Some (sg_numeric s (now - 5 * second)),
         ExpiresAt = Some (sg_numeric s (now + sg_accessTTL s)),
         ID = tokenID, UserID = userID, Role = role, TokenType = TokenTypeAccess\<rparr>)"

definition NewRefreshToken :: "signer \<Rightarrow> clock \<Rightarrow> int \<Rightarrow> string \<Rightarrow> string res" where
  "NewRefreshToken s clk userID tokenID =
     (let now = clk 0 in
      sg_sign s
        \<lparr>Issuer = sg_issuer s, Subject = FormatInt userID, Audience = [sg_audience s],
         IssuedAt = Some (sg_numeric s now),
         NotBefore = Some (sg_numeric s (now - 5 * second)),
         ExpiresAt = Some (sg_numeric s (now + sg_refreshTTL s)),
         ID = tokenID, UserID = userID, Role = [], TokenType = TokenTypeRefresh\<rparr>)"

fun audContains :: "string list \<Rightarrow> string \<Rightarrow> bool" where
  "audContains [] want = False"
| "audContains (a # aud) want = (if a = want then True else audContains aud want)"

lemma audContains_iff [simp]: "audContains aud want \<longleftrightarrow> want \<in> set aud"
  by (induction aud) auto

text \<open>
  \<open>ParseAndValidate\<close>: clock reading 0 is the library's, 1 and 2 those of the expiry and
  not-before checks.
\<close>

definition ParseAndValidate :: "verifier \<Rightarrow> clock \<Rightarrow> string \<Rightarrow> claims res" where
  "ParseAndValidate v clk tokenStr =
     (case vf_parse v tokenStr (clk 0) of
        Inl e \<Rightarrow> Inl e
      | Inr (claims, valid) \<Rightarrow>
          if \<not> valid then Inl (OtherErr ''invalid token'')
          else if Issuer claims \<noteq> vf_issuer v then Inl (OtherErr ''invalid issuer'')
          else if \<not> audContains (Audience claims) (vf_audience v) then Inl (OtherErr ''invalid audience'')
          else if (case ExpiresAt claims of None \<Rightarrow> True | Some x \<Rightarrow> x < clk 1)
            then Inl (OtherErr ''token expired'')
          else if (case NotBefore claims of None \<Rightarrow> False | Some x \<Rightarrow> clk 2 < x)
            then Inl (OtherErr ''token not valid yet'')
          else Inr claims)"

text \<open>
  What the code relies on of the library, for a signer and a verifier that hold the two halves
  of a key pair: a signed token parses to its claims while the clock is in its validity
  period, and \<open>NewNumericDate\<close> rounds down by less than a second.
\<close>

definition lib_valid :: "claims \<Rightarrow> gotime \<Rightarrow> bool" where
  "lib_valid c now \<longleftrightarrow>
     (case ExpiresAt c of None \<Rightarrow> True | Some x \<Rightarrow> now < x) \<and>
     (case NotBefore c of None \<Rightarrow> True | Some x \<Rightarrow> x \<le> now)"

definition jwt_pair :: "signer \<Rightarrow> verifier \<Rightarrow> bool" where
  "jwt_pair s v \<longleftrightarrow>
     (\<forall>c tok now. sg_sign s c = Inr tok \<longrightarrow> lib_valid c now \<longrightarrow> vf_parse v tok now = Inr (c, True)) \<and>
     (\<forall>t. t - second < sg_numeric s t \<and> sg_numeric s t \<le> t)"

lemma ParseAndValidate_Inr:
  assumes "ParseAndValidate v clk tok = Inr c"
  shows "vf_parse v tok (clk 0) = Inr (c, True)" "Issuer c = vf_issuer v"
    and "vf_audience v \<in> set (Audience c)"
    and "\<exists>x. ExpiresAt c = Some x \<and> clk 1 \<le> x"
    and "\<forall>x. NotBefore c = Some x \<longrightarrow> x \<le> clk 2"
  using assms by (auto simp: ParseAndValidate_def split: sum.splits prod.splits if_splits option.splits)

text \<open>The issued claims, valid from five seconds before the issue to the end of the lifetime.\<close>

lemma issued_token_validates:
  assumes pair: "jwt_pair s v" and sign: "sg_sign s c = Inr tok"
    and iss: "Issuer c = vf_issuer v" and aud: "Audience c = [vf_audience v]"
    and nbf: "NotBefore c = Some (sg_numeric s (now - 5 * second))"
    and exp: "ExpiresAt c = Some (sg_numeric s (now + ttl))"
    and clk: "\<And>i. i \<le> 2 \<Longrightarrow> now - 5 * second \<le> clk i \<and> clk i \<le> now + ttl - second"
  shows "ParseAndValidate v clk tok = Inr c"
proof -
  have e: "clk i < sg_numeric s (now + ttl)" and n: "sg_numeric s (now - 5 * second) \<le> clk i"
    if "i \<le> 2" for i
    using pair clk [OF that] by (auto simp: jwt_pair_def intro: order.trans le_less_trans)
  have "lib_valid c (clk 0)" using e [of 0] n [of 0] by (simp add: lib_valid_def nbf exp)
  with pair sign have "vf_parse v tok (clk 0) = Inr (c, True)" by (simp add: jwt_pair_def)
  with e [of 1] n [of 2] show ?thesis by (simp add: ParseAndValidate_def iss aud nbf exp)
qed

text \<open>
  C16. A token pair round trip: an access token that \<open>NewAccessToken\<close> issued validates, from
  five seconds before its issue until a second before its lifetime ends, to claims that carry
  the user, the role, the token id and the type the issuer gave, whenever the two sides agree
  on issuer, audience and key.
\<close>

theorem access_token_roundtrip:
  assumes "jwt_pair s v" and "sg_issuer s = vf_issuer v" and "sg_audience s = vf_audience v"
    and "NewAccessToken s issue uid role tid = Inr tok"
    and "\<And>i. i \<le> 2 \<Longrightarrow> issue 0 - 5 * second \<le> clk i \<and> clk i \<le> issue 0 + sg_accessTTL s - second"
  shows "\<exists>c. ParseAndValidate v clk tok = Inr c \<and> UserID c = uid \<and> Role c = role \<and> ID c = tid
           \<and> TokenType c = TokenTypeAccess \<and> Subject c = FormatInt uid"
proof -
  let ?c = "\<lparr>Issuer = sg_issuer s, Subject = FormatInt uid, Audience = [sg_audience s],
    IssuedAt = Some (sg_numeric s (issue 0)), NotBefore = Some (sg_numeric s (issue 0 - 5 * second)),
    ExpiresAt = Some (sg_numeric s (issue 0 + sg_accessTTL s)),
    ID = tid, UserID = uid, Role = role, TokenType = TokenTypeAccess\<rparr>"
  have "sg_sign s ?c = Inr tok" using assms(4) by (simp add: NewAccessToken_def Let_def)
  then have "ParseAndValidate v clk tok = Inr ?c"
    using assms(1,2,3,5)
    by (intro issued_token_validates [where now = "issue 0" and ttl = "sg_accessTTL s" and s = s]) simp_all
  then show ?thesis by simp
qed

text \<open>A library for concrete runs: the token is the subject; the claims are kept in a table.\<close>

definition demo_numeric :: "gotime \<Rightarrow> gotime" where
  "demo_numeric t = t div second * second"

definition demo_claims :: claims where
  "demo_claims = \<lparr>Issuer = ''esppd'', Subject = ''7'', Audience = [''esppd-users''],
     IssuedAt = Some (100 * second), NotBefore = Some (95 * second), ExpiresAt = Some (1000 * second),
     ID = ''a1'', UserID = 7, Role = ''APPROVER'', TokenType = ''access''\<rparr>"

definition demo_signer :: signer where
  "demo_signer = \<lparr>sg_sign = (\<lambda>c. if c = demo_claims then Inr ''tok'' else Inl (OtherErr ''sign'')),
     sg_numeric = demo_numeric, sg_issuer = ''esppd'', sg_audience = ''esppd-users'',
     sg_accessTTL = 900 * second, sg_refreshTTL = 604800 * second\<rparr>"

definition demo_verifier :: verifier where
  "demo_verifier = \<lparr>vf_parse = (\<lambda>tok now. if tok = ''tok'' \<and> lib_valid demo_claims now
       then Inr (demo_claims, True) else Inl (OtherErr ''token is malformed'')),
     vf_issuer = ''esppd'', vf_audience = ''esppd-users''\<rparr>"

lemma demo_jwt_pair: "jwt_pair demo_signer demo_verifier"
proof -
  have "t - second < t div second * second" "t div second * second \<le> t" for t
    using pos_mod_bound [of second t] pos_mod_sign [of second t] minus_mod_eq_div_mult [of t second]
    by simp_all
  then show ?thesis
    by (auto simp: jwt_pair_def demo_signer_def demo_verifier_def demo_numeric_def split: if_splits)
qed

lemma demo_issue: "NewAccessToken demo_signer (\<lambda>_. 100 * second) 7 ''APPROVER'' ''a1'' = Inr ''tok''"
  by (simp add: NewAccessToken_def demo_signer_def demo_claims_def demo_numeric_def Let_def
      decimal_eval TokenTypeAccess_def)

theorem access_token_roundtrip_witness:
  "\<exists>c. ParseAndValidate demo_verifier (\<lambda>_. 200 * second) ''tok'' = Inr c \<and> UserID c = 7
     \<and> Role c = ''APPROVER''"
  using access_token_roundtrip [OF demo_jwt_pair _ _ demo_issue, of "\<lambda>_. 200 * second"]
  by (auto simp: demo_signer_def demo_verifier_def)

text \<open>The reverse: whatever validates was vouched for by the library, for this issuer and
  audience, and is inside its validity period by the code's own clock.\<close>

lemma validated_claims_in_period:
  assumes "ParseAndValidate v clk tok = Inr c"
  shows "\<exists>x. ExpiresAt c = Some x \<and> clk 1 \<le> x"
  by (rule ParseAndValidate_Inr [OF assms])

end
