(* ===== verification/Httpx.thy ===== *)
theory Httpx
  imports Jwtx
begin

text \<open>
  \<open>shared/httpx/httpx.go\<close>: the bearer-token middleware, the error handler, the id parameter and
  the rate limiter.  A request is what the web framework hands to a handler: header values,
  route and query parameters (empty when absent) and the outcome of \<open>BodyParser\<close>, which is its
  error, if any, and what the request struct holds afterwards (some handlers ignore the error).
\<close>

record 'b request =
  rq_authorization :: string
  rq_params :: "string \<Rightarrow> string"
  rq_query :: "string \<Rightarrow> string"
  rq_ip :: string
  rq_user_agent :: string
  rq_body :: "err option \<times> 'b"
  rq_body_empty :: bool

record locals =
  lo_user_id :: "int option"
  lo_user_role :: "string option"
  lo_token_type :: "string option"
  lo_token_id :: "string option"

definition no_locals :: locals where
  "no_locals = \<lparr>lo_user_id = None, lo_user_role = None, lo_token_type = None, lo_token_id = None\<rparr>"

record AuthInfo =
  ai_UserID :: int
  ai_Role :: string
  ai_TokenType :: string
  ai_TokenID :: string

text \<open>A failed type assertion with the comma-ok form yields the zero value.\<close>

definition str_or_zero :: "string option \<Rightarrow> string" where
  "str_or_zero v = (case v of None \<Rightarrow> [] | Some s \<Rightarrow> s)"

definition AuthFromLocals :: "locals \<Rightarrow> AuthInfo option" where
  "AuthFromLocals c =
     (case lo_user_id c of
        None \<Rightarrow> None
      | Some uid \<Rightarrow> Some \<lparr>ai_UserID = uid, ai_Role = str_or_zero (lo_user_role c),
          ai_TokenType = str_or_zero (lo_token_type c), ai_TokenID = str_or_zero (lo_token_id c)\<rparr>)"

subsection \<open>JWTAuth\<close>

definition claims_locals :: "claims \<Rightarrow> locals" where
  "claims_locals c = \<lparr>lo_user_id = Some (UserID c), lo_user_role = Some (Role c),
     lo_token_type = Some (TokenType c), lo_token_id = Some (ID c)\<rparr>"

text \<open>The middleware, given the rest of the chain (\<open>c.Next()\<close>) on the service's state \<open>'s\<close>.\<close>

definition JWTAuth ::
  "verifier \<Rightarrow> bool \<Rightarrow> clock \<Rightarrow> string \<Rightarrow> (locals \<Rightarrow> 's \<Rightarrow> 'a res \<times> 's) \<Rightarrow> 's \<Rightarrow> 'a res \<times> 's" where
  "JWTAuth v requireAccess clk h next s =
     (if h = [] then (Inl (FiberError 401 ''missing Authorization header''), s)
      else case SplitN2 h of
        [scheme, tok] \<Rightarrow>
          (if \<not> EqualFold scheme ''Bearer'' then (Inl (FiberError 401 ''invalid Authorization header''), s)
           else case ParseAndValidate v clk tok of
             Inl e \<Rightarrow> (Inl (FiberError 401 ''invalid token''), s)
           | Inr claims \<Rightarrow>
               if requireAccess \<and> TokenType claims \<noteq> TokenTypeAccess
               then (Inl (FiberError 401 ''access token required''), s)
               else next (claims_locals claims) s)
      | _ \<Rightarrow> (Inl (FiberError 401 ''invalid Authorization header''), s))"

lemma AuthFromLocals_claims:
  "AuthFromLocals (claims_locals c) = Some \<lparr>ai_UserID = UserID c, ai_Role = Role c,
     ai_TokenType = TokenType c, ai_TokenID = ID c\<rparr>"
  by (simp add: AuthFromLocals_def claims_locals_def str_or_zero_def)

lemma AuthFromLocals_none [simp]: "AuthFromLocals no_locals = None"
  by (simp add: AuthFromLocals_def no_locals_def)


text \<open>A relation on the state that the rest of the chain respects is respected behind the gate.\<close>

lemma JWTAuth_state:
  assumes "P s" and "\<And>lo. P (snd (next lo s))"
  shows "P (snd (JWTAuth v ra clk h next s))"
  using assms by (auto simp: JWTAuth_def split: list.splits sum.splits)

subsection \<open>What an issuer of tokens owes the gate\<close>

text \<open>
  A kind of token: how it is made, how long it lives and which type it carries.  The two
  constructors of \<open>jwtx\<close> are instances; the gate's behaviour on each follows once.
\<close>

locale token_kind =
  fixes mk :: "signer \<Rightarrow> clock \<Rightarrow> int \<Rightarrow> string \<Rightarrow> string \<Rightarrow> string res"
    and ttl :: "signer \<Rightarrow> duration"
    and kind :: string
  assumes mk_validates:
    "jwt_pair s v \<Longrightarrow> sg_issuer s = vf_issuer v \<Longrightarrow> sg_audience s = vf_audience v \<Longrightarrow>
     mk s issue uid role tid = Inr tok \<Longrightarrow>
     (\<And>i. i \<le> 2 \<Longrightarrow> issue 0 - 5 * second \<le> clk i \<and> clk i \<le> issue 0 + ttl s - second) \<Longrightarrow>
     \<exists>c. ParseAndValidate v clk tok = Inr c \<and> UserID c = uid \<and> ID c = tid \<and> TokenType c = kind"
begin

lemma gate_on_kind:
  assumes "jwt_pair s v" and "sg_issuer s = vf_issuer v" and "sg_audience s = vf_audience v"
    and "mk s issue uid role tid = Inr tok"
    and "\<And>i. i \<le> 2 \<Longrightarrow> issue 0 - 5 * second \<le> clk i \<and> clk i \<le> issue 0 + ttl s - second"
  shows "\<exists>c. UserID c = uid \<and> ID c = tid \<and> TokenType c = kind
    \<and> JWTAuth v True clk (''Bearer '' @ tok) next st =
        (if kind = TokenTypeAccess then next (claims_locals c) st
         else (Inl (FiberError 401 ''access token required''), st))"
proof -
  have "\<exists>c. ParseAndValidate v clk tok = Inr c \<and> UserID c = uid \<and> ID c = tid \<and> TokenType c = kind"
    by (rule mk_validates) (fact assms)+
  then obtain c where c: "ParseAndValidate v clk tok = Inr c" "UserID c = uid" "ID c = tid"
    "TokenType c = kind" by blast
  have "SplitN2 (''Bearer '' @ tok) = [''Bearer'', tok]" by (simp add: SplitN2_pair)
  with c show ?thesis by (intro exI [of _ c]) (simp add: JWTAuth_def EqualFold_def)
qed

end

lemma access_kind_validates:
  assumes "jwt_pair s v" and "sg_issuer s = vf_issuer v" and "sg_audience s = vf_audience v"
    and "NewAccessToken s issue uid role tid = Inr tok"
    and "\<And>i. i \<le> 2 \<Longrightarrow> issue 0 - 5 * second \<le> clk i \<and> clk i \<le> issue 0 + sg_accessTTL s - second"
  shows "\<exists>c. ParseAndValidate v clk tok = Inr c \<and> UserID c = uid \<and> ID c = tid \<and> TokenType c = TokenTypeAccess"
proof -
  let ?c = "\<lparr>Issuer = sg_issuer s, Subject = FormatInt uid, Audience = [sg_audience s],
    IssuedAt = Some (sg_numeric s (issue 0)), NotBefore = Some (sg_numeric s (issue 0 - 5 * second)),
    ExpiresAt = Some (sg_numeric s (issue 0 + sg_accessTTL s)),
    ID = tid, UserID = uid, Role = role, TokenType = TokenTypeAccess\<rparr>"
  have "sg_sign s ?c = Inr tok" using assms(4) by (simp add: NewAccessToken_def Let_def)
  then have "ParseAndValidate v clk tok = Inr ?c"
    using assms(1,2,3,5)
    by (intro issued_token_validates [where now = "issue 0" and ttl = "sg_accessTTL s" and s = s]) simp_all
  then show ?thesis by simp
qed

lemma refresh_kind_validates:
  assumes "jwt_pair s v" and "sg_issuer s = vf_issuer v" and "sg_audience s = vf_audience v"
    and "NewRefreshToken s issue uid tid = Inr tok"
    and "\<And>i. i \<le> 2 \<Longrightarrow> issue 0 - 5 * second \<le> clk i \<and> clk i \<le> issue 0 + sg_refreshTTL s - second"
  shows "\<exists>c. ParseAndValidate v clk tok = Inr c \<and> UserID c = uid \<and> ID c = tid \<and> TokenType c = TokenTypeRefresh"
proof -
  let ?c = "\<lparr>Issuer = sg_issuer s, Subject = FormatInt uid, Audience = [sg_audience s],
    IssuedAt = Some (sg_numeric s (issue 0)), NotBefore = Some (sg_numeric s (issue 0 - 5 * second)),
    ExpiresAt = Some (sg_numeric s (issue 0 + sg_refreshTTL s)),
    ID = tid, UserID = uid, Role = [], TokenType = TokenTypeRefresh\<rparr>"
  have "sg_sign s ?c = Inr tok" using assms(4) by (simp add: NewRefreshToken_def Let_def)
  then have "ParseAndValidate v clk tok = Inr ?c"
    using assms(1,2,3,5)
    by (intro issued_token_validates [where now = "issue 0" and ttl = "sg_refreshTTL s" and s = s]) simp_all
  then show ?thesis by simp
qed

interpretation access: token_kind NewAccessToken sg_accessTTL TokenTypeAccess
  by unfold_locales (rule access_kind_validates)

interpretation refresh: token_kind "\<lambda>s clk uid role tid. NewRefreshToken s clk uid tid" sg_refreshTTL TokenTypeRefresh
  by unfold_locales (rule refresh_kind_validates)

subsection \<open>Errors and path parameters\<close>

record ErrorResponse =
  er_error :: string

text \<open>\<open>WriteError\<close>: the status and body of an error; anything but a \<open>fiber.Error\<close> is a 500.\<close>

fun WriteError :: "err \<Rightarrow> ErrorResponse reply" where
  "WriteError (FiberError code m) = JSON code \<lparr>er_error = m\<rparr>"
| "WriteError _ = JSON 500 \<lparr>er_error = ''internal error''\<rparr>"

text \<open>The status a client sees of a handler's result.\<close>

definition http_status :: "'b reply res \<Rightarrow> nat" where
  "http_status r = (case r of Inl e \<Rightarrow> reply_status (WriteError e) | Inr rep \<Rightarrow> reply_status rep)"

definition ParseIDParam :: "'b request \<Rightarrow> string \<Rightarrow> int res" where
  "ParseIDParam c name =
     (case ParseInt (rq_params c name) of
        (i, None) \<Rightarrow> Inr i
      | (i, Some e) \<Rightarrow> Inl (FiberError 400 ''invalid id''))"

lemma ParseIDParam_Inr: "ParseIDParam c name = Inr i \<longleftrightarrow> parse_int64 (rq_params c name) = Some i"
  by (cases "ParseInt (rq_params c name)" rule: parsed.cases) (auto simp: ParseIDParam_def)

lemma ParseIDParam_Inl: "ParseIDParam c name = Inl e \<Longrightarrow> e = FiberError 400 ''invalid id''"
  by (auto simp: ParseIDParam_def split: prod.splits option.splits)

end
