(* ===== verification/RateLimit.thy ===== *)
theory RateLimit
  imports Httpx
begin

text \<open>
  The rate limiter of \<open>shared/httpx/httpx.go\<close>: the Lua script, the middleware around it and its
  fallbacks.  Redis is outside the repository: the three commands the script calls are
  arguments (\<open>redis_cmds\<close>, on an abstract state), with what the script relies on of them as
  \<open>redis_ok\<close>; so is the process-local limiter that takes over when Redis is not configured.
\<close>

subsection \<open>Reading the script's answer\<close>

datatype anyval = AInt64 int | AInt int | AUint64 nat | AString string | AOther

fun toInt64 :: "anyval \<Rightarrow> int \<times> bool" where
  "toInt64 (AInt64 t) = (t, True)"
| "toInt64 (AInt t) = (t, True)"
| "toInt64 (AUint64 u) = (if u < 2 ^ 63 then int u else int u - 2 ^ 64, True)"
| "toInt64 (AString s) = (case ParseInt s of (i, e) \<Rightarrow> (i, e = None))"
| "toInt64 AOther = (0, False)"

subsection \<open>The script\<close>

record 's redis_cmds =
  rd_incr :: "gotime \<Rightarrow> string \<Rightarrow> 's \<Rightarrow> int \<times> 's"
  rd_pexpire :: "gotime \<Rightarrow> string \<Rightarrow> int \<Rightarrow> 's \<Rightarrow> 's"
  rd_pttl :: "gotime \<Rightarrow> string \<Rightarrow> 's \<Rightarrow> int"

definition rateLimitLua ::
  "'s redis_cmds \<Rightarrow> gotime \<Rightarrow> string \<Rightarrow> int \<Rightarrow> int \<Rightarrow> 's \<Rightarrow> anyval list \<times> 's" where
  "rateLimitLua rd now key ttl_ms max_req s =
     (let (current, s1) = rd_incr rd now key s;
          s2 = (if current = 1 then rd_pexpire rd now key ttl_ms s1 else s1);
          pttl = rd_pttl rd now key s2;
          allowed = (if current > max_req then 0 else 1)
      in ([AInt64 current, AInt64 allowed, AInt64 pttl], s2))"

subsection \<open>The middleware\<close>

record rl_request =
  rr_path :: string
  rr_ip :: string

record 's rl_config =
  rl_Service :: string
  rl_Redis :: "'s redis_cmds option"
  rl_Max :: int
  rl_Window :: duration
  rl_Key :: "(rl_request \<Rightarrow> string) option"
  rl_Skip :: "(rl_request \<Rightarrow> bool) option"

text \<open>What the middleware does: the headers it sets, and an error or \<open>c.Next()\<close> (\<open>None\<close>).\<close>

record rl_out =
  rl_headers :: "(string \<times> string) list"
  rl_error :: "err option"

definition rl_next :: "(string \<times> string) list \<Rightarrow> rl_out" where
  "rl_next hs = \<lparr>rl_headers = hs, rl_error = None\<rparr>"

definition default_skip :: "rl_request \<Rightarrow> bool" where
  "default_skip c \<longleftrightarrow> rr_path c = ''/healthz'' \<or> rr_path c = ''/metrics''"

definition eff_max :: "'s rl_config \<Rightarrow> int" where
  "eff_max cfg = (if rl_Max cfg \<le> 0 then 120 else rl_Max cfg)"

definition eff_window :: "'s rl_config \<Rightarrow> duration" where
  "eff_window cfg = (if rl_Window cfg \<le> 0 then 60 * second else rl_Window cfg)"

definition eff_key :: "'s rl_config \<Rightarrow> rl_request \<Rightarrow> string" where
  "eff_key cfg = (case rl_Key cfg of None \<Rightarrow> rr_ip | Some k \<Rightarrow> k)"

definition eff_skip :: "'s rl_config \<Rightarrow> rl_request \<Rightarrow> bool" where
  "eff_skip cfg = (case rl_Skip cfg of None \<Rightarrow> default_skip | Some k \<Rightarrow> k)"

definition rl_redis_key :: "'s rl_config \<Rightarrow> rl_request \<Rightarrow> string" where
  "rl_redis_key cfg c =
     (let identity = eff_key cfg c;
          identity = (if identity = [] then ''unknown'' else identity)
      in ''rl:'' @ rl_Service cfg @ '':'' @ identity)"

text \<open>\<open>int64(math.Ceil(float64(pttl) / 1000.0))\<close>, not below zero.\<close>

definition retry_after :: "int \<Rightarrow> int" where
  "retry_after pttl = (let r = - ((- pttl) div 1000) in if r < 0 then 0 else r)"

text \<open>The part after the script ran: \<open>res\<close> is its reply, \<open>None\<close> when it is not a list.\<close>

definition rl_decide :: "int \<Rightarrow> anyval list option \<Rightarrow> rl_out" where
  "rl_decide mx res =
     (case res of
        None \<Rightarrow> rl_next []
      | Some arr \<Rightarrow>
          if length arr < 3 then rl_next []
          else let cur = fst (toInt64 (arr ! 0));
                   allowed = fst (toInt64 (arr ! 1));
                   pttl = fst (toInt64 (arr ! 2));
                   remaining = (if mx - cur < 0 then 0 else mx - cur);
                   hs = [(''X-RateLimit-Limit'', FormatInt mx),
                         (''X-RateLimit-Remaining'', FormatInt remaining)]
               in if allowed = 0
                  then \<lparr>rl_headers = hs @ [(''Retry-After'', FormatInt (retry_after pttl))],
                        rl_error = Some (FiberError 429
                          (''rate limit exceeded (retry in '' @ FormatInt (retry_after pttl) @ ''s)''))\<rparr>
                  else rl_next hs)"

text \<open>
  \<open>RateLimit(cfg)\<close> applied to a request.  \<open>failed\<close> says that the call to Redis ends in an error
  (its effect on Redis, if any, is \<open>rd\<close>'s own); \<open>fallback mx window key skip\<close> is the local limiter.
\<close>

definition RateLimit ::
  "(int \<Rightarrow> duration \<Rightarrow> string \<Rightarrow> bool \<Rightarrow> 's \<Rightarrow> rl_out \<times> 's) \<Rightarrow> 's rl_config \<Rightarrow> bool \<Rightarrow> gotime
     \<Rightarrow> rl_request \<Rightarrow> 's \<Rightarrow> rl_out \<times> 's" where
  "RateLimit fallback cfg failed now c s =
     (case rl_Redis cfg of
        None \<Rightarrow> fallback (eff_max cfg) (eff_window cfg) (rl_Service cfg @ '':'' @ eff_key cfg c) (eff_skip cfg c) s
      | Some rd \<Rightarrow>
          if eff_skip cfg c then (rl_next [], s)
          else if failed then (rl_next [], s)
          else let (arr, s') = rateLimitLua rd now (rl_redis_key cfg c) (eff_window cfg div 1000000) (eff_max cfg) s
               in (rl_decide (eff_max cfg) (Some arr), s'))"

subsection \<open>What the script relies on of Redis\<close>

text \<open>
  \<open>view s k\<close>: the counter stored under a key and its expiry.  \<open>INCR\<close> counts from zero when the key
  is missing or expired and keeps the expiry of a live one; \<open>PEXPIRE\<close> sets it; no command
  touches another key.
\<close>

definition live :: "gotime \<Rightarrow> (int \<times> gotime option) option \<Rightarrow> bool" where
  "live now v \<longleftrightarrow> (case v of None \<Rightarrow> False | Some (c, None) \<Rightarrow> True | Some (c, Some x) \<Rightarrow> now < x)"

definition redis_ok ::
  "'s redis_cmds \<Rightarrow> ('s \<Rightarrow> string \<Rightarrow> (int \<times> gotime option) option) \<Rightarrow> bool" where
  "redis_ok rd view \<longleftrightarrow>
     (\<forall>now k s. \<not> live now (view s k) \<longrightarrow>
        fst (rd_incr rd now k s) = 1 \<and> view (snd (rd_incr rd now k s)) k = Some (1, None)) \<and>
     (\<forall>now k s c x. view s k = Some (c, x) \<longrightarrow> live now (view s k) \<longrightarrow>
        fst (rd_incr rd now k s) = c + 1 \<and> view (snd (rd_incr rd now k s)) k = Some (c + 1, x)) \<and>
     (\<forall>now k ms s c x. view s k = Some (c, x) \<longrightarrow>
        view (rd_pexpire rd now k ms s) k = Some (c, Some (now + ms * 1000000))) \<and>
     (\<forall>now k k' ms s. k \<noteq> k' \<longrightarrow>
        view (snd (rd_incr rd now k s)) k' = view s k' \<and> view (rd_pexpire rd now k ms s) k' = view s k')"

lemma redis_okD:
  assumes "redis_ok rd view"
  shows "\<not> live now (view s k) \<Longrightarrow>
      fst (rd_incr rd now k s) = 1 \<and> view (snd (rd_incr rd now k s)) k = Some (1, None)"
    and "view s k = Some (c, x) \<Longrightarrow> live now (view s k) \<Longrightarrow>
      fst (rd_incr rd now k s) = c + 1 \<and> view (snd (rd_incr rd now k s)) k = Some (c + 1, x)"
    and "view s k = Some (c, x) \<Longrightarrow>
      view (rd_pexpire rd now k ms s) k = Some (c, Some (now + ms * 1000000))"
    and "k \<noteq> k' \<Longrightarrow> view (snd (rd_incr rd now k s)) k' = view s k'"
    and "k \<noteq> k' \<Longrightarrow> view (rd_pexpire rd now k ms s) k' = view s k'"
  using assms unfolding redis_ok_def by blast+

lemma script_first:
  assumes ok: "redis_ok rd view" and "\<not> live now (view s k)"
  shows "\<exists>p s'. rateLimitLua rd now k ms mx s =
      ([AInt64 1, AInt64 (if 1 > mx then 0 else 1), AInt64 p], s')
    \<and> view s' k = Some (1, Some (now + ms * 1000000))"
proof -
  obtain s1 where s1: "rd_incr rd now k s = (1, s1)" "view s1 k = Some (1, None)"
    using redis_okD(1) [OF assms] by (metis prod.collapse)
  then show ?thesis using redis_okD(3) [OF ok s1(2)] by (simp add: rateLimitLua_def Let_def)
qed

lemma script_next:
  assumes ok: "redis_ok rd view" and v: "view s k = Some (c, Some x)" and "now < x" and "0 < c"
  shows "\<exists>p s'. rateLimitLua rd now k ms mx s =
      ([AInt64 (c + 1), AInt64 (if c + 1 > mx then 0 else 1), AInt64 p], s')
    \<and> view s' k = Some (c + 1, Some x)"
proof -
  have "live now (view s k)" using v assms(3) by (simp add: live_def)
  with redis_okD(2) [OF ok v] obtain s1 where
    s1: "rd_incr rd now k s = (c + 1, s1)" "view s1 k = Some (c + 1, Some x)"
    by (metis prod.collapse)
  then show ?thesis using assms(4) by (simp add: rateLimitLua_def Let_def)
qed

lemma script_other_key:
  assumes "redis_ok rd view" and "k \<noteq> k'"
  shows "view (snd (rateLimitLua rd now k ms mx s)) k' = view s k'"
  using redis_okD(4,5) [OF assms(1,2)]
  by (simp add: rateLimitLua_def Let_def split: prod.splits) (metis snd_conv)

subsection \<open>A window of requests\<close>

text \<open>The requests of one client at the given times, in order; \<open>True\<close> for each that is let through.\<close>

fun rl_run ::
  "(int \<Rightarrow> duration \<Rightarrow> string \<Rightarrow> bool \<Rightarrow> 's \<Rightarrow> rl_out \<times> 's) \<Rightarrow> 's rl_config \<Rightarrow> rl_request
     \<Rightarrow> gotime list \<Rightarrow> 's \<Rightarrow> bool list" where
  "rl_run fallback cfg c [] s = []"
| "rl_run fallback cfg c (t # ts) s =
     (case RateLimit fallback cfg False t c s of
        (out, s') \<Rightarrow> (rl_error out = None) # rl_run fallback cfg c ts s')"

lemma rl_decide_script:
  "rl_error (rl_decide mx (Some [AInt64 cur, AInt64 (if cur > mx then 0 else 1), AInt64 p])) = None
     \<longleftrightarrow> cur \<le> mx"
  by (simp add: rl_decide_def rl_next_def Let_def)

lemma rl_run_window:
  assumes ok: "redis_ok rd view" and cfg: "rl_Redis cfg = Some rd" and skip: "\<not> eff_skip cfg c"
  shows "view s (rl_redis_key cfg c) = Some (n, Some x) \<Longrightarrow> 0 < n \<Longrightarrow> \<forall>t \<in> set ts. t < x \<Longrightarrow>
    rl_run fallback cfg c ts s = map (\<lambda>i. n + int i + 1 \<le> eff_max cfg) [0..<length ts]"
proof (induction ts arbitrary: s n)
  case Nil
  then show ?case by simp
next
  case (Cons t ts)
  let ?k = "rl_redis_key cfg c"
  obtain p s' where s': "rateLimitLua rd t ?k (eff_window cfg div 1000000) (eff_max cfg) s =
      ([AInt64 (n + 1), AInt64 (if n + 1 > eff_max cfg then 0 else 1), AInt64 p], s')"
    "view s' ?k = Some (n + 1, Some x)"
    using script_next [OF ok Cons.prems(1) _ Cons.prems(2), of t "eff_window cfg div 1000000" "eff_max cfg"]
      Cons.prems(3) by auto
  have "rl_run fallback cfg c ts s' = map (\<lambda>i. n + 1 + int i + 1 \<le> eff_max cfg) [0..<length ts]"
    using Cons.prems by (intro Cons.IH [OF s'(2)]) auto
  with s'(1) cfg skip show ?case
    by (simp add: RateLimit_def rl_decide_script upt_conv_Cons map_Suc_upt [symmetric] ac_simps del: upt_Suc)
qed

text \<open>
  C20. The limit: of the requests a client sends inside one window, starting with a key
  that is not live, exactly the first \<open>Max\<close> are let through and every later one is refused,
  whatever the times of the requests inside the window.
\<close>

theorem rate_limit_window:
  assumes ok: "redis_ok rd view" and cfg: "rl_Redis cfg = Some rd" and skip: "\<not> eff_skip cfg c"
    and fresh: "\<not> live t0 (view s (rl_redis_key cfg c))"
    and window: "\<forall>t \<in> set ts. t < t0 + eff_window cfg div 1000000 * 1000000"
  shows "rl_run fallback cfg c (t0 # ts) s
       = map (\<lambda>i. int i < eff_max cfg) [0..<Suc (length ts)]"
proof -
  let ?k = "rl_redis_key cfg c"
  obtain p s' where s': "rateLimitLua rd t0 ?k (eff_window cfg div 1000000) (eff_max cfg) s =
      ([AInt64 1, AInt64 (if 1 > eff_max cfg then 0 else 1), AInt64 p], s')"
    "view s' ?k = Some (1, Some (t0 + eff_window cfg div 1000000 * 1000000))"
    using script_first [OF ok fresh] by blast
  have "rl_run fallback cfg c ts s' = map (\<lambda>i. 1 + int i + 1 \<le> eff_max cfg) [0..<length ts]"
    by (rule rl_run_window [OF ok cfg skip s'(2) _ window]) simp
  moreover have "0 < eff_max cfg" by (simp add: eff_max_def)
  ultimately show ?thesis using s'(1) cfg skip rl_decide_script [of "eff_max cfg" 1 p]
    by (auto simp: RateLimit_def upt_conv_Cons map_Suc_upt [symmetric] simp del: upt_Suc)
qed

text \<open>A Redis for concrete runs: a map from keys to counters with their expiry.\<close>

definition demo_redis :: "(string \<Rightarrow> (int \<times> gotime option) option) redis_cmds" where
  "demo_redis = \<lparr>
     rd_incr = (\<lambda>now k s. (case s k of
         Some (c, x) \<Rightarrow> if live now (s k) then (c + 1, s(k \<mapsto> (c + 1, x))) else (1, s(k \<mapsto> (1, None)))
       | None \<Rightarrow> (1, s(k \<mapsto> (1, None))))),
     rd_pexpire = (\<lambda>now k ms s. (case s k of
         Some (c, x) \<Rightarrow> s(k \<mapsto> (c, Some (now + ms * 1000000))) | None \<Rightarrow> s)),
     rd_pttl = (\<lambda>now k s. (case s k of Some (c, Some x) \<Rightarrow> (x - now) div 1000000 | _ \<Rightarrow> - 1))\<rparr>"

lemma demo_redis_ok: "redis_ok demo_redis (\<lambda>s. s)"
  by (auto simp: redis_ok_def demo_redis_def live_def split: option.splits)

definition demo_limit :: "(string \<Rightarrow> (int \<times> gotime option) option) rl_config" where
  "demo_limit = \<lparr>rl_Service = ''auth-service'', rl_Redis = Some demo_redis, rl_Max = 2,
     rl_Window = 60 * second, rl_Key = None, rl_Skip = None\<rparr>"

theorem rate_limit_window_witness:
  "rl_run (\<lambda>_ _ _ _ s. (rl_next [], s)) demo_limit \<lparr>rr_path = ''/v1/auth/login'', rr_ip = ''10.0.0.1''\<rparr>
     [0, 1 * second, 2 * second] Map.empty = [True, True, False]"
  using rate_limit_window [OF demo_redis_ok, of demo_limit
      "\<lparr>rr_path = ''/v1/auth/login'', rr_ip = ''10.0.0.1''\<rparr>" 0 Map.empty "[1 * second, 2 * second]" "\<lambda>_ _ _ _ s. (rl_next [], s)"]
  by (simp add: demo_limit_def eff_skip_def default_skip_def live_def eff_window_def eff_max_def upt_conv_Cons)

text \<open>Health checks are never limited, and a failing Redis lets everything through.\<close>

lemma rate_limit_fail_open:
  "rl_Redis cfg = Some rd \<Longrightarrow> RateLimit fallback cfg True now c s = (rl_next [], s)"
  by (simp add: RateLimit_def)

end
