(* ===== verification/Db.thy ===== *)
theory Db
  imports GoStd
begin

text \<open>
  The database: the tables of \<open>migrations/0001_init.sql\<close> and \<open>0004_mfa.sql\<close> as lists of rows in
  heap order, their sequences, the row-level-security policies of \<open>0002_rls.sql\<close>, and the
  transaction helper and session settings of \<open>shared/db/db.go\<close>.

  PostgreSQL itself is outside the repository.  Whether a statement, a commit or the
  connection fails, and what \<open>NOW()\<close> is, are therefore arguments (\<open>dbenv\<close>); the text of the SQL
  statements, which is in the repository, is translated by the component theories.
  \<open>rls_on\<close> says whether the connected role is subject to row security: PostgreSQL exempts
  superusers and, without \<open>FORCE ROW LEVEL SECURITY\<close>, the tables' owner.
\<close>

subsection \<open>Tables\<close>

record unit_row =
  un_id :: int
  un_code :: string
  un_name :: string
  un_created_at :: gotime
  un_updated_at :: gotime
  un_deleted_at :: "gotime option"

record employee_row =
  em_id :: int
  em_nip :: string
  em_name :: string
  em_unit_id :: "int option"
  em_created_at :: gotime
  em_updated_at :: gotime
  em_deleted_at :: "gotime option"

record user_row =
  us_id :: int
  us_username :: string
  us_password_hash :: string
  us_role :: string
  us_employee_id :: "int option"
  us_is_active :: bool
  us_mfa_enabled :: bool
  us_mfa_secret_enc :: "bytes option"
  us_mfa_enrolled_at :: "gotime option"
  us_last_login_at :: "gotime option"
  us_created_at :: gotime
  us_updated_at :: gotime
  us_deleted_at :: "gotime option"

record user_unit_row =
  uu_user_id :: int
  uu_unit_id :: int
  uu_created_at :: gotime

record refresh_row =
  rt_id :: string
  rt_user_id :: int
  rt_expires_at :: gotime
  rt_revoked_at :: "gotime option"
  rt_replaced_by :: "string option"
  rt_created_at :: gotime

record budget_row =
  bg_id :: int
  bg_unit_id :: int
  bg_amount_enc :: "bytes option"
  bg_source_enc :: "bytes option"
  bg_description :: string
  bg_created_by :: int
  bg_created_at :: gotime
  bg_updated_at :: gotime
  bg_deleted_at :: "gotime option"

record spd_row =
  sp_id :: int
  sp_nomor_surat :: string
  sp_employee_id :: "int option"
  sp_unit_id :: int
  sp_budget_id :: "int option"
  sp_purpose_enc :: "bytes option"
  sp_total_cost_enc :: "bytes option"
  sp_status :: string
  sp_current_approver_id :: "int option"
  sp_created_by :: int
  sp_created_at :: gotime
  sp_updated_at :: gotime
  sp_deleted_at :: "gotime option"

record approval_row =
  ap_id :: int
  ap_spd_id :: int
  ap_step :: int
  ap_approver_id :: "int option"
  ap_status :: string
  ap_comment :: "string option"
  ap_decided_by :: "int option"
  ap_decided_at :: "gotime option"
  ap_created_at :: gotime
  ap_updated_at :: gotime

record document_row =
  dc_id :: int
  dc_spd_id :: int
  dc_format :: string
  dc_object_key :: string
  dc_requested_by :: int
  dc_created_at :: gotime

record notification_row =
  nt_id :: int
  nt_channel :: string
  nt_recipient :: string
  nt_subject :: string
  nt_body :: string
  nt_status :: string
  nt_requested_by :: "int option"
  nt_created_at :: gotime
  nt_sent_at :: "gotime option"
  nt_deleted_at :: "gotime option"

record audit_row =
  au_id :: int
  au_action :: string
  au_resource_type :: string
  au_resource_id :: "int option"
  au_user_id :: int
  au_role :: string
  au_ip_address :: "string option"
  au_user_agent :: "string option"
  au_metadata :: json
  au_timestamp :: gotime

record db =
  units :: "unit_row list"
  employees :: "employee_row list"
  users :: "user_row list"
  user_units :: "user_unit_row list"
  refresh_tokens :: "refresh_row list"
  budgets :: "budget_row list"
  spds :: "spd_row list"
  approvals :: "approval_row list"
  documents :: "document_row list"
  notifications :: "notification_row list"
  audit_logs :: "audit_row list"
  seqs :: "string \<Rightarrow> int"
  rls_on :: bool

text \<open>\<open>BIGSERIAL\<close>: the next value of a table's sequence; \<open>seqs\<close> holds the last one given out.\<close>

definition nextval :: "string \<Rightarrow> db \<Rightarrow> int \<times> db" where
  "nextval t d = (seqs d t + 1, d\<lparr>seqs := (seqs d)(t := seqs d t + 1)\<rparr>)"

subsection \<open>Row-level security\<close>

definition in_unit_of :: "db \<Rightarrow> int \<Rightarrow> int \<Rightarrow> bool" where
  "in_unit_of d uid unit \<longleftrightarrow> (\<exists>r \<in> set (user_units d). uu_user_id r = uid \<and> uu_unit_id r = unit)"

definition spds_select_policy :: "db \<Rightarrow> int \<Rightarrow> string \<Rightarrow> spd_row \<Rightarrow> bool" where
  "spds_select_policy d uid role r \<longleftrightarrow>
     rls_on d \<longrightarrow> sp_created_by r = uid \<or> in_unit_of d uid (sp_unit_id r) \<or> role = ''SUPER_ADMIN''"

definition spds_insert_policy :: "db \<Rightarrow> int \<Rightarrow> string \<Rightarrow> spd_row \<Rightarrow> bool" where
  "spds_insert_policy d uid role r \<longleftrightarrow>
     rls_on d \<longrightarrow> (sp_created_by r = uid \<and> in_unit_of d uid (sp_unit_id r)) \<or> role = ''SUPER_ADMIN''"

definition spds_update_policy :: "db \<Rightarrow> int \<Rightarrow> string \<Rightarrow> spd_row \<Rightarrow> bool" where
  "spds_update_policy d uid role r \<longleftrightarrow>
     rls_on d \<longrightarrow> sp_created_by r = uid \<or> role = ''SUPER_ADMIN''"

definition budget_roles :: "string set" where
  "budget_roles = {''SUPER_ADMIN'', ''FINANCE'', ''BUDGET_ADMIN''}"

definition budgets_select_policy :: "db \<Rightarrow> int \<Rightarrow> string \<Rightarrow> budget_row \<Rightarrow> bool" where
  "budgets_select_policy d uid role r \<longleftrightarrow>
     rls_on d \<longrightarrow> role \<in> budget_roles \<or> in_unit_of d uid (bg_unit_id r)"

definition budgets_insert_policy :: "db \<Rightarrow> int \<Rightarrow> string \<Rightarrow> budget_row \<Rightarrow> bool" where
  "budgets_insert_policy d uid role r \<longleftrightarrow>
     rls_on d \<longrightarrow> role \<in> budget_roles \<and> bg_created_by r = uid"

text \<open>
  A row that may be updated may also be read: an \<open>UPDATE ... RETURNING\<close> touches the rows both
  policies admit, which are those of the update policy.
\<close>

lemma spds_update_select: "spds_update_policy d uid role r \<Longrightarrow> spds_select_policy d uid role r"
  by (auto simp: spds_update_policy_def spds_select_policy_def)

lemma spds_insert_select: "spds_insert_policy d uid role r \<Longrightarrow> spds_select_policy d uid role r"
  by (auto simp: spds_insert_policy_def spds_select_policy_def)

lemma budgets_insert_select: "budgets_insert_policy d uid role r \<Longrightarrow> budgets_select_policy d uid role r"
  by (auto simp: budgets_insert_policy_def budgets_select_policy_def)

text \<open>The policies look at the memberships only.\<close>

lemma policy_cong:
  assumes "user_units d' = user_units d" and "rls_on d' = rls_on d"
  shows "spds_select_policy d' uid role r = spds_select_policy d uid role r"
    and "spds_insert_policy d' uid role r = spds_insert_policy d uid role r"
    and "spds_update_policy d' uid role r = spds_update_policy d uid role r"
  using assms by (simp_all add: spds_select_policy_def spds_insert_policy_def spds_update_policy_def in_unit_of_def)

subsection \<open>The environment of a database call\<close>

datatype commit_outcome = Committed | CommitFailed string | CommitUnknown string

text \<open>
  \<open>exec_err e k\<close> is the failure of the call's statement number \<open>k\<close>, if it fails for a reason of
  its own (a lost connection, a server error, a constraint that is not modelled).  A commit
  can fail, or its acknowledgement can be lost after it took effect.
\<close>

record dbenv =
  begin_err :: "string option"
  exec_err :: "nat \<Rightarrow> string option"
  commit_res :: commit_outcome
  db_now :: gotime

definition calm :: "gotime \<Rightarrow> dbenv" where
  "calm t = \<lparr>begin_err = None, exec_err = (\<lambda>_. None), commit_res = Committed, db_now = t\<rparr>"

lemma calm_simps: "begin_err (calm t) = None" "exec_err (calm t) n = None" "commit_res (calm t) = Committed" "db_now (calm t) = t"
  by (simp_all add: calm_def)

record tx =
  tx_db :: db
  tx_uid :: int
  tx_role :: string
  tx_n :: nat

text \<open>\<open>tx.Exec\<close>, \<open>tx.Query\<close> and \<open>tx.QueryRow\<close>: the next statement of the transaction.\<close>

definition tx_exec :: "dbenv \<Rightarrow> (tx \<Rightarrow> 'a res \<times> tx) \<Rightarrow> tx \<Rightarrow> 'a res \<times> tx" where
  "tx_exec e stmt t =
     (case exec_err e (tx_n t) of
        Some m \<Rightarrow> (Inl (OtherErr m), t\<lparr>tx_n := Suc (tx_n t)\<rparr>)
      | None \<Rightarrow> stmt (t\<lparr>tx_n := Suc (tx_n t)\<rparr>))"

text \<open>
  A rollback restores the tables; the values drawn from the sequences stay drawn.
\<close>

definition rollback :: "db \<Rightarrow> db \<Rightarrow> db" where
  "rollback d d' = d\<lparr>seqs := seqs d'\<rparr>"

text \<open>
  \<open>db.(*Pool).WithTx\<close>: begin, run \<open>fn\<close>, commit; the deferred rollback undoes everything when \<open>fn\<close>
  or the commit fails.  Without a setting, the policies read user 0 and the empty role.
\<close>

definition WithTx :: "dbenv \<Rightarrow> (tx \<Rightarrow> 'a res \<times> tx) \<Rightarrow> db \<Rightarrow> 'a res \<times> db" where
  "WithTx e fn d =
     (case begin_err e of
        Some m \<Rightarrow> (Inl (OtherErr m), d)
      | None \<Rightarrow>
          (case fn \<lparr>tx_db = d, tx_uid = 0, tx_role = [], tx_n = 0\<rparr> of
             (Inl x, t) \<Rightarrow> (Inl x, rollback d (tx_db t))
           | (Inr v, t) \<Rightarrow>
               (case commit_res e of
                  Committed \<Rightarrow> (Inr v, tx_db t)
                | CommitFailed m \<Rightarrow> (Inl (OtherErr m), rollback d (tx_db t))
                | CommitUnknown m \<Rightarrow> (Inl (OtherErr m), tx_db t))))"

text \<open>
  \<open>SetRLSContext\<close>: two \<open>set_config(..., true)\<close> statements.  The first stores the decimal text
  of the user id, which the policies cast back to \<open>bigint\<close>; the pair is the identity on
  \<open>int64\<close> (\<open>parse_int64_FormatInt\<close>), so the setting is kept as the number.
\<close>

definition SetRLSContext :: "dbenv \<Rightarrow> int \<Rightarrow> string \<Rightarrow> tx \<Rightarrow> unit res \<times> tx" where
  "SetRLSContext e userID role t =
     (case tx_exec e (\<lambda>t. (Inr (), t\<lparr>tx_uid := userID\<rparr>)) t of
        (Inl (OtherErr m), t) \<Rightarrow> (Inl (OtherErr (''set app.current_user_id: '' @ m)), t)
      | (Inl x, t) \<Rightarrow> (Inl x, t)
      | (Inr _, t) \<Rightarrow>
          (case tx_exec e (\<lambda>t. (Inr (), t\<lparr>tx_role := role\<rparr>)) t of
             (Inl (OtherErr m), t) \<Rightarrow> (Inl (OtherErr (''set app.user_role: '' @ m)), t)
           | (Inl x, t) \<Rightarrow> (Inl x, t)
           | (Inr _, t) \<Rightarrow> (Inr (), t)))"

text \<open>The shape every repository method has: settings first, then the statements.\<close>

definition with_rls ::
  "dbenv \<Rightarrow> int \<Rightarrow> string \<Rightarrow> (tx \<Rightarrow> 'a res \<times> tx) \<Rightarrow> db \<Rightarrow> 'a res \<times> db" where
  "with_rls e userID role body =
     WithTx e (\<lambda>t. case SetRLSContext e userID role t of
                     (Inl x, t) \<Rightarrow> (Inl x, t)
                   | (Inr _, t) \<Rightarrow> body t)"

text \<open>\<open>pool.Exec\<close> and \<open>pool.QueryRow\<close>: one statement in a transaction of its own.\<close>

definition autocommit :: "dbenv \<Rightarrow> (tx \<Rightarrow> 'a res \<times> tx) \<Rightarrow> db \<Rightarrow> 'a res \<times> db" where
  "autocommit e stmt = WithTx e (tx_exec e stmt)"

text \<open>A statement that reads only.\<close>

definition reading :: "(tx \<Rightarrow> 'a res) \<Rightarrow> tx \<Rightarrow> 'a res \<times> tx" where
  "reading q t = (q t, t)"

subsection \<open>What a transaction does\<close>

definition started :: "dbenv \<Rightarrow> int \<Rightarrow> string \<Rightarrow> db \<Rightarrow> tx" where
  "started e userID role d = \<lparr>tx_db = d, tx_uid = userID, tx_role = role, tx_n = 2\<rparr>"

lemma SetRLSContext_cases:
  "SetRLSContext e uid role \<lparr>tx_db = d, tx_uid = 0, tx_role = [], tx_n = 0\<rparr> =
     (case exec_err e 0 of
        Some m \<Rightarrow> (Inl (OtherErr (''set app.current_user_id: '' @ m)),
                   \<lparr>tx_db = d, tx_uid = 0, tx_role = [], tx_n = 1\<rparr>)
      | None \<Rightarrow> (case exec_err e 1 of
          Some m \<Rightarrow> (Inl (OtherErr (''set app.user_role: '' @ m)),
                     \<lparr>tx_db = d, tx_uid = uid, tx_role = [], tx_n = 2\<rparr>)
        | None \<Rightarrow> (Inr (), started e uid role d)))"
  by (simp add: SetRLSContext_def tx_exec_def started_def numeral_2_eq_2 split: option.splits)

text \<open>
  A transaction that succeeded is exactly its body run on the settings, with nothing failing
  and the commit acknowledged.
\<close>

lemma with_rls_Inr:
  assumes "with_rls e uid role body d = (Inr v, d')"
  shows "\<exists>t. body (started e uid role d) = (Inr v, t) \<and> d' = tx_db t"
  using assms
  by (auto simp: with_rls_def WithTx_def SetRLSContext_cases
      split: option.splits sum.splits prod.splits commit_outcome.splits)

lemma with_rls_calm:
  "body (started (calm now) uid role d) = (r, t) \<Longrightarrow>
     with_rls (calm now) uid role body d =
       (case r of Inl x \<Rightarrow> (Inl x, rollback d (tx_db t)) | Inr v \<Rightarrow> (Inr v, tx_db t))"
  by (auto simp: with_rls_def WithTx_def SetRLSContext_cases calm_def started_def split: sum.splits)

text \<open>The same for a transaction of a single statement.\<close>

abbreviation first_stmt :: "int \<Rightarrow> string \<Rightarrow> db \<Rightarrow> tx" where
  "first_stmt uid role d \<equiv> \<lparr>tx_db = d, tx_uid = uid, tx_role = role, tx_n = 3\<rparr>"

lemma with_rls_exec_Inr:
  assumes "with_rls e uid role (tx_exec e stmt) d = (Inr v, d')"
  shows "\<exists>t. stmt (first_stmt uid role d) = (Inr v, t) \<and> d' = tx_db t"
  using with_rls_Inr [OF assms] by (auto simp: tx_exec_def started_def split: option.splits)

lemma with_rls_exec_calm:
  "stmt (first_stmt uid role d) = (r, t) \<Longrightarrow>
     with_rls (calm now) uid role (tx_exec (calm now) stmt) d =
       (case r of Inl x \<Rightarrow> (Inl x, rollback d (tx_db t)) | Inr v \<Rightarrow> (Inr v, tx_db t))"
  by (rule with_rls_calm) (simp add: tx_exec_def started_def, simp add: calm_def)

text \<open>An \<open>ErrNoRows\<close> can only come from the body: infrastructure failures are other errors.\<close>

lemma with_rls_ErrNoRows:
  assumes "with_rls e uid role body d = (Inl ErrNoRows, d')"
  shows "\<exists>t. body (started e uid role d) = (Inl ErrNoRows, t)"
  using assms
  by (auto simp: with_rls_def WithTx_def SetRLSContext_cases
      split: option.splits sum.splits prod.splits commit_outcome.splits)

lemma autocommit_Inr:
  assumes "autocommit e stmt d = (Inr v, d')"
  shows "\<exists>t. stmt \<lparr>tx_db = d, tx_uid = 0, tx_role = [], tx_n = 1\<rparr> = (Inr v, t) \<and> d' = tx_db t"
  using assms
  by (auto simp: autocommit_def WithTx_def tx_exec_def
      split: option.splits sum.splits prod.splits commit_outcome.splits)

lemma autocommit_calm:
  "stmt \<lparr>tx_db = d, tx_uid = 0, tx_role = [], tx_n = 1\<rparr> = (r, t) \<Longrightarrow>
     autocommit (calm now) stmt d =
       (case r of Inl x \<Rightarrow> (Inl x, rollback d (tx_db t)) | Inr v \<Rightarrow> (Inr v, tx_db t))"
  by (auto simp: autocommit_def WithTx_def tx_exec_def calm_def split: sum.splits)

lemma autocommit_reading:
  "autocommit e (reading q) d = (r, d') \<Longrightarrow> d' = d"
  by (auto simp: autocommit_def WithTx_def tx_exec_def reading_def rollback_def
      split: option.splits sum.splits prod.splits commit_outcome.splits)

lemma tx_exec_reading_db:
  "tx_exec e (reading q) t = (r, t') \<Longrightarrow> tx_db t' = tx_db t"
  by (auto simp: tx_exec_def reading_def split: option.splits)

lemma with_rls_reading:
  "with_rls e uid role (tx_exec e (reading q)) d = (r, d') \<Longrightarrow> d' = d"
  by (auto simp: with_rls_def WithTx_def SetRLSContext_cases tx_exec_def reading_def rollback_def
      started_def split: option.splits sum.splits prod.splits commit_outcome.splits)

subsection \<open>Relations between the database before and after\<close>

text \<open>
  What an operation may do to the database is a relation that does not look at the
  sequences: "the audit log only grows", "no table but these changes", "the invariant is kept".
  If the body of a transaction respects it, so does the transaction, whatever fails.
\<close>

locale tx_relation =
  fixes R :: "db \<Rightarrow> db \<Rightarrow> bool"
  assumes R_refl: "R d d"
    and R_seqs: "R d (d\<lparr>seqs := s\<rparr>)"
begin

lemma R_rollback: "R d (rollback d d')"
  by (simp add: rollback_def R_seqs)

lemma WithTx_R:
  assumes "\<And>t0. tx_db t0 = d \<Longrightarrow> R d (tx_db (snd (fn t0)))"
  shows "R d (snd (WithTx e fn d))"
  using assms [of "\<lparr>tx_db = d, tx_uid = 0, tx_role = [], tx_n = 0\<rparr>"]
  by (auto simp: WithTx_def R_refl R_rollback split: option.splits prod.splits sum.splits commit_outcome.splits)

lemma with_rls_R:
  assumes "R d (tx_db (snd (body (started e uid role d))))"
  shows "R d (snd (with_rls e uid role body d))"
  using assms
  by (auto simp: with_rls_def WithTx_def SetRLSContext_cases R_refl R_rollback
      split: option.splits prod.splits sum.splits commit_outcome.splits)

lemma tx_exec_R:
  assumes "\<And>t1. tx_db t1 = tx_db t \<Longrightarrow> R d (tx_db (snd (stmt t1)))" and "R d (tx_db t)"
  shows "R d (tx_db (snd (tx_exec e stmt t)))"
  using assms by (auto simp: tx_exec_def split: option.splits)

lemma autocommit_R:
  assumes "\<And>t. tx_db t = d \<Longrightarrow> R d (tx_db (snd (stmt t)))"
  shows "R d (snd (autocommit e stmt d))"
  unfolding autocommit_def
  by (rule WithTx_R, rule tx_exec_R) (simp_all add: assms R_refl)

end

end
