(* ===== verification/Cryptox.thy ===== *)
theory Cryptox
  imports GoStd
begin

text \<open>
  \<open>shared/cryptox/aesgcm.go\<close>: AES-256-GCM with the nonce in front of the ciphertext.  The block
  cipher and its GCM mode are arguments (\<open>aead\<close>); what the code relies on of them is
  \<open>aead_ok\<close>.  \<open>crypto/rand\<close> is an argument too: \<open>rand n\<close> is an error or \<open>n\<close> bytes.
\<close>

record aead =
  NonceSize :: nat
  Seal :: "bytes \<Rightarrow> bytes \<Rightarrow> bytes \<Rightarrow> bytes"
  Open :: "bytes \<Rightarrow> bytes \<Rightarrow> bytes \<Rightarrow> bytes res"

text \<open>\<open>NonceSize\<close> is positive and \<open>Open\<close> undoes \<open>Seal\<close> under the same nonce and associated data.\<close>

definition aead_ok :: "aead \<Rightarrow> bool" where
  "aead_ok g \<longleftrightarrow> 0 < NonceSize g \<and>
     (\<forall>nonce pt aad. length nonce = NonceSize g \<longrightarrow> Open g nonce (Seal g nonce pt aad) aad = Inr pt)"

definition rand_ok :: "(nat \<Rightarrow> bytes res) \<Rightarrow> bool" where
  "rand_ok rand \<longleftrightarrow> (\<forall>n b. rand n = Inr b \<longrightarrow> length b = n)"

definition ErrCiphertextTooShort :: err where
  "ErrCiphertextTooShort = OtherErr ''ciphertext too short''"

text \<open>\<open>base64.StdEncoding.DecodeString\<close>: newlines dropped, padding required.\<close>

definition b64_value :: "char \<Rightarrow> nat option" where
  "b64_value c =
     (let n = char_ord c in
      if 65 \<le> n \<and> n \<le> 90 then Some (n - 65)
      else if 97 \<le> n \<and> n \<le> 122 then Some (n - 71)
      else if 48 \<le> n \<and> n \<le> 57 then Some (n + 4)
      else if n = 43 then Some 62 else if n = 47 then Some 63 else None)"

fun b64_decode_nats :: "string \<Rightarrow> nat list option" where
  "b64_decode_nats [] = Some []"
| "b64_decode_nats (a # b # c # d # rest) =
     (case (b64_value a, b64_value b) of
        (Some p, Some q) \<Rightarrow>
          (if c = CHR ''='' \<and> d = CHR ''='' \<and> rest = [] then Some [p * 4 + q div 16]
           else (case b64_value c of None \<Rightarrow> None
             | Some r \<Rightarrow>
                 (if d = CHR ''='' \<and> rest = [] then Some [p * 4 + q div 16, q mod 16 * 16 + r div 4]
                  else (case b64_value d of None \<Rightarrow> None
                    | Some s \<Rightarrow>
                        map_option (\<lambda>bs. [p * 4 + q div 16, q mod 16 * 16 + r div 4, r mod 4 * 64 + s] @ bs)
                          (b64_decode_nats rest)))))
      | _ \<Rightarrow> None)"
| "b64_decode_nats _ = None"

definition base64_decode :: "string \<Rightarrow> bytes res" where
  "base64_decode s =
     (case b64_decode_nats (filter (\<lambda>c. char_ord c \<noteq> 10 \<and> char_ord c \<noteq> 13) s) of
        None \<Rightarrow> Inl (OtherErr ''illegal base64 data'')
      | Some ns \<Rightarrow> Inr (map word_of_nat ns))"

text \<open>\<open>aes.NewCipher\<close> and \<open>cipher.NewGCM\<close> are the first two arguments.\<close>

definition NewAESGCM :: "(bytes \<Rightarrow> 'blk res) \<Rightarrow> ('blk \<Rightarrow> aead res) \<Rightarrow> bytes \<Rightarrow> aead res" where
  "NewAESGCM new_cipher new_gcm key =
     (if length key \<noteq> 32
      then Inl (OtherErr (''AES-256-GCM requires 32-byte key, got '' @ FormatInt (int (length key))))
      else case new_cipher key of
             Inl e \<Rightarrow> Inl e
           | Inr block \<Rightarrow> (case new_gcm block of Inl e \<Rightarrow> Inl e | Inr gcm \<Rightarrow> Inr gcm))"

definition NewAESGCMFromBase64 ::
  "(bytes \<Rightarrow> 'blk res) \<Rightarrow> ('blk \<Rightarrow> aead res) \<Rightarrow> string \<Rightarrow> aead res" where
  "NewAESGCMFromBase64 new_cipher new_gcm keyB64 =
     (case base64_decode keyB64 of
        Inl (OtherErr m) \<Rightarrow> Inl (OtherErr (''decode base64 key: '' @ m))
      | Inl e \<Rightarrow> Inl e
      | Inr key \<Rightarrow> NewAESGCM new_cipher new_gcm key)"

definition Encrypt :: "aead \<Rightarrow> (nat \<Rightarrow> bytes res) \<Rightarrow> bytes \<Rightarrow> bytes \<Rightarrow> bytes res" where
  "Encrypt a rand plaintext aad =
     (case rand (NonceSize a) of
        Inl e \<Rightarrow> Inl (OtherErr ''generate nonce'')
      | Inr nonce \<Rightarrow> Inr (nonce @ Seal a nonce plaintext aad))"

definition Decrypt :: "aead \<Rightarrow> bytes \<Rightarrow> bytes \<Rightarrow> bytes res" where
  "Decrypt a ciphertext aad =
     (let ns = NonceSize a in
      if length ciphertext < ns then Inl ErrCiphertextTooShort
      else case Open a (take ns ciphertext) (drop ns ciphertext) aad of
             Inl e \<Rightarrow> Inl e
           | Inr pt \<Rightarrow> Inr pt)"

definition EncryptString :: "aead \<Rightarrow> (nat \<Rightarrow> bytes res) \<Rightarrow> string \<Rightarrow> bytes \<Rightarrow> bytes res" where
  "EncryptString a rand plaintext aad = Encrypt a rand (bytes_of plaintext) aad"

definition DecryptString :: "aead \<Rightarrow> bytes \<Rightarrow> bytes \<Rightarrow> string res" where
  "DecryptString a ciphertext aad =
     (case Decrypt a ciphertext aad of Inl e \<Rightarrow> Inl e | Inr pt \<Rightarrow> Inr (string_of pt))"

subsection \<open>The contract of an encrypted column\<close>

text \<open>
  The services store encrypted columns: what a column's reader gets back is what its writer
  put in, and an absent value (\<open>NULL\<close>, read as an empty slice) never decrypts.
\<close>

locale column_cipher =
  fixes good :: "'k \<Rightarrow> bool"
    and enc :: "'k \<Rightarrow> (nat \<Rightarrow> bytes res) \<Rightarrow> string \<Rightarrow> bytes \<Rightarrow> bytes res"
    and dec :: "'k \<Rightarrow> bytes \<Rightarrow> bytes \<Rightarrow> string res"
  assumes dec_enc: "good k \<Longrightarrow> rand_ok rand \<Longrightarrow> enc k rand s aad = Inr c \<Longrightarrow> dec k c aad = Inr s"
    and dec_empty: "good k \<Longrightarrow> dec k [] aad = Inl ErrCiphertextTooShort"
begin

text \<open>Two columns of a row, each under its own associated data.\<close>

lemma two_columns:
  assumes "good k" and "rand_ok r1" and "rand_ok r2"
    and "enc k r1 s1 aad1 = Inr c1" and "enc k r2 s2 aad2 = Inr c2"
  shows "dec k c1 aad1 = Inr s1 \<and> dec k c2 aad2 = Inr s2"
  using assms dec_enc by blast

lemma enc_nonempty:
  assumes "good k" and "rand_ok rand" and "enc k rand s aad = Inr c"
  shows "c \<noteq> []"
  using dec_enc [OF assms] dec_empty [OF assms(1), of aad] by auto

lemma null_column: "good k \<Longrightarrow> dec k (case None of None \<Rightarrow> [] | Some b \<Rightarrow> b) aad = Inl ErrCiphertextTooShort"
  by (simp add: dec_empty)

end

lemma Decrypt_Encrypt:
  "aead_ok g \<Longrightarrow> rand_ok rand \<Longrightarrow> Encrypt g rand pt aad = Inr c \<Longrightarrow> Decrypt g c aad = Inr pt"
  by (auto simp: Encrypt_def Decrypt_def aead_ok_def rand_ok_def Let_def split: sum.splits)

interpretation cx: column_cipher aead_ok EncryptString DecryptString
proof
  fix k rand s aad c
  assume "aead_ok k" "rand_ok rand" "EncryptString k rand s aad = Inr c"
  then show "DecryptString k c aad = Inr s"
    using Decrypt_Encrypt by (simp add: EncryptString_def DecryptString_def)
next
  fix k aad
  assume "aead_ok k"
  then show "DecryptString k [] aad = Inl ErrCiphertextTooShort"
    by (simp add: aead_ok_def DecryptString_def Decrypt_def)
qed

text \<open>
  A cipher for concrete runs: one-byte nonces, and a tag made of the nonce and the associated
  data in front of the plaintext.
\<close>

definition demo_aead :: aead where
  "demo_aead = \<lparr>NonceSize = 1, Seal = (\<lambda>nonce pt aad. aad @ nonce @ pt),
     Open = (\<lambda>nonce ct aad. if take (length aad + 1) ct = aad @ nonce
                            then Inr (drop (length aad + 1) ct)
                            else Inl (OtherErr ''message authentication failed''))\<rparr>"

definition demo_rand :: "nat \<Rightarrow> bytes res" where
  "demo_rand n = Inr (replicate n 7)"

lemma demo_aead_ok: "aead_ok demo_aead"
  by (auto simp: aead_ok_def demo_aead_def length_Suc_conv)

lemma demo_rand_ok: "rand_ok demo_rand"
  by (simp add: rand_ok_def demo_rand_def)

text \<open>
  A value encrypted under a key, with any source of nonces, decrypts under the same
  key and associated data to itself, and its ciphertext starts with the nonce.
\<close>

theorem encrypt_decrypt_roundtrip:
  assumes "aead_ok a" and "rand_ok rand" and "EncryptString a rand s aad = Inr c"
  shows "DecryptString a c aad = Inr s \<and> rand (NonceSize a) = Inr (take (NonceSize a) c)"
proof
  show "DecryptString a c aad = Inr s" by (rule cx.dec_enc [OF assms])
  show "rand (NonceSize a) = Inr (take (NonceSize a) c)"
    using assms(2,3) by (auto simp: EncryptString_def Encrypt_def rand_ok_def split: sum.splits)
qed

theorem encrypt_decrypt_roundtrip_witness:
  "\<exists>c. EncryptString demo_aead demo_rand ''secret'' [1] = Inr c
     \<and> DecryptString demo_aead c [1] = Inr ''secret''"
proof -
  obtain c where c: "EncryptString demo_aead demo_rand ''secret'' [1] = Inr c"
    by (simp add: EncryptString_def Encrypt_def demo_rand_def)
  with encrypt_decrypt_roundtrip [OF demo_aead_ok demo_rand_ok c] show ?thesis by blast
qed

text \<open>A ciphertext shorter than the nonce is refused before the cipher is called, and a key
  that is not 32 bytes long is refused before one is made.\<close>

lemma Decrypt_short: "length c < NonceSize a \<Longrightarrow> Decrypt a c aad = Inl ErrCiphertextTooShort"
  by (simp add: Decrypt_def)

lemma NewAESGCM_length: "NewAESGCM nc ng key = Inr g \<Longrightarrow> length key = 32"
  by (auto simp: NewAESGCM_def split: if_splits)

text \<open>A key of 32 zero bytes.\<close>

definition demo_key :: string where
  "demo_key = replicate 43 (CHR ''A'') @ ''=''"

lemma demo_key_ok: "NewAESGCMFromBase64 (\<lambda>k. Inr k) (\<lambda>_. Inr demo_aead) demo_key = Inr demo_aead"
  "demo_key \<noteq> []" "\<not> HasPrefix demo_key ''REPLACE_''"
proof -
  have "base64_decode demo_key = Inr (replicate 32 0)" by code_simp
  then show "NewAESGCMFromBase64 (\<lambda>k. Inr k) (\<lambda>_. Inr demo_aead) demo_key = Inr demo_aead"
    by (simp add: NewAESGCMFromBase64_def NewAESGCM_def)
  show "demo_key \<noteq> []" by (simp add: demo_key_def)
  show "\<not> HasPrefix demo_key ''REPLACE_''" by (simp add: demo_key_def HasPrefix_def numeral_eq_Suc)
qed

end
