(* ===== verification/GoTime.thy ===== *)
theory GoTime
  imports GoStd
begin

text \<open>
  \<open>t.UTC().Format(time.RFC3339)\<close> of Go's \<open>time\<close> package: the proleptic Gregorian date of a number
  of nanoseconds since the epoch, in UTC, to the second.
\<close>

text \<open>
  Year, month and day of a day number counted from 1970-01-01, by eras of 400 years that
  start on the first of March.
\<close>

definition civil_from_days :: "int \<Rightarrow> int \<times> int \<times> int" where
  "civil_from_days z0 =
     (let z = z0 + 719468;
          era = z div 146097;
          doe = z - era * 146097;
          yoe = (doe - doe div 1460 + doe div 36524 - doe div 146096) div 365;
          y = yoe + era * 400;
          doy = doe - (365 * yoe + yoe div 4 - yoe div 100);
          mp = (5 * doy + 2) div 153;
          d = doy - (153 * mp + 2) div 5 + 1;
          m = (if mp < 10 then mp + 3 else mp - 9)
      in (if m \<le> 2 then y + 1 else y, m, d))"

definition pad2 :: "int \<Rightarrow> string" where
  "pad2 n = (let s = FormatInt n in replicate (2 - length s) (CHR ''0'') @ s)"

definition pad4 :: "int \<Rightarrow> string" where
  "pad4 n = (let s = FormatInt n in replicate (4 - length s) (CHR ''0'') @ s)"

definition FormatRFC3339 :: "gotime \<Rightarrow> string" where
  "FormatRFC3339 t =
     (let secs = t div 1000000000;
          days = secs div 86400;
          sod = secs mod 86400;
          (y, m, d) = civil_from_days days
      in pad4 y @ ''-'' @ pad2 m @ ''-'' @ pad2 d @ ''T''
         @ pad2 (sod div 3600) @ '':'' @ pad2 (sod div 60 mod 60) @ '':'' @ pad2 (sod mod 60) @ ''Z'')"

subsection \<open>Parsing\<close>

text \<open>
  \<open>time.Parse(time.RFC3339, s)\<close>.  Two digits are required but for the hour, which may have one; a
  fraction of a second may follow the seconds although the layout has none, of which nine
  digits count; the zone is \<open>Z\<close> or an offset.
\<close>

definition days_from_civil :: "int \<Rightarrow> int \<Rightarrow> int \<Rightarrow> int" where
  "days_from_civil y m d =
     (let y' = (if m \<le> 2 then y - 1 else y);
          era = y' div 400;
          yoe = y' - era * 400;
          mp = (if m > 2 then m - 3 else m + 9);
          doy = (153 * mp + 2) div 5 + d - 1;
          doe = yoe * 365 + yoe div 4 - yoe div 100 + doy
      in era * 146097 + doe - 719468)"

definition days_in :: "int \<Rightarrow> int \<Rightarrow> int" where
  "days_in y m =
     (if m = 2 then (if y mod 4 = 0 \<and> (y mod 100 \<noteq> 0 \<or> y mod 400 = 0) then 29 else 28)
      else if m \<in> {4, 6, 9, 11} then 30 else 31)"

fun digits_val :: "int \<Rightarrow> string \<Rightarrow> int option" where
  "digits_val n [] = Some n"
| "digits_val n (c # cs) = (if is_digit c then digits_val (10 * n + int (digit_val c)) cs else None)"

text \<open>A number of exactly \<open>k\<close> digits at the front, and the rest.\<close>

definition take_num :: "nat \<Rightarrow> string \<Rightarrow> (int \<times> string) option" where
  "take_num k s =
     (if length s < k then None
      else case digits_val 0 (take k s) of None \<Rightarrow> None | Some n \<Rightarrow> Some (n, drop k s))"

definition take_hour :: "string \<Rightarrow> (int \<times> string) option" where
  "take_hour s = (case take_num 2 s of Some r \<Rightarrow> Some r | None \<Rightarrow> take_num 1 s)"

definition take_char :: "char \<Rightarrow> string \<Rightarrow> string option" where
  "take_char c s = (case s of [] \<Rightarrow> None | x # xs \<Rightarrow> if x = c then Some xs else None)"

definition take_fraction :: "string \<Rightarrow> int \<times> string" where
  "take_fraction s =
     (case s of
        p # d # rest \<Rightarrow>
          if (p = CHR ''.'' \<or> p = CHR '','') \<and> is_digit d
          then let ds = takeWhile is_digit (d # rest);
                   nine = take 9 (ds @ replicate 9 (CHR ''0''))
               in (case digits_val 0 nine of None \<Rightarrow> 0 | Some n \<Rightarrow> n, dropWhile is_digit (d # rest))
          else (0, s)
      | _ \<Rightarrow> (0, s))"

definition take_zone :: "string \<Rightarrow> int option" where
  "take_zone s =
     (case s of
        [] \<Rightarrow> None
      | z # rest \<Rightarrow>
          if z = CHR ''Z'' then (if rest = [] then Some 0 else None)
          else if z = CHR ''+'' \<or> z = CHR ''-''
          then Option.bind (take_num 2 rest) (\<lambda>(h, r). Option.bind (take_char (CHR '':'') r) (\<lambda>r.
               Option.bind (take_num 2 r) (\<lambda>(m, r).
                 if r = [] \<and> h \<le> 24 \<and> m < 60
                 then Some ((if z = CHR ''-'' then - 1 else 1) * (h * 3600 + m * 60)) else None)))
          else None)"

definition ParseRFC3339 :: "string \<Rightarrow> gotime option" where
  "ParseRFC3339 s =
     Option.bind (take_num 4 s) (\<lambda>(y, s). Option.bind (take_char (CHR ''-'') s) (\<lambda>s.
     Option.bind (take_num 2 s) (\<lambda>(m, s). Option.bind (take_char (CHR ''-'') s) (\<lambda>s.
     Option.bind (take_num 2 s) (\<lambda>(d, s). Option.bind (take_char (CHR ''T'') s) (\<lambda>s.
     Option.bind (take_hour s) (\<lambda>(hh, s). Option.bind (take_char (CHR '':'') s) (\<lambda>s.
     Option.bind (take_num 2 s) (\<lambda>(mm, s). Option.bind (take_char (CHR '':'') s) (\<lambda>s.
     Option.bind (take_num 2 s) (\<lambda>(ss, s).
     let (ns, s) = take_fraction s in
     Option.bind (take_zone s) (\<lambda>off.
       if 1 \<le> m \<and> m \<le> 12 \<and> 1 \<le> d \<and> d \<le> days_in y m \<and> hh < 24 \<and> mm < 60 \<and> ss < 60
       then Some (((days_from_civil y m d * 86400 + hh * 3600 + mm * 60 + ss) - off) * 1000000000 + ns)
       else None))))))))))))"

end
