(* ===== verification/Service.thy ===== *)
theory Service
  imports Httpx Db Cryptox GoTime
begin

text \<open>
  What the request handlers of all services share: the environment of a request, pages of
  results, and the messages on the NATS bus.
\<close>

text \<open>
  The environment of one request: the readings of \<open>time.Now()\<close>, the outcomes of \<open>rand.Read\<close> and
  the fate of the repository calls, each numbered in the order the handler makes them.
\<close>

record renv =
  re_clock :: clock
  re_rand :: "nat \<Rightarrow> rand_source"
  re_db :: "nat \<Rightarrow> dbenv"

definition reply_as :: "('a \<Rightarrow> 'b) \<Rightarrow> 'a reply res \<times> 's \<Rightarrow> 'b reply res \<times> 's" where
  "reply_as f x = (map_sum (\<lambda>e. e) (map_reply f) (fst x), snd x)"

lemma snd_reply_as [simp]: "snd (reply_as f x) = snd x"
  by (simp add: reply_as_def)

text \<open>\<open>fiber.Map{"items": ..., "limit": ..., "offset": ...}\<close>\<close>

record 'a page =
  pg_items :: "'a list"
  pg_limit :: int
  pg_offset :: int

abbreviation unauthorized :: "string \<Rightarrow> err" where
  "unauthorized m \<equiv> FiberError 401 m"

abbreviation forbidden :: err where
  "forbidden \<equiv> FiberError 403 ''forbidden''"

text \<open>A nil byte slice is an empty one.\<close>

definition bytes_or_nil :: "bytes option \<Rightarrow> bytes" where
  "bytes_or_nil v = (case v of None \<Rightarrow> [] | Some b \<Rightarrow> b)"

lemma bytes_or_nil_simps [simp]: "bytes_or_nil None = []" "bytes_or_nil (Some b) = b"
  by (simp_all add: bytes_or_nil_def)

subsection \<open>Messages\<close>

text \<open>A message: its subject, and its data, \<open>None\<close> when they are not a JSON object.\<close>

record msg =
  ms_subject :: string
  ms_data :: "json option"

fun jint :: "jval \<Rightarrow> int option" where
  "jint (JInt i) = (if int64_ok i then Some i else None)"
| "jint _ = None"

fun jstr :: "jval \<Rightarrow> string option" where
  "jstr (JStr s) = Some s"
| "jstr _ = None"

fun jtime :: "jval \<Rightarrow> gotime option" where
  "jtime (JTime t) = Some t"
| "jtime _ = None"

text \<open>
  \<open>json.Unmarshal\<close> of one struct field: members match by name, ignoring case; \<open>null\<close> changes
  nothing; the last one counts; a value of another type is an error.
\<close>

fun json_get :: "(jval \<Rightarrow> 'a option) \<Rightarrow> string \<Rightarrow> 'a \<Rightarrow> json \<Rightarrow> 'a option" where
  "json_get conv k v [] = Some v"
| "json_get conv k v ((n, x) # members) =
     (if EqualFold n k \<and> x \<noteq> JNull
      then (case conv x of None \<Rightarrow> None | Some v' \<Rightarrow> json_get conv k v' members)
      else json_get conv k v members)"

text \<open>What decides whether two member names that are given match.\<close>

lemmas json_names = EqualFold_def ToLower_def lower_char_def char_ord_def

text \<open>The zero \<open>time.Time\<close>, 0001-01-01T00:00:00Z.\<close>

definition zero_time :: gotime where
  "zero_time = - 62135596800 * second"

subsection \<open>Sorting\<close>

text \<open>
  \<open>ORDER BY f DESC\<close> and \<open>ASC\<close>; rows with equal keys come in heap order (PostgreSQL leaves their
  order open).
\<close>

definition order_desc :: "('r \<Rightarrow> int) \<Rightarrow> 'r list \<Rightarrow> 'r list" where
  "order_desc f rows = sort_key (\<lambda>r. - f r) rows"

definition order_asc :: "('r \<Rightarrow> int) \<Rightarrow> 'r list \<Rightarrow> 'r list" where
  "order_asc f rows = sort_key f rows"

lemma set_order [simp]: "set (order_desc f rows) = set rows" "set (order_asc f rows) = set rows"
  by (simp_all add: order_desc_def order_asc_def)

lemma sorted_limit_offset:
  "sorted_wrt P rows \<Longrightarrow> sorted_wrt P (limit_offset l off rows)"
  by (simp add: limit_offset_def sorted_wrt_drop sorted_wrt_take)

lemma order_desc_sorted: "sorted_wrt (\<lambda>a b. f b \<le> f a) (order_desc f rows)"
  using sorted_sort_key [of "\<lambda>r. - f r" rows] by (simp add: order_desc_def sorted_map)

lemma order_asc_sorted: "sorted_wrt (\<lambda>a b. f a \<le> f b) (order_asc f rows)"
  using sorted_sort_key [of f rows] by (simp add: order_asc_def sorted_map)

text \<open>A loop that turns rows into answers and stops at the first error.\<close>

fun each_ok :: "('r \<Rightarrow> 'b res) \<Rightarrow> 'r list \<Rightarrow> 'b list res" where
  "each_ok f [] = Inr []"
| "each_ok f (r # rows) =
     (case f r of Inl e \<Rightarrow> Inl e
      | Inr x \<Rightarrow> (case each_ok f rows of Inl e \<Rightarrow> Inl e | Inr xs \<Rightarrow> Inr (x # xs)))"

lemma each_ok_Inr: "each_ok f rows = Inr xs \<longleftrightarrow> list_all2 (\<lambda>r x. f r = Inr x) rows xs"
proof (induction rows arbitrary: xs)
  case Nil
  then show ?case by auto
next
  case (Cons r rows)
  show ?case
    by (cases "f r"; cases "each_ok f rows") (auto simp: list_all2_Cons1 Cons.IH [symmetric])
qed

lemma each_ok_Inl: "isl (each_ok f rows) \<longleftrightarrow> (\<exists>r \<in> set rows. isl (f r))"
  by (induction rows) (auto split: sum.splits)

subsection \<open>Environments for concrete runs\<close>

text \<open>An empty database, an environment in which nothing fails, a request and its caller.\<close>

definition empty_db :: db where
  "empty_db = \<lparr>units = [], employees = [], users = [], user_units = [], refresh_tokens = [], budgets = [],
     spds = [], approvals = [], documents = [], notifications = [], audit_logs = [], seqs = (\<lambda>_. 0), rls_on = True\<rparr>"

definition demo_env :: "nat \<Rightarrow> renv" where
  "demo_env k = \<lparr>re_clock = (\<lambda>_. 100 * second), re_rand = (\<lambda>i n. Inr (replicate n (word_of_nat (k + i)))),
     re_db = (\<lambda>_. calm (100 * second))\<rparr>"

definition demo_request :: "'b \<Rightarrow> 'b request" where
  "demo_request b = \<lparr>rq_authorization = [], rq_params = (\<lambda>_. []), rq_query = (\<lambda>_. []), rq_ip = ''10.0.0.1'',
     rq_user_agent = ''curl'', rq_body = (None, b), rq_body_empty = False\<rparr>"

definition demo_locals :: locals where
  "demo_locals = \<lparr>lo_user_id = Some 7, lo_user_role = Some ''USER'', lo_token_type = Some ''access'',
     lo_token_id = Some ''a''\<rparr>"

lemma demo_env_simps [simp]:
  "re_clock (demo_env k) i = 100 * second" "re_db (demo_env k) i = calm (100 * second)"
  "re_rand (demo_env k) i n = Inr (replicate n (word_of_nat (k + i)))"
  by (simp_all add: demo_env_def)

lemma demo_rand_env: "rand_ok (re_rand (demo_env k) i)"
  by (simp add: rand_ok_def)

end
