(* ===== verification/AuthRepo.thy ===== *)
theory AuthRepo
  imports Db
begin

text \<open>
  \<open>services/auth-service/internal/repo/repo.go\<close>: users and refresh tokens, one statement per
  method, each in its own transaction.
\<close>

record User =
  u_ID :: int
  u_Username :: string
  u_Role :: string
  u_PasswordHash :: string
  u_IsActive :: bool
  u_MFAEnabled :: bool
  u_MFASecretEnc :: bytes

text \<open>The selected columns, with \<open>COALESCE(mfa_secret_enc, ''::bytea)\<close>.\<close>

definition to_User :: "user_row \<Rightarrow> User" where
  "to_User r = \<lparr>u_ID = us_id r, u_Username = us_username r, u_Role = us_role r,
     u_PasswordHash = us_password_hash r, u_IsActive = us_is_active r, u_MFAEnabled = us_mfa_enabled r,
     u_MFASecretEnc = (case us_mfa_secret_enc r of None \<Rightarrow> [] | Some b \<Rightarrow> b)\<rparr>"

definition select_user :: "(user_row \<Rightarrow> bool) \<Rightarrow> tx \<Rightarrow> User res" where
  "select_user p t =
     (case query_row (filter (\<lambda>r. p r \<and> us_deleted_at r = None) (users (tx_db t))) of
        Inl x \<Rightarrow> Inl x
      | Inr r \<Rightarrow> Inr (to_User r))"

definition GetUserByUsername :: "dbenv \<Rightarrow> string \<Rightarrow> db \<Rightarrow> User res \<times> db" where
  "GetUserByUsername e username =
     autocommit e (reading (select_user (\<lambda>r. us_username r = username)))"

definition GetUserByID :: "dbenv \<Rightarrow> int \<Rightarrow> db \<Rightarrow> User res \<times> db" where
  "GetUserByID e uid = autocommit e (reading (select_user (\<lambda>r. us_id r = uid)))"

record RefreshToken =
  rf_ID :: string
  rf_UserID :: int
  rf_ExpiresAt :: gotime
  rf_RevokedAt :: "gotime option"
  rf_ReplacedBy :: "string option"

definition to_RefreshToken :: "refresh_row \<Rightarrow> RefreshToken" where
  "to_RefreshToken r = \<lparr>rf_ID = rt_id r, rf_UserID = rt_user_id r, rf_ExpiresAt = rt_expires_at r,
     rf_RevokedAt = rt_revoked_at r, rf_ReplacedBy = rt_replaced_by r\<rparr>"

text \<open>The primary key and the foreign key of \<open>refresh_tokens\<close> refuse the insert.\<close>

definition InsertRefreshToken :: "dbenv \<Rightarrow> string \<Rightarrow> int \<Rightarrow> gotime \<Rightarrow> db \<Rightarrow> unit res \<times> db" where
  "InsertRefreshToken e tid userID expiresAt =
     autocommit e (\<lambda>t.
       let d = tx_db t in
       if tid \<in> rt_id ` set (refresh_tokens d)
       then (Inl (OtherErr ''duplicate key value violates unique constraint''), t)
       else if userID \<notin> us_id ` set (users d)
       then (Inl (OtherErr ''insert violates foreign key constraint''), t)
       else (Inr (), t\<lparr>tx_db := d\<lparr>refresh_tokens := refresh_tokens d @
              [\<lparr>rt_id = tid, rt_user_id = userID, rt_expires_at = expiresAt, rt_revoked_at = None,
                rt_replaced_by = None, rt_created_at = db_now e\<rparr>]\<rparr>\<rparr>))"

definition GetRefreshToken :: "dbenv \<Rightarrow> string \<Rightarrow> db \<Rightarrow> RefreshToken res \<times> db" where
  "GetRefreshToken e tid =
     autocommit e (reading (\<lambda>t.
       case query_row (filter (\<lambda>r. rt_id r = tid) (refresh_tokens (tx_db t))) of
         Inl x \<Rightarrow> Inl x
       | Inr r \<Rightarrow> Inr (to_RefreshToken r)))"

definition revoke_row :: "gotime \<Rightarrow> string option \<Rightarrow> refresh_row \<Rightarrow> refresh_row" where
  "revoke_row now replacedBy r = r\<lparr>rt_revoked_at := Some now, rt_replaced_by := replacedBy\<rparr>"

definition RevokeRefreshToken :: "dbenv \<Rightarrow> string \<Rightarrow> string option \<Rightarrow> db \<Rightarrow> unit res \<times> db" where
  "RevokeRefreshToken e tid replacedBy =
     autocommit e (\<lambda>t. (Inr (), t\<lparr>tx_db := (tx_db t)\<lparr>refresh_tokens :=
       update_where (\<lambda>r. rt_id r = tid \<and> rt_revoked_at r = None) (revoke_row (db_now e) replacedBy)
         (refresh_tokens (tx_db t))\<rparr>\<rparr>))"

text \<open>\<open>UPDATE users ... WHERE id = $1 AND deleted_at IS NULL\<close>, with the \<open>updated_at\<close> trigger.\<close>

definition update_user :: "dbenv \<Rightarrow> int \<Rightarrow> (user_row \<Rightarrow> user_row) \<Rightarrow> db \<Rightarrow> unit res \<times> db" where
  "update_user e userID f =
     autocommit e (\<lambda>t. (Inr (), t\<lparr>tx_db := (tx_db t)\<lparr>users :=
       update_where (\<lambda>r. us_id r = userID \<and> us_deleted_at r = None)
         (\<lambda>r. (f r)\<lparr>us_updated_at := db_now e\<rparr>) (users (tx_db t))\<rparr>\<rparr>))"

definition SetMFASecret :: "dbenv \<Rightarrow> int \<Rightarrow> bytes \<Rightarrow> db \<Rightarrow> unit res \<times> db" where
  "SetMFASecret e userID secretEnc =
     update_user e userID (\<lambda>r. r\<lparr>us_mfa_secret_enc := Some secretEnc\<rparr>)"

definition EnableMFA :: "dbenv \<Rightarrow> int \<Rightarrow> db \<Rightarrow> unit res \<times> db" where
  "EnableMFA e userID =
     update_user e userID (\<lambda>r. r\<lparr>us_mfa_enabled := True, us_mfa_enrolled_at := Some (db_now e)\<rparr>)"

definition DisableMFA :: "dbenv \<Rightarrow> int \<Rightarrow> db \<Rightarrow> unit res \<times> db" where
  "DisableMFA e userID =
     update_user e userID (\<lambda>r. r\<lparr>us_mfa_enabled := False, us_mfa_secret_enc := None,
       us_mfa_enrolled_at := None\<rparr>)"

definition IsNoRows :: "err \<Rightarrow> bool" where
  "IsNoRows x \<longleftrightarrow> x = ErrNoRows"

subsection \<open>Reads\<close>

lemma GetUserByUsername_db: "GetUserByUsername e n d = (r, d') \<Longrightarrow> d' = d"
  unfolding GetUserByUsername_def by (rule autocommit_reading)

lemma GetUserByID_db: "GetUserByID e i d = (r, d') \<Longrightarrow> d' = d"
  unfolding GetUserByID_def by (rule autocommit_reading)

lemma GetRefreshToken_db: "GetRefreshToken e i d = (r, d') \<Longrightarrow> d' = d"
  unfolding GetRefreshToken_def by (rule autocommit_reading)

lemma select_user_Inr:
  "select_user p t = Inr u \<Longrightarrow> \<exists>r \<in> set (users (tx_db t)). p r \<and> us_deleted_at r = None \<and> u = to_User r"
  by (auto simp: select_user_def split: sum.splits dest!: query_row_filter [rotated, THEN conjunct1]
      intro: query_row_filter) (metis (mono_tags, lifting) filter_eq_ConsD in_set_conv_decomp)

end
