(* ===== verification/Ldap.thy ===== *)
theory Ldap
  imports Mfax
begin

text \<open>
  \<open>services/auth-service/internal/ldap/ldap.go\<close>: checking a password against a directory.  The
  protocol library is an argument (\<open>ldap_lib\<close>) on an abstract connection state; the order of its
  calls, the early returns and what counts as a failed password are the code's.
\<close>

record ldap_config =
  lc_Mode :: string
  lc_URL :: string
  lc_BaseDN :: string
  lc_BindDN :: string
  lc_BindPassword :: string
  lc_UserFilter :: string
  lc_StartTLS :: bool
  lc_InsecureSkipVerify :: bool
  lc_Timeout :: duration

text \<open>A library error carries the result code of the protocol.\<close>

datatype ldap_error = LdapError nat string

fun to_err :: "ldap_error \<Rightarrow> err" where
  "to_err (LdapError code m) = OtherErr m"

record ldap_search =
  sr_BaseDN :: string
  sr_SizeLimit :: int
  sr_TimeLimit :: int
  sr_Filter :: string

record 'c ldap_lib =
  ll_DialURL :: "string \<Rightarrow> duration \<Rightarrow> ldap_error + 'c"
  ll_StartTLS :: "bool \<Rightarrow> 'c \<Rightarrow> ldap_error + 'c"
  ll_Bind :: "string \<Rightarrow> string \<Rightarrow> 'c \<Rightarrow> ldap_error + 'c"
  ll_Search :: "ldap_search \<Rightarrow> 'c \<Rightarrow> ldap_error + string list \<times> 'c"
  ll_EscapeFilter :: "string \<Rightarrow> string"
  ll_ctx_err :: "err option"

definition LDAPResultInvalidCredentials :: nat where
  "LDAPResultInvalidCredentials = 49"

fun IsErrorWithCode :: "ldap_error \<Rightarrow> nat \<Rightarrow> bool" where
  "IsErrorWithCode (LdapError code m) c = (code = c)"

text \<open>\<open>strings.ReplaceAll\<close>, for a pattern that is not empty.\<close>

function ReplaceAll :: "string \<Rightarrow> string \<Rightarrow> string \<Rightarrow> string" where
  "ReplaceAll s old new =
     (if s = [] then []
      else if old \<noteq> [] \<and> HasPrefix s old then new @ ReplaceAll (drop (length old) s) old new
      else hd s # ReplaceAll (tl s) old new)"
  by pat_completeness auto
termination by (relation "measure (\<lambda>(s, old, new). length s)") auto

declare ReplaceAll.simps [simp del]

definition New :: "ldap_config \<Rightarrow> ldap_config" where
  "New cfg =
     (let mode = ToLower (TrimSpace (lc_Mode cfg));
          mode = (if mode = [] then ''disabled'' else mode)
      in cfg\<lparr>lc_Mode := mode\<rparr>)"

text \<open>The receiver of the methods is a pointer that may be nil.\<close>

definition Enabled :: "ldap_config option \<Rightarrow> bool" where
  "Enabled c = (case c of None \<Rightarrow> False
     | Some cfg \<Rightarrow> lc_Mode cfg \<noteq> ''disabled'' \<and> lc_URL cfg \<noteq> [] \<and> lc_BaseDN cfg \<noteq> [])"

definition Mode :: "ldap_config option \<Rightarrow> string" where
  "Mode c = (case c of None \<Rightarrow> ''disabled'' | Some cfg \<Rightarrow> lc_Mode cfg)"

definition Timeout :: "ldap_config option \<Rightarrow> duration" where
  "Timeout c = (case c of None \<Rightarrow> 5 * second
     | Some cfg \<Rightarrow> if lc_Timeout cfg \<le> 0 then 5 * second else lc_Timeout cfg)"

text \<open>\<open>Authenticate\<close> in its steps: a connection, the service bind, the user's entry, the user's bind.\<close>

definition ldap_connect :: "'c ldap_lib \<Rightarrow> ldap_config \<Rightarrow> 'c res" where
  "ldap_connect lib cfg =
     (case ll_DialURL lib (lc_URL cfg) (lc_Timeout cfg) of
        Inl e \<Rightarrow> Inl (to_err e)
      | Inr conn \<Rightarrow>
          if lc_StartTLS cfg
          then (case ll_StartTLS lib (lc_InsecureSkipVerify cfg) conn of
                  Inl e \<Rightarrow> Inl (to_err e) | Inr conn \<Rightarrow> Inr conn)
          else Inr conn)"

definition service_bind :: "'c ldap_lib \<Rightarrow> ldap_config \<Rightarrow> 'c \<Rightarrow> 'c res" where
  "service_bind lib cfg conn =
     (if lc_BindDN cfg \<noteq> []
      then (case ll_Bind lib (lc_BindDN cfg) (lc_BindPassword cfg) conn of
              Inl e \<Rightarrow> Inl (to_err e) | Inr conn \<Rightarrow> Inr conn)
      else Inr conn)"

definition user_search :: "'c ldap_lib \<Rightarrow> ldap_config \<Rightarrow> string \<Rightarrow> ldap_search" where
  "user_search lib cfg username =
     \<lparr>sr_BaseDN = lc_BaseDN cfg, sr_SizeLimit = 1, sr_TimeLimit = trunc_div (lc_Timeout cfg) second,
      sr_Filter = ReplaceAll (lc_UserFilter cfg) ''{username}'' (ll_EscapeFilter lib username)\<rparr>"

definition user_bind :: "'c ldap_lib \<Rightarrow> string \<Rightarrow> string \<Rightarrow> 'c \<Rightarrow> bool res" where
  "user_bind lib userDN password conn =
     (case ll_Bind lib userDN password conn of
        Inl e \<Rightarrow> if IsErrorWithCode e LDAPResultInvalidCredentials then Inr False else Inl (to_err e)
      | Inr conn \<Rightarrow> (case ll_ctx_err lib of Some e \<Rightarrow> Inl e | None \<Rightarrow> Inr True))"

definition Authenticate :: "'c ldap_lib \<Rightarrow> ldap_config option \<Rightarrow> string \<Rightarrow> string \<Rightarrow> bool res" where
  "Authenticate lib c username password =
     (case c of
        None \<Rightarrow> Inr False
      | Some cfg \<Rightarrow>
          if \<not> Enabled c then Inr False
          else let username = TrimSpace username in
            if username = [] \<or> password = [] then Inr False
            else (case ldap_connect lib cfg of
                Inl e \<Rightarrow> Inl e
              | Inr conn \<Rightarrow>
                  (case service_bind lib cfg conn of
                     Inl e \<Rightarrow> Inl e
                   | Inr conn \<Rightarrow>
                       (case ll_Search lib (user_search lib cfg username) conn of
                          Inl e \<Rightarrow> Inl (to_err e)
                        | Inr ([], conn) \<Rightarrow> Inr False
                        | Inr (userDN # rest, conn) \<Rightarrow>
                            if userDN = [] then Inl (OtherErr ''ldap: empty user dn'')
                            else user_bind lib userDN password conn))))"

subsection \<open>The filter\<close>

lemma ReplaceAll_Nil [simp]: "ReplaceAll [] old new = []"
  by (simp add: ReplaceAll.simps)

lemma ReplaceAll_none:
  "(\<And>u v. s \<noteq> u @ old @ v) \<Longrightarrow> ReplaceAll s old new = s"
proof (induction s)
  case Nil
  then show ?case by simp
next
  case (Cons c s)
  have "s \<noteq> u @ old @ v" for u v using Cons.prems [of "c # u" v] by simp
  moreover have "\<not> HasPrefix (c # s) old"
    using Cons.prems [of "[]" "drop (length old) (c # s)"]
    by (metis HasPrefix_def append_Nil append_take_drop_id)
  ultimately show ?case using Cons.IH by (subst ReplaceAll.simps) simp
qed

lemma ReplaceAll_once:
  assumes "old \<noteq> []" and "\<And>u v. u @ old @ v = pre @ old @ post \<Longrightarrow> u = pre"
  shows "ReplaceAll (pre @ old @ post) old new = pre @ new @ post"
  using assms(2)
proof (induction pre)
  case Nil
  have "ReplaceAll post old new = post"
  proof (rule ReplaceAll_none)
    fix u v
    show "post \<noteq> u @ old @ v" using Nil [of "old @ u" v] assms(1) by auto
  qed
  then show ?case using assms(1) by (subst ReplaceAll.simps) (simp add: HasPrefix_def)
next
  case (Cons c pre)
  have "ReplaceAll (pre @ old @ post) old new = pre @ new @ post"
  proof (rule Cons.IH)
    fix u v
    assume "u @ old @ v = pre @ old @ post"
    then show "u = pre" using Cons.prems [of "c # u" v] by simp
  qed
  moreover have "\<not> HasPrefix (c # pre @ old @ post) old"
  proof
    assume "HasPrefix (c # pre @ old @ post) old"
    then have "[] @ old @ drop (length old) (c # pre @ old @ post) = c # pre @ old @ post"
      by (metis HasPrefix_def append_Nil append_take_drop_id)
    with Cons.prems [of "[]"] show False by auto
  qed
  ultimately show ?case by (subst ReplaceAll.simps) simp
qed

subsection \<open>What a success means\<close>

text \<open>
  A positive answer rests on a bind that the directory accepted, as an entry the search
  returned first, with the very password of the request.
\<close>

definition directory_accepts :: "'c ldap_lib \<Rightarrow> ldap_config \<Rightarrow> string \<Rightarrow> string \<Rightarrow> bool" where
  "directory_accepts lib cfg username password \<longleftrightarrow>
     (\<exists>conn conn' userDN rest.
        ll_Search lib (user_search lib cfg (TrimSpace username)) conn = Inr (userDN # rest, conn')
        \<and> userDN \<noteq> [] \<and> \<not> isl (ll_Bind lib userDN password conn'))"

text \<open>
  LDAP answers a bind with an empty password by success (an unauthenticated bind): the
  guard in front of the connection keeps such a request from counting as a login.
\<close>

lemma Authenticate_True:
  assumes "Authenticate lib c username password = Inr True"
  shows "\<exists>cfg. c = Some cfg \<and> Enabled c \<and> password \<noteq> [] \<and> TrimSpace username \<noteq> []
           \<and> directory_accepts lib cfg username password \<and> ll_ctx_err lib = None"
proof -
  obtain cfg where c: "c = Some cfg" and en: "Enabled c" and ne: "TrimSpace username \<noteq> []" "password \<noteq> []"
    using assms by (auto simp: Authenticate_def Let_def split: option.splits if_splits)
  with assms obtain conn conn' userDN rest where
    s: "ll_Search lib (user_search lib cfg (TrimSpace username)) conn = Inr (userDN # rest, conn')"
    "userDN \<noteq> []" and b: "user_bind lib userDN password conn' = Inr True"
    by (auto simp: Authenticate_def Let_def split: sum.splits list.splits if_splits)
  from b have "\<not> isl (ll_Bind lib userDN password conn')" "ll_ctx_err lib = None"
    by (auto simp: user_bind_def split: sum.splits option.splits if_splits)
  with c en ne s show ?thesis by (auto simp: directory_accepts_def)
qed

text \<open>
  C22. \<open>Authenticate\<close> says yes only if directory login is configured, user name and password
  are not empty, and the directory accepted a bind with that password as the first entry its
  search returned; a bind refused for invalid credentials is a no, not an error.
\<close>

theorem Authenticate_sound:
  assumes "Authenticate lib c username password = Inr True"
  shows "\<exists>cfg. c = Some cfg \<and> Enabled c \<and> password \<noteq> [] \<and> TrimSpace username \<noteq> []
           \<and> directory_accepts lib cfg username password \<and> ll_ctx_err lib = None"
  using assms by (rule Authenticate_True)

text \<open>A directory for concrete runs: one entry, one password; the connection is a unit.\<close>

definition demo_ldap :: "unit ldap_lib" where
  "demo_ldap = \<lparr>ll_DialURL = (\<lambda>u t. Inr ()), ll_StartTLS = (\<lambda>s c. Inr c),
     ll_Bind = (\<lambda>dn pw c. if pw = [] \<or> (dn = ''uid=budi'' \<and> pw = ''rahasia'') then Inr ()
        else Inl (LdapError 49 ''Invalid Credentials'')),
     ll_Search = (\<lambda>r c. if sr_Filter r = ''(uid=budi)'' then Inr ([''uid=budi''], c) else Inr ([], c)),
     ll_EscapeFilter = (\<lambda>s. s), ll_ctx_err = None\<rparr>"

definition demo_ldap_config :: ldap_config where
  "demo_ldap_config = \<lparr>lc_Mode = ''required'', lc_URL = ''ldap://dir'', lc_BaseDN = ''dc=esppd'',
     lc_BindDN = [], lc_BindPassword = [], lc_UserFilter = ''(uid={username})'', lc_StartTLS = False,
     lc_InsecureSkipVerify = False, lc_Timeout = 5 * second\<rparr>"

lemma demo_ldap_yes: "Authenticate demo_ldap (Some demo_ldap_config) ''budi'' ''rahasia'' = Inr True"
  by code_simp

theorem Authenticate_sound_witness:
  "directory_accepts demo_ldap demo_ldap_config ''budi'' ''rahasia''
     \<and> Authenticate demo_ldap (Some demo_ldap_config) ''budi'' [] = Inr False"
  using Authenticate_sound [OF demo_ldap_yes] by (auto simp: Authenticate_def Let_def split: option.splits)

end
