(* ===== verification/Auth.thy ===== *)
theory Auth
  imports Service AuthRepo Ldap
begin

text \<open>
  \<open>services/auth-service/internal/http/handler.go\<close>: login, token refresh, logout and the
  enrolment of one-time passwords.  A handler takes the handler's fields, the environment of the
  request, the request, and the database, and returns its
  reply or error and the new database.  \<open>bcrypt.CompareHashAndPassword\<close> is an argument.
\<close>

record 'c auth_handler =
  h_signer :: signer
  h_verifier :: verifier
  h_aesgcm :: aead
  h_ldap :: "ldap_config option"
  h_ldap_lib :: "'c ldap_lib"
  h_bcrypt :: "string \<Rightarrow> string \<Rightarrow> err option"
  h_mfaIssuer :: string
  h_accessTTL :: duration
  h_refreshTTL :: duration

definition NewHandler ::
  "signer \<Rightarrow> verifier \<Rightarrow> aead \<Rightarrow> ldap_config option \<Rightarrow> 'c ldap_lib \<Rightarrow> (string \<Rightarrow> string \<Rightarrow> err option)
     \<Rightarrow> string \<Rightarrow> duration \<Rightarrow> duration \<Rightarrow> 'c auth_handler" where
  "NewHandler sg vf aes ldap lib bc mfaIssuer accessTTL refreshTTL =
     (let mfaIssuer = (if mfaIssuer = [] then ''esppd'' else mfaIssuer)
      in \<lparr>h_signer = sg, h_verifier = vf, h_aesgcm = aes, h_ldap = ldap, h_ldap_lib = lib, h_bcrypt = bc,
          h_mfaIssuer = mfaIssuer, h_accessTTL = accessTTL, h_refreshTTL = refreshTTL\<rparr>)"

record loginRequest =
  lr_Username :: string
  lr_Password :: string
  lr_OTP :: string

record tokenResponse =
  tr_AccessToken :: string
  tr_RefreshToken :: string
  tr_TokenType :: string
  tr_ExpiresIn :: int

definition mfa_aad :: bytes where
  "mfa_aad = bytes_of ''users:mfa_secret''"

definition newTokenID :: "rand_source \<Rightarrow> nat \<Rightarrow> string res" where
  "newTokenID rand bytesLen = (case rand bytesLen of Inl e \<Rightarrow> Inl e | Inr b \<Rightarrow> Inr (hex_encode b))"

text \<open>The access and the refresh token of a session, and the id of the latter.\<close>

definition issue_pair ::
  "'c auth_handler \<Rightarrow> renv \<Rightarrow> nat \<Rightarrow> int \<Rightarrow> string \<Rightarrow> (string \<times> string \<times> string) res" where
  "issue_pair h env ck uid role =
     (case newTokenID (re_rand env 0) 16 of
        Inl e \<Rightarrow> Inl e
      | Inr accessJTI \<Rightarrow>
          (case newTokenID (re_rand env 1) 32 of
             Inl e \<Rightarrow> Inl e
           | Inr refreshJTI \<Rightarrow>
               (case NewAccessToken (h_signer h) (\<lambda>_. re_clock env ck) uid role accessJTI of
                  Inl e \<Rightarrow> Inl e
                | Inr access \<Rightarrow>
                    (case NewRefreshToken (h_signer h) (\<lambda>_. re_clock env (ck + 1)) uid refreshJTI of
                       Inl e \<Rightarrow> Inl e
                     | Inr refresh \<Rightarrow> Inr (access, refresh, refreshJTI)))))"

definition token_response :: "'c auth_handler \<Rightarrow> string \<Rightarrow> string \<Rightarrow> tokenResponse" where
  "token_response h access refresh =
     \<lparr>tr_AccessToken = access, tr_RefreshToken = refresh, tr_TokenType = ''Bearer'',
      tr_ExpiresIn = trunc_div (h_accessTTL h) second\<rparr>"

subsection \<open>Login\<close>

text \<open>The directory: \<open>authed\<close>, or the refusal of the mode \<open>required\<close>.\<close>

definition login_ldap :: "'c auth_handler \<Rightarrow> loginRequest \<Rightarrow> bool res" where
  "login_ldap h req =
     (let m = Mode (h_ldap h) in
      if h_ldap h \<noteq> None \<and> Enabled (h_ldap h) \<and> (m = ''prefer'' \<or> m = ''required'')
      then (case Authenticate (h_ldap_lib h) (h_ldap h) (lr_Username req) (lr_Password req) of
              Inl e \<Rightarrow> if m = ''required'' then Inl (unauthorized ''invalid credentials'') else Inr False
            | Inr ok \<Rightarrow>
                if ok then Inr True
                else if m = ''required'' then Inl (unauthorized ''invalid credentials'')
                else Inr False)
      else Inr False)"

definition login_password :: "'c auth_handler \<Rightarrow> User \<Rightarrow> loginRequest \<Rightarrow> bool \<Rightarrow> unit res" where
  "login_password h user req authed =
     (if \<not> authed
      then (case h_bcrypt h (u_PasswordHash user) (lr_Password req) of
              Some e \<Rightarrow> Inl (unauthorized ''invalid credentials'')
            | None \<Rightarrow> Inr ())
      else Inr ())"

definition verify_code :: "string \<Rightarrow> string \<Rightarrow> gotime \<Rightarrow> string \<Rightarrow> unit res" where
  "verify_code secret code now refusal =
     (case VerifyTOTP secret code now 6 (30 * second) 1 of
        Inl e \<Rightarrow> Inl e
      | Inr ok \<Rightarrow> if \<not> ok then Inl (unauthorized refusal) else Inr ())"

definition login_mfa :: "'c auth_handler \<Rightarrow> gotime \<Rightarrow> User \<Rightarrow> loginRequest \<Rightarrow> unit res" where
  "login_mfa h now user req =
     (if u_MFAEnabled user
      then if length (u_MFASecretEnc user) = 0 then Inl (unauthorized ''invalid credentials'')
        else (case DecryptString (h_aesgcm h) (u_MFASecretEnc user) mfa_aad of
            Inl e \<Rightarrow> Inl e
          | Inr secret \<Rightarrow>
              if lr_OTP req = [] then Inl (unauthorized ''mfa_required'')
              else verify_code secret (lr_OTP req) now ''invalid credentials'')
      else Inr ())"

text \<open>
  Clock readings: 0 for the one-time password, 1 and 2 for the tokens, 3 for the expiry of the
  refresh token; database calls: 0 the user, 1 the insert.
\<close>

definition login_issue :: "'c auth_handler \<Rightarrow> renv \<Rightarrow> User \<Rightarrow> db \<Rightarrow> tokenResponse reply res \<times> db" where
  "login_issue h env user d =
     (case issue_pair h env 1 (u_ID user) (u_Role user) of
        Inl e \<Rightarrow> (Inl e, d)
      | Inr (access, refresh, refreshJTI) \<Rightarrow>
          (case InsertRefreshToken (re_db env 1) refreshJTI (u_ID user) (re_clock env 3 + h_refreshTTL h) d of
             (Inl e, d) \<Rightarrow> (Inl e, d)
           | (Inr _, d) \<Rightarrow> (Inr (JSON 200 (token_response h access refresh)), d)))"

definition login_check :: "'c auth_handler \<Rightarrow> gotime \<Rightarrow> User \<Rightarrow> loginRequest \<Rightarrow> unit res" where
  "login_check h now user req =
     (if \<not> u_IsActive user then Inl (unauthorized ''invalid credentials'')
      else case login_ldap h req of
             Inl e \<Rightarrow> Inl e
           | Inr authed \<Rightarrow>
               (case login_password h user req authed of
                  Inl e \<Rightarrow> Inl e
                | Inr _ \<Rightarrow> login_mfa h now user req))"

definition Login :: "'c auth_handler \<Rightarrow> renv \<Rightarrow> loginRequest request \<Rightarrow> db \<Rightarrow> tokenResponse reply res \<times> db" where
  "Login h env c d =
     (case rq_body c of
        (Some e, _) \<Rightarrow> (Inl (FiberError 400 ''invalid json''), d)
      | (None, req) \<Rightarrow>
          if lr_Username req = [] \<or> lr_Password req = []
          then (Inl (FiberError 400 ''username/password required''), d)
          else (case GetUserByUsername (re_db env 0) (lr_Username req) d of
              (Inl e, d) \<Rightarrow> (Inl (if IsNoRows e then unauthorized ''invalid credentials'' else e), d)
            | (Inr user, d) \<Rightarrow>
                (case login_check h (re_clock env 0) user req of
                   Inl e \<Rightarrow> (Inl e, d)
                 | Inr _ \<Rightarrow> login_issue h env user d)))"

subsection \<open>Refresh\<close>

record refreshRequest =
  rr_RefreshToken :: string

text \<open>
  Everything before the rotation only reads.  Clock readings 0 to 2 validate the token, 3 checks
  the stored expiry; database calls: 0 the token, 1 the user.
\<close>

definition refresh_check ::
  "'c auth_handler \<Rightarrow> renv \<Rightarrow> refreshRequest request \<Rightarrow> db \<Rightarrow> (RefreshToken \<times> User) res \<times> db" where
  "refresh_check h env c d =
     (case rq_body c of
        (Some e, _) \<Rightarrow> (Inl (FiberError 400 ''invalid json''), d)
      | (None, req) \<Rightarrow>
          if rr_RefreshToken req = [] then (Inl (FiberError 400 ''refresh_token required''), d)
          else (case ParseAndValidate (h_verifier h) (re_clock env) (rr_RefreshToken req) of
              Inl e \<Rightarrow> (Inl (unauthorized ''invalid refresh token''), d)
            | Inr claims \<Rightarrow>
                if TokenType claims \<noteq> TokenTypeRefresh
                then (Inl (unauthorized ''invalid refresh token''), d)
                else (case GetRefreshToken (re_db env 0) (ID claims) d of
                    (Inl e, d) \<Rightarrow> (Inl (unauthorized ''refresh token revoked''), d)
                  | (Inr r, d) \<Rightarrow>
                      if rf_UserID r \<noteq> UserID claims
                      then (Inl (unauthorized ''refresh token revoked''), d)
                      else if rf_RevokedAt r \<noteq> None \<or> rf_ExpiresAt r < re_clock env 3
                      then (Inl (unauthorized ''refresh token revoked''), d)
                      else (case GetUserByID (re_db env 1) (rf_UserID r) d of
                          (Inl e, d) \<Rightarrow> (Inl (unauthorized ''invalid user''), d)
                        | (Inr user, d) \<Rightarrow>
                            if \<not> u_IsActive user then (Inl (unauthorized ''invalid user''), d)
                            else (Inr (r, user), d)))))"

text \<open>The rotation: two new tokens, then the old one is revoked, then the new one is stored.\<close>

definition refresh_rotate ::
  "'c auth_handler \<Rightarrow> renv \<Rightarrow> RefreshToken \<Rightarrow> User \<Rightarrow> db \<Rightarrow> tokenResponse reply res \<times> db" where
  "refresh_rotate h env r user d =
     (case issue_pair h env 4 (rf_UserID r) (u_Role user) of
        Inl e \<Rightarrow> (Inl e, d)
      | Inr (access, refresh, newRefreshJTI) \<Rightarrow>
          (case RevokeRefreshToken (re_db env 2) (rf_ID r) (Some newRefreshJTI) d of
             (Inl e, d) \<Rightarrow> (Inl e, d)
           | (Inr _, d) \<Rightarrow>
               (case InsertRefreshToken (re_db env 3) newRefreshJTI (rf_UserID r)
                       (re_clock env 6 + h_refreshTTL h) d of
                  (Inl e, d) \<Rightarrow> (Inl e, d)
                | (Inr _, d) \<Rightarrow> (Inr (JSON 200 (token_response h access refresh)), d))))"

definition Refresh :: "'c auth_handler \<Rightarrow> renv \<Rightarrow> refreshRequest request \<Rightarrow> db \<Rightarrow> tokenResponse reply res \<times> db" where
  "Refresh h env c d =
     (case refresh_check h env c d of
        (Inl e, d) \<Rightarrow> (Inl e, d)
      | (Inr (r, user), d) \<Rightarrow> refresh_rotate h env r user d)"

subsection \<open>Logout and Me\<close>

text \<open>The error of \<open>BodyParser\<close> and the outcome of the revocation are ignored.\<close>

definition Logout :: "'c auth_handler \<Rightarrow> renv \<Rightarrow> refreshRequest request \<Rightarrow> locals \<Rightarrow> db \<Rightarrow> unit reply res \<times> db" where
  "Logout h env c lo d =
     (case AuthFromLocals lo of
        None \<Rightarrow> (Inl (unauthorized ''unauthorized''), d)
      | Some a \<Rightarrow>
          let req = snd (rq_body c) in
          if rr_RefreshToken req \<noteq> []
          then (case ParseAndValidate (h_verifier h) (re_clock env) (rr_RefreshToken req) of
                  Inl e \<Rightarrow> (Inr (SendStatus 204), d)
                | Inr claims \<Rightarrow>
                    if UserID claims \<noteq> ai_UserID a then (Inl (FiberError 403 ''forbidden''), d)
                    else (Inr (SendStatus 204), snd (RevokeRefreshToken (re_db env 0) (ID claims) None d)))
          else (Inr (SendStatus 204), d))"

definition Me :: "locals \<Rightarrow> (int \<times> string) reply res" where
  "Me lo =
     (case AuthFromLocals lo of
        None \<Rightarrow> Inl (unauthorized ''unauthorized'')
      | Some a \<Rightarrow> Inr (JSON 200 (ai_UserID a, ai_Role a)))"

subsection \<open>One-time passwords\<close>

record mfaEnrollResponse =
  er_Secret :: string
  er_OTPAuthURL :: string

definition MFAEnroll :: "'c auth_handler \<Rightarrow> renv \<Rightarrow> locals \<Rightarrow> db \<Rightarrow> mfaEnrollResponse reply res \<times> db" where
  "MFAEnroll h env lo d =
     (case AuthFromLocals lo of
        None \<Rightarrow> (Inl (unauthorized ''unauthorized''), d)
      | Some a \<Rightarrow>
          (case GetUserByID (re_db env 0) (ai_UserID a) d of
             (Inl e, d) \<Rightarrow> (Inl (unauthorized ''unauthorized''), d)
           | (Inr user, d) \<Rightarrow>
               if u_MFAEnabled user then (Inl (FiberError 400 ''mfa already enabled''), d)
               else (case GenerateSecretBase32 (re_rand env 0) 20 of
                   Inl e \<Rightarrow> (Inl e, d)
                 | Inr secret \<Rightarrow>
                     (case EncryptString (h_aesgcm h) (re_rand env 1) secret mfa_aad of
                        Inl e \<Rightarrow> (Inl e, d)
                      | Inr secretEnc \<Rightarrow>
                          (case SetMFASecret (re_db env 1) (ai_UserID a) secretEnc d of
                             (Inl e, d) \<Rightarrow> (Inl e, d)
                           | (Inr _, d) \<Rightarrow>
                               (Inr (JSON 200 \<lparr>er_Secret = secret,
                                  er_OTPAuthURL = OTPAuthURL (h_mfaIssuer h) (u_Username user) secret 6 (30 * second)\<rparr>),
                                d))))))"

record mfaVerifyRequest =
  mv_Code :: string

text \<open>The secret of the user's column and the code against it, as in both handlers below.\<close>

definition mfa_code_check :: "'c auth_handler \<Rightarrow> gotime \<Rightarrow> User \<Rightarrow> string \<Rightarrow> unit res" where
  "mfa_code_check h now user code =
     (if length (u_MFASecretEnc user) = 0 then Inl (FiberError 400 ''mfa not enrolled'')
      else case DecryptString (h_aesgcm h) (u_MFASecretEnc user) mfa_aad of
             Inl e \<Rightarrow> Inl e
           | Inr secret \<Rightarrow> verify_code secret code now ''invalid code'')"

definition MFAVerify ::
  "'c auth_handler \<Rightarrow> renv \<Rightarrow> mfaVerifyRequest request \<Rightarrow> locals \<Rightarrow> db \<Rightarrow> unit reply res \<times> db" where
  "MFAVerify h env c lo d =
     (case AuthFromLocals lo of
        None \<Rightarrow> (Inl (unauthorized ''unauthorized''), d)
      | Some a \<Rightarrow>
          (case rq_body c of
             (Some e, _) \<Rightarrow> (Inl (FiberError 400 ''invalid json''), d)
           | (None, req) \<Rightarrow>
               if mv_Code req = [] then (Inl (FiberError 400 ''code required''), d)
               else (case GetUserByID (re_db env 0) (ai_UserID a) d of
                   (Inl e, d) \<Rightarrow> (Inl (unauthorized ''unauthorized''), d)
                 | (Inr user, d) \<Rightarrow>
                     (case mfa_code_check h (re_clock env 0) user (mv_Code req) of
                        Inl e \<Rightarrow> (Inl e, d)
                      | Inr _ \<Rightarrow>
                          (case EnableMFA (re_db env 1) (ai_UserID a) d of
                             (Inl e, d) \<Rightarrow> (Inl e, d)
                           | (Inr _, d) \<Rightarrow> (Inr (SendStatus 204), d))))))"

text \<open>With an empty body the request struct keeps its zero value.\<close>

definition MFADisable ::
  "'c auth_handler \<Rightarrow> renv \<Rightarrow> mfaVerifyRequest request \<Rightarrow> locals \<Rightarrow> db \<Rightarrow> unit reply res \<times> db" where
  "MFADisable h env c lo d =
     (case AuthFromLocals lo of
        None \<Rightarrow> (Inl (unauthorized ''unauthorized''), d)
      | Some a \<Rightarrow>
          (case GetUserByID (re_db env 0) (ai_UserID a) d of
             (Inl e, d) \<Rightarrow> (Inl (unauthorized ''unauthorized''), d)
           | (Inr user, d) \<Rightarrow>
               if \<not> u_MFAEnabled user then (Inr (SendStatus 204), d)
               else if \<not> rq_body_empty c \<and> fst (rq_body c) \<noteq> None
               then (Inl (FiberError 400 ''invalid json''), d)
               else let code = (if rq_body_empty c then [] else mv_Code (snd (rq_body c))) in
                 if code = [] then (Inl (FiberError 400 ''code required''), d)
                 else (case mfa_code_check h (re_clock env 0) user code of
                     Inl e \<Rightarrow> (Inl e, d)
                   | Inr _ \<Rightarrow>
                       (case DisableMFA (re_db env 1) (ai_UserID a) d of
                          (Inl e, d) \<Rightarrow> (Inl e, d)
                        | (Inr _, d) \<Rightarrow> (Inr (SendStatus 204), d)))))"

subsection \<open>Routes\<close>

text \<open>
  \<open>RegisterRoutes\<close>: the requests of the service and what runs for each; \<open>gate\<close> is the clock of the
  bearer-token middleware in front of the last five.
\<close>

datatype auth_call =
    CallLogin "loginRequest request"
  | CallRefresh "refreshRequest request"
  | CallLogout "refreshRequest request"
  | CallMe "unit request"
  | CallMFAEnroll "unit request"
  | CallMFAVerify "mfaVerifyRequest request"
  | CallMFADisable "mfaVerifyRequest request"

datatype auth_payload = TokensBody tokenResponse | MeBody "int \<times> string" | EnrollBody mfaEnrollResponse | NoBody

fun auth_serve ::
  "'c auth_handler \<Rightarrow> clock \<Rightarrow> renv \<Rightarrow> auth_call \<Rightarrow> db \<Rightarrow> auth_payload reply res \<times> db" where
  "auth_serve h gate env (CallLogin c) d = reply_as TokensBody (Login h env c d)"
| "auth_serve h gate env (CallRefresh c) d = reply_as TokensBody (Refresh h env c d)"
| "auth_serve h gate env (CallLogout c) d =
     JWTAuth (h_verifier h) True gate (rq_authorization c) (\<lambda>lo d. reply_as (\<lambda>_. NoBody) (Logout h env c lo d)) d"
| "auth_serve h gate env (CallMe c) d =
     JWTAuth (h_verifier h) True gate (rq_authorization c) (\<lambda>lo d. reply_as MeBody (Me lo, d)) d"
| "auth_serve h gate env (CallMFAEnroll c) d =
     JWTAuth (h_verifier h) True gate (rq_authorization c) (\<lambda>lo d. reply_as EnrollBody (MFAEnroll h env lo d)) d"
| "auth_serve h gate env (CallMFAVerify c) d =
     JWTAuth (h_verifier h) True gate (rq_authorization c) (\<lambda>lo d. reply_as (\<lambda>_. NoBody) (MFAVerify h env c lo d)) d"
| "auth_serve h gate env (CallMFADisable c) d =
     JWTAuth (h_verifier h) True gate (rq_authorization c) (\<lambda>lo d. reply_as (\<lambda>_. NoBody) (MFADisable h env c lo d)) d"

end
