(* ===== verification/AuthInv.thy ===== *)
theory AuthInv
  imports Auth
begin

text \<open>
  What the authentication service keeps of the database: the keys of users and refresh tokens, the
  rows a token may turn into, and that a user with one-time passwords switched on has a secret.
\<close>

subsection \<open>Refresh tokens only age\<close>

definition tokens_pk :: "db \<Rightarrow> bool" where
  "tokens_pk d \<longleftrightarrow> distinct (map rt_id (refresh_tokens d))"

text \<open>A revoked row never changes again; a live row may only become revoked.\<close>

definition row_ages :: "refresh_row \<Rightarrow> refresh_row \<Rightarrow> bool" where
  "row_ages r r' \<longleftrightarrow> rt_id r' = rt_id r \<and> rt_user_id r' = rt_user_id r \<and> rt_expires_at r' = rt_expires_at r
     \<and> rt_created_at r' = rt_created_at r \<and> (rt_revoked_at r \<noteq> None \<longrightarrow> r' = r)"

definition tokens_age :: "db \<Rightarrow> db \<Rightarrow> bool" where
  "tokens_age d d' \<longleftrightarrow>
     grows row_ages (refresh_tokens d) (refresh_tokens d') \<and> (tokens_pk d \<longrightarrow> tokens_pk d')"

lemma row_ages_refl [simp]: "row_ages r r"
  by (simp add: row_ages_def)

lemma grows_row_ages_refl [simp]: "grows row_ages rs rs"
  by (rule grows_refl) simp

lemma row_ages_trans: "row_ages a b \<Longrightarrow> row_ages b c \<Longrightarrow> row_ages a c"
  by (auto simp: row_ages_def)

lemma tokens_age_trans [trans]: "tokens_age a b \<Longrightarrow> tokens_age b c \<Longrightarrow> tokens_age a c"
  unfolding tokens_age_def using row_ages_trans by (meson grows_trans)

interpretation tokens: tx_relation tokens_age
  by unfold_locales (auto simp: tokens_age_def tokens_pk_def intro: grows_refl)

lemma tokens_age_same: "refresh_tokens d' = refresh_tokens d \<Longrightarrow> tokens_age d d'"
  by (simp add: tokens_age_def tokens_pk_def grows_refl)

lemma InsertRefreshToken_ages: "tokens_age d (snd (InsertRefreshToken e tid uid x d))"
  unfolding InsertRefreshToken_def
  by (rule tokens.autocommit_R) (auto simp: Let_def tokens.R_refl tokens_age_def tokens_pk_def intro!: grows_append)

lemma RevokeRefreshToken_ages: "tokens_age d (snd (RevokeRefreshToken e tid rb d))"
  unfolding RevokeRefreshToken_def
proof (rule tokens.autocommit_R)
  fix t assume "tx_db t = d"
  moreover have "map rt_id (update_where (\<lambda>r. rt_id r = tid \<and> rt_revoked_at r = None)
      (revoke_row (db_now e) rb) (refresh_tokens d)) = map rt_id (refresh_tokens d)"
    by (rule map_key_update_where) (simp add: revoke_row_def)
  ultimately show "tokens_age d (tx_db (snd (Inr (), t\<lparr>tx_db := (tx_db t)\<lparr>refresh_tokens :=
      update_where (\<lambda>r. rt_id r = tid \<and> rt_revoked_at r = None) (revoke_row (db_now e) rb)
        (refresh_tokens (tx_db t))\<rparr>\<rparr>)))"
    by (auto simp: tokens_age_def tokens_pk_def row_ages_def revoke_row_def intro!: grows_update_where)
qed

lemma update_user_ages: "tokens_age d (snd (update_user e uid f d))"
  unfolding update_user_def
  by (rule tokens.autocommit_R) (simp add: tokens_age_same)

subsection \<open>Users\<close>

text \<open>
  The invariant of the service's tables: the keys hold, a token belongs to a user, and a user
  with one-time passwords switched on has a secret to check them against.
\<close>

definition mfa_wf :: "user_row \<Rightarrow> bool" where
  "mfa_wf r \<longleftrightarrow> (us_mfa_enabled r \<longrightarrow> (\<exists>b. us_mfa_secret_enc r = Some b \<and> b \<noteq> []))"

definition auth_inv :: "db \<Rightarrow> bool" where
  "auth_inv d \<longleftrightarrow> tokens_pk d \<and> distinct (map us_id (users d))
     \<and> rt_user_id ` set (refresh_tokens d) \<subseteq> us_id ` set (users d)
     \<and> (\<forall>r \<in> set (users d). mfa_wf r)"

definition auth_keeps :: "db \<Rightarrow> db \<Rightarrow> bool" where
  "auth_keeps d d' \<longleftrightarrow> (auth_inv d \<longrightarrow> auth_inv d')"

interpretation keeps: tx_relation auth_keeps
  by unfold_locales (auto simp: auth_keeps_def auth_inv_def tokens_pk_def)

lemma auth_keeps_trans: "auth_keeps a b \<Longrightarrow> auth_keeps b c \<Longrightarrow> auth_keeps a c"
  by (simp add: auth_keeps_def)

lemma InsertRefreshToken_keeps: "auth_keeps d (snd (InsertRefreshToken e tid uid x d))"
  unfolding InsertRefreshToken_def
  by (rule keeps.autocommit_R) (auto simp: Let_def keeps.R_refl auth_keeps_def auth_inv_def tokens_pk_def)

lemma RevokeRefreshToken_keeps: "auth_keeps d (snd (RevokeRefreshToken e tid rb d))"
  unfolding RevokeRefreshToken_def
proof (rule keeps.autocommit_R)
  fix t assume "tx_db t = d"
  moreover have "map rt_id (update_where (\<lambda>r. rt_id r = tid \<and> rt_revoked_at r = None)
      (revoke_row (db_now e) rb) (refresh_tokens d)) = map rt_id (refresh_tokens d)"
    by (rule map_key_update_where) (simp add: revoke_row_def)
  moreover have "map rt_user_id (update_where (\<lambda>r. rt_id r = tid \<and> rt_revoked_at r = None)
      (revoke_row (db_now e) rb) (refresh_tokens d)) = map rt_user_id (refresh_tokens d)"
    by (rule map_key_update_where) (simp add: revoke_row_def)
  ultimately show "auth_keeps d (tx_db (snd (Inr (), t\<lparr>tx_db := (tx_db t)\<lparr>refresh_tokens :=
      update_where (\<lambda>r. rt_id r = tid \<and> rt_revoked_at r = None) (revoke_row (db_now e) rb)
        (refresh_tokens (tx_db t))\<rparr>\<rparr>)))"
    by (auto simp: auth_keeps_def auth_inv_def tokens_pk_def simp flip: set_map)
qed

lemma update_user_keeps:
  assumes "\<And>r. us_id (f r) = us_id r"
    and "\<And>r. r \<in> set (users d) \<Longrightarrow> us_id r = uid \<Longrightarrow> us_deleted_at r = None \<Longrightarrow> auth_inv d \<Longrightarrow> mfa_wf (f r)"
  shows "auth_keeps d (snd (update_user e uid f d))"
  unfolding update_user_def
proof (rule keeps.autocommit_R)
  fix t assume t: "tx_db t = d"
  have "map us_id (update_where (\<lambda>r. us_id r = uid \<and> us_deleted_at r = None)
      (\<lambda>r. (f r)\<lparr>us_updated_at := db_now e\<rparr>) (users d)) = map us_id (users d)"
    by (rule map_key_update_where) (simp add: assms(1))
  moreover from this have "us_id ` set (update_where (\<lambda>r. us_id r = uid \<and> us_deleted_at r = None)
      (\<lambda>r. (f r)\<lparr>us_updated_at := db_now e\<rparr>) (users d)) = us_id ` set (users d)"
    by (simp flip: set_map)
  moreover have "mfa_wf (r\<lparr>us_updated_at := x\<rparr>) = mfa_wf r" for r x by (simp add: mfa_wf_def)
  ultimately show "auth_keeps d (tx_db (snd (Inr (), t\<lparr>tx_db := (tx_db t)\<lparr>users :=
       update_where (\<lambda>r. us_id r = uid \<and> us_deleted_at r = None)
         (\<lambda>r. (f r)\<lparr>us_updated_at := db_now e\<rparr>) (users (tx_db t))\<rparr>\<rparr>)))"
    using assms(2) t by (auto simp: auth_keeps_def auth_inv_def tokens_pk_def set_update_where)
qed

subsection \<open>What the reads return\<close>

lemma GetUserByID_Inr:
  assumes "GetUserByID e uid d = (Inr u, d')"
  shows "d' = d" and "\<exists>r \<in> set (users d). us_id r = uid \<and> us_deleted_at r = None \<and> u = to_User r"
proof -
  show "d' = d" by (rule GetUserByID_db [OF assms])
  from autocommit_Inr [OF assms [unfolded GetUserByID_def]]
  have "select_user (\<lambda>r. us_id r = uid) \<lparr>tx_db = d, tx_uid = 0, tx_role = [], tx_n = 1\<rparr> = Inr u"
    by (auto simp: reading_def)
  from select_user_Inr [OF this]
  show "\<exists>r \<in> set (users d). us_id r = uid \<and> us_deleted_at r = None \<and> u = to_User r" by simp
qed

lemma GetUserByUsername_Inr:
  assumes "GetUserByUsername e n d = (Inr u, d')"
  shows "d' = d" and "\<exists>r \<in> set (users d). us_username r = n \<and> us_deleted_at r = None \<and> u = to_User r"
proof -
  show "d' = d" by (rule GetUserByUsername_db [OF assms])
  from autocommit_Inr [OF assms [unfolded GetUserByUsername_def]]
  have "select_user (\<lambda>r. us_username r = n) \<lparr>tx_db = d, tx_uid = 0, tx_role = [], tx_n = 1\<rparr> = Inr u"
    by (auto simp: reading_def)
  from select_user_Inr [OF this]
  show "\<exists>r \<in> set (users d). us_username r = n \<and> us_deleted_at r = None \<and> u = to_User r" by simp
qed

lemma GetRefreshToken_Inr:
  assumes "GetRefreshToken e tid d = (Inr x, d')"
  shows "d' = d" and "\<exists>r \<in> set (refresh_tokens d). rt_id r = tid \<and> x = to_RefreshToken r"
proof -
  show "d' = d" by (rule GetRefreshToken_db [OF assms])
  from autocommit_Inr [OF assms [unfolded GetRefreshToken_def]]
  obtain r where "query_row (filter (\<lambda>r. rt_id r = tid) (refresh_tokens d)) = Inr r" "x = to_RefreshToken r"
    by (auto simp: reading_def split: sum.splits)
  with query_row_filter [OF this(1)]
  show "\<exists>r \<in> set (refresh_tokens d). rt_id r = tid \<and> x = to_RefreshToken r" by blast
qed

end
