(* ===== verification/AuthProps.thy ===== *)
theory AuthProps
  imports AuthInv
begin

text \<open>
  The properties of the authentication handlers: what a login proves, single use of refresh
  tokens and the race that breaks it, logout, and the life of a one-time-password secret.
\<close>

subsection \<open>Relations every handler respects\<close>

text \<open>
  A relation between the database before and after that the service's statements respect, one by
  one; every handler then respects it, whatever fails on the way.
\<close>

locale auth_relation = tx_relation R for R +
  assumes R_trans: "R d1 d2 \<Longrightarrow> R d2 d3 \<Longrightarrow> R d1 d3"
    and R_insert: "R d (snd (InsertRefreshToken e tid uid x d))"
    and R_revoke: "R d (snd (RevokeRefreshToken e tid rb d))"
    and R_set: "b \<noteq> [] \<Longrightarrow> R d (snd (SetMFASecret e uid b d))"
    and R_enable: "\<exists>r \<in> set (users d). us_id r = uid \<and> us_mfa_secret_enc r \<noteq> None \<and> us_mfa_secret_enc r \<noteq> Some []
      \<Longrightarrow> R d (snd (EnableMFA e uid d))"
    and R_disable: "R d (snd (DisableMFA e uid d))"
begin

lemma insertD: "InsertRefreshToken e tid uid x d = (r, d') \<Longrightarrow> R d d'"
  using R_insert [of d e tid uid x] by simp

lemma revokeD: "RevokeRefreshToken e tid rb d = (r, d') \<Longrightarrow> R d d'"
  using R_revoke [of d e tid rb] by simp

lemma Login_R: "R d (snd (Login h env c d))"
  by (auto simp: Login_def login_issue_def R_refl split: prod.splits option.splits sum.splits
      dest!: GetUserByUsername_db dest: insertD)

lemma refresh_check_db: "refresh_check h env c d = (r, d') \<Longrightarrow> d' = d"
  by (auto simp: refresh_check_def split: prod.splits option.splits sum.splits if_splits
      dest!: GetRefreshToken_db GetUserByID_db)

lemma refresh_rotate_R: "R d (snd (refresh_rotate h env r user d))"
  by (auto simp: refresh_rotate_def R_refl split: prod.splits sum.splits
      dest!: insertD revokeD intro: R_trans)

lemma Refresh_R: "R d (snd (Refresh h env c d))"
  using refresh_rotate_R
  by (auto simp: Refresh_def R_refl split: prod.splits sum.splits dest!: refresh_check_db)

lemma Logout_R: "R d (snd (Logout h env c lo d))"
  by (auto simp: Logout_def R_refl R_revoke Let_def split: prod.splits option.splits sum.splits)

lemma MFAEnroll_R:
  assumes "aead_ok (h_aesgcm h)" and "rand_ok (re_rand env 1)"
  shows "R d (snd (MFAEnroll h env lo d))"
proof -
  have "R d d'" if "EncryptString (h_aesgcm h) (re_rand env 1) s mfa_aad = Inr b"
    and "SetMFASecret e uid b d = (r, d')" for s b e uid r d'
    using R_set [of b d e uid] cx.enc_nonempty [OF assms that(1)] that(2) by simp
  then show ?thesis
    by (auto simp: MFAEnroll_def R_refl split: prod.splits option.splits sum.splits dest!: GetUserByID_db)
qed

lemma MFAVerify_R: "R d (snd (MFAVerify h env c lo d))"
proof -
  have "R d d'" if "GetUserByID e0 uid d = (Inr u, d0)" and "u_MFASecretEnc u \<noteq> []"
    and "EnableMFA e uid d0 = (r, d')" for e0 e uid u d0 r d'
  proof -
    have d0: "d0 = d" by (rule GetUserByID_db [OF that(1)])
    from GetUserByID_Inr(2) [OF that(1)] that(2)
    have "\<exists>r \<in> set (users d). us_id r = uid \<and> us_mfa_secret_enc r \<noteq> None \<and> us_mfa_secret_enc r \<noteq> Some []"
      by (auto simp: to_User_def split: option.splits)
    from R_enable [OF this, of e] that(3) d0 show ?thesis by simp
  qed
  then show ?thesis
    by (auto simp: MFAVerify_def mfa_code_check_def R_refl split: prod.splits option.splits sum.splits if_splits
        dest: GetUserByID_db)
qed

lemma MFADisable_R: "R d (snd (MFADisable h env c lo d))"
proof -
  have "R d d'" if "DisableMFA e uid d = (r, d')" for e uid r d'
    using R_disable [of d e uid] that by simp
  then show ?thesis
    by (auto simp: MFADisable_def R_refl Let_def split: prod.splits option.splits sum.splits if_splits
        dest!: GetUserByID_db)
qed

lemma auth_serve_R:
  assumes "aead_ok (h_aesgcm h)" and "rand_ok (re_rand env 1)"
  shows "R d (snd (auth_serve h gate env call d))"
  by (cases call)
    (simp_all add: Login_R Refresh_R JWTAuth_state [where P = "R d"] R_refl Logout_R MFAEnroll_R [OF assms]
      MFAVerify_R MFADisable_R)

end

interpretation ages: auth_relation tokens_age
  by unfold_locales
    (auto intro: tokens_age_trans InsertRefreshToken_ages RevokeRefreshToken_ages
      simp: SetMFASecret_def EnableMFA_def DisableMFA_def update_user_ages)

lemma EnableMFA_keeps:
  assumes "\<exists>r \<in> set (users d). us_id r = uid \<and> us_mfa_secret_enc r \<noteq> None \<and> us_mfa_secret_enc r \<noteq> Some []"
  shows "auth_keeps d (snd (EnableMFA e uid d))"
  unfolding EnableMFA_def
proof (rule update_user_keeps)
  fix r assume r: "r \<in> set (users d)" "us_id r = uid" and inv: "auth_inv d"
  from assms obtain r' where r': "r' \<in> set (users d)" "us_id r' = uid" "us_mfa_secret_enc r' \<noteq> None"
    "us_mfa_secret_enc r' \<noteq> Some []" by blast
  have "r = r'" using distinct_key_eq [of us_id "users d" r r'] r r' inv by (simp add: auth_inv_def)
  with r' show "mfa_wf (r\<lparr>us_mfa_enabled := True, us_mfa_enrolled_at := Some (db_now e)\<rparr>)"
    by (auto simp: mfa_wf_def)
qed simp

interpretation inv: auth_relation auth_keeps
proof (unfold_locales, goal_cases)
  case (1 a b c)
  then show ?case by (rule auth_keeps_trans)
next
  case (4 b d e uid)
  then show ?case unfolding SetMFASecret_def by (intro update_user_keeps) (auto simp: mfa_wf_def)
next
  case (5 d uid e)
  then show ?case by (rule EnableMFA_keeps)
next
  case (6 d e uid)
  show ?case unfolding DisableMFA_def by (intro update_user_keeps) (auto simp: mfa_wf_def)
qed (rule InsertRefreshToken_keeps RevokeRefreshToken_keeps)+

text \<open>
  C12. Every request to the authentication service, whatever fails on the way, keeps the
  invariant of its tables (unique users and token ids, every token owned by a user, no user
  with one-time passwords switched on and no secret) and lets tokens only age: no refresh
  token disappears, changes its owner or its expiry, or stops being revoked.
\<close>

theorem auth_serve_invariant:
  assumes "aead_ok (h_aesgcm h)" and "rand_ok (re_rand env 1)" and "auth_inv d"
  shows "auth_inv (snd (auth_serve h gate env call d)) \<and> tokens_age d (snd (auth_serve h gate env call d))"
  using inv.auth_serve_R [OF assms(1,2), of d gate call] ages.auth_serve_R [OF assms(1,2), of d gate call] assms(3)
  by (simp add: auth_keeps_def)

subsection \<open>Revoked tokens\<close>

definition revoked :: "string \<Rightarrow> db \<Rightarrow> bool" where
  "revoked tid d \<longleftrightarrow> tokens_pk d \<and> (\<exists>r \<in> set (refresh_tokens d). rt_id r = tid \<and> rt_revoked_at r \<noteq> None)"

lemma revoked_stays: "revoked tid d \<Longrightarrow> tokens_age d d' \<Longrightarrow> revoked tid d'"
proof -
  assume rev: "revoked tid d" and age: "tokens_age d d'"
  from rev obtain r where r: "r \<in> set (refresh_tokens d)" "rt_id r = tid" "rt_revoked_at r \<noteq> None"
    by (auto simp: revoked_def)
  with grows_mem [of row_ages "refresh_tokens d" "refresh_tokens d'" r] age
  have "r \<in> set (refresh_tokens d')" by (auto simp: tokens_age_def row_ages_def)
  with r have "\<exists>r \<in> set (refresh_tokens d'). rt_id r = tid \<and> rt_revoked_at r \<noteq> None" by blast
  with rev age show "revoked tid d'" by (simp add: revoked_def tokens_age_def)
qed

lemma revoked_not_fetched:
  assumes "revoked tid d" and "GetRefreshToken e tid d = (Inr x, d')"
  shows "rf_RevokedAt x \<noteq> None"
proof -
  from GetRefreshToken_Inr(2) [OF assms(2)] obtain r where
    r: "r \<in> set (refresh_tokens d)" "rt_id r = tid" "x = to_RefreshToken r" by blast
  from assms(1) obtain r' where r': "r' \<in> set (refresh_tokens d)" "rt_id r' = tid" "rt_revoked_at r' \<noteq> None"
    by (auto simp: revoked_def)
  have "r = r'" using distinct_key_eq [of rt_id "refresh_tokens d" r r'] assms(1) r r'
    by (simp add: revoked_def tokens_pk_def)
  with r(3) r'(3) show ?thesis by (simp add: to_RefreshToken_def)
qed

lemma Revoke_revokes:
  assumes "RevokeRefreshToken e tid rb d = (Inr u, d')" and "tokens_pk d" and "tid \<in> rt_id ` set (refresh_tokens d)"
  shows "revoked tid d'"
proof -
  from autocommit_Inr [OF assms(1) [unfolded RevokeRefreshToken_def]]
  have d': "refresh_tokens d' = update_where (\<lambda>r. rt_id r = tid \<and> rt_revoked_at r = None)
      (revoke_row (db_now e) rb) (refresh_tokens d)" by auto
  have "tokens_pk d'" using RevokeRefreshToken_ages [of d e tid rb] assms(1,2) by (simp add: tokens_age_def)
  moreover have "\<exists>r \<in> set (refresh_tokens d'). rt_id r = tid \<and> rt_revoked_at r \<noteq> None"
  proof -
    from assms(3) obtain i where i: "i < length (refresh_tokens d)" "rt_id (refresh_tokens d ! i) = tid"
      by (auto simp: in_set_conv_nth)
    then have "refresh_tokens d' ! i \<in> set (refresh_tokens d')" by (simp add: d')
    moreover have "rt_id (refresh_tokens d' ! i) = tid \<and> rt_revoked_at (refresh_tokens d' ! i) \<noteq> None"
      using i by (simp add: d' nth_update_where revoke_row_def)
    ultimately show ?thesis by blast
  qed
  ultimately show ?thesis by (simp add: revoked_def)
qed

text \<open>What the code relies on of the library: parsing a token does not depend on when.\<close>

definition parse_stable :: "verifier \<Rightarrow> bool" where
  "parse_stable v \<longleftrightarrow> (\<forall>tok t t' c b c' b'. vf_parse v tok t = Inr (c, b) \<longrightarrow> vf_parse v tok t' = Inr (c', b') \<longrightarrow> c = c')"

lemma parse_stableD:
  "parse_stable v \<Longrightarrow> ParseAndValidate v k tok = Inr c \<Longrightarrow> ParseAndValidate v k' tok = Inr c' \<Longrightarrow> c = c'"
  unfolding parse_stable_def by (blast dest: ParseAndValidate_Inr(1))

lemma Refresh_revoked:
  assumes "parse_stable (h_verifier h)" and "ParseAndValidate (h_verifier h) k tok = Inr claims"
    and "revoked (ID claims) d" and "rq_body c = (None, \<lparr>rr_RefreshToken = tok\<rparr>)" and "tok \<noteq> []"
  shows "\<exists>m. Refresh h env c d = (Inl (unauthorized m), d)"
proof (cases "ParseAndValidate (h_verifier h) (re_clock env) tok")
  case (Inl e)
  then show ?thesis using assms(4,5) by (simp add: Refresh_def refresh_check_def)
next
  case (Inr claims')
  then have [simp]: "claims' = claims" using parse_stableD [OF assms(1,2)] by simp
  obtain x d' where x: "GetRefreshToken (re_db env 0) (ID claims) d = (x, d')" by (cases "GetRefreshToken (re_db env 0) (ID claims) d")
  then have [simp]: "d' = d" by (rule GetRefreshToken_db)
  show ?thesis
    using Inr x assms(4,5) revoked_not_fetched [OF assms(3)]
    by (cases x) (auto simp: Refresh_def refresh_check_def)
qed

lemma issue_pair_Inr:
  assumes "issue_pair h env ck uid role = Inr (access, refresh, jti)"
  shows "\<exists>a b. re_rand env 0 16 = Inr a \<and> re_rand env 1 32 = Inr b \<and> jti = hex_encode b
    \<and> NewAccessToken (h_signer h) (\<lambda>_. re_clock env ck) uid role (hex_encode a) = Inr access
    \<and> NewRefreshToken (h_signer h) (\<lambda>_. re_clock env (ck + 1)) uid jti = Inr refresh"
  using assms by (auto simp: issue_pair_def newTokenID_def split: sum.splits)

lemma InsertRefreshToken_Inr:
  assumes "InsertRefreshToken e tid uid x d = (Inr u, d')"
  shows "tid \<notin> rt_id ` set (refresh_tokens d)" and "uid \<in> us_id ` set (users d)"
    and "d' = d\<lparr>refresh_tokens := refresh_tokens d @ [\<lparr>rt_id = tid, rt_user_id = uid, rt_expires_at = x,
           rt_revoked_at = None, rt_replaced_by = None, rt_created_at = db_now e\<rparr>]\<rparr>"
  using autocommit_Inr [OF assms [unfolded InsertRefreshToken_def]]
  by (auto simp: Let_def split: if_splits)

lemma refresh_check_Inr:
  assumes "refresh_check h env c d = (Inr (r, user), d')"
  shows "d' = d" and "fst (rq_body c) = None" and "rr_RefreshToken (snd (rq_body c)) \<noteq> []"
    and "\<exists>claims. ParseAndValidate (h_verifier h) (re_clock env) (rr_RefreshToken (snd (rq_body c))) = Inr claims
           \<and> TokenType claims = TokenTypeRefresh \<and> rf_UserID r = UserID claims \<and> rf_ID r = ID claims"
    and "\<exists>row \<in> set (refresh_tokens d). r = to_RefreshToken row \<and> rt_revoked_at row = None
           \<and> re_clock env 3 \<le> rt_expires_at row"
    and "\<exists>u \<in> set (users d). user = to_User u \<and> us_id u = rf_UserID r \<and> us_deleted_at u = None \<and> us_is_active u"
proof -
  obtain req claims where b: "rq_body c = (None, req)" "rr_RefreshToken req \<noteq> []"
    and p: "ParseAndValidate (h_verifier h) (re_clock env) (rr_RefreshToken req) = Inr claims"
      "TokenType claims = TokenTypeRefresh"
    using assms by (auto simp: refresh_check_def split: prod.splits option.splits sum.splits if_splits)
  obtain d0 d1 where g: "GetRefreshToken (re_db env 0) (ID claims) d = (Inr r, d0)"
    and u: "GetUserByID (re_db env 1) (rf_UserID r) d0 = (Inr user, d1)" "d' = d1" "u_IsActive user"
    and f: "rf_UserID r = UserID claims" "rf_RevokedAt r = None" "\<not> rf_ExpiresAt r < re_clock env 3"
    using assms b p by (auto simp: refresh_check_def split: prod.splits option.splits sum.splits if_splits)
  have d: "d0 = d" "d1 = d" using GetRefreshToken_db [OF g] GetUserByID_db [OF u(1)] by simp_all
  show "d' = d" "fst (rq_body c) = None" "rr_RefreshToken (snd (rq_body c)) \<noteq> []" using b u d by simp_all
  from GetRefreshToken_Inr(2) [OF g] obtain row where
    row: "row \<in> set (refresh_tokens d)" "rt_id row = ID claims" "r = to_RefreshToken row" by blast
  then show "\<exists>claims. ParseAndValidate (h_verifier h) (re_clock env) (rr_RefreshToken (snd (rq_body c))) = Inr claims
           \<and> TokenType claims = TokenTypeRefresh \<and> rf_UserID r = UserID claims \<and> rf_ID r = ID claims"
    using b p f by (auto simp: to_RefreshToken_def)
  show "\<exists>row \<in> set (refresh_tokens d). r = to_RefreshToken row \<and> rt_revoked_at row = None
           \<and> re_clock env 3 \<le> rt_expires_at row"
    using row f by (intro bexI [of _ row]) (auto simp: to_RefreshToken_def)
  show "\<exists>u \<in> set (users d). user = to_User u \<and> us_id u = rf_UserID r \<and> us_deleted_at u = None \<and> us_is_active u"
    using GetUserByID_Inr(2) [OF u(1)] u(3) d by (auto simp: to_User_def)
qed

lemma refresh_rotate_Inr:
  assumes "refresh_rotate h env r user d = (Inr rep, d')"
  shows "\<exists>access refresh jti d1. issue_pair h env 4 (rf_UserID r) (u_Role user) = Inr (access, refresh, jti)
    \<and> RevokeRefreshToken (re_db env 2) (rf_ID r) (Some jti) d = (Inr (), d1)
    \<and> InsertRefreshToken (re_db env 3) jti (rf_UserID r) (re_clock env 6 + h_refreshTTL h) d1 = (Inr (), d')
    \<and> rep = JSON 200 (token_response h access refresh)"
  using assms by (auto simp: refresh_rotate_def split: prod.splits sum.splits)

lemma Refresh_Inr:
  assumes "Refresh h env c d = (Inr rep, d')"
  shows "\<exists>r user. refresh_check h env c d = (Inr (r, user), d) \<and> refresh_rotate h env r user d = (Inr rep, d')"
  using assms by (auto simp: Refresh_def split: prod.splits sum.splits dest: refresh_check_Inr(1))

lemma Refresh_revokes:
  assumes "Refresh h env c d = (Inr rep, d')" and "tokens_pk d"
  shows "\<exists>claims. ParseAndValidate (h_verifier h) (re_clock env) (rr_RefreshToken (snd (rq_body c))) = Inr claims
    \<and> revoked (ID claims) d'"
proof -
  from Refresh_Inr [OF assms(1)] obtain r user where
    chk: "refresh_check h env c d = (Inr (r, user), d)" and rot: "refresh_rotate h env r user d = (Inr rep, d')" by blast
  from refresh_check_Inr(4) [OF chk] obtain claims where
    cl: "ParseAndValidate (h_verifier h) (re_clock env) (rr_RefreshToken (snd (rq_body c))) = Inr claims"
    "rf_ID r = ID claims" by blast
  from refresh_check_Inr(5) [OF chk] have mem: "rf_ID r \<in> rt_id ` set (refresh_tokens d)"
    by (auto simp: to_RefreshToken_def)
  from refresh_rotate_Inr [OF rot] obtain jti d1 where
    rev: "RevokeRefreshToken (re_db env 2) (rf_ID r) (Some jti) d = (Inr (), d1)"
    and ins: "InsertRefreshToken (re_db env 3) jti (rf_UserID r) (re_clock env 6 + h_refreshTTL h) d1 = (Inr (), d')"
    by blast
  have "revoked (rf_ID r) d1" by (rule Revoke_revokes [OF rev assms(2) mem])
  moreover have "tokens_age d1 d'" by (rule ages.insertD [OF ins])
  ultimately show ?thesis using cl revoked_stays by auto
qed

text \<open>Statements of a database that does not fail.\<close>

lemma RevokeRefreshToken_calm:
  "RevokeRefreshToken (calm t) tid rb d = (Inr (), d\<lparr>refresh_tokens :=
     update_where (\<lambda>r. rt_id r = tid \<and> rt_revoked_at r = None) (revoke_row t rb) (refresh_tokens d)\<rparr>)"
  unfolding RevokeRefreshToken_def by (subst autocommit_calm) (auto simp: calm_def)

lemma InsertRefreshToken_calm:
  "tid \<notin> rt_id ` set (refresh_tokens d) \<Longrightarrow> uid \<in> us_id ` set (users d) \<Longrightarrow>
   InsertRefreshToken (calm t) tid uid x d = (Inr (), d\<lparr>refresh_tokens := refresh_tokens d @
     [\<lparr>rt_id = tid, rt_user_id = uid, rt_expires_at = x, rt_revoked_at = None, rt_replaced_by = None,
       rt_created_at = t\<rparr>]\<rparr>)"
  unfolding InsertRefreshToken_def by (subst autocommit_calm) (auto simp: calm_def Let_def)

lemma rt_id_update_where [simp]:
  "rt_id ` set (update_where P (revoke_row t rb) rs) = rt_id ` set rs"
proof -
  have "map rt_id (update_where P (revoke_row t rb) rs) = map rt_id rs"
    by (rule map_key_update_where) (simp add: revoke_row_def)
  then show ?thesis by (simp flip: set_map)
qed

lemma RevokeRefreshToken_Inr:
  assumes "RevokeRefreshToken e tid rb d = (Inr u, d')"
  shows "d' = d\<lparr>refresh_tokens :=
     update_where (\<lambda>r. rt_id r = tid \<and> rt_revoked_at r = None) (revoke_row (db_now e) rb) (refresh_tokens d)\<rparr>"
  using autocommit_Inr [OF assms [unfolded RevokeRefreshToken_def]] by auto

subsection \<open>The properties\<close>

text \<open>The directory said yes, where its mode lets it.\<close>

definition directory_login :: "'c auth_handler \<Rightarrow> string \<Rightarrow> string \<Rightarrow> bool" where
  "directory_login h username password \<longleftrightarrow>
     (\<exists>cfg. h_ldap h = Some cfg \<and> lc_Mode cfg \<in> {''prefer'', ''required''} \<and> password \<noteq> []
        \<and> directory_accepts (h_ldap_lib h) cfg username password)"

lemma login_ldap_Inr:
  assumes "login_ldap h req = Inr authed"
  shows "authed \<Longrightarrow> directory_login h (lr_Username req) (lr_Password req)"
    and "\<not> authed \<Longrightarrow> \<not> (Enabled (h_ldap h) \<and> Mode (h_ldap h) = ''required'')"
proof -
  show "directory_login h (lr_Username req) (lr_Password req)" if "authed"
  proof -
    from assms that have a: "Authenticate (h_ldap_lib h) (h_ldap h) (lr_Username req) (lr_Password req) = Inr True"
      and m: "Mode (h_ldap h) = ''prefer'' \<or> Mode (h_ldap h) = ''required''"
      by (auto simp: login_ldap_def Let_def split: if_splits sum.splits)
    from Authenticate_True [OF a] m show ?thesis by (auto simp: directory_login_def Mode_def)
  qed
  show "\<not> (Enabled (h_ldap h) \<and> Mode (h_ldap h) = ''required'')" if "\<not> authed"
    using assms that
    by (auto simp: login_ldap_def Let_def Enabled_def split: if_splits sum.splits option.splits)
qed

lemma verify_code_ok: "verify_code secret code now m = Inr u \<longleftrightarrow> VerifyTOTP secret code now 6 (30 * second) 1 = Inr True"
  by (auto simp: verify_code_def split: sum.splits if_splits)

text \<open>
  C1. A login that succeeds proves who logged in: there is an active, undeleted user of that
  name whose directory accepted the password or whose password hash matches it (the hash is
  not enough where the directory is required); if the user has one-time passwords switched on,
  the code of the request verifies against the user's decrypted secret at the time of the
  request; the tokens are issued for that user with that user's role, and all that changes is
  one new, unrevoked refresh token of the user's.
\<close>

theorem login_success_sound:
  assumes "Login h env c d = (Inr rep, d')"
  shows "\<exists>req u access refresh jti.
    rq_body c = (None, req) \<and> u \<in> set (users d)
    \<and> us_username u = lr_Username req \<and> us_deleted_at u = None \<and> us_is_active u
    \<and> (directory_login h (lr_Username req) (lr_Password req)
       \<or> \<not> (Enabled (h_ldap h) \<and> Mode (h_ldap h) = ''required'')
         \<and> h_bcrypt h (us_password_hash u) (lr_Password req) = None)
    \<and> (us_mfa_enabled u \<longrightarrow> (\<exists>enc secret. us_mfa_secret_enc u = Some enc
         \<and> DecryptString (h_aesgcm h) enc mfa_aad = Inr secret
         \<and> VerifyTOTP secret (lr_OTP req) (re_clock env 0) 6 (30 * second) 1 = Inr True))
    \<and> issue_pair h env 1 (us_id u) (us_role u) = Inr (access, refresh, jti)
    \<and> rep = JSON 200 (token_response h access refresh)
    \<and> d' = d\<lparr>refresh_tokens := refresh_tokens d @
         [\<lparr>rt_id = jti, rt_user_id = us_id u, rt_expires_at = re_clock env 3 + h_refreshTTL h,
           rt_revoked_at = None, rt_replaced_by = None, rt_created_at = db_now (re_db env 1)\<rparr>]\<rparr>"
proof -
  obtain req user d0 where b: "rq_body c = (None, req)"
    and g: "GetUserByUsername (re_db env 0) (lr_Username req) d = (Inr user, d0)"
    and chk: "login_check h (re_clock env 0) user req = Inr ()"
    and iss: "login_issue h env user d0 = (Inr rep, d')"
    using assms by (auto simp: Login_def split: prod.splits option.splits sum.splits if_splits)
  from GetUserByUsername_Inr [OF g] obtain u where [simp]: "d0 = d" and
    u: "u \<in> set (users d)" "us_username u = lr_Username req" "us_deleted_at u = None" "user = to_User u" by blast
  from chk obtain authed where act: "us_is_active u" and l: "login_ldap h req = Inr authed"
    and pw: "login_password h user req authed = Inr ()" and m: "login_mfa h (re_clock env 0) user req = Inr ()"
    using u(4) by (auto simp: login_check_def to_User_def split: if_splits sum.splits)
  have pass: "directory_login h (lr_Username req) (lr_Password req)
       \<or> \<not> (Enabled (h_ldap h) \<and> Mode (h_ldap h) = ''required'')
         \<and> h_bcrypt h (us_password_hash u) (lr_Password req) = None"
    using login_ldap_Inr [OF l] pw u(4) by (cases authed) (auto simp: login_password_def to_User_def split: option.splits)
  have mfa: "us_mfa_enabled u \<longrightarrow> (\<exists>enc secret. us_mfa_secret_enc u = Some enc
         \<and> DecryptString (h_aesgcm h) enc mfa_aad = Inr secret
         \<and> VerifyTOTP secret (lr_OTP req) (re_clock env 0) 6 (30 * second) 1 = Inr True)"
    using m u(4) by (auto simp: login_mfa_def to_User_def verify_code_ok split: if_splits sum.splits option.splits)
  from iss obtain access refresh jti where p: "issue_pair h env 1 (u_ID user) (u_Role user) = Inr (access, refresh, jti)"
    and ins: "InsertRefreshToken (re_db env 1) jti (u_ID user) (re_clock env 3 + h_refreshTTL h) d = (Inr (), d')"
    and rep: "rep = JSON 200 (token_response h access refresh)"
    by (auto simp: login_issue_def split: prod.splits sum.splits)
  show ?thesis
    using b u act pass mfa p rep InsertRefreshToken_Inr(3) [OF ins]
    by (intro exI [of _ req] exI [of _ u] exI [of _ access] exI [of _ refresh] exI [of _ jti]) (simp add: to_User_def)
qed

text \<open>
  C2. A refresh token works once: after a refresh with it succeeded, no later refresh with the
  same token does, whatever happened in between, as long as tokens only aged (which every
  request guarantees), and the refused request changes nothing.
\<close>

theorem refresh_single_use:
  assumes "tokens_pk d" and "Refresh h env c d = (Inr rep, d1)" and "tokens_age d1 d2"
    and "parse_stable (h_verifier h)"
    and "rq_body c' = (None, snd (rq_body c))"
  shows "\<exists>m. Refresh h env' c' d2 = (Inl (FiberError 401 m), d2)"
proof -
  from Refresh_revokes [OF assms(2,1)] obtain claims where
    cl: "ParseAndValidate (h_verifier h) (re_clock env) (rr_RefreshToken (snd (rq_body c))) = Inr claims"
    "revoked (ID claims) d1" by blast
  have "rr_RefreshToken (snd (rq_body c)) \<noteq> []"
    using Refresh_Inr [OF assms(2)] refresh_check_Inr(3) by blast
  then show ?thesis
    using Refresh_revoked [OF assms(4) cl(1) revoked_stays [OF cl(2) assms(3)]] assms(5) by simp
qed

text \<open>
  C16. Two refreshes with the same token that both pass the checks before either rotates both
  succeed: the revocation does not look at how many rows it changed, so the second request
  gets a session of its own.  Single use holds only for requests that do not overlap.
\<close>

theorem refresh_race:
  assumes "refresh_check h env1 c d = (Inr (r, user), d)" and "refresh_check h env2 c d = (Inr (r, user), d)"
    and "refresh_rotate h env1 r user d = (Inr rep1, d1)"
    and "issue_pair h env2 4 (rf_UserID r) (u_Role user) = Inr (access, refresh, jti)"
    and "re_db env2 2 = calm t" and "re_db env2 3 = calm t" and "jti \<notin> rt_id ` set (refresh_tokens d1)"
  shows "\<exists>d2. refresh_rotate h env2 r user d1 = (Inr (JSON 200 (token_response h access refresh)), d2)
    \<and> (\<exists>r1 \<in> set (refresh_tokens d2). \<exists>r2 \<in> set (refresh_tokens d2). rt_id r1 \<noteq> rt_id r2
        \<and> rt_id r1 \<noteq> rf_ID r \<and> rt_id r2 \<noteq> rf_ID r
        \<and> rt_revoked_at r1 = None \<and> rt_revoked_at r2 = None \<and> rt_user_id r1 = rf_UserID r \<and> rt_user_id r2 = rf_UserID r)"
proof -
  from refresh_rotate_Inr [OF assms(3)] obtain jti1 da where
    rev1: "RevokeRefreshToken (re_db env1 2) (rf_ID r) (Some jti1) d = (Inr (), da)"
    and ins1: "InsertRefreshToken (re_db env1 3) jti1 (rf_UserID r) (re_clock env1 6 + h_refreshTTL h) da = (Inr (), d1)"
    by blast
  from refresh_check_Inr(5) [OF assms(1)] have old: "rf_ID r \<in> rt_id ` set (refresh_tokens d)"
    by (auto simp: to_RefreshToken_def)
  let ?row1 = "\<lparr>rt_id = jti1, rt_user_id = rf_UserID r, rt_expires_at = re_clock env1 6 + h_refreshTTL h,
    rt_revoked_at = None, rt_replaced_by = None, rt_created_at = db_now (re_db env1 3)\<rparr>"
  let ?row2 = "\<lparr>rt_id = jti, rt_user_id = rf_UserID r, rt_expires_at = re_clock env2 6 + h_refreshTTL h,
    rt_revoked_at = None, rt_replaced_by = None, rt_created_at = t\<rparr>"
  let ?d1' = "d1\<lparr>refresh_tokens := update_where (\<lambda>x. rt_id x = rf_ID r \<and> rt_revoked_at x = None)
    (revoke_row t (Some jti)) (refresh_tokens d1)\<rparr>"
  let ?d2 = "?d1'\<lparr>refresh_tokens := refresh_tokens ?d1' @ [?row2]\<rparr>"
  have ids: "rt_id ` set (refresh_tokens da) = rt_id ` set (refresh_tokens d)"
    using RevokeRefreshToken_Inr [OF rev1] by simp
  note d1 = InsertRefreshToken_Inr [OF ins1]
  have ne: "jti1 \<noteq> rf_ID r" using d1(1) ids old by auto
  have in1: "?row1 \<in> set (refresh_tokens d1)" using d1(3) by simp
  then have "?row1 \<in> set (refresh_tokens ?d1')" using ne by (simp add: set_update_where)
  then have r1: "?row1 \<in> set (refresh_tokens ?d2)" by simp
  have old1: "rf_ID r \<in> rt_id ` set (refresh_tokens d1)" using d1(3) ids old by simp
  then have ne2: "jti \<noteq> rf_ID r" "jti \<noteq> jti1" using assms(7) in1 by force+
  have "InsertRefreshToken (calm t) jti (rf_UserID r) (re_clock env2 6 + h_refreshTTL h) ?d1' = (Inr (), ?d2)"
    using assms(7) d1(2,3) ne ne2 by (intro InsertRefreshToken_calm) (simp_all add: revoke_row_def)
  then have "refresh_rotate h env2 r user d1 = (Inr (JSON 200 (token_response h access refresh)), ?d2)"
    using assms(4,5,6) by (simp add: refresh_rotate_def RevokeRefreshToken_calm)
  moreover have "?row2 \<in> set (refresh_tokens ?d2)" by simp
  ultimately show ?thesis using r1 ne ne2
    by (intro exI [of _ ?d2] conjI bexI [OF bexI [OF _ \<open>?row2 \<in> set (refresh_tokens ?d2)\<close>] r1]) simp_all
qed


subsection \<open>The life of a secret\<close>

lemma normal_id: "(\<And>c. c \<in> set s \<Longrightarrow> \<not> is_space c \<and> c \<noteq> CHR '' '') \<Longrightarrow> normal s = s"
proof -
  assume h: "\<And>c. c \<in> set s \<Longrightarrow> \<not> is_space c \<and> c \<noteq> CHR '' ''"
  then have "dropWhile is_space s = s" by (cases s) auto
  moreover have "dropWhile is_space (rev s) = rev s" using h by (cases "rev s") (auto simp: rev_eq_Cons_iff)
  ultimately have "TrimSpace s = s" by (simp add: TrimSpace_def)
  then show ?thesis using h by (simp add: remove_spaces_def filter_id_conv)
qed

lemma normal_base32 [simp]: "normal (base32_encode b) = base32_encode b"
  by (rule normal_id) (simp add: base32_char_facts)

lemma hotp_code: "length (hotp key c 6) = 6" "normal (hotp key c 6) = hotp key c 6"
proof -
  show l: "length (hotp key c 6) = 6" by (simp add: hotp_def Let_def length_pad_zero)
  have "\<not> is_space x \<and> x \<noteq> CHR '' ''" if "is_digit x" for x
    using that by (auto simp: is_digit_def is_space_def char_ord_def)
  moreover have "is_digit x" if "x \<in> set (hotp key c 6)" for x
    using that by (auto simp: hotp_def Let_def intro: pad_zero_digits)
  ultimately show "normal (hotp key c 6) = hotp key c 6" by (intro normal_id) blast
qed

lemma base32_encode_nonempty: "b \<noteq> [] \<Longrightarrow> base32_encode b \<noteq> []"
proof
  assume "b \<noteq> []" and e: "base32_encode b = []"
  have "base32_decode [] = Some []" using base32_roundtrip [of "[]"] by (simp add: base32_encode_def b32_encode_nats.simps)
  with e base32_roundtrip [of b] \<open>b \<noteq> []\<close> show False by simp
qed

text \<open>A code of the current step or a neighbour of it verifies against the secret's text.\<close>

lemma verify_enrolled:
  assumes "key \<noteq> []" and "30 * second \<le> now" and "(now + 30 * second) div (30 * second) < 2 ^ 64"
    and "\<bar>int c - now div (30 * second)\<bar> \<le> 1"
  shows "VerifyTOTP (base32_encode key) (hotp key c 6) now 6 (30 * second) 1 = Inr True"
proof -
  have "VerifyTOTP (base32_encode key) (hotp key c 6) now 6 (30 * second) 1 =
    Inr (\<exists>c'. \<bar>int c' - now div (30 * second)\<bar> \<le> 1 \<and> hotp key c' (nat 6) = normal (hotp key c 6))"
    by (rule VerifyTOTP_hotp)
      (use assms(1-3) hotp_code [of key c] in \<open>auto simp: base32_roundtrip base32_encode_nonempty\<close>)
  with assms(4) show ?thesis by (auto simp: hotp_code(2))
qed

lemma update_user_calm:
  "update_user (calm t) uid f d = (Inr (), d\<lparr>users :=
     update_where (\<lambda>r. us_id r = uid \<and> us_deleted_at r = None) (\<lambda>r. (f r)\<lparr>us_updated_at := t\<rparr>) (users d)\<rparr>)"
  unfolding update_user_def by (subst autocommit_calm) (auto simp: calm_def)

lemma update_user_Inr:
  assumes "update_user e uid f d = (Inr u, d')"
  shows "d' = d\<lparr>users :=
     update_where (\<lambda>r. us_id r = uid \<and> us_deleted_at r = None) (\<lambda>r. (f r)\<lparr>us_updated_at := db_now e\<rparr>) (users d)\<rparr>"
  using autocommit_Inr [OF assms [unfolded update_user_def]] by auto

lemma GetUserByID_calm:
  assumes "distinct (map us_id (users d))" and "r \<in> set (users d)" and "us_id r = uid" and "us_deleted_at r = None"
  shows "GetUserByID (calm t) uid d = (Inr (to_User r), d)"
proof -
  have "filter (\<lambda>x. us_id x = uid \<and> us_deleted_at x = None) (users d) = [r]"
    using assms by (intro filter_key_unique)
  then show ?thesis
    unfolding GetUserByID_def by (subst autocommit_calm) (auto simp: reading_def select_user_def query_row_def)
qed

lemma user_after_update:
  assumes "r \<in> set (users d)" and "us_id r = uid" and "us_deleted_at r = None"
    and "update_user e uid f d = (Inr u, d')"
  shows "(f r)\<lparr>us_updated_at := db_now e\<rparr> \<in> set (users d')"
  using update_user_Inr [OF assms(4)] assms(1-3) by (auto simp: set_update_where)

lemma update_user_others:
  assumes "\<And>x. us_id (f x) = us_id x" and "update_user e uid f d = (Inr u, d')"
  shows "filter (\<lambda>x. us_id x \<noteq> uid) (users d') = filter (\<lambda>x. us_id x \<noteq> uid) (users d)"
proof -
  have "filter (\<lambda>x. us_id x \<noteq> uid) (update_where (\<lambda>r. us_id r = uid \<and> us_deleted_at r = None)
      (\<lambda>r. (f r)\<lparr>us_updated_at := t\<rparr>) rs) = filter (\<lambda>x. us_id x \<noteq> uid) rs" for t rs
    using assms(1) by (induction rs) auto
  then show ?thesis by (simp add: update_user_Inr [OF assms(2)])
qed

lemma MFAEnroll_Inr:
  assumes "MFAEnroll h env lo d = (Inr (JSON 200 resp), d1)"
  shows "\<exists>a r key enc. AuthFromLocals lo = Some a \<and> r \<in> set (users d) \<and> us_id r = ai_UserID a
    \<and> us_deleted_at r = None \<and> \<not> us_mfa_enabled r \<and> re_rand env 0 20 = Inr key
    \<and> er_Secret resp = base32_encode key
    \<and> EncryptString (h_aesgcm h) (re_rand env 1) (base32_encode key) mfa_aad = Inr enc
    \<and> SetMFASecret (re_db env 1) (ai_UserID a) enc d = (Inr (), d1)"
proof -
  obtain a user d0 secret enc where a: "AuthFromLocals lo = Some a"
    and g: "GetUserByID (re_db env 0) (ai_UserID a) d = (Inr user, d0)" and m: "\<not> u_MFAEnabled user"
    and s: "GenerateSecretBase32 (re_rand env 0) 20 = Inr secret"
    and e: "EncryptString (h_aesgcm h) (re_rand env 1) secret mfa_aad = Inr enc"
    and st: "SetMFASecret (re_db env 1) (ai_UserID a) enc d0 = (Inr (), d1)"
    and resp: "er_Secret resp = secret"
    using assms by (auto simp: MFAEnroll_def split: prod.splits option.splits sum.splits if_splits)
  from GetUserByID_Inr [OF g] obtain r where [simp]: "d0 = d" and r: "r \<in> set (users d)" "us_id r = ai_UserID a"
    "us_deleted_at r = None" "user = to_User r" by blast
  from s obtain key where "re_rand env 0 20 = Inr key" "secret = base32_encode key"
    by (auto simp: GenerateSecretBase32_def split: sum.splits)
  with a m e st resp r show ?thesis by (auto simp: to_User_def)
qed

text \<open>
  C14. Enrolment works end to end: the secret that \<open>MFAEnroll\<close> answered with is the base32 text
  of the key it drew; any RFC 4226 code of that key for the current time step or a neighbour,
  sent to \<open>MFAVerify\<close>, is answered by 204 and switches the one-time passwords of exactly this
  user on, with the stored secret decrypting to the secret of the answer.
\<close>

theorem mfa_enroll_then_verify:
  assumes "aead_ok (h_aesgcm h)" and "\<And>k. rand_ok (re_rand env k)" and "distinct (map us_id (users d))"
    and "MFAEnroll h env lo d = (Inr (JSON 200 resp), d1)"
    and "re_rand env 0 20 = Inr key"
    and "re_db env' 0 = calm t" and "re_db env' 1 = calm t"
    and "30 * second \<le> re_clock env' 0" and "(re_clock env' 0 + 30 * second) div (30 * second) < 2 ^ 64"
    and "\<bar>int c - re_clock env' 0 div (30 * second)\<bar> \<le> 1"
    and "rq_body req = (None, \<lparr>mv_Code = hotp key c 6\<rparr>)"
  shows "er_Secret resp = base32_encode key
    \<and> (\<exists>d2 u enc. MFAVerify h env' req lo d1 = (Inr (SendStatus 204), d2) \<and> u \<in> set (users d2)
        \<and> Some (us_id u) = map_option ai_UserID (AuthFromLocals lo) \<and> us_mfa_enabled u
        \<and> us_mfa_secret_enc u = Some enc \<and> DecryptString (h_aesgcm h) enc mfa_aad = Inr (er_Secret resp)
        \<and> filter (\<lambda>r. us_id r \<noteq> us_id u) (users d2) = filter (\<lambda>r. us_id r \<noteq> us_id u) (users d))"
proof -
  from MFAEnroll_Inr [OF assms(4)] assms(5) obtain a r enc where a: "AuthFromLocals lo = Some a"
    and r: "r \<in> set (users d)" "us_id r = ai_UserID a" "us_deleted_at r = None" "\<not> us_mfa_enabled r"
    and sec: "er_Secret resp = base32_encode key"
    and enc: "EncryptString (h_aesgcm h) (re_rand env 1) (base32_encode key) mfa_aad = Inr enc"
    and st: "update_user (re_db env 1) (ai_UserID a) (\<lambda>r. r\<lparr>us_mfa_secret_enc := Some enc\<rparr>) d = (Inr (), d1)"
    by (auto simp: SetMFASecret_def)
  have dec: "DecryptString (h_aesgcm h) enc mfa_aad = Inr (base32_encode key)"
    by (rule cx.dec_enc [OF assms(1,2) enc])
  have ne: "enc \<noteq> []" by (rule cx.enc_nonempty [OF assms(1,2) enc])
  have "length key = 20" using assms(2) [of 0] assms(5) by (simp add: rand_ok_def)
  then have key: "key \<noteq> []" by auto
  let ?r1 = "r\<lparr>us_mfa_secret_enc := Some enc, us_updated_at := db_now (re_db env 1)\<rparr>"
  let ?r2 = "?r1\<lparr>us_mfa_enabled := True, us_mfa_enrolled_at := Some t, us_updated_at := t\<rparr>"
  note d1 = update_user_Inr [OF st]
  have r1: "?r1 \<in> set (users d1)" using user_after_update [OF r(1-3) st] by simp
  have "map us_id (users d1) = map us_id (users d)" by (simp add: d1 map_key_update_where)
  then have g: "GetUserByID (calm t) (ai_UserID a) d1 = (Inr (to_User ?r1), d1)"
    using assms(3) r r1 by (intro GetUserByID_calm) simp_all
  define d2 where "d2 = snd (EnableMFA (calm t) (ai_UserID a) d1)"
  have en: "EnableMFA (calm t) (ai_UserID a) d1 = (Inr (), d2)"
    by (simp add: d2_def EnableMFA_def update_user_calm)
  have "mfa_code_check h (re_clock env' 0) (to_User ?r1) (hotp key c 6) = Inr ()"
    using ne dec verify_enrolled [OF key assms(8,9,10)]
    by (simp add: mfa_code_check_def to_User_def verify_code_def)
  then have v: "MFAVerify h env' req lo d1 = (Inr (SendStatus 204), d2)"
    using a assms(6,7,11) g en hotp_code(1) [of key c] by (auto simp: MFAVerify_def)
  have "?r2 \<in> set (users d2)"
    using user_after_update [OF r1 _ _ en [unfolded EnableMFA_def]] r by (simp add: calm_def)
  moreover have "filter (\<lambda>x. us_id x \<noteq> us_id r) (users d2) = filter (\<lambda>x. us_id x \<noteq> us_id r) (users d)"
    using update_user_others [OF _ en [unfolded EnableMFA_def]] update_user_others [OF _ st] r(2) by simp
  ultimately show ?thesis
    using sec v a r dec by (auto intro!: exI [of _ d2] exI [of _ ?r2])
qed

subsection \<open>Concrete runs\<close>

text \<open>A service with one user, one session, a toy signer and a database that does not fail.\<close>

definition demo_refresh_claims :: claims where
  "demo_refresh_claims = \<lparr>Issuer = ''esppd'', Subject = ''7'', Audience = [''esppd-users''],
     IssuedAt = Some 0, NotBefore = Some 0, ExpiresAt = Some (1000 * second),
     ID = ''old'', UserID = 7, Role = [], TokenType = ''refresh''\<rparr>"

definition demo_auth :: "unit auth_handler" where
  "demo_auth = NewHandler
     \<lparr>sg_sign = (\<lambda>c. Inr (TokenType c @ ID c)), sg_numeric = demo_numeric, sg_issuer = ''esppd'',
      sg_audience = ''esppd-users'', sg_accessTTL = 900 * second, sg_refreshTTL = 604800 * second\<rparr>
     \<lparr>vf_parse = (\<lambda>tok now. if tok = ''rt'' then Inr (demo_refresh_claims, True) else Inl (OtherErr ''malformed'')),
      vf_issuer = ''esppd'', vf_audience = ''esppd-users''\<rparr>
     demo_aead None demo_ldap (\<lambda>hash pw. if hash = pw then None else Some (OtherErr ''mismatch''))
     [] (900 * second) (604800 * second)"

definition demo_user :: user_row where
  "demo_user = \<lparr>us_id = 7, us_username = ''budi'', us_password_hash = ''rahasia'', us_role = ''USER'',
     us_employee_id = None, us_is_active = True, us_mfa_enabled = False, us_mfa_secret_enc = None,
     us_mfa_enrolled_at = None, us_last_login_at = None, us_created_at = 0, us_updated_at = 0,
     us_deleted_at = None\<rparr>"

definition demo_token :: refresh_row where
  "demo_token = \<lparr>rt_id = ''old'', rt_user_id = 7, rt_expires_at = 1000 * second, rt_revoked_at = None,
     rt_replaced_by = None, rt_created_at = 0\<rparr>"

definition demo_db :: db where
  "demo_db = empty_db\<lparr>users := [demo_user], refresh_tokens := [demo_token]\<rparr>"

abbreviation demo_login :: "loginRequest request" where
  "demo_login \<equiv> demo_request \<lparr>lr_Username = ''budi'', lr_Password = ''rahasia'', lr_OTP = []\<rparr>"

abbreviation demo_refresh :: "refreshRequest request" where
  "demo_refresh \<equiv> demo_request \<lparr>rr_RefreshToken = ''rt''\<rparr>"

lemma demo_facts: "tokens_pk demo_db" "distinct (map us_id (users demo_db))" "auth_inv demo_db"
  "parse_stable (h_verifier demo_auth)" "aead_ok (h_aesgcm demo_auth)" "rand_ok (re_rand (demo_env k) i)"
  "re_db (demo_env k) i = calm (100 * second)" "AuthFromLocals demo_locals \<noteq> None"
  by (simp_all add: tokens_pk_def demo_db_def auth_inv_def demo_user_def demo_token_def mfa_wf_def empty_db_def
      parse_stable_def demo_auth_def NewHandler_def demo_aead_ok rand_ok_def demo_env_def AuthFromLocals_def
      demo_locals_def)

lemma demo_runs:
  "\<not> isl (fst (Login demo_auth (demo_env 0) demo_login demo_db))"
  "\<not> isl (fst (Refresh demo_auth (demo_env 0) demo_refresh demo_db))"
  "\<not> isl (fst (MFAEnroll demo_auth (demo_env 0) demo_locals demo_db))"
  by code_simp+

theorem login_success_sound_witness:
  "\<exists>rep d'. Login demo_auth (demo_env 0) demo_login demo_db = (Inr rep, d')
     \<and> rt_user_id (last (refresh_tokens d')) = 7 \<and> length (refresh_tokens d') = 2"
proof -
  obtain rep d' where run: "Login demo_auth (demo_env 0) demo_login demo_db = (Inr rep, d')"
    using demo_runs(1) by (metis isl_def prod.collapse sum.exhaust_sel)
  from login_success_sound [OF run] run show ?thesis
    by (auto simp: demo_db_def empty_db_def demo_user_def)
qed

theorem refresh_single_use_witness:
  "\<exists>rep d1 m. Refresh demo_auth (demo_env 0) demo_refresh demo_db = (Inr rep, d1)
     \<and> Refresh demo_auth (demo_env 5) demo_refresh d1 = (Inl (FiberError 401 m), d1)"
proof -
  obtain rep d1 where run: "Refresh demo_auth (demo_env 0) demo_refresh demo_db = (Inr rep, d1)"
    using demo_runs(2) by (metis isl_def prod.collapse sum.exhaust_sel)
  have "rq_body demo_refresh = (None, snd (rq_body demo_refresh))" by (simp add: demo_request_def)
  from refresh_single_use [OF demo_facts(1) run tokens.R_refl demo_facts(4) this] run show ?thesis by blast
qed

theorem refresh_race_witness:
  "\<exists>r user rep1 d1 rep2 d2. refresh_check demo_auth (demo_env 0) demo_refresh demo_db = (Inr (r, user), demo_db)
     \<and> refresh_rotate demo_auth (demo_env 0) r user demo_db = (Inr rep1, d1)
     \<and> refresh_rotate demo_auth (demo_env 5) r user d1 = (Inr rep2, d2)"
proof -
  obtain rep d1 where "Refresh demo_auth (demo_env 0) demo_refresh demo_db = (Inr rep, d1)"
    using demo_runs(2) by (metis isl_def prod.collapse sum.exhaust_sel)
  from Refresh_Inr [OF this] obtain r user where
    c: "refresh_check demo_auth (demo_env 0) demo_refresh demo_db = (Inr (r, user), demo_db)"
    and rot: "refresh_rotate demo_auth (demo_env 0) r user demo_db = (Inr rep, d1)" by blast
  have env: "re_clock (demo_env 5) = re_clock (demo_env 0)" "re_db (demo_env 5) = re_db (demo_env 0)"
    by (simp_all add: demo_env_def)
  have c2: "refresh_check demo_auth (demo_env 5) demo_refresh demo_db = (Inr (r, user), demo_db)"
    using c by (simp only: refresh_check_def env)
  obtain access refresh where i2: "issue_pair demo_auth (demo_env 5) 4 (rf_UserID r) (u_Role user) =
      Inr (access, refresh, hex_encode (replicate 32 6))"
    by (simp add: issue_pair_def newTokenID_def demo_env_def demo_auth_def NewHandler_def NewAccessToken_def
        NewRefreshToken_def Let_def)
  from refresh_rotate_Inr [OF rot] obtain a1 f1 jti da where
    i1: "issue_pair demo_auth (demo_env 0) 4 (rf_UserID r) (u_Role user) = Inr (a1, f1, jti)"
    and rev: "RevokeRefreshToken (re_db (demo_env 0) 2) (rf_ID r) (Some jti) demo_db = (Inr (), da)"
    and ins: "InsertRefreshToken (re_db (demo_env 0) 3) jti (rf_UserID r)
      (re_clock (demo_env 0) 6 + h_refreshTTL demo_auth) da = (Inr (), d1)" by blast
  have "jti = hex_encode (replicate 32 1)" using issue_pair_Inr [OF i1] by (simp add: demo_env_def)
  moreover have "rt_id ` set (refresh_tokens d1) = {jti, ''old''}"
    using InsertRefreshToken_Inr(3) [OF ins] RevokeRefreshToken_Inr [OF rev]
    by (auto simp: demo_db_def empty_db_def demo_token_def revoke_row_def)
  moreover have "hex_encode (replicate 32 6) \<noteq> hex_encode (replicate 32 1)"
    by (auto dest: hex_encode_inj simp: replicate_eq_replicate)
  moreover have "hex_encode (replicate 32 6) \<noteq> ''old''"
    by (rule notI, drule arg_cong [where f = length]) simp
  ultimately have new: "hex_encode (replicate 32 6) \<notin> rt_id ` set (refresh_tokens d1)" by simp
  from refresh_race [OF c c2 rot i2 demo_facts(7,7) new] c rot show ?thesis by blast
qed

theorem auth_serve_invariant_witness:
  "auth_inv (snd (auth_serve demo_auth (\<lambda>_. 0) (demo_env 0) (CallRefresh demo_refresh) demo_db))
   \<and> tokens_age demo_db (snd (auth_serve demo_auth (\<lambda>_. 0) (demo_env 0) (CallRefresh demo_refresh) demo_db))"
  by (rule auth_serve_invariant [OF demo_facts(5,6,3)])


theorem mfa_enroll_then_verify_witness:
  "\<exists>resp d1 d2. MFAEnroll demo_auth (demo_env 0) demo_locals demo_db = (Inr (JSON 200 resp), d1)
     \<and> MFAVerify demo_auth (demo_env 0) (demo_request \<lparr>mv_Code = hotp (replicate 20 0) 3 6\<rparr>) demo_locals d1
        = (Inr (SendStatus 204), d2)"
proof -
  obtain rep d1 where run: "MFAEnroll demo_auth (demo_env 0) demo_locals demo_db = (Inr rep, d1)"
    using demo_runs(3) by (metis isl_def prod.collapse sum.exhaust_sel)
  then obtain resp where [simp]: "rep = JSON 200 resp"
    by (auto simp: MFAEnroll_def split: option.splits prod.splits sum.splits if_splits)
  have k: "re_rand (demo_env 0) 0 20 = Inr (replicate 20 0)" by (simp add: demo_env_def)
  have t: "re_clock (demo_env 0) 0 = 100 * second" by (simp add: demo_env_def)
  show ?thesis
    using mfa_enroll_then_verify [OF demo_facts(5,6,2) run [simplified] k demo_facts(7) [where k = 0] demo_facts(7) [where k = 0],
        where c = 3 and req = "demo_request \<lparr>mv_Code = hotp (replicate 20 0) 3 6\<rparr>"] run
    by (auto simp: t demo_request_def)
qed

end
