(* ===== verification/Spd.thy ===== *)
theory Spd
  imports Service
begin

text \<open>
  \<open>services/spd-service\<close>: travel orders (SPD), created as drafts with two encrypted columns, read
  under row-level security and submitted for approval.  The statements of
  \<open>internal/repo/repo.go\<close> come first, then the handlers of \<open>internal/http/handler.go\<close>, whose state
  is the database and the messages published.
\<close>

subsection \<open>Repository\<close>

record SPDRow =
  s_ID :: int
  s_NomorSurat :: string
  s_EmployeeID :: "int option"
  s_UnitID :: int
  s_PurposeEnc :: bytes
  s_TotalCostEnc :: bytes
  s_Status :: string
  s_CreatedBy :: int
  s_CreatedAt :: gotime
  s_UpdatedAt :: gotime

definition to_SPDRow :: "spd_row \<Rightarrow> SPDRow" where
  "to_SPDRow r = \<lparr>s_ID = sp_id r, s_NomorSurat = sp_nomor_surat r, s_EmployeeID = sp_employee_id r,
     s_UnitID = sp_unit_id r, s_PurposeEnc = bytes_or_nil (sp_purpose_enc r),
     s_TotalCostEnc = bytes_or_nil (sp_total_cost_enc r), s_Status = sp_status r,
     s_CreatedBy = sp_created_by r, s_CreatedAt = sp_created_at r, s_UpdatedAt = sp_updated_at r\<rparr>"

text \<open>
  The constraints of \<open>spds\<close>: \<open>VARCHAR(50)\<close>, row security, the two keys and the foreign keys.
\<close>

definition spd_refused :: "db \<Rightarrow> int \<Rightarrow> string \<Rightarrow> spd_row \<Rightarrow> string option" where
  "spd_refused d uid role r =
     (if length (sp_nomor_surat r) > 50 then Some ''value too long for type character varying(50)''
      else if \<not> spds_insert_policy d uid role r then Some ''new row violates row-level security policy''
      else if sp_id r \<in> sp_id ` set (spds d) \<or> sp_nomor_surat r \<in> sp_nomor_surat ` set (spds d)
      then Some ''duplicate key value violates unique constraint''
      else if sp_unit_id r \<notin> un_id ` set (units d) \<or> sp_created_by r \<notin> us_id ` set (users d)
        \<or> (case sp_employee_id r of None \<Rightarrow> False | Some e \<Rightarrow> e \<notin> em_id ` set (employees d))
      then Some ''insert violates foreign key constraint''
      else None)"

definition insert_spd ::
  "dbenv \<Rightarrow> string \<Rightarrow> int \<Rightarrow> int option \<Rightarrow> bytes \<Rightarrow> bytes \<Rightarrow> int \<Rightarrow> tx \<Rightarrow> SPDRow res \<times> tx" where
  "insert_spd e nomorSurat unitID employeeID purposeEnc totalCostEnc userID t =
     (let (i, d) = nextval ''spds'' (tx_db t);
          r = \<lparr>sp_id = i, sp_nomor_surat = nomorSurat, sp_employee_id = employeeID, sp_unit_id = unitID,
               sp_budget_id = None, sp_purpose_enc = Some purposeEnc, sp_total_cost_enc = Some totalCostEnc,
               sp_status = ''DRAFT'', sp_current_approver_id = None, sp_created_by = userID,
               sp_created_at = db_now e, sp_updated_at = db_now e, sp_deleted_at = None\<rparr>
      in case spd_refused d (tx_uid t) (tx_role t) r of
           Some m \<Rightarrow> (Inl (OtherErr m), t\<lparr>tx_db := d\<rparr>)
         | None \<Rightarrow> (Inr (to_SPDRow r), t\<lparr>tx_db := d\<lparr>spds := spds d @ [r]\<rparr>\<rparr>))"

definition CreateSPD ::
  "dbenv \<Rightarrow> int \<Rightarrow> string \<Rightarrow> string \<Rightarrow> int \<Rightarrow> int option \<Rightarrow> bytes \<Rightarrow> bytes \<Rightarrow> db \<Rightarrow> SPDRow res \<times> db" where
  "CreateSPD e userID role nomorSurat unitID employeeID purposeEnc totalCostEnc =
     with_rls e userID role
       (tx_exec e (insert_spd e nomorSurat unitID employeeID purposeEnc totalCostEnc userID))"

text \<open>The rows a transaction may read.\<close>

definition visible_spds :: "tx \<Rightarrow> spd_row list" where
  "visible_spds t = filter (spds_select_policy (tx_db t) (tx_uid t) (tx_role t)) (spds (tx_db t))"

definition GetSPD :: "dbenv \<Rightarrow> int \<Rightarrow> string \<Rightarrow> int \<Rightarrow> db \<Rightarrow> SPDRow res \<times> db" where
  "GetSPD e userID role i =
     with_rls e userID role (tx_exec e (reading (\<lambda>t.
       case query_row (filter (\<lambda>r. sp_id r = i \<and> sp_deleted_at r = None) (visible_spds t)) of
         Inl x \<Rightarrow> Inl x
       | Inr r \<Rightarrow> Inr (to_SPDRow r))))"

definition ListSPDs :: "dbenv \<Rightarrow> int \<Rightarrow> string \<Rightarrow> int \<Rightarrow> int \<Rightarrow> db \<Rightarrow> SPDRow list res \<times> db" where
  "ListSPDs e userID role limit offset =
     with_rls e userID role (tx_exec e (reading (\<lambda>t.
       Inr (map to_SPDRow (limit_offset limit offset
         (order_desc sp_created_at (filter (\<lambda>r. sp_deleted_at r = None) (visible_spds t))))))))"

text \<open>\<open>UPDATE ... WHERE id = $1 AND status = 'DRAFT' AND deleted_at IS NULL RETURNING ...\<close>\<close>

definition submits :: "tx \<Rightarrow> int \<Rightarrow> spd_row \<Rightarrow> bool" where
  "submits t i r \<longleftrightarrow> sp_id r = i \<and> sp_status r = ''DRAFT'' \<and> sp_deleted_at r = None
     \<and> spds_update_policy (tx_db t) (tx_uid t) (tx_role t) r"

definition submitted :: "gotime \<Rightarrow> spd_row \<Rightarrow> spd_row" where
  "submitted now r = r\<lparr>sp_status := ''SUBMITTED'', sp_updated_at := now\<rparr>"

definition submit_spd :: "dbenv \<Rightarrow> int \<Rightarrow> tx \<Rightarrow> SPDRow res \<times> tx" where
  "submit_spd e i t =
     (case query_row (returning (submits t i) (submitted (db_now e)) (spds (tx_db t))) of
        Inl x \<Rightarrow> (Inl x, t)
      | Inr r \<Rightarrow> (Inr (to_SPDRow r), t\<lparr>tx_db := (tx_db t)\<lparr>spds :=
          update_where (submits t i) (submitted (db_now e)) (spds (tx_db t))\<rparr>\<rparr>))"

definition SubmitSPD :: "dbenv \<Rightarrow> int \<Rightarrow> string \<Rightarrow> int \<Rightarrow> db \<Rightarrow> SPDRow res \<times> db" where
  "SubmitSPD e userID role i = with_rls e userID role (tx_exec e (submit_spd e i))"

subsection \<open>Handlers\<close>

record spd_handler =
  sh_verifier :: verifier
  sh_aesgcm :: aead
  sh_nc :: bool

record spd_createRequest =
  sq_NomorSurat :: string
  sq_EmployeeID :: "int option"
  sq_UnitID :: int
  sq_Purpose :: string
  sq_TotalCost :: string

record spdResponse =
  so_ID :: int
  so_NomorSurat :: string
  so_EmployeeID :: "int option"
  so_UnitID :: int
  so_Purpose :: string
  so_TotalCost :: string
  so_Status :: string
  so_CreatedBy :: int
  so_CreatedAt :: string
  so_UpdatedAt :: string

definition purpose_aad :: bytes where
  "purpose_aad = bytes_of ''spds:purpose''"

definition total_cost_aad :: bytes where
  "total_cost_aad = bytes_of ''spds:total_cost''"

definition spd_toResponse :: "spd_handler \<Rightarrow> SPDRow \<Rightarrow> spdResponse res" where
  "spd_toResponse h r =
     (case DecryptString (sh_aesgcm h) (s_PurposeEnc r) purpose_aad of
        Inl e \<Rightarrow> Inl e
      | Inr purpose \<Rightarrow>
          (case DecryptString (sh_aesgcm h) (s_TotalCostEnc r) total_cost_aad of
             Inl e \<Rightarrow> Inl e
           | Inr total_cost \<Rightarrow> Inr
               \<lparr>so_ID = s_ID r, so_NomorSurat = s_NomorSurat r, so_EmployeeID = s_EmployeeID r,
                so_UnitID = s_UnitID r, so_Purpose = purpose, so_TotalCost = total_cost, so_Status = s_Status r,
                so_CreatedBy = s_CreatedBy r, so_CreatedAt = FormatRFC3339 (s_CreatedAt r),
                so_UpdatedAt = FormatRFC3339 (s_UpdatedAt r)\<rparr>))"

definition parseInt_spd :: "string \<Rightarrow> int \<Rightarrow> int" where
  "parseInt_spd s def =
     (if s = [] then def
      else case ParseInt s of (i, Some e) \<Rightarrow> def | (i, None) \<Rightarrow> i)"

definition clampInt_spd :: "int \<Rightarrow> int \<Rightarrow> int \<Rightarrow> int" where
  "clampInt_spd v mn mx = (if v < mn then mn else if v > mx then mx else v)"

definition Create_spd ::
  "spd_handler \<Rightarrow> renv \<Rightarrow> spd_createRequest request \<Rightarrow> locals \<Rightarrow> db \<Rightarrow> spdResponse reply res \<times> db" where
  "Create_spd h env c lo d =
     (case rq_body c of
        (Some e, _) \<Rightarrow> (Inl (FiberError 400 ''invalid json''), d)
      | (None, req) \<Rightarrow>
          if sq_NomorSurat req = [] \<or> sq_UnitID req = 0
          then (Inl (FiberError 400 ''nomor_surat and unit_id required''), d)
          else (case AuthFromLocals lo of
              None \<Rightarrow> (Inl (unauthorized ''unauthorized''), d)
            | Some a \<Rightarrow>
                (case EncryptString (sh_aesgcm h) (re_rand env 0) (sq_Purpose req) purpose_aad of
                   Inl e \<Rightarrow> (Inl e, d)
                 | Inr purposeEnc \<Rightarrow>
                     (case EncryptString (sh_aesgcm h) (re_rand env 1) (sq_TotalCost req) total_cost_aad of
                        Inl e \<Rightarrow> (Inl e, d)
                      | Inr totalEnc \<Rightarrow>
                          (case CreateSPD (re_db env 0) (ai_UserID a) (ai_Role a) (sq_NomorSurat req)
                                  (sq_UnitID req) (sq_EmployeeID req) purposeEnc totalEnc d of
                             (Inl e, d) \<Rightarrow> (Inl e, d)
                           | (Inr row, d) \<Rightarrow>
                               (case spd_toResponse h row of
                                  Inl e \<Rightarrow> (Inl e, d)
                                | Inr resp \<Rightarrow> (Inr (JSON 201 resp), d)))))))"

definition Get_spd ::
  "spd_handler \<Rightarrow> renv \<Rightarrow> unit request \<Rightarrow> locals \<Rightarrow> db \<Rightarrow> spdResponse reply res \<times> db" where
  "Get_spd h env c lo d =
     (case ParseIDParam c ''id'' of
        Inl e \<Rightarrow> (Inl e, d)
      | Inr i \<Rightarrow>
          (case AuthFromLocals lo of
             None \<Rightarrow> (Inl (unauthorized ''unauthorized''), d)
           | Some a \<Rightarrow>
               (case GetSPD (re_db env 0) (ai_UserID a) (ai_Role a) i d of
                  (Inl e, d) \<Rightarrow> (Inl (if e = ErrNoRows then FiberError 404 ''not found'' else e), d)
                | (Inr row, d) \<Rightarrow>
                    (case spd_toResponse h row of
                       Inl e \<Rightarrow> (Inl e, d)
                     | Inr resp \<Rightarrow> (Inr (JSON 200 resp), d)))))"

definition List_spd ::
  "spd_handler \<Rightarrow> renv \<Rightarrow> unit request \<Rightarrow> locals \<Rightarrow> db \<Rightarrow> spdResponse page reply res \<times> db" where
  "List_spd h env c lo d =
     (let limit = clampInt_spd (parseInt_spd (rq_query c ''limit'') 20) 1 100;
          offset = clampInt_spd (parseInt_spd (rq_query c ''offset'') 0) 0 10000
      in case AuthFromLocals lo of
           None \<Rightarrow> (Inl (unauthorized ''unauthorized''), d)
         | Some a \<Rightarrow>
             (case ListSPDs (re_db env 0) (ai_UserID a) (ai_Role a) limit offset d of
                (Inl e, d) \<Rightarrow> (Inl e, d)
              | (Inr rows, d) \<Rightarrow>
                  (case each_ok (spd_toResponse h) rows of
                     Inl e \<Rightarrow> (Inl e, d)
                   | Inr out \<Rightarrow> (Inr (JSON 200 \<lparr>pg_items = out, pg_limit = limit, pg_offset = offset\<rparr>), d))))"

record SPDSubmittedEvent =
  ev_SPDID :: int
  ev_UnitID :: int
  ev_UserID :: int
  ev_SubmittedAt :: gotime

definition marshal_submitted :: "SPDSubmittedEvent \<Rightarrow> json" where
  "marshal_submitted evt = [(''spd_id'', JInt (ev_SPDID evt)), (''unit_id'', JInt (ev_UnitID evt)),
     (''user_id'', JInt (ev_UserID evt)), (''submitted_at'', JTime (ev_SubmittedAt evt))]"

text \<open>The messages published are the third component; an unconnected bus publishes none.\<close>

definition Submit_spd ::
  "spd_handler \<Rightarrow> renv \<Rightarrow> unit request \<Rightarrow> locals \<Rightarrow> db \<Rightarrow> spdResponse reply res \<times> db \<times> msg list" where
  "Submit_spd h env c lo d =
     (case ParseIDParam c ''id'' of
        Inl e \<Rightarrow> (Inl e, d, [])
      | Inr i \<Rightarrow>
          (case AuthFromLocals lo of
             None \<Rightarrow> (Inl (unauthorized ''unauthorized''), d, [])
           | Some a \<Rightarrow>
               (case SubmitSPD (re_db env 0) (ai_UserID a) (ai_Role a) i d of
                  (Inl e, d) \<Rightarrow> (Inl (if e = ErrNoRows then FiberError 400 ''cannot submit'' else e), d, [])
                | (Inr row, d) \<Rightarrow>
                    let out = (if sh_nc h
                               then [\<lparr>ms_subject = ''spd.submitted'', ms_data = Some (marshal_submitted
                                  \<lparr>ev_SPDID = s_ID row, ev_UnitID = s_UnitID row, ev_UserID = ai_UserID a,
                                   ev_SubmittedAt = re_clock env 0\<rparr>)\<rparr>]
                               else [])
                    in (case spd_toResponse h row of
                          Inl e \<Rightarrow> (Inl e, d, out)
                        | Inr resp \<Rightarrow> (Inr (JSON 200 resp), d, out)))))"

end
