(* ===== verification/SpdProps.thy ===== *)
theory SpdProps
  imports Spd
begin

text \<open>
  Properties of the SPD service: paging, what the reads disclose, the round trip from creation
  to reading, and submission.
\<close>

interpretation spd_param: int_param parseInt_spd clampInt_spd
  by (rule int_param_copy) (simp_all add: parseInt_spd_def clampInt_spd_def)

subsection \<open>What the statements do\<close>

lemma visible_spds_cong:
  "visible_spds (started e uid role d) = filter (spds_select_policy d uid role) (spds d)"
  by (simp add: visible_spds_def started_def)

lemma CreateSPD_Inr:
  assumes "CreateSPD e uid role nomor unit emp pe te d = (Inr row, d')"
  shows "\<exists>r. row = to_SPDRow r \<and> sp_id r = seqs d ''spds'' + 1 \<and> sp_nomor_surat r = nomor \<and> sp_unit_id r = unit
    \<and> sp_employee_id r = emp \<and> sp_purpose_enc r = Some pe \<and> sp_total_cost_enc r = Some te
    \<and> sp_status r = ''DRAFT'' \<and> sp_created_by r = uid \<and> sp_deleted_at r = None
    \<and> spd_refused d uid role r = None
    \<and> d' = d\<lparr>spds := spds d @ [r], seqs := (seqs d)(''spds'' := seqs d ''spds'' + 1)\<rparr>"
proof -
  obtain t where ins: "insert_spd e nomor unit emp pe te uid (first_stmt uid role d) = (Inr row, t)"
    and d': "d' = tx_db t"
    using with_rls_exec_Inr [OF assms [unfolded CreateSPD_def]] by blast
  have "spd_refused (d\<lparr>seqs := s\<rparr>) uid role r = spd_refused d uid role r" for s r
    using policy_cong(2) [of "d\<lparr>seqs := s\<rparr>" d] by (simp add: spd_refused_def cong: option.case_cong)
  with ins d' show ?thesis
    by (auto simp: insert_spd_def nextval_def Let_def split: option.splits)
qed

lemma GetSPD_Inr:
  assumes "GetSPD e uid role i d = (Inr row, d')"
  shows "d' = d" and "\<exists>r \<in> set (spds d). sp_id r = i \<and> sp_deleted_at r = None
    \<and> spds_select_policy d uid role r \<and> row = to_SPDRow r"
proof -
  show "d' = d" using assms unfolding GetSPD_def by (rule with_rls_reading)
  from with_rls_Inr [OF assms [unfolded GetSPD_def]] obtain r where
    "query_row (filter (\<lambda>r. sp_id r = i \<and> sp_deleted_at r = None) (visible_spds (started e uid role d))) = Inr r"
    "row = to_SPDRow r"
    by (auto simp: tx_exec_def reading_def visible_spds_def started_def split: option.splits sum.splits)
  from query_row_filter [OF this(1)] this(2)
  show "\<exists>r \<in> set (spds d). sp_id r = i \<and> sp_deleted_at r = None \<and> spds_select_policy d uid role r \<and> row = to_SPDRow r"
    by (auto simp: visible_spds_cong)
qed

lemma ListSPDs_Inr:
  assumes "ListSPDs e uid role limit offset d = (Inr rows, d')"
  shows "d' = d" and "rows = map to_SPDRow (limit_offset limit offset (order_desc sp_created_at
    (filter (\<lambda>r. sp_deleted_at r = None) (filter (spds_select_policy d uid role) (spds d)))))"
proof -
  show "d' = d" using assms unfolding ListSPDs_def by (rule with_rls_reading)
  from with_rls_Inr [OF assms [unfolded ListSPDs_def]]
  show "rows = map to_SPDRow (limit_offset limit offset (order_desc sp_created_at
    (filter (\<lambda>r. sp_deleted_at r = None) (filter (spds_select_policy d uid role) (spds d)))))"
    by (auto simp: tx_exec_def reading_def visible_spds_def started_def split: option.splits)
qed

lemma submits_cong:
  "tx_db t = d \<Longrightarrow> tx_uid t = uid \<Longrightarrow> tx_role t = role \<Longrightarrow>
    submits t i = (\<lambda>r. sp_id r = i \<and> sp_status r = ''DRAFT'' \<and> sp_deleted_at r = None \<and> spds_update_policy d uid role r)"
  by (simp add: submits_def fun_eq_iff)

abbreviation submittable :: "db \<Rightarrow> int \<Rightarrow> string \<Rightarrow> int \<Rightarrow> spd_row \<Rightarrow> bool" where
  "submittable d uid role i r \<equiv>
     sp_id r = i \<and> sp_status r = ''DRAFT'' \<and> sp_deleted_at r = None \<and> spds_update_policy d uid role r"

lemma SubmitSPD_Inr:
  assumes "SubmitSPD e uid role i d = (Inr row, d')"
  shows "\<exists>r \<in> set (spds d). submittable d uid role i r \<and> row = to_SPDRow (submitted (db_now e) r)"
    and "d' = d\<lparr>spds := update_where (submittable d uid role i) (submitted (db_now e)) (spds d)\<rparr>"
proof -
  define t0 where "t0 = first_stmt uid role d"
  have t0: "tx_db t0 = d" "tx_uid t0 = uid" "tx_role t0 = role" by (simp_all add: t0_def)
  obtain t where s: "submit_spd e i t0 = (Inr row, t)" and d': "d' = tx_db t"
    using with_rls_exec_Inr [OF assms [unfolded SubmitSPD_def]] unfolding t0_def by blast
  from s obtain r where q: "query_row (returning (submits t0 i) (submitted (db_now e)) (spds d)) = Inr r"
    "row = to_SPDRow r" "tx_db t = d\<lparr>spds := update_where (submits t0 i) (submitted (db_now e)) (spds d)\<rparr>"
    by (auto simp: submit_spd_def t0 split: sum.splits)
  from query_row_in_set [OF q(1)] q(2)
  show "\<exists>r \<in> set (spds d). submittable d uid role i r \<and> row = to_SPDRow (submitted (db_now e) r)"
    by (auto simp: submits_cong [OF t0] dest!: returning_in_set)
  show "d' = d\<lparr>spds := update_where (submittable d uid role i) (submitted (db_now e)) (spds d)\<rparr>"
    using q(3) d' by (simp add: submits_cong [OF t0])
qed

lemma SubmitSPD_none:
  assumes "\<And>r. r \<in> set (spds d) \<Longrightarrow> \<not> submittable d uid role i r"
  shows "SubmitSPD (calm now) uid role i d = (Inl ErrNoRows, d)"
proof -
  have "submit_spd (calm now) i (first_stmt uid role d) = (Inl ErrNoRows, first_stmt uid role d)"
    using assms by (auto simp: submit_spd_def submits_def query_row_def returning_def filter_empty_conv)
  from with_rls_exec_calm [where stmt = "submit_spd (calm now) i", OF this] show ?thesis by (simp add: SubmitSPD_def rollback_def)
qed

lemma GetSPD_calm:
  assumes "filter (\<lambda>r. sp_id r = i \<and> sp_deleted_at r = None) (filter (spds_select_policy d uid role) (spds d)) = [r]"
  shows "GetSPD (calm now) uid role i d = (Inr (to_SPDRow r), d)"
proof -
  let ?q = "\<lambda>t. case query_row (filter (\<lambda>r. sp_id r = i \<and> sp_deleted_at r = None) (visible_spds t)) of
         Inl x \<Rightarrow> Inl x | Inr r \<Rightarrow> Inr (to_SPDRow r)"
  have "reading ?q (first_stmt uid role d) = (Inr (to_SPDRow r), first_stmt uid role d)"
    using assms by (simp add: reading_def visible_spds_def query_row_def)
  from with_rls_exec_calm [where stmt = "reading ?q", OF this] show ?thesis by (simp add: GetSPD_def)
qed

lemma spd_toResponse_Inr:
  assumes "spd_toResponse h r = Inr resp"
  shows "so_ID resp = s_ID r" "so_Status resp = s_Status r" "so_CreatedBy resp = s_CreatedBy r"
    "so_UnitID resp = s_UnitID r" "so_NomorSurat resp = s_NomorSurat r" "so_EmployeeID resp = s_EmployeeID r"
    "DecryptString (sh_aesgcm h) (s_PurposeEnc r) purpose_aad = Inr (so_Purpose resp)"
    "DecryptString (sh_aesgcm h) (s_TotalCostEnc r) total_cost_aad = Inr (so_TotalCost resp)"
  using assms by (auto simp: spd_toResponse_def split: sum.splits)

lemma Create_spd_Inr:
  assumes "Create_spd h env c lo d = (Inr rep, d')"
  shows "\<exists>req a pe te row resp. rq_body c = (None, req) \<and> AuthFromLocals lo = Some a
    \<and> EncryptString (sh_aesgcm h) (re_rand env 0) (sq_Purpose req) purpose_aad = Inr pe
    \<and> EncryptString (sh_aesgcm h) (re_rand env 1) (sq_TotalCost req) total_cost_aad = Inr te
    \<and> CreateSPD (re_db env 0) (ai_UserID a) (ai_Role a) (sq_NomorSurat req) (sq_UnitID req) (sq_EmployeeID req) pe te d
        = (Inr row, d')
    \<and> spd_toResponse h row = Inr resp \<and> rep = JSON 201 resp"
  using assms by (auto simp: Create_spd_def split: prod.splits option.splits sum.splits if_splits)

text \<open>The row a successful creation leaves, and that its creator sees it.\<close>

lemma Create_spd_row:
  assumes "aead_ok (sh_aesgcm h)" and "\<And>k. rand_ok (re_rand env k)" and "Create_spd h env c lo d = (Inr rep, d1)"
  shows "\<exists>req a r resp. rq_body c = (None, req) \<and> AuthFromLocals lo = Some a \<and> rep = JSON 201 resp
    \<and> spd_toResponse h (to_SPDRow r) = Inr resp
    \<and> sp_id r = seqs d ''spds'' + 1 \<and> sp_nomor_surat r = sq_NomorSurat req \<and> sp_status r = ''DRAFT''
    \<and> sp_created_by r = ai_UserID a \<and> sp_deleted_at r = None \<and> ai_UserID a \<in> us_id ` set (users d)
    \<and> DecryptString (sh_aesgcm h) (bytes_or_nil (sp_purpose_enc r)) purpose_aad = Inr (sq_Purpose req)
    \<and> DecryptString (sh_aesgcm h) (bytes_or_nil (sp_total_cost_enc r)) total_cost_aad = Inr (sq_TotalCost req)
    \<and> d1 = d\<lparr>spds := spds d @ [r], seqs := (seqs d)(''spds'' := seqs d ''spds'' + 1)\<rparr>
    \<and> filter (\<lambda>x. sp_id x = seqs d ''spds'' + 1 \<and> sp_deleted_at x = None)
        (filter (spds_select_policy d1 (ai_UserID a) (ai_Role a)) (spds d1)) = [r]"
proof -
  from Create_spd_Inr [OF assms(3)] obtain req a pe te row resp where
    b: "rq_body c = (None, req)" and a: "AuthFromLocals lo = Some a"
    and pe: "EncryptString (sh_aesgcm h) (re_rand env 0) (sq_Purpose req) purpose_aad = Inr pe"
    and te: "EncryptString (sh_aesgcm h) (re_rand env 1) (sq_TotalCost req) total_cost_aad = Inr te"
    and cr: "CreateSPD (re_db env 0) (ai_UserID a) (ai_Role a) (sq_NomorSurat req) (sq_UnitID req)
      (sq_EmployeeID req) pe te d = (Inr row, d1)"
    and resp: "spd_toResponse h row = Inr resp" and rep: "rep = JSON 201 resp" by blast
  from CreateSPD_Inr [OF cr] obtain r where row: "row = to_SPDRow r"
    and r: "sp_id r = seqs d ''spds'' + 1" "sp_nomor_surat r = sq_NomorSurat req" "sp_purpose_enc r = Some pe"
      "sp_total_cost_enc r = Some te" "sp_status r = ''DRAFT''" "sp_created_by r = ai_UserID a" "sp_deleted_at r = None"
    and ok: "spd_refused d (ai_UserID a) (ai_Role a) r = None"
    and d1: "d1 = d\<lparr>spds := spds d @ [r], seqs := (seqs d)(''spds'' := seqs d ''spds'' + 1)\<rparr>" by blast
  from ok have new: "sp_id r \<notin> sp_id ` set (spds d)" and "spds_insert_policy d (ai_UserID a) (ai_Role a) r"
    and us: "ai_UserID a \<in> us_id ` set (users d)"
    using r(6) by (auto simp: spd_refused_def split: if_splits)
  then have "spds_select_policy d1 (ai_UserID a) (ai_Role a) r"
    using policy_cong(1) [of d1 d] d1 by (simp add: spds_insert_select)
  moreover have "filter (\<lambda>x. sp_id x = sp_id r \<and> sp_deleted_at x = None) (filter S (spds d)) = []" for S
    using new by (auto simp: filter_empty_conv image_iff)
  ultimately have "filter (\<lambda>x. sp_id x = sp_id r \<and> sp_deleted_at x = None)
      (filter (spds_select_policy d1 (ai_UserID a) (ai_Role a)) (spds d1)) = [r]"
    using r(7) by (simp add: d1 del: filter_filter)
  with cx.two_columns [OF assms(1,2,2) pe te] b a rep resp row r us d1 show ?thesis
    by (intro exI [of _ req] exI [of _ a] exI [of _ r] exI [of _ resp]) simp
qed

subsection \<open>The properties\<close>

text \<open>
  C11. Creating an order and reading it: the answer to a successful creation is 201 with the
  purpose and cost of the request in clear, a draft of the caller's, and whoever may see the row
  (the caller for one) gets the very same answer, with 200, when asking for its id.
\<close>

theorem spd_create_then_get:
  assumes "aead_ok (sh_aesgcm h)" and "\<And>k. rand_ok (re_rand env k)"
    and "Create_spd h env c lo d = (Inr rep, d1)"
    and "re_db env' 0 = calm t"
    and "rq_params c' ''id'' = FormatInt (seqs d ''spds'' + 1)" and "int64_ok (seqs d ''spds'' + 1)"
  shows "\<exists>req a resp. rq_body c = (None, req) \<and> AuthFromLocals lo = Some a \<and> rep = JSON 201 resp
    \<and> so_ID resp = seqs d ''spds'' + 1 \<and> so_Purpose resp = sq_Purpose req \<and> so_TotalCost resp = sq_TotalCost req
    \<and> so_NomorSurat resp = sq_NomorSurat req \<and> so_Status resp = ''DRAFT'' \<and> so_CreatedBy resp = ai_UserID a
    \<and> Get_spd h env' c' lo d1 = (Inr (JSON 200 resp), d1)"
proof -
  from Create_spd_row [OF assms(1-3)] obtain req a r resp where b: "rq_body c = (None, req)" "AuthFromLocals lo = Some a"
      "rep = JSON 201 resp"
    and resp: "spd_toResponse h (to_SPDRow r) = Inr resp"
    and r: "sp_id r = seqs d ''spds'' + 1" "sp_nomor_surat r = sq_NomorSurat req" "sp_status r = ''DRAFT''"
      "sp_created_by r = ai_UserID a"
      "DecryptString (sh_aesgcm h) (bytes_or_nil (sp_purpose_enc r)) purpose_aad = Inr (sq_Purpose req)"
      "DecryptString (sh_aesgcm h) (bytes_or_nil (sp_total_cost_enc r)) total_cost_aad = Inr (sq_TotalCost req)"
    and vis: "filter (\<lambda>x. sp_id x = seqs d ''spds'' + 1 \<and> sp_deleted_at x = None)
        (filter (spds_select_policy d1 (ai_UserID a) (ai_Role a)) (spds d1)) = [r]" by blast
  have "ParseIDParam c' ''id'' = Inr (seqs d ''spds'' + 1)"
    using assms(5,6) parse_int64_FormatInt by (simp add: ParseIDParam_Inr)
  then have "Get_spd h env' c' lo d1 = (Inr (JSON 200 resp), d1)"
    using GetSPD_calm [OF vis, of t] b(2) assms(4) resp by (simp add: Get_spd_def)
  with b r spd_toResponse_Inr [OF resp] show ?thesis by (simp add: to_SPDRow_def)
qed

text \<open>
  C10. Nothing of a row that row-level security hides reaches its readers: if the rows a user may
  see are the same in two databases, every \<open>Get\<close> and every \<open>List\<close> of that user gets the same
  answer from both, found or not, error or not.
\<close>

theorem spd_reads_noninterference:
  assumes "AuthFromLocals lo = Some a"
    and "filter (spds_select_policy d1 (ai_UserID a) (ai_Role a)) (spds d1)
       = filter (spds_select_policy d2 (ai_UserID a) (ai_Role a)) (spds d2)"
  shows "fst (Get_spd h env c lo d1) = fst (Get_spd h env c lo d2)
    \<and> fst (List_spd h env c lo d1) = fst (List_spd h env c lo d2)"
proof -
  have one: "fst (with_rls e (ai_UserID a) (ai_Role a) (tx_exec e (reading (\<lambda>t. q (visible_spds t)))) d1)
      = fst (with_rls e (ai_UserID a) (ai_Role a) (tx_exec e (reading (\<lambda>t. q (visible_spds t)))) d2)" for e q
    using assms(2)
    by (simp add: with_rls_def WithTx_def SetRLSContext_cases tx_exec_def reading_def visible_spds_def started_def
        split: option.splits sum.splits commit_outcome.splits)
  have both: "\<exists>x. f d1 = (x, d1) \<and> f d2 = (x, d2)" if "\<And>d r d'. f d = (r, d') \<Longrightarrow> d' = d" "fst (f d1) = fst (f d2)"
    for f :: "db \<Rightarrow> 'x res \<times> db"
    using that(2) that(1) [of d1] that(1) [of d2] by (cases "f d1"; cases "f d2") auto
  have get: "\<exists>x. GetSPD e (ai_UserID a) (ai_Role a) i d1 = (x, d1) \<and> GetSPD e (ai_UserID a) (ai_Role a) i d2 = (x, d2)" for e i
    unfolding GetSPD_def by (rule both [OF with_rls_reading one])
  have list: "\<exists>x. ListSPDs e (ai_UserID a) (ai_Role a) l off d1 = (x, d1) \<and> ListSPDs e (ai_UserID a) (ai_Role a) l off d2 = (x, d2)"
    for e l off
    unfolding ListSPDs_def by (rule both [OF with_rls_reading one])
  have "fst (Get_spd h env c lo d1) = fst (Get_spd h env c lo d2)"
  proof (cases "ParseIDParam c ''id''")
    case (Inr i)
    obtain x where "GetSPD (re_db env 0) (ai_UserID a) (ai_Role a) i d1 = (x, d1)"
      "GetSPD (re_db env 0) (ai_UserID a) (ai_Role a) i d2 = (x, d2)" using get by blast
    with Inr assms(1) show ?thesis by (simp add: Get_spd_def split: sum.splits)
  qed (simp add: Get_spd_def)
  moreover have "fst (List_spd h env c lo d1) = fst (List_spd h env c lo d2)"
  proof -
    let ?l = "clampInt_spd (parseInt_spd (rq_query c ''limit'') 20) 1 100"
    let ?o = "clampInt_spd (parseInt_spd (rq_query c ''offset'') 0) 0 10000"
    obtain x where "ListSPDs (re_db env 0) (ai_UserID a) (ai_Role a) ?l ?o d1 = (x, d1)"
      "ListSPDs (re_db env 0) (ai_UserID a) (ai_Role a) ?l ?o d2 = (x, d2)" using list by blast
    with assms(1) show ?thesis by (simp add: List_spd_def Let_def split: sum.splits)
  qed
  ultimately show ?thesis ..
qed

text \<open>
  C19. A page of orders: every item of a \<open>List\<close> answer is an undeleted row the caller may see,
  decrypted; items come newest first; there are at most \<open>limit\<close> of them, and the limit and
  offset of the answer are between 1 and 100 and between 0 and 10000 whatever was asked.
\<close>

theorem spd_list_page:
  assumes "List_spd h env c lo d = (Inr rep, d')"
  shows "\<exists>a pg rows. AuthFromLocals lo = Some a \<and> rep = JSON 200 pg \<and> d' = d
    \<and> list_all2 (\<lambda>r x. spd_toResponse h (to_SPDRow r) = Inr x) rows (pg_items pg)
    \<and> (\<forall>r \<in> set rows. r \<in> set (spds d) \<and> sp_deleted_at r = None
          \<and> spds_select_policy d (ai_UserID a) (ai_Role a) r)
    \<and> sorted_wrt (\<lambda>r1 r2. sp_created_at r2 \<le> sp_created_at r1) rows
    \<and> int (length (pg_items pg)) \<le> pg_limit pg
    \<and> 1 \<le> pg_limit pg \<and> pg_limit pg \<le> 100 \<and> 0 \<le> pg_offset pg \<and> pg_offset pg \<le> 10000"
proof -
  define l where "l = clampInt_spd (parseInt_spd (rq_query c ''limit'') 20) 1 100"
  define off where "off = clampInt_spd (parseInt_spd (rq_query c ''offset'') 0) 0 10000"
  obtain a rs out d0 where a: "AuthFromLocals lo = Some a"
    and ls: "ListSPDs (re_db env 0) (ai_UserID a) (ai_Role a) l off d = (Inr rs, d0)"
    and out: "each_ok (spd_toResponse h) rs = Inr out" and "d' = d0"
    and rep: "rep = JSON 200 \<lparr>pg_items = out, pg_limit = l, pg_offset = off\<rparr>"
    using assms by (auto simp: List_spd_def Let_def l_def off_def split: prod.splits option.splits sum.splits)
  define vis where "vis = filter (\<lambda>r. sp_deleted_at r = None) (filter (spds_select_policy d (ai_UserID a) (ai_Role a)) (spds d))"
  define rows where "rows = limit_offset l off (order_desc sp_created_at vis)"
  have d: "d' = d" and rs: "rs = map to_SPDRow rows"
    using ListSPDs_Inr [OF ls] \<open>d' = d0\<close> by (simp_all add: rows_def vis_def)
  have items: "list_all2 (\<lambda>r x. spd_toResponse h (to_SPDRow r) = Inr x) rows out"
    using out by (simp add: each_ok_Inr rs list_all2_map1)
  have mem: "set rows \<subseteq> set vis" using set_limit_offset [of l off "order_desc sp_created_at vis"] by (simp add: rows_def)
  have sorted: "sorted_wrt (\<lambda>r1 r2. sp_created_at r2 \<le> sp_created_at r1) rows"
    unfolding rows_def by (rule sorted_limit_offset [OF order_desc_sorted])
  have l: "1 \<le> l" "l \<le> 100" and off: "0 \<le> off" "off \<le> 10000"
    using spd_param.clamp_bounds by (simp_all add: l_def off_def)
  have "length out = length rows" using items by (simp add: list_all2_lengthD)
  then have "int (length out) \<le> l" using l length_limit_offset [of l off "order_desc sp_created_at vis"]
    by (simp add: rows_def)
  with a rep d items mem sorted l off show ?thesis
    by (intro exI [of _ a] exI [of _ "\<lparr>pg_items = out, pg_limit = l, pg_offset = off\<rparr>"] exI [of _ rows])
      (auto simp: vis_def)
qed

lemma Submit_spd_cases:
  assumes "Submit_spd h env c lo d = (rep, d1, out)" and "out \<noteq> []"
  shows "\<exists>i a row. ParseIDParam c ''id'' = Inr i \<and> AuthFromLocals lo = Some a \<and> sh_nc h
    \<and> SubmitSPD (re_db env 0) (ai_UserID a) (ai_Role a) i d = (Inr row, d1)
    \<and> out = [\<lparr>ms_subject = ''spd.submitted'', ms_data = Some (marshal_submitted
         \<lparr>ev_SPDID = s_ID row, ev_UnitID = s_UnitID row, ev_UserID = ai_UserID a, ev_SubmittedAt = re_clock env 0\<rparr>)\<rparr>]"
  using assms by (auto simp: Submit_spd_def Let_def split: prod.splits option.splits sum.splits if_splits)

lemma not_submittable_again:
  assumes "d1 = d\<lparr>spds := update_where (submittable d uid role i) (submitted now) (spds d)\<rparr>"
    and "distinct (map sp_id (spds d))" and "r \<in> set (spds d)" and "submittable d uid role i r"
    and "x \<in> set (spds d1)"
  shows "\<not> submittable d1 uid' role' i x"
proof -
  from assms(1,5) consider y where "x = submitted now y"
    | "x \<in> set (spds d)" "\<not> submittable d uid role i x"
    by (auto simp: set_update_where)
  then show ?thesis
  proof cases
    case 1
    then show ?thesis by (simp add: submitted_def)
  next
    case 2
    then have "sp_id x \<noteq> i" using distinct_key_eq [OF assms(2) 2(1) assms(3)] assms(4) by auto
    then show ?thesis by simp
  qed
qed


text \<open>
  C17. A submission can be lost: when the acknowledgement of the commit is lost after it took
  effect, the caller gets an error and no event is published, yet the order is \<open>SUBMITTED\<close>, so
  that trying again is refused and no approval will ever be asked for.
\<close>

theorem submit_lost_event:
  assumes "distinct (map sp_id (spds d))" and "r \<in> set (spds d)"
    and "submittable d (ai_UserID a) (ai_Role a) i r" and "AuthFromLocals lo = Some a"
    and "parse_int64 (rq_params c ''id'') = Some i"
    and "re_db env 0 = (calm t)\<lparr>commit_res := CommitUnknown m\<rparr>" and "re_db env' 0 = calm t'"
  shows "\<exists>d1. Submit_spd h env c lo d = (Inl (OtherErr m), d1, [])
    \<and> submitted t r \<in> set (spds d1)
    \<and> Submit_spd h env' c lo d1 = (Inl (FiberError 400 ''cannot submit''), d1, [])"
proof -
  let ?e = "(calm t)\<lparr>commit_res := CommitUnknown m\<rparr>"
  define d1 where "d1 = d\<lparr>spds := update_where (submittable d (ai_UserID a) (ai_Role a) i) (submitted t) (spds d)\<rparr>"
  have sc: "submits (first_stmt (ai_UserID a) (ai_Role a) d) i = submittable d (ai_UserID a) (ai_Role a) i"
    by (simp add: submits_cong)
  have "returning (submittable d (ai_UserID a) (ai_Role a) i) (submitted t) (spds d) \<noteq> []"
    using assms(2,3) by auto
  then obtain r0 rs where "returning (submittable d (ai_UserID a) (ai_Role a) i) (submitted t) (spds d) = r0 # rs"
    by (cases "returning (submittable d (ai_UserID a) (ai_Role a) i) (submitted t) (spds d)") auto
  then have "submit_spd ?e i (first_stmt (ai_UserID a) (ai_Role a) d)
      = (Inr (to_SPDRow r0), (first_stmt (ai_UserID a) (ai_Role a) d)\<lparr>tx_db := d1\<rparr>)"
    by (simp add: submit_spd_def sc query_row_def d1_def calm_def)
  then have "SubmitSPD ?e (ai_UserID a) (ai_Role a) i d = (Inl (OtherErr m), d1)"
    by (simp add: SubmitSPD_def with_rls_def WithTx_def SetRLSContext_cases tx_exec_def calm_def started_def)
  moreover have "submitted t r \<in> set (spds d1)" using assms(2,3) by (auto simp: d1_def set_update_where)
  moreover have "\<not> submittable d1 (ai_UserID a) (ai_Role a) i x" if "x \<in> set (spds d1)" for x
    using not_submittable_again [OF d1_def assms(1,2,3) that] .
  then have "SubmitSPD (calm t') (ai_UserID a) (ai_Role a) i d1 = (Inl ErrNoRows, d1)" by (rule SubmitSPD_none)
  moreover have "ParseIDParam c ''id'' = Inr i" using assms(5) by (simp add: ParseIDParam_Inr)
  ultimately show ?thesis using assms(4,6,7) by (intro exI [of _ d1]) (simp add: Submit_spd_def)
qed

subsection \<open>Concrete runs\<close>

definition demo_spd :: spd_handler where
  "demo_spd = \<lparr>sh_verifier = demo_verifier, sh_aesgcm = demo_aead, sh_nc = True\<rparr>"

definition spd_db0 :: db where
  "spd_db0 = empty_db\<lparr>units := [\<lparr>un_id = 1, un_code = ''ADM'', un_name = ''Administrasi'', un_created_at = 0,
       un_updated_at = 0, un_deleted_at = None\<rparr>],
     users := [\<lparr>us_id = 7, us_username = ''budi'', us_password_hash = [], us_role = ''USER'',
       us_employee_id = None, us_is_active = True, us_mfa_enabled = False, us_mfa_secret_enc = None,
       us_mfa_enrolled_at = None, us_last_login_at = None, us_created_at = 0, us_updated_at = 0,
       us_deleted_at = None\<rparr>],
     user_units := [\<lparr>uu_user_id = 7, uu_unit_id = 1, uu_created_at = 0\<rparr>]\<rparr>"

definition demo_create :: "spd_createRequest request" where
  "demo_create = demo_request \<lparr>sq_NomorSurat = ''SPD/1'', sq_EmployeeID = None, sq_UnitID = 1,
     sq_Purpose = ''dinas'', sq_TotalCost = ''100''\<rparr>"

definition demo_id_request :: "unit request" where
  "demo_id_request = (demo_request ())\<lparr>rq_params := (\<lambda>_. ''1'')\<rparr>"

definition spd_db1 :: db where
  "spd_db1 = snd (Create_spd demo_spd (demo_env 0) demo_create demo_locals spd_db0)"

lemma demo_spd_runs:
  "\<not> isl (fst (Create_spd demo_spd (demo_env 0) demo_create demo_locals spd_db0))"
  "\<not> isl (fst (List_spd demo_spd (demo_env 0) (demo_request ()) demo_locals spd_db1))"
  "snd (snd (Submit_spd demo_spd (demo_env 0) demo_id_request demo_locals spd_db1)) \<noteq> []"
  "distinct (map sp_id (spds spd_db1))" "FormatInt (seqs spd_db0 ''spds'' + 1) = ''1''"
  "int64_ok (seqs spd_db0 ''spds'' + 1)"
  by code_simp+

lemma demo_aad: "sh_aesgcm demo_spd = demo_aead" "AuthFromLocals demo_locals = Some \<lparr>ai_UserID = 7, ai_Role = ''USER'',
    ai_TokenType = ''access'', ai_TokenID = ''a''\<rparr>"
  by (simp_all add: demo_spd_def demo_locals_def AuthFromLocals_def str_or_zero_def)

theorem spd_create_then_get_witness:
  "\<exists>resp. Create_spd demo_spd (demo_env 0) demo_create demo_locals spd_db0 = (Inr (JSON 201 resp), spd_db1)
     \<and> so_Purpose resp = ''dinas''
     \<and> Get_spd demo_spd (demo_env 0) demo_id_request demo_locals spd_db1 = (Inr (JSON 200 resp), spd_db1)"
proof -
  obtain rep where run: "Create_spd demo_spd (demo_env 0) demo_create demo_locals spd_db0 = (Inr rep, spd_db1)"
    using demo_spd_runs(1) by (metis isl_def prod.collapse spd_db1_def sum.exhaust_sel)
  have id1: "rq_params demo_id_request ''id'' = FormatInt (seqs spd_db0 ''spds'' + 1)"
    using demo_spd_runs(5) by (simp add: demo_id_request_def)
  have aead: "aead_ok (sh_aesgcm demo_spd)" by (simp add: demo_aad demo_aead_ok)
  from spd_create_then_get [OF aead demo_rand_env run demo_env_simps(2) [of 0 0] id1 demo_spd_runs(6)] run
  show ?thesis by (auto simp: demo_create_def demo_request_def)
qed

theorem spd_reads_noninterference_witness:
  "fst (Get_spd demo_spd (demo_env 0) demo_id_request demo_locals spd_db0)
     = fst (Get_spd demo_spd (demo_env 0) demo_id_request demo_locals
         (spd_db0\<lparr>spds := map (\<lambda>r. r\<lparr>sp_created_by := 9, sp_unit_id := 3\<rparr>) (spds spd_db1)\<rparr>))"
proof -
  have "filter (spds_select_policy spd_db0 7 ''USER'') (spds spd_db0)
    = filter (spds_select_policy (spd_db0\<lparr>spds := map (\<lambda>r. r\<lparr>sp_created_by := 9, sp_unit_id := 3\<rparr>) (spds spd_db1)\<rparr>) 7 ''USER'')
        (spds (spd_db0\<lparr>spds := map (\<lambda>r. r\<lparr>sp_created_by := 9, sp_unit_id := 3\<rparr>) (spds spd_db1)\<rparr>))"
    by (auto simp: spd_db0_def empty_db_def spds_select_policy_def in_unit_of_def filter_empty_conv)
  then show ?thesis
    by (intro conjunct1 [OF spd_reads_noninterference [OF demo_aad(2)]]) simp
qed

theorem spd_list_page_witness:
  "\<exists>pg. fst (List_spd demo_spd (demo_env 0) (demo_request ()) demo_locals spd_db1) = Inr (JSON 200 pg)
     \<and> int (length (pg_items pg)) \<le> pg_limit pg"
proof -
  obtain rep d where run: "List_spd demo_spd (demo_env 0) (demo_request ()) demo_locals spd_db1 = (Inr rep, d)"
    using demo_spd_runs(2) by (metis isl_def prod.collapse sum.exhaust_sel)
  from spd_list_page [OF run] run show ?thesis by auto
qed


theorem submit_lost_event_witness:
  "\<exists>d1. Submit_spd demo_spd ((demo_env 0)\<lparr>re_db := (\<lambda>_. (calm 0)\<lparr>commit_res := CommitUnknown ''EOF''\<rparr>)\<rparr>) demo_id_request
        demo_locals spd_db1 = (Inl (OtherErr ''EOF''), d1, [])
     \<and> Submit_spd demo_spd (demo_env 1) demo_id_request demo_locals d1 = (Inl (FiberError 400 ''cannot submit''), d1, [])"
proof -
  define r where "r = hd (spds spd_db1)"
  have r: "r \<in> set (spds spd_db1)" "submittable spd_db1 7 ''USER'' 1 r" unfolding r_def by code_simp+
  have i: "parse_int64 (rq_params demo_id_request ''id'') = Some 1" by code_simp
  show ?thesis
    using submit_lost_event [OF demo_spd_runs(4) r(1), where i = 1 and lo = demo_locals and c = demo_id_request
        and a = "\<lparr>ai_UserID = 7, ai_Role = ''USER'', ai_TokenType = ''access'', ai_TokenID = ''a''\<rparr>"
        and env = "(demo_env 0)\<lparr>re_db := (\<lambda>_. (calm 0)\<lparr>commit_res := CommitUnknown ''EOF''\<rparr>)\<rparr>" and t = 0
        and m = "''EOF''" and env' = "demo_env 1" and t' = "100 * second" and h = demo_spd] r(2) i
    by (auto simp: demo_aad)
qed

end
