(* ===== verification/Approval.thy ===== *)
theory Approval
  imports Service
begin

text \<open>
  \<open>services/approval-service\<close>: pending approvals are created from \<open>spd.submitted\<close> events and
  decided by approvers, which also sets the status of the order.  The statements of
  \<open>internal/repo/repo.go\<close> come first, then \<open>internal/http/handler.go\<close> with the consumer.
\<close>

subsection \<open>Repository\<close>

record ApprovalRow =
  a_ID :: int
  a_SPDID :: int
  a_Step :: int
  a_ApproverID :: "int option"
  a_Status :: string
  a_Comment :: "string option"
  a_DecidedBy :: "int option"
  a_DecidedAt :: "gotime option"
  a_CreatedAt :: gotime
  a_UpdatedAt :: gotime

definition to_ApprovalRow :: "approval_row \<Rightarrow> ApprovalRow" where
  "to_ApprovalRow r = \<lparr>a_ID = ap_id r, a_SPDID = ap_spd_id r, a_Step = ap_step r, a_ApproverID = ap_approver_id r,
     a_Status = ap_status r, a_Comment = ap_comment r, a_DecidedBy = ap_decided_by r,
     a_DecidedAt = ap_decided_at r, a_CreatedAt = ap_created_at r, a_UpdatedAt = ap_updated_at r\<rparr>"

text \<open>
  \<open>ON CONFLICT DO NOTHING\<close>: the only unique key of the table is its id, which comes from the
  sequence.
\<close>

definition pending_row :: "gotime \<Rightarrow> int \<Rightarrow> int \<Rightarrow> int \<Rightarrow> approval_row" where
  "pending_row now i spdID step =
     \<lparr>ap_id = i, ap_spd_id = spdID, ap_step = step, ap_approver_id = None, ap_status = ''PENDING'',
      ap_comment = None, ap_decided_by = None, ap_decided_at = None, ap_created_at = now, ap_updated_at = now\<rparr>"

definition CreatePendingApproval :: "dbenv \<Rightarrow> int \<Rightarrow> int \<Rightarrow> db \<Rightarrow> unit res \<times> db" where
  "CreatePendingApproval e spdID step =
     autocommit e (\<lambda>t.
       let (i, d) = nextval ''approvals'' (tx_db t) in
       if i \<in> ap_id ` set (approvals d) then (Inr (), t\<lparr>tx_db := d\<rparr>)
       else if spdID \<notin> sp_id ` set (spds d)
       then (Inl (OtherErr ''insert violates foreign key constraint''), t\<lparr>tx_db := d\<rparr>)
       else (Inr (), t\<lparr>tx_db := d\<lparr>approvals := approvals d @ [pending_row (db_now e) i spdID step]\<rparr>\<rparr>))"

text \<open>\<open>WHERE spd_id = $1 AND status = 'PENDING' AND (approver_id IS NULL OR approver_id = $2)\<close>\<close>

definition decidable :: "int \<Rightarrow> int \<Rightarrow> approval_row \<Rightarrow> bool" where
  "decidable spdID userID r \<longleftrightarrow> ap_spd_id r = spdID \<and> ap_status r = ''PENDING''
     \<and> (ap_approver_id r = None \<or> ap_approver_id r = Some userID)"

definition decided :: "string \<Rightarrow> gotime \<Rightarrow> int \<Rightarrow> string option \<Rightarrow> approval_row \<Rightarrow> approval_row" where
  "decided status now userID comment r =
     r\<lparr>ap_status := status, ap_comment := comment, ap_decided_by := Some userID, ap_decided_at := Some now,
       ap_updated_at := now\<rparr>"

text \<open>The first statement: every decidable row is decided; \<open>decided_by\<close> refers to a user.\<close>

definition update_approvals ::
  "dbenv \<Rightarrow> string \<Rightarrow> int \<Rightarrow> int \<Rightarrow> string option \<Rightarrow> tx \<Rightarrow> ApprovalRow res \<times> tx" where
  "update_approvals e status spdID userID comment t =
     (case query_row (returning (decidable spdID userID) (decided status (db_now e) userID comment) (approvals (tx_db t))) of
        Inl x \<Rightarrow> (Inl x, t)
      | Inr r \<Rightarrow>
          if userID \<notin> us_id ` set (users (tx_db t))
          then (Inl (OtherErr ''update violates foreign key constraint''), t)
          else (Inr (to_ApprovalRow r), t\<lparr>tx_db := (tx_db t)\<lparr>approvals :=
            update_where (decidable spdID userID) (decided status (db_now e) userID comment)
              (approvals (tx_db t))\<rparr>\<rparr>))"

text \<open>The second: the order's status, where the update policy admits the row.\<close>

definition sets_status :: "tx \<Rightarrow> int \<Rightarrow> spd_row \<Rightarrow> bool" where
  "sets_status t spdID r \<longleftrightarrow> sp_id r = spdID \<and> sp_deleted_at r = None
     \<and> spds_update_policy (tx_db t) (tx_uid t) (tx_role t) r"

definition with_status :: "string \<Rightarrow> gotime \<Rightarrow> spd_row \<Rightarrow> spd_row" where
  "with_status status now r = r\<lparr>sp_status := status, sp_updated_at := now\<rparr>"

definition update_spd_status :: "dbenv \<Rightarrow> string \<Rightarrow> int \<Rightarrow> tx \<Rightarrow> unit res \<times> tx" where
  "update_spd_status e status spdID t =
     (Inr (), t\<lparr>tx_db := (tx_db t)\<lparr>spds :=
        update_where (sets_status t spdID) (with_status status (db_now e)) (spds (tx_db t))\<rparr>\<rparr>)"

text \<open>\<open>Approve\<close> and \<open>Reject\<close> are the same text but for the status.\<close>

definition decide_tx ::
  "dbenv \<Rightarrow> string \<Rightarrow> int \<Rightarrow> int \<Rightarrow> string option \<Rightarrow> tx \<Rightarrow> ApprovalRow res \<times> tx" where
  "decide_tx e status userID spdID comment t =
     (case tx_exec e (update_approvals e status spdID userID comment) t of
        (Inl x, t) \<Rightarrow> (Inl x, t)
      | (Inr a, t) \<Rightarrow>
          (case tx_exec e (update_spd_status e status spdID) t of
             (Inl x, t) \<Rightarrow> (Inl x, t)
           | (Inr _, t) \<Rightarrow> (Inr a, t)))"

definition repo_Approve :: "dbenv \<Rightarrow> int \<Rightarrow> string \<Rightarrow> int \<Rightarrow> string option \<Rightarrow> db \<Rightarrow> ApprovalRow res \<times> db" where
  "repo_Approve e userID role spdID comment = with_rls e userID role (decide_tx e ''APPROVED'' userID spdID comment)"

definition repo_Reject :: "dbenv \<Rightarrow> int \<Rightarrow> string \<Rightarrow> int \<Rightarrow> string option \<Rightarrow> db \<Rightarrow> ApprovalRow res \<times> db" where
  "repo_Reject e userID role spdID comment = with_rls e userID role (decide_tx e ''REJECTED'' userID spdID comment)"

definition repo_ListPending :: "dbenv \<Rightarrow> int \<Rightarrow> string \<Rightarrow> int \<Rightarrow> int \<Rightarrow> db \<Rightarrow> ApprovalRow list res \<times> db" where
  "repo_ListPending e userID role limit offset =
     with_rls e userID role (tx_exec e (reading (\<lambda>t.
       Inr (map to_ApprovalRow (limit_offset limit offset (order_asc ap_created_at
         (filter (\<lambda>r. ap_status r = ''PENDING'' \<and> (ap_approver_id r = None \<or> ap_approver_id r = Some userID))
           (approvals (tx_db t)))))))))"

subsection \<open>Handlers\<close>

definition canApprove :: "string \<Rightarrow> bool" where
  "canApprove role \<longleftrightarrow> role \<in> {''SUPER_ADMIN'', ''APPROVER'', ''FINANCE'', ''BUDGET_ADMIN''}"

record decisionRequest =
  dr_Comment :: "string option"

text \<open>The guards and the answer, around the repository's method; the body's error is ignored.\<close>

definition decide_handler ::
  "(dbenv \<Rightarrow> int \<Rightarrow> string \<Rightarrow> int \<Rightarrow> string option \<Rightarrow> db \<Rightarrow> ApprovalRow res \<times> db) \<Rightarrow> renv \<Rightarrow> decisionRequest request
     \<Rightarrow> locals \<Rightarrow> db \<Rightarrow> ApprovalRow reply res \<times> db" where
  "decide_handler repo env c lo d =
     (case ParseIDParam c ''spd_id'' of
        Inl e \<Rightarrow> (Inl e, d)
      | Inr spdID \<Rightarrow>
          (case AuthFromLocals lo of
             None \<Rightarrow> (Inl (unauthorized ''unauthorized''), d)
           | Some a \<Rightarrow>
               if \<not> canApprove (ai_Role a) then (Inl forbidden, d)
               else (case repo (re_db env 0) (ai_UserID a) (ai_Role a) spdID (dr_Comment (snd (rq_body c))) d of
                   (Inl e, d) \<Rightarrow> (Inl (if e = ErrNoRows then FiberError 400 ''no pending approval'' else e), d)
                 | (Inr row, d) \<Rightarrow> (Inr (JSON 200 row), d))))"

definition Approve_approval ::
  "renv \<Rightarrow> decisionRequest request \<Rightarrow> locals \<Rightarrow> db \<Rightarrow> ApprovalRow reply res \<times> db" where
  "Approve_approval = decide_handler repo_Approve"

definition Reject_approval ::
  "renv \<Rightarrow> decisionRequest request \<Rightarrow> locals \<Rightarrow> db \<Rightarrow> ApprovalRow reply res \<times> db" where
  "Reject_approval = decide_handler repo_Reject"

definition parseInt_approval :: "string \<Rightarrow> int \<Rightarrow> int" where
  "parseInt_approval s def =
     (if s = [] then def else case ParseInt s of (i, Some e) \<Rightarrow> def | (i, None) \<Rightarrow> i)"

definition clampInt_approval :: "int \<Rightarrow> int \<Rightarrow> int \<Rightarrow> int" where
  "clampInt_approval v mn mx = (if v < mn then mn else if v > mx then mx else v)"

definition ListPending_approval ::
  "renv \<Rightarrow> unit request \<Rightarrow> locals \<Rightarrow> db \<Rightarrow> ApprovalRow page reply res \<times> db" where
  "ListPending_approval env c lo d =
     (let limit = clampInt_approval (parseInt_approval (rq_query c ''limit'') 50) 1 200;
          offset = clampInt_approval (parseInt_approval (rq_query c ''offset'') 0) 0 10000
      in case AuthFromLocals lo of
           None \<Rightarrow> (Inl (unauthorized ''unauthorized''), d)
         | Some a \<Rightarrow>
             (case repo_ListPending (re_db env 0) (ai_UserID a) (ai_Role a) limit offset d of
                (Inl e, d) \<Rightarrow> (Inl e, d)
              | (Inr items, d) \<Rightarrow> (Inr (JSON 200 \<lparr>pg_items = items, pg_limit = limit, pg_offset = offset\<rparr>), d)))"

text \<open>The consumer of \<open>spd.submitted\<close>; its errors are logged only.\<close>

definition on_spd_submitted :: "dbenv \<Rightarrow> msg \<Rightarrow> db \<Rightarrow> db" where
  "on_spd_submitted e m d =
     (case ms_data m of
        None \<Rightarrow> d
      | Some j \<Rightarrow>
          (case json_get jint ''spd_id'' 0 j of
             None \<Rightarrow> d
           | Some spdID \<Rightarrow> if spdID = 0 then d else snd (CreatePendingApproval e spdID 1 d)))"

interpretation approval_param: int_param parseInt_approval clampInt_approval
  by (rule int_param_copy) (simp_all add: parseInt_approval_def clampInt_approval_def)

end
