(* ===== verification/ApprovalProps.thy ===== *)
theory ApprovalProps
  imports Approval
begin

text \<open>
  Properties of the approval service: a decided approval never changes again, a decision is
  made once, and the two ways in which the order's status and its approvals come apart.
\<close>

subsection \<open>What the statements do\<close>

abbreviation status_rows :: "db \<Rightarrow> int \<Rightarrow> string \<Rightarrow> int \<Rightarrow> spd_row \<Rightarrow> bool" where
  "status_rows d uid role spdID r \<equiv> sp_id r = spdID \<and> sp_deleted_at r = None \<and> spds_update_policy d uid role r"

lemma update_approvals_Inr:
  assumes "update_approvals e status spdID uid comment t = (Inr row, t')"
  shows "\<exists>r \<in> set (approvals (tx_db t)). decidable spdID uid r \<and> row = to_ApprovalRow (decided status (db_now e) uid comment r)"
    and "uid \<in> us_id ` set (users (tx_db t))"
    and "t' = t\<lparr>tx_db := (tx_db t)\<lparr>approvals :=
      update_where (decidable spdID uid) (decided status (db_now e) uid comment) (approvals (tx_db t))\<rparr>\<rparr>"
proof -
  from assms obtain r where q: "query_row (returning (decidable spdID uid) (decided status (db_now e) uid comment)
      (approvals (tx_db t))) = Inr r" "row = to_ApprovalRow r"
    by (auto simp: update_approvals_def split: sum.splits if_splits)
  from returning_in_set [OF query_row_in_set [OF q(1)]] q(2)
  show "\<exists>r \<in> set (approvals (tx_db t)). decidable spdID uid r \<and> row = to_ApprovalRow (decided status (db_now e) uid comment r)"
    by blast
  show "uid \<in> us_id ` set (users (tx_db t))"
    "t' = t\<lparr>tx_db := (tx_db t)\<lparr>approvals :=
      update_where (decidable spdID uid) (decided status (db_now e) uid comment) (approvals (tx_db t))\<rparr>\<rparr>"
    using assms by (auto simp: update_approvals_def split: sum.splits if_splits)
qed

text \<open>The database after a decision.\<close>

definition after_decision ::
  "string \<Rightarrow> gotime \<Rightarrow> int \<Rightarrow> string \<Rightarrow> int \<Rightarrow> string option \<Rightarrow> db \<Rightarrow> db" where
  "after_decision status now uid role spdID comment d =
     d\<lparr>approvals := update_where (decidable spdID uid) (decided status now uid comment) (approvals d),
       spds := update_where (status_rows d uid role spdID) (with_status status now) (spds d)\<rparr>"

lemma decide_Inr:
  assumes "with_rls e uid role (decide_tx e status uid spdID comment) d = (Inr row, d')"
  shows "\<exists>r \<in> set (approvals d). decidable spdID uid r \<and> row = to_ApprovalRow (decided status (db_now e) uid comment r)"
    and "d' = after_decision status (db_now e) uid role spdID comment d"
proof -
  from with_rls_Inr [OF assms] obtain t where dec: "decide_tx e status uid spdID comment (started e uid role d) = (Inr row, t)"
    and d': "d' = tx_db t" by blast
  then obtain t1 where up: "update_approvals e status spdID uid comment (first_stmt uid role d) = (Inr row, t1)"
    and st: "update_spd_status e status spdID (t1\<lparr>tx_n := Suc (tx_n t1)\<rparr>) = (Inr (), t)"
    by (auto simp: decide_tx_def tx_exec_def started_def split: option.splits sum.splits prod.splits)
  note u = update_approvals_Inr [OF up]
  from u(1) show "\<exists>r \<in> set (approvals d). decidable spdID uid r \<and> row = to_ApprovalRow (decided status (db_now e) uid comment r)"
    by simp
  have "sets_status (t1\<lparr>tx_n := Suc (tx_n t1)\<rparr>) spdID = status_rows d uid role spdID"
    using policy_cong(3) [of "tx_db t1" d] u(3) by (auto simp: sets_status_def fun_eq_iff)
  with u(3) st d' show "d' = after_decision status (db_now e) uid role spdID comment d"
    by (auto simp: update_spd_status_def after_decision_def)
qed

lemma decide_none:
  assumes "\<And>r. r \<in> set (approvals d) \<Longrightarrow> \<not> decidable spdID uid r"
  shows "with_rls (calm now) uid role (decide_tx (calm now) status uid spdID comment) d = (Inl ErrNoRows, d)"
proof -
  have r: "returning (decidable spdID uid) f (approvals d) = []" for f using assms by simp
  have "update_approvals (calm now) status spdID uid comment (first_stmt uid role d) = (Inl ErrNoRows, first_stmt uid role d)"
    by (simp add: update_approvals_def query_row_def r del: returning_empty)
  then have "decide_tx (calm now) status uid spdID comment (started (calm now) uid role d)
      = (Inl ErrNoRows, first_stmt uid role d)"
    by (simp add: decide_tx_def tx_exec_def started_def) (simp add: calm_def)
  from with_rls_calm [where body = "decide_tx (calm now) status uid spdID comment", OF this]
  show ?thesis by (simp add: rollback_def)
qed

text \<open>The two handlers and the status each writes.\<close>

definition decisions ::
  "((renv \<Rightarrow> decisionRequest request \<Rightarrow> locals \<Rightarrow> db \<Rightarrow> ApprovalRow reply res \<times> db) \<times> string) set" where
  "decisions = {(Approve_approval, ''APPROVED''), (Reject_approval, ''REJECTED'')}"

lemma decisions_repo:
  assumes "(H, status) \<in> decisions"
  shows "H = decide_handler (\<lambda>e uid role spdID comment. with_rls e uid role (decide_tx e status uid spdID comment))"
  using assms
  by (auto simp: decisions_def Approve_approval_def Reject_approval_def repo_Approve_def [abs_def] repo_Reject_def [abs_def])

lemma decision_Inr:
  assumes "(H, status) \<in> decisions" and "H env c lo d = (Inr rep, d')"
  shows "\<exists>i a r. parse_int64 (rq_params c ''spd_id'') = Some i \<and> AuthFromLocals lo = Some a \<and> canApprove (ai_Role a)
    \<and> r \<in> set (approvals d) \<and> decidable i (ai_UserID a) r
    \<and> rep = JSON 200 (to_ApprovalRow (decided status (db_now (re_db env 0)) (ai_UserID a) (dr_Comment (snd (rq_body c))) r))
    \<and> d' = after_decision status (db_now (re_db env 0)) (ai_UserID a) (ai_Role a) i (dr_Comment (snd (rq_body c))) d"
proof -
  from assms(2) [unfolded decisions_repo [OF assms(1)]] obtain i a row where p: "ParseIDParam c ''spd_id'' = Inr i" "AuthFromLocals lo = Some a" "canApprove (ai_Role a)"
    and w: "with_rls (re_db env 0) (ai_UserID a) (ai_Role a)
      (decide_tx (re_db env 0) status (ai_UserID a) i (dr_Comment (snd (rq_body c)))) d = (Inr row, d')"
    and rep: "rep = JSON 200 row"
    by (auto simp: decide_handler_def split: sum.splits prod.splits option.splits if_splits)
  from decide_Inr [OF w] p rep show ?thesis by (auto simp: ParseIDParam_Inr)
qed

subsection \<open>Decided approvals stay decided\<close>

definition approval_ages :: "approval_row \<Rightarrow> approval_row \<Rightarrow> bool" where
  "approval_ages r r' \<longleftrightarrow> ap_id r' = ap_id r \<and> ap_spd_id r' = ap_spd_id r \<and> ap_step r' = ap_step r
     \<and> ap_approver_id r' = ap_approver_id r \<and> (ap_status r \<noteq> ''PENDING'' \<longrightarrow> r' = r)"

definition approvals_age :: "db \<Rightarrow> db \<Rightarrow> bool" where
  "approvals_age d d' \<longleftrightarrow> grows approval_ages (approvals d) (approvals d')"

lemma approvals_age_same: "approvals d' = approvals d \<Longrightarrow> approvals_age d d'"
  by (auto simp: approvals_age_def approval_ages_def intro: grows_refl)

interpretation approvals: tx_relation approvals_age
  by unfold_locales (auto intro: approvals_age_same)

lemma approvals_age_trans [trans]: "approvals_age a b \<Longrightarrow> approvals_age b c \<Longrightarrow> approvals_age a c"
  unfolding approvals_age_def by (rule grows_trans [where P = approval_ages]) (auto simp: approval_ages_def)

lemma after_decision_ages:
  "status \<noteq> ''PENDING'' \<Longrightarrow> approvals_age d (after_decision status now uid role i comment d)"
  by (auto simp: approvals_age_def after_decision_def approval_ages_def decidable_def decided_def intro!: grows_update_where)

lemma CreatePendingApproval_ages: "approvals_age d (snd (CreatePendingApproval e i step d))"
  unfolding CreatePendingApproval_def
  by (rule approvals.autocommit_R)
    (auto simp: Let_def nextval_def approvals_age_def approval_ages_def intro: grows_refl grows_append)

lemma on_spd_submitted_ages: "approvals_age d (on_spd_submitted e m d)"
  by (auto simp: on_spd_submitted_def approvals.R_refl CreatePendingApproval_ages split: option.splits)

lemma update_approvals_ages:
  "status \<noteq> ''PENDING'' \<Longrightarrow> approvals_age (tx_db t) (tx_db (snd (update_approvals e status i uid comment t)))"
  by (auto simp: update_approvals_def approvals_age_def approval_ages_def decidable_def decided_def
      split: sum.splits intro!: grows_update_where intro: grows_refl)

lemma decide_tx_ages:
  assumes "status \<noteq> ''PENDING''"
  shows "approvals_age (tx_db t) (tx_db (snd (decide_tx e status uid i comment t)))"
proof -
  have "approvals_age (tx_db t) (tx_db (snd (tx_exec e (update_approvals e status i uid comment) t)))"
    by (rule approvals.tx_exec_R) (metis update_approvals_ages [OF assms], rule approvals.R_refl)
  then show ?thesis
    by (auto simp: decide_tx_def tx_exec_def update_spd_status_def approvals_age_def split: sum.splits prod.splits option.splits)
qed

lemma decision_ages:
  assumes "(H, status) \<in> decisions"
  shows "approvals_age d (snd (H env c lo d))"
proof -
  have st: "status \<noteq> ''PENDING''" using assms by (auto simp: decisions_def)
  have "approvals_age d (snd (with_rls e uid role (decide_tx e status uid i comment) d))" for e uid role i comment
    by (rule approvals.with_rls_R) (use decide_tx_ages [OF st, of "started e uid role d"] in \<open>simp add: started_def\<close>)
  then have "with_rls e uid role (decide_tx e status uid i comment) d = (x, d') \<Longrightarrow> approvals_age d d'" for e uid role i comment x d'
    by (metis snd_conv)
  then show ?thesis unfolding decisions_repo [OF assms]
    by (auto simp: decide_handler_def approvals.R_refl split: sum.splits prod.splits option.splits)
qed

subsection \<open>The properties\<close>

lemma decision_none:
  assumes "(H, status) \<in> decisions" and "parse_int64 (rq_params c ''spd_id'') = Some i" and "AuthFromLocals lo = Some a"
    and "canApprove (ai_Role a)" and "re_db env 0 = calm t" and "\<And>r. r \<in> set (approvals d) \<Longrightarrow> \<not> decidable i (ai_UserID a) r"
  shows "H env c lo d = (Inl (FiberError 400 ''no pending approval''), d)"
proof -
  have "ParseIDParam c ''spd_id'' = Inr i" using assms(2) by (simp add: ParseIDParam_Inr)
  with assms(3-5) decide_none [OF assms(6)] show ?thesis
    by (simp add: decisions_repo [OF assms(1)] decide_handler_def)
qed


text \<open>
  C24. What a decision does to the order: every live row of the order that row security lets the
  decider update gets the status, and nothing else changes among the orders.  Under row
  security only the creator and a super administrator may update it: a decision by any other
  approver is answered by 200, and the approval is decided, but no order changes.
\<close>

theorem decision_on_order:
  assumes "(H, status) \<in> decisions" and "H env c lo d = (Inr rep, d1)" and "AuthFromLocals lo = Some a"
    and "parse_int64 (rq_params c ''spd_id'') = Some i"
  shows "spds d1 = map (\<lambda>r. if sp_id r = i \<and> sp_deleted_at r = None
        \<and> (rls_on d \<longrightarrow> sp_created_by r = ai_UserID a \<or> ai_Role a = ''SUPER_ADMIN'')
      then r\<lparr>sp_status := status, sp_updated_at := db_now (re_db env 0)\<rparr> else r) (spds d)
    \<and> (rls_on d \<longrightarrow> ai_Role a \<noteq> ''SUPER_ADMIN'' \<longrightarrow> (\<forall>r \<in> set (spds d). sp_id r = i \<longrightarrow> sp_created_by r \<noteq> ai_UserID a)
        \<longrightarrow> spds d1 = spds d \<and> (\<exists>r \<in> set (approvals d1). ap_spd_id r = i \<and> ap_status r = status))"
proof
  from decision_Inr [OF assms(1,2)] assms(3,4) obtain r where r: "r \<in> set (approvals d)" "decidable i (ai_UserID a) r"
    and d1: "d1 = after_decision status (db_now (re_db env 0)) (ai_UserID a) (ai_Role a) i (dr_Comment (snd (rq_body c))) d" by auto
  show m: "spds d1 = map (\<lambda>r. if sp_id r = i \<and> sp_deleted_at r = None
        \<and> (rls_on d \<longrightarrow> sp_created_by r = ai_UserID a \<or> ai_Role a = ''SUPER_ADMIN'')
      then r\<lparr>sp_status := status, sp_updated_at := db_now (re_db env 0)\<rparr> else r) (spds d)"
    by (simp add: d1 after_decision_def update_where_def with_status_def spds_update_policy_def cong: if_cong)
  have "decided status (db_now (re_db env 0)) (ai_UserID a) (dr_Comment (snd (rq_body c))) r \<in> set (approvals d1)"
    using r by (simp add: d1 after_decision_def set_update_where)
  moreover have "ap_spd_id r = i" using r(2) by (simp add: decidable_def)
  ultimately have "\<exists>r \<in> set (approvals d1). ap_spd_id r = i \<and> ap_status r = status"
    by (intro bexI) (simp_all add: decided_def)
  then show "rls_on d \<longrightarrow> ai_Role a \<noteq> ''SUPER_ADMIN'' \<longrightarrow> (\<forall>r \<in> set (spds d). sp_id r = i \<longrightarrow> sp_created_by r \<noteq> ai_UserID a)
        \<longrightarrow> spds d1 = spds d \<and> (\<exists>r \<in> set (approvals d1). ap_spd_id r = i \<and> ap_status r = status)"
    by (auto simp: m intro!: map_idI)
qed

subsection \<open>Concrete runs\<close>

definition appr_db :: db where
  "appr_db = empty_db\<lparr>users := [\<lparr>us_id = 7, us_username = ''budi'', us_password_hash = [], us_role = ''APPROVER'',
       us_employee_id = None, us_is_active = True, us_mfa_enabled = False, us_mfa_secret_enc = None,
       us_mfa_enrolled_at = None, us_last_login_at = None, us_created_at = 0, us_updated_at = 0,
       us_deleted_at = None\<rparr>],
     spds := [\<lparr>sp_id = 1, sp_nomor_surat = ''SPD/1'', sp_employee_id = None, sp_unit_id = 1, sp_budget_id = None,
       sp_purpose_enc = None, sp_total_cost_enc = None, sp_status = ''SUBMITTED'', sp_current_approver_id = None,
       sp_created_by = 3, sp_created_at = 0, sp_updated_at = 0, sp_deleted_at = None\<rparr>],
     approvals := [pending_row 0 1 1 1]\<rparr>"

definition demo_approver :: locals where
  "demo_approver = demo_locals\<lparr>lo_user_role := Some ''APPROVER''\<rparr>"

definition demo_decision :: "decisionRequest request" where
  "demo_decision = (demo_request \<lparr>dr_Comment = None\<rparr>)\<lparr>rq_params := (\<lambda>_. ''1'')\<rparr>"

lemma demo_decision_runs:
  "\<not> isl (fst (Approve_approval (demo_env 0) demo_decision demo_approver appr_db))"
  "parse_int64 (rq_params demo_decision ''spd_id'') = Some 1"
  "list_all (\<lambda>r. ap_approver_id r = None) (approvals appr_db)"
  by code_simp+

lemma demo_approver_auth:
  "AuthFromLocals demo_approver = Some \<lparr>ai_UserID = 7, ai_Role = ''APPROVER'', ai_TokenType = ''access'', ai_TokenID = ''a''\<rparr>"
  by (simp add: demo_approver_def demo_locals_def AuthFromLocals_def str_or_zero_def)


theorem decision_on_order_witness:
  "\<exists>rep d1. Approve_approval (demo_env 0) demo_decision demo_approver appr_db = (Inr rep, d1) \<and> spds d1 = spds appr_db"
proof -
  obtain rep d1 where run: "Approve_approval (demo_env 0) demo_decision demo_approver appr_db = (Inr rep, d1)"
    using demo_decision_runs(1) by (metis isl_def prod.collapse sum.exhaust_sel)
  have "(Approve_approval, ''APPROVED'') \<in> decisions" by (simp add: decisions_def)
  from decision_on_order [OF this run demo_approver_auth demo_decision_runs(2)] run show ?thesis
    by (auto simp: appr_db_def empty_db_def)
qed

end
