(* ===== verification/Budget.thy ===== *)
theory Budget
  imports Service
begin

text \<open>
  \<open>services/budget-service\<close>: budgets with two encrypted columns, which only the budget roles see
  in clear, and an audit message for every successful access.
\<close>

subsection \<open>Repository\<close>

record BudgetRow =
  b_ID :: int
  b_UnitID :: int
  b_AmountEnc :: bytes
  b_SourceEnc :: bytes
  b_Description :: string
  b_CreatedBy :: int
  b_CreatedAt :: gotime
  b_UpdatedAt :: gotime

definition to_BudgetRow :: "budget_row \<Rightarrow> BudgetRow" where
  "to_BudgetRow r = \<lparr>b_ID = bg_id r, b_UnitID = bg_unit_id r, b_AmountEnc = bytes_or_nil (bg_amount_enc r),
     b_SourceEnc = bytes_or_nil (bg_source_enc r), b_Description = bg_description r,
     b_CreatedBy = bg_created_by r, b_CreatedAt = bg_created_at r, b_UpdatedAt = bg_updated_at r\<rparr>"

definition budget_refused :: "db \<Rightarrow> int \<Rightarrow> string \<Rightarrow> budget_row \<Rightarrow> string option" where
  "budget_refused d uid role r =
     (if \<not> budgets_insert_policy d uid role r then Some ''new row violates row-level security policy''
      else if bg_id r \<in> bg_id ` set (budgets d) then Some ''duplicate key value violates unique constraint''
      else if bg_unit_id r \<notin> un_id ` set (units d) \<or> bg_created_by r \<notin> us_id ` set (users d)
      then Some ''insert violates foreign key constraint''
      else None)"

definition insert_budget ::
  "dbenv \<Rightarrow> int \<Rightarrow> bytes \<Rightarrow> bytes \<Rightarrow> string \<Rightarrow> int \<Rightarrow> tx \<Rightarrow> BudgetRow res \<times> tx" where
  "insert_budget e unitID amountEnc sourceEnc description userID t =
     (let (i, d) = nextval ''budgets'' (tx_db t);
          r = \<lparr>bg_id = i, bg_unit_id = unitID, bg_amount_enc = Some amountEnc, bg_source_enc = Some sourceEnc,
               bg_description = description, bg_created_by = userID, bg_created_at = db_now e,
               bg_updated_at = db_now e, bg_deleted_at = None\<rparr>
      in case budget_refused d (tx_uid t) (tx_role t) r of
           Some m \<Rightarrow> (Inl (OtherErr m), t\<lparr>tx_db := d\<rparr>)
         | None \<Rightarrow> (Inr (to_BudgetRow r), t\<lparr>tx_db := d\<lparr>budgets := budgets d @ [r]\<rparr>\<rparr>))"

definition CreateBudget ::
  "dbenv \<Rightarrow> int \<Rightarrow> string \<Rightarrow> int \<Rightarrow> bytes \<Rightarrow> bytes \<Rightarrow> string \<Rightarrow> db \<Rightarrow> BudgetRow res \<times> db" where
  "CreateBudget e userID role unitID amountEnc sourceEnc description =
     with_rls e userID role (tx_exec e (insert_budget e unitID amountEnc sourceEnc description userID))"

definition visible_budgets :: "tx \<Rightarrow> budget_row list" where
  "visible_budgets t = filter (budgets_select_policy (tx_db t) (tx_uid t) (tx_role t)) (budgets (tx_db t))"

definition GetBudget :: "dbenv \<Rightarrow> int \<Rightarrow> string \<Rightarrow> int \<Rightarrow> db \<Rightarrow> BudgetRow res \<times> db" where
  "GetBudget e userID role i =
     with_rls e userID role (tx_exec e (reading (\<lambda>t.
       case query_row (filter (\<lambda>r. bg_id r = i \<and> bg_deleted_at r = None) (visible_budgets t)) of
         Inl x \<Rightarrow> Inl x
       | Inr r \<Rightarrow> Inr (to_BudgetRow r))))"

subsection \<open>Handlers\<close>

record budget_handler =
  bh_verifier :: verifier
  bh_aesgcm :: aead
  bh_nc :: bool

record budget_createRequest =
  bq_UnitID :: int
  bq_Amount :: string
  bq_Source :: string
  bq_Description :: string

record budgetResponse =
  bo_ID :: int
  bo_UnitID :: int
  bo_Amount :: string
  bo_Source :: string
  bo_Description :: string
  bo_CreatedBy :: int
  bo_CreatedAt :: string
  bo_UpdatedAt :: string

definition canManageBudget :: "string \<Rightarrow> bool" where
  "canManageBudget role \<longleftrightarrow> ToUpper role \<in> {''SUPER_ADMIN'', ''BUDGET_ADMIN'', ''FINANCE''}"

definition canViewBudgetAmounts :: "string \<Rightarrow> bool" where
  "canViewBudgetAmounts role = canManageBudget role"

definition amount_aad :: bytes where
  "amount_aad = bytes_of ''budgets:amount''"

definition source_aad :: bytes where
  "source_aad = bytes_of ''budgets:source''"

definition budget_response :: "BudgetRow \<Rightarrow> string \<Rightarrow> string \<Rightarrow> budgetResponse" where
  "budget_response r amount source =
     \<lparr>bo_ID = b_ID r, bo_UnitID = b_UnitID r, bo_Amount = amount, bo_Source = source,
      bo_Description = b_Description r, bo_CreatedBy = b_CreatedBy r,
      bo_CreatedAt = FormatRFC3339 (b_CreatedAt r), bo_UpdatedAt = FormatRFC3339 (b_UpdatedAt r)\<rparr>"

definition budget_toResponse :: "budget_handler \<Rightarrow> BudgetRow \<Rightarrow> string \<Rightarrow> budgetResponse res" where
  "budget_toResponse h r role =
     (if canViewBudgetAmounts role
      then (case DecryptString (bh_aesgcm h) (b_AmountEnc r) amount_aad of
              Inl e \<Rightarrow> Inl e
            | Inr amount \<Rightarrow>
                (case DecryptString (bh_aesgcm h) (b_SourceEnc r) source_aad of
                   Inl e \<Rightarrow> Inl e
                 | Inr source \<Rightarrow> Inr (budget_response r amount source)))
      else Inr (budget_response r ''***'' ''***''))"

record budget_auditEvent =
  be_Action :: string
  be_ResourceType :: string
  be_ResourceID :: int
  be_UserID :: int
  be_Role :: string
  be_IPAddress :: string
  be_UserAgent :: string
  be_Timestamp :: gotime

definition marshal_audit :: "budget_auditEvent \<Rightarrow> json" where
  "marshal_audit evt =
     [(''action'', JStr (be_Action evt)), (''resource_type'', JStr (be_ResourceType evt)),
      (''resource_id'', JInt (be_ResourceID evt)), (''user_id'', JInt (be_UserID evt)),
      (''role'', JStr (be_Role evt)), (''ip_address'', JStr (be_IPAddress evt)),
      (''user_agent'', JStr (be_UserAgent evt)), (''timestamp'', JTime (be_Timestamp evt))]"

definition publishAudit ::
  "budget_handler \<Rightarrow> gotime \<Rightarrow> string \<Rightarrow> string \<Rightarrow> int \<Rightarrow> AuthInfo \<Rightarrow> 'b request \<Rightarrow> msg list" where
  "publishAudit h now action resourceType resourceID a c =
     (if \<not> bh_nc h then []
      else [\<lparr>ms_subject = ''audit.log'', ms_data = Some (marshal_audit
             \<lparr>be_Action = action, be_ResourceType = resourceType, be_ResourceID = resourceID,
              be_UserID = ai_UserID a, be_Role = ai_Role a, be_IPAddress = rq_ip c,
              be_UserAgent = rq_user_agent c, be_Timestamp = now\<rparr>)\<rparr>])"

definition Create_budget ::
  "budget_handler \<Rightarrow> renv \<Rightarrow> budget_createRequest request \<Rightarrow> locals \<Rightarrow> db \<Rightarrow> budgetResponse reply res \<times> db \<times> msg list" where
  "Create_budget h env c lo d =
     (case rq_body c of
        (Some e, _) \<Rightarrow> (Inl (FiberError 400 ''invalid json''), d, [])
      | (None, req) \<Rightarrow>
          if bq_UnitID req = 0 then (Inl (FiberError 400 ''unit_id required''), d, [])
          else (case AuthFromLocals lo of
              None \<Rightarrow> (Inl (unauthorized ''unauthorized''), d, [])
            | Some a \<Rightarrow>
                if \<not> canManageBudget (ai_Role a) then (Inl forbidden, d, [])
                else (case EncryptString (bh_aesgcm h) (re_rand env 0) (bq_Amount req) amount_aad of
                    Inl e \<Rightarrow> (Inl e, d, [])
                  | Inr amountEnc \<Rightarrow>
                      (case EncryptString (bh_aesgcm h) (re_rand env 1) (bq_Source req) source_aad of
                         Inl e \<Rightarrow> (Inl e, d, [])
                       | Inr sourceEnc \<Rightarrow>
                           (case CreateBudget (re_db env 0) (ai_UserID a) (ai_Role a) (bq_UnitID req) amountEnc
                                   sourceEnc (bq_Description req) d of
                              (Inl e, d) \<Rightarrow> (Inl e, d, [])
                            | (Inr row, d) \<Rightarrow>
                                let out = publishAudit h (re_clock env 0) ''CREATE_BUDGET'' ''budget'' (b_ID row) a c
                                in (case budget_toResponse h row (ai_Role a) of
                                      Inl e \<Rightarrow> (Inl e, d, out)
                                    | Inr resp \<Rightarrow> (Inr (JSON 201 resp), d, out)))))))"

definition Get_budget ::
  "budget_handler \<Rightarrow> renv \<Rightarrow> unit request \<Rightarrow> locals \<Rightarrow> db \<Rightarrow> budgetResponse reply res \<times> db \<times> msg list" where
  "Get_budget h env c lo d =
     (case ParseIDParam c ''id'' of
        Inl e \<Rightarrow> (Inl e, d, [])
      | Inr i \<Rightarrow>
          (case AuthFromLocals lo of
             None \<Rightarrow> (Inl (unauthorized ''unauthorized''), d, [])
           | Some a \<Rightarrow>
               (case GetBudget (re_db env 0) (ai_UserID a) (ai_Role a) i d of
                  (Inl e, d) \<Rightarrow> (Inl (if e = ErrNoRows then FiberError 404 ''not found'' else e), d, [])
                | (Inr row, d) \<Rightarrow>
                    let out = publishAudit h (re_clock env 0) ''VIEW_BUDGET'' ''budget'' (b_ID row) a c
                    in (case budget_toResponse h row (ai_Role a) of
                          Inl e \<Rightarrow> (Inl e, d, out)
                        | Inr resp \<Rightarrow> (Inr (JSON 200 resp), d, out)))))"

end
