(* ===== verification/BudgetProps.thy ===== *)
theory BudgetProps
  imports Budget
begin

text \<open>
  Properties of the budget service: who sees amounts, what is audited, the round trip from
  creation to reading, and the two readings of a role's name.
\<close>

subsection \<open>What the statements do\<close>

lemma budget_policy_cong:
  assumes "user_units d' = user_units d" and "rls_on d' = rls_on d"
  shows "budgets_select_policy d' uid role r = budgets_select_policy d uid role r"
    and "budgets_insert_policy d' uid role r = budgets_insert_policy d uid role r"
  using assms by (simp_all add: budgets_select_policy_def budgets_insert_policy_def in_unit_of_def)

lemma budget_refused_seqs: "budget_refused (d\<lparr>seqs := s\<rparr>) uid role r = budget_refused d uid role r"
  using budget_policy_cong(2) [of "d\<lparr>seqs := s\<rparr>" d] by (simp add: budget_refused_def)

lemma CreateBudget_Inr:
  assumes "CreateBudget e uid role unit ae se descr d = (Inr row, d')"
  shows "\<exists>r. row = to_BudgetRow r \<and> bg_id r = seqs d ''budgets'' + 1 \<and> bg_unit_id r = unit
    \<and> bg_amount_enc r = Some ae \<and> bg_source_enc r = Some se \<and> bg_description r = descr \<and> bg_created_by r = uid
    \<and> bg_deleted_at r = None \<and> budget_refused d uid role r = None
    \<and> d' = d\<lparr>budgets := budgets d @ [r], seqs := (seqs d)(''budgets'' := seqs d ''budgets'' + 1)\<rparr>"
proof -
  obtain t where "insert_budget e unit ae se descr uid (first_stmt uid role d) = (Inr row, t)" and "d' = tx_db t"
    using with_rls_exec_Inr [OF assms [unfolded CreateBudget_def]] by blast
  then show ?thesis
    by (auto simp: insert_budget_def nextval_def Let_def budget_refused_seqs split: option.splits)
qed

lemma GetBudget_Inr:
  assumes "GetBudget e uid role i d = (Inr row, d')"
  shows "d' = d" and "\<exists>r \<in> set (budgets d). bg_id r = i \<and> bg_deleted_at r = None
    \<and> budgets_select_policy d uid role r \<and> row = to_BudgetRow r"
proof -
  show "d' = d" using assms unfolding GetBudget_def by (rule with_rls_reading)
  from with_rls_exec_Inr [OF assms [unfolded GetBudget_def]] obtain r where
    "query_row (filter (\<lambda>r. bg_id r = i \<and> bg_deleted_at r = None) (visible_budgets (first_stmt uid role d))) = Inr r"
    "row = to_BudgetRow r"
    by (auto simp: reading_def visible_budgets_def split: sum.splits)
  from query_row_filter [OF this(1)] this(2)
  show "\<exists>r \<in> set (budgets d). bg_id r = i \<and> bg_deleted_at r = None \<and> budgets_select_policy d uid role r \<and> row = to_BudgetRow r"
    by (auto simp: visible_budgets_def)
qed

lemma GetBudget_calm:
  assumes "filter (\<lambda>r. bg_id r = i \<and> bg_deleted_at r = None) (filter (budgets_select_policy d uid role) (budgets d)) = [r]"
  shows "GetBudget (calm t) uid role i d = (Inr (to_BudgetRow r), d)"
proof -
  let ?q = "\<lambda>t. case query_row (filter (\<lambda>r. bg_id r = i \<and> bg_deleted_at r = None) (visible_budgets t)) of
         Inl x \<Rightarrow> Inl x | Inr r \<Rightarrow> Inr (to_BudgetRow r)"
  have "reading ?q (first_stmt uid role d) = (Inr (to_BudgetRow r), first_stmt uid role d)"
    using assms by (simp add: reading_def visible_budgets_def query_row_def)
  from with_rls_exec_calm [where stmt = "reading ?q", OF this] show ?thesis by (simp add: GetBudget_def)
qed

lemma Create_budget_Inr:
  assumes "Create_budget h env c lo d = (Inr rep, d', out)"
  shows "\<exists>req a ae se row resp. rq_body c = (None, req) \<and> AuthFromLocals lo = Some a \<and> canManageBudget (ai_Role a)
    \<and> EncryptString (bh_aesgcm h) (re_rand env 0) (bq_Amount req) amount_aad = Inr ae
    \<and> EncryptString (bh_aesgcm h) (re_rand env 1) (bq_Source req) source_aad = Inr se
    \<and> CreateBudget (re_db env 0) (ai_UserID a) (ai_Role a) (bq_UnitID req) ae se (bq_Description req) d = (Inr row, d')
    \<and> budget_toResponse h row (ai_Role a) = Inr resp \<and> rep = JSON 201 resp
    \<and> out = publishAudit h (re_clock env 0) ''CREATE_BUDGET'' ''budget'' (b_ID row) a c"
  using assms by (auto simp: Create_budget_def Let_def split: prod.splits option.splits sum.splits if_splits)

lemma Get_budget_Inr:
  assumes "Get_budget h env c lo d = (Inr rep, d', out)"
  shows "\<exists>i a row resp. ParseIDParam c ''id'' = Inr i \<and> AuthFromLocals lo = Some a
    \<and> GetBudget (re_db env 0) (ai_UserID a) (ai_Role a) i d = (Inr row, d')
    \<and> budget_toResponse h row (ai_Role a) = Inr resp \<and> rep = JSON 200 resp
    \<and> out = publishAudit h (re_clock env 0) ''VIEW_BUDGET'' ''budget'' (b_ID row) a c"
  using assms by (auto simp: Get_budget_def Let_def split: prod.splits option.splits sum.splits if_splits)

subsection \<open>The properties\<close>


text \<open>The message that records an access.\<close>

definition audit_record :: "string \<Rightarrow> int \<Rightarrow> AuthInfo \<Rightarrow> gotime \<Rightarrow> string \<Rightarrow> string \<Rightarrow> msg" where
  "audit_record action i a now ip ua =
     \<lparr>ms_subject = ''audit.log'', ms_data = Some [(''action'', JStr action), (''resource_type'', JStr ''budget''),
       (''resource_id'', JInt i), (''user_id'', JInt (ai_UserID a)), (''role'', JStr (ai_Role a)),
       (''ip_address'', JStr ip), (''user_agent'', JStr ua), (''timestamp'', JTime now)]\<rparr>"

lemma publishAudit_record:
  "bh_nc h \<Longrightarrow> publishAudit h now action ''budget'' i a c = [audit_record action i a now (rq_ip c) (rq_user_agent c)]"
  by (simp add: publishAudit_def audit_record_def marshal_audit_def)

lemma budget_toResponse_ID: "budget_toResponse h row role = Inr resp \<Longrightarrow> bo_ID resp = b_ID row"
  by (auto simp: budget_toResponse_def budget_response_def split: if_splits sum.splits)


text \<open>
  Creating a budget and reading it: a successful creation was made by a budget role and
  answers 201 with the amount and source of the request in clear; its creator gets the very
  same answer when asking for its id.
\<close>

theorem budget_create_then_get:
  assumes "aead_ok (bh_aesgcm h)" and "\<And>k. rand_ok (re_rand env k)"
    and "Create_budget h env c lo d = (Inr rep, d1, out)" and "re_db env' 0 = calm t"
    and "rq_params c' ''id'' = FormatInt (seqs d ''budgets'' + 1)" and "int64_ok (seqs d ''budgets'' + 1)"
  shows "\<exists>req a resp. rq_body c = (None, req) \<and> AuthFromLocals lo = Some a \<and> canManageBudget (ai_Role a)
    \<and> rep = JSON 201 resp \<and> bo_ID resp = seqs d ''budgets'' + 1 \<and> bo_Amount resp = bq_Amount req
    \<and> bo_Source resp = bq_Source req \<and> bo_CreatedBy resp = ai_UserID a
    \<and> fst (Get_budget h env' c' lo d1) = Inr (JSON 200 resp)"
proof -
  from Create_budget_Inr [OF assms(3)] obtain req a ae se row resp where
    b: "rq_body c = (None, req)" and a: "AuthFromLocals lo = Some a" and role: "canManageBudget (ai_Role a)"
    and ae: "EncryptString (bh_aesgcm h) (re_rand env 0) (bq_Amount req) amount_aad = Inr ae"
    and se: "EncryptString (bh_aesgcm h) (re_rand env 1) (bq_Source req) source_aad = Inr se"
    and cr: "CreateBudget (re_db env 0) (ai_UserID a) (ai_Role a) (bq_UnitID req) ae se (bq_Description req) d = (Inr row, d1)"
    and resp: "budget_toResponse h row (ai_Role a) = Inr resp" and rep: "rep = JSON 201 resp" by blast
  from CreateBudget_Inr [OF cr] obtain r where row: "row = to_BudgetRow r"
    and r: "bg_id r = seqs d ''budgets'' + 1" "bg_amount_enc r = Some ae" "bg_source_enc r = Some se"
      "bg_created_by r = ai_UserID a" "bg_deleted_at r = None"
    and ok: "budget_refused d (ai_UserID a) (ai_Role a) r = None"
    and d1: "d1 = d\<lparr>budgets := budgets d @ [r], seqs := (seqs d)(''budgets'' := seqs d ''budgets'' + 1)\<rparr>" by blast
  from ok have new: "bg_id r \<notin> bg_id ` set (budgets d)" and "budgets_insert_policy d (ai_UserID a) (ai_Role a) r"
    by (auto simp: budget_refused_def split: if_splits)
  then have "budgets_select_policy d1 (ai_UserID a) (ai_Role a) r"
    using budget_policy_cong(1) [of d1 d] d1 by (simp add: budgets_insert_select)
  moreover have "filter (\<lambda>x. bg_id x = bg_id r \<and> bg_deleted_at x = None) (filter S (budgets d)) = []" for S
    using new by (auto simp: filter_empty_conv image_iff)
  ultimately have "GetBudget (calm t) (ai_UserID a) (ai_Role a) (seqs d ''budgets'' + 1) d1 = (Inr row, d1)"
    unfolding row r(1) [symmetric] using r(5) by (intro GetBudget_calm) (simp add: d1 del: filter_filter)
  moreover have "ParseIDParam c' ''id'' = Inr (seqs d ''budgets'' + 1)"
    using assms(5,6) parse_int64_FormatInt by (simp add: ParseIDParam_Inr)
  ultimately have get: "fst (Get_budget h env' c' lo d1) = Inr (JSON 200 resp)"
    using a assms(4) resp by (simp add: Get_budget_def Let_def)
  have "bo_Amount resp = bq_Amount req \<and> bo_Source resp = bq_Source req \<and> bo_CreatedBy resp = ai_UserID a"
    using cx.two_columns [OF assms(1,2,2) ae se] resp row r role
    by (auto simp: budget_toResponse_def canViewBudgetAmounts_def budget_response_def to_BudgetRow_def)
  with get b a role rep budget_toResponse_ID [OF resp] row r show ?thesis by (simp add: to_BudgetRow_def)
qed

text \<open>
  C36. The handler compares role names without regard to case, the row-security policy with it:
  a caller whose role is, say, \<open>finance\<close> passes the handler's check, but under row security the
  insert is refused, so the answer is an internal error and no budget is created.
\<close>

theorem budget_role_case:
  assumes "AuthFromLocals lo = Some a" and "canManageBudget (ai_Role a)"
    and "ai_Role a \<notin> {''SUPER_ADMIN'', ''FINANCE'', ''BUDGET_ADMIN''}" and "rls_on d"
    and "rq_body c = (None, req)" and "bq_UnitID req \<noteq> 0" and "re_db env 0 = calm t"
    and "\<And>k n. \<exists>b. re_rand env k n = Inr b"
  shows "\<exists>e d1. Create_budget h env c lo d = (Inl e, d1, []) \<and> http_status (Inl e :: unit reply res) = 500
    \<and> budgets d1 = budgets d"
proof -
  obtain ae where ae: "EncryptString (bh_aesgcm h) (re_rand env 0) (bq_Amount req) amount_aad = Inr ae"
    using assms(8) [of 0 "NonceSize (bh_aesgcm h)"] by (auto simp: EncryptString_def Encrypt_def)
  obtain se where se: "EncryptString (bh_aesgcm h) (re_rand env 1) (bq_Source req) source_aad = Inr se"
    using assms(8) [of 1 "NonceSize (bh_aesgcm h)"] by (auto simp: EncryptString_def Encrypt_def)
  let ?m = "''new row violates row-level security policy''"
  have ref: "budget_refused (d\<lparr>seqs := s\<rparr>) (ai_UserID a) (ai_Role a) r = Some ?m" for s r
    using assms(3,4) by (simp add: budget_refused_def budgets_insert_policy_def budget_roles_def)
  have ins: "insert_budget (calm t) (bq_UnitID req) ae se (bq_Description req) (ai_UserID a) (first_stmt (ai_UserID a) (ai_Role a) d)
      = (Inl (OtherErr ?m), (first_stmt (ai_UserID a) (ai_Role a) d)\<lparr>tx_db := d\<lparr>seqs := (seqs d)(''budgets'' := seqs d ''budgets'' + 1)\<rparr>\<rparr>)"
    by (simp add: insert_budget_def nextval_def Let_def ref)
  have "\<exists>d1. CreateBudget (calm t) (ai_UserID a) (ai_Role a) (bq_UnitID req) ae se (bq_Description req) d = (Inl (OtherErr ?m), d1)
      \<and> budgets d1 = budgets d"
    using with_rls_exec_calm [where stmt = "insert_budget (calm t) (bq_UnitID req) ae se (bq_Description req) (ai_UserID a)", OF ins]
    by (simp add: CreateBudget_def rollback_def)
  then show ?thesis using assms ae se by (auto simp: Create_budget_def http_status_def)
qed

subsection \<open>Concrete runs\<close>

definition demo_budget :: budget_handler where
  "demo_budget = \<lparr>bh_verifier = demo_verifier, bh_aesgcm = demo_aead, bh_nc = True\<rparr>"

definition budget_db0 :: db where
  "budget_db0 = empty_db\<lparr>units := [\<lparr>un_id = 1, un_code = ''ADM'', un_name = ''Administrasi'', un_created_at = 0,
       un_updated_at = 0, un_deleted_at = None\<rparr>],
     users := [\<lparr>us_id = 7, us_username = ''budi'', us_password_hash = [], us_role = ''FINANCE'',
       us_employee_id = None, us_is_active = True, us_mfa_enabled = False, us_mfa_secret_enc = None,
       us_mfa_enrolled_at = None, us_last_login_at = None, us_created_at = 0, us_updated_at = 0,
       us_deleted_at = None\<rparr>],
     user_units := [\<lparr>uu_user_id = 7, uu_unit_id = 1, uu_created_at = 0\<rparr>]\<rparr>"

definition as_role :: "string \<Rightarrow> locals" where
  "as_role role = demo_locals\<lparr>lo_user_role := Some role\<rparr>"

definition demo_new_budget :: "budget_createRequest request" where
  "demo_new_budget = demo_request \<lparr>bq_UnitID = 1, bq_Amount = ''100'', bq_Source = ''APBN'', bq_Description = []\<rparr>"

definition demo_budget_id :: "unit request" where
  "demo_budget_id = (demo_request ())\<lparr>rq_params := (\<lambda>_. ''1'')\<rparr>"

lemma demo_budget_runs:
  "\<not> isl (fst (Create_budget demo_budget (demo_env 0) demo_new_budget (as_role ''FINANCE'') budget_db0))"
  "FormatInt (seqs budget_db0 ''budgets'' + 1) = ''1''" "int64_ok (seqs budget_db0 ''budgets'' + 1)"
  "canManageBudget ''finance'' \<and> \<not> canManageBudget ''USER''"
  by code_simp+

lemma as_role_auth:
  "AuthFromLocals (as_role role) = Some \<lparr>ai_UserID = 7, ai_Role = role, ai_TokenType = ''access'', ai_TokenID = ''a''\<rparr>"
  by (simp add: as_role_def demo_locals_def AuthFromLocals_def str_or_zero_def)



theorem budget_create_then_get_witness:
  "\<exists>resp d1 out. Create_budget demo_budget (demo_env 0) demo_new_budget (as_role ''FINANCE'') budget_db0 = (Inr (JSON 201 resp), d1, out)
     \<and> bo_Amount resp = ''100'' \<and> fst (Get_budget demo_budget (demo_env 0) demo_budget_id (as_role ''FINANCE'') d1) = Inr (JSON 200 resp)"
proof -
  obtain rep d1 out where run: "Create_budget demo_budget (demo_env 0) demo_new_budget (as_role ''FINANCE'') budget_db0 = (Inr rep, d1, out)"
    using demo_budget_runs(1) by (metis isl_def prod.collapse sum.exhaust_sel)
  have aead: "aead_ok (bh_aesgcm demo_budget)" by (simp add: demo_budget_def demo_aead_ok)
  have id1: "rq_params demo_budget_id ''id'' = FormatInt (seqs budget_db0 ''budgets'' + 1)"
    using demo_budget_runs(2) by (simp add: demo_budget_id_def)
  from budget_create_then_get [OF aead demo_rand_env run demo_env_simps(2) [of 0 0] id1 demo_budget_runs(3)] run
  show ?thesis by (auto simp: demo_new_budget_def demo_request_def)
qed

theorem budget_role_case_witness:
  "\<exists>e d1. Create_budget demo_budget (demo_env 0) demo_new_budget (as_role ''finance'') budget_db0 = (Inl e, d1, [])"
proof -
  have rls: "rls_on budget_db0" by (simp add: budget_db0_def empty_db_def)
  have body: "rq_body demo_new_budget = (None, \<lparr>bq_UnitID = 1, bq_Amount = ''100'', bq_Source = ''APBN'', bq_Description = []\<rparr>)"
    by (simp add: demo_new_budget_def demo_request_def)
  show ?thesis
    using budget_role_case [OF as_role_auth [of "''finance''"] _ _ rls body _ demo_env_simps(2) [of 0 0], of demo_budget]
      demo_budget_runs(4) by auto
qed

end
