(* ===== verification/AuditLog.thy ===== *)
theory AuditLog
  imports Service
begin

text \<open>
  \<open>services/audit-service\<close>: the audit log, written by the consumer of \<open>audit.log\<close> and queried
  with filters.  The query's text is built from the filters (\<open>build_where\<close>) and then run.
  \<open>inet_text\<close> is PostgreSQL's text of an address (\<open>ip_address::text\<close>), \<open>inet_in\<close> says which texts
  it accepts as one.
\<close>

subsection \<open>Repository\<close>

record AuditRow =
  l_ID :: int
  l_Action :: string
  l_ResourceType :: string
  l_ResourceID :: "int option"
  l_UserID :: int
  l_Role :: string
  l_IPAddress :: "string option"
  l_UserAgent :: "string option"
  l_Metadata :: json
  l_Timestamp :: gotime

record InsertInput =
  in_Action :: string
  in_ResourceType :: string
  in_ResourceID :: "int option"
  in_UserID :: int
  in_Role :: string
  in_IPAddress :: "string option"
  in_UserAgent :: "string option"
  in_Metadata :: json
  in_Timestamp :: gotime

text \<open>
  The two \<open>VARCHAR(50)\<close> columns, and the \<open>INET\<close> column, whose input function refuses what is no
  address (\<open>inet_in\<close>); what \<open>JSONB\<close> refuses is a failure of the environment.
  The time stamp of the input is never null, so that \<open>COALESCE($9, NOW())\<close> is the input's.
\<close>

definition insert_audit :: "(string \<Rightarrow> bool) \<Rightarrow> dbenv \<Rightarrow> InsertInput \<Rightarrow> tx \<Rightarrow> unit res \<times> tx" where
  "insert_audit inet_in e inp t =
     (let (i, d) = nextval ''audit_logs'' (tx_db t) in
      if length (in_Action inp) > 50 \<or> length (in_ResourceType inp) > 50
      then (Inl (OtherErr ''value too long for type character varying(50)''), t\<lparr>tx_db := d\<rparr>)
      else if \<not> pred_option inet_in (in_IPAddress inp)
      then (Inl (OtherErr ''invalid input syntax for type inet''), t\<lparr>tx_db := d\<rparr>)
      else (Inr (), t\<lparr>tx_db := d\<lparr>audit_logs := audit_logs d @
        [\<lparr>au_id = i, au_action = in_Action inp, au_resource_type = in_ResourceType inp,
          au_resource_id = in_ResourceID inp, au_user_id = in_UserID inp, au_role = in_Role inp,
          au_ip_address = in_IPAddress inp, au_user_agent = in_UserAgent inp,
          au_metadata = in_Metadata inp, au_timestamp = in_Timestamp inp\<rparr>]\<rparr>\<rparr>))"

definition Insert_audit ::
  "(string \<Rightarrow> bool) \<Rightarrow> dbenv \<Rightarrow> int \<Rightarrow> string \<Rightarrow> InsertInput \<Rightarrow> db \<Rightarrow> unit res \<times> db" where
  "Insert_audit inet_in e userID role inp = with_rls e userID role (tx_exec e (insert_audit inet_in e inp))"

record QueryInput =
  qi_Action :: string
  qi_UserID :: "int option"
  qi_From :: "gotime option"
  qi_To :: "gotime option"
  qi_Limit :: int
  qi_Offset :: int
  qi_Resource :: string

text \<open>The loop of \<open>itoa\<close>, filling the buffer from its end; it does not run for a negative number.\<close>

function itoa_loop :: "int \<Rightarrow> string \<Rightarrow> string" where
  "itoa_loop n buf = (if n > 0 then itoa_loop (n div 10) (digit_char (nat (n mod 10)) # buf) else buf)"
  by pat_completeness auto
termination by (relation "measure (\<lambda>(n, buf). nat n)") auto

declare itoa_loop.simps [simp del]

definition itoa :: "int \<Rightarrow> string" where
  "itoa i = (if i = 0 then ''0'' else itoa_loop i [])"

datatype sql_arg = AStr string | AInt int | ATime gotime

text \<open>
  The filter builder: \<open>args\<close> and \<open>where\<close> grow together; each condition names its argument by
  the number of arguments so far.
\<close>

definition add_filter :: "string \<Rightarrow> sql_arg option \<Rightarrow> string \<times> sql_arg list \<Rightarrow> string \<times> sql_arg list" where
  "add_filter cond arg q =
     (case arg of
        None \<Rightarrow> q
      | Some v \<Rightarrow> let args = snd q @ [v] in (fst q @ cond @ itoa (int (length args)), args))"

definition nonempty :: "string \<Rightarrow> sql_arg option" where
  "nonempty s = (if s \<noteq> [] then Some (AStr s) else None)"

definition build_where :: "QueryInput \<Rightarrow> string \<times> sql_arg list" where
  "build_where q =
     (let w = (''WHERE 1=1'', []);
          w = add_filter '' AND action = $'' (nonempty (qi_Action q)) w;
          w = add_filter '' AND resource_type = $'' (nonempty (qi_Resource q)) w;
          w = add_filter '' AND user_id = $'' (map_option AInt (qi_UserID q)) w;
          w = add_filter '' AND timestamp >= $'' (map_option ATime (qi_From q)) w;
          w = add_filter '' AND timestamp <= $'' (map_option ATime (qi_To q)) w
      in w)"

definition build_query :: "QueryInput \<Rightarrow> string \<times> sql_arg list" where
  "build_query q =
     (let (wh, args) = build_where q;
          args = args @ [AInt (qi_Limit q)];
          limitPos = itoa (int (length args));
          args = args @ [AInt (qi_Offset q)];
          offsetPos = itoa (int (length args))
      in (wh @ '' ORDER BY timestamp DESC LIMIT $'' @ limitPos @ '' OFFSET $'' @ offsetPos, args))"

subsection \<open>Running the query\<close>

text \<open>
  What PostgreSQL makes of a query of this shape: the conditions are read off its text, each with
  the number of its argument; a condition whose argument is missing or of another type is an
  error.
\<close>

datatype cond = CondAction | CondResource | CondUser | CondFrom | CondTo

fun cond_text :: "cond \<Rightarrow> string" where
  "cond_text CondAction = '' AND action = $''"
| "cond_text CondResource = '' AND resource_type = $''"
| "cond_text CondUser = '' AND user_id = $''"
| "cond_text CondFrom = '' AND timestamp >= $''"
| "cond_text CondTo = '' AND timestamp <= $''"

definition strip :: "string \<Rightarrow> string \<Rightarrow> string option" where
  "strip p s = (if take (length p) s = p then Some (drop (length p) s) else None)"

definition parse_num :: "string \<Rightarrow> (int \<times> string) option" where
  "parse_num s = (case parse_int64 (takeWhile is_digit s) of None \<Rightarrow> None | Some n \<Rightarrow> Some (n, dropWhile is_digit s))"

fun first_cond :: "cond list \<Rightarrow> string \<Rightarrow> (cond \<times> string) option" where
  "first_cond [] s = None"
| "first_cond (c # cs) s = (case strip (cond_text c) s of Some r \<Rightarrow> Some (c, r) | None \<Rightarrow> first_cond cs s)"

definition parse_cond :: "string \<Rightarrow> (cond \<times> int \<times> string) option" where
  "parse_cond s =
     (case first_cond [CondAction, CondResource, CondUser, CondFrom, CondTo] s of
        None \<Rightarrow> None
      | Some (c, r) \<Rightarrow> (case parse_num r of None \<Rightarrow> None | Some (n, r) \<Rightarrow> Some (c, n, r)))"

fun parse_conds :: "nat \<Rightarrow> string \<Rightarrow> (cond \<times> int) list \<times> string" where
  "parse_conds 0 s = ([], s)"
| "parse_conds (Suc k) s =
     (case parse_cond s of None \<Rightarrow> ([], s)
      | Some (c, n, r) \<Rightarrow> (case parse_conds k r of (cs, r) \<Rightarrow> ((c, n) # cs, r)))"

definition nth_arg :: "sql_arg list \<Rightarrow> int \<Rightarrow> sql_arg option" where
  "nth_arg args n = (if 1 \<le> n \<and> n \<le> int (length args) then Some (args ! nat (n - 1)) else None)"

fun cond_holds :: "audit_row \<Rightarrow> cond \<Rightarrow> sql_arg \<Rightarrow> bool option" where
  "cond_holds r CondAction (AStr v) = Some (au_action r = v)"
| "cond_holds r CondResource (AStr v) = Some (au_resource_type r = v)"
| "cond_holds r CondUser (AInt v) = Some (au_user_id r = v)"
| "cond_holds r CondFrom (ATime v) = Some (v \<le> au_timestamp r)"
| "cond_holds r CondTo (ATime v) = Some (au_timestamp r \<le> v)"
| "cond_holds r c v = None"

fun well_typed :: "cond \<Rightarrow> sql_arg \<Rightarrow> bool" where
  "well_typed CondAction (AStr v) = True"
| "well_typed CondResource (AStr v) = True"
| "well_typed CondUser (AInt v) = True"
| "well_typed CondFrom (ATime v) = True"
| "well_typed CondTo (ATime v) = True"
| "well_typed c v = False"

text \<open>The conditions with their arguments, if every one has a fitting argument.\<close>

fun bind_args :: "sql_arg list \<Rightarrow> (cond \<times> int) list \<Rightarrow> (cond \<times> sql_arg) list option" where
  "bind_args args [] = Some []"
| "bind_args args ((c, n) # cs) =
     (case nth_arg args n of None \<Rightarrow> None
      | Some v \<Rightarrow> if well_typed c v then map_option (Cons (c, v)) (bind_args args cs) else None)"

definition row_matches :: "(cond \<times> sql_arg) list \<Rightarrow> audit_row \<Rightarrow> bool" where
  "row_matches cvs r \<longleftrightarrow> (\<forall>(c, v) \<in> set cvs. cond_holds r c v = Some True)"

definition int_arg :: "sql_arg list \<Rightarrow> int \<Rightarrow> int option" where
  "int_arg args n = (case nth_arg args n of Some (AInt i) \<Rightarrow> Some i | _ \<Rightarrow> None)"

definition run_query :: "string \<Rightarrow> sql_arg list \<Rightarrow> audit_row list \<Rightarrow> audit_row list option" where
  "run_query sql args rows =
     Option.bind (strip ''WHERE 1=1'' sql) (\<lambda>s.
       let (cs, s) = parse_conds (length s) s in
       Option.bind (bind_args args cs) (\<lambda>cvs.
       Option.bind (strip '' ORDER BY timestamp DESC LIMIT $'' s) (\<lambda>s.
       Option.bind (parse_num s) (\<lambda>(ln, s).
       Option.bind (strip '' OFFSET $'' s) (\<lambda>s.
       Option.bind (parse_num s) (\<lambda>(on, s).
       Option.bind (int_arg args ln) (\<lambda>l.
       Option.bind (int_arg args on) (\<lambda>off.
         if s = [] then Some (limit_offset l off (order_desc au_timestamp (filter (row_matches cvs) rows)))
         else None))))))))"

definition to_AuditRow :: "(string \<Rightarrow> string) \<Rightarrow> audit_row \<Rightarrow> AuditRow" where
  "to_AuditRow inet_text r = \<lparr>l_ID = au_id r, l_Action = au_action r, l_ResourceType = au_resource_type r,
     l_ResourceID = au_resource_id r, l_UserID = au_user_id r, l_Role = au_role r,
     l_IPAddress = map_option inet_text (au_ip_address r), l_UserAgent = au_user_agent r,
     l_Metadata = au_metadata r, l_Timestamp = au_timestamp r\<rparr>"

definition Query_audit ::
  "(string \<Rightarrow> string) \<Rightarrow> dbenv \<Rightarrow> int \<Rightarrow> string \<Rightarrow> QueryInput \<Rightarrow> db \<Rightarrow> AuditRow list res \<times> db" where
  "Query_audit inet_text e userID role q =
     with_rls e userID role (tx_exec e (reading (\<lambda>t.
       case build_query q of (sql, args) \<Rightarrow>
         (case run_query sql args (audit_logs (tx_db t)) of
            None \<Rightarrow> Inl (OtherErr ''SQL error'')
          | Some rows \<Rightarrow> Inr (map (to_AuditRow inet_text) rows)))))"

subsection \<open>Handlers\<close>

definition canReadAudit :: "string \<Rightarrow> bool" where
  "canReadAudit role \<longleftrightarrow> role \<in> {''SUPER_ADMIN'', ''AUDITOR''}"

definition parseInt_audit :: "string \<Rightarrow> int \<Rightarrow> int" where
  "parseInt_audit s def =
     (if s = [] then def else case ParseInt s of (i, Some e) \<Rightarrow> def | (i, None) \<Rightarrow> i)"

definition clampInt_audit :: "int \<Rightarrow> int \<Rightarrow> int \<Rightarrow> int" where
  "clampInt_audit v mn mx = (if v < mn then mn else if v > mx then mx else v)"

interpretation audit_param: int_param parseInt_audit clampInt_audit
  by (rule int_param_copy) (simp_all add: parseInt_audit_def clampInt_audit_def)

definition audit_query_input :: "unit request \<Rightarrow> QueryInput" where
  "audit_query_input c =
     (let limit = clampInt_audit (parseInt_audit (rq_query c ''limit'') 100) 1 500;
          offset = clampInt_audit (parseInt_audit (rq_query c ''offset'') 0) 0 100000;
          userID = (if rq_query c ''user_id'' \<noteq> [] then parse_int64 (rq_query c ''user_id'') else None);
          from = (if rq_query c ''from'' \<noteq> [] then ParseRFC3339 (rq_query c ''from'') else None);
          until = (if rq_query c ''to'' \<noteq> [] then ParseRFC3339 (rq_query c ''to'') else None)
      in \<lparr>qi_Action = rq_query c ''action'', qi_UserID = userID, qi_From = from, qi_To = until,
          qi_Limit = limit, qi_Offset = offset, qi_Resource = rq_query c ''resource_type''\<rparr>)"

definition QueryLogs ::
  "(string \<Rightarrow> string) \<Rightarrow> renv \<Rightarrow> unit request \<Rightarrow> locals \<Rightarrow> db \<Rightarrow> AuditRow page reply res \<times> db" where
  "QueryLogs inet_text env c lo d =
     (case AuthFromLocals lo of
        None \<Rightarrow> (Inl (unauthorized ''unauthorized''), d)
      | Some a \<Rightarrow>
          if \<not> canReadAudit (ai_Role a) then (Inl forbidden, d)
          else let q = audit_query_input c
               in (case Query_audit inet_text (re_db env 0) (ai_UserID a) (ai_Role a) q d of
                     (Inl e, d) \<Rightarrow> (Inl e, d)
                   | (Inr items, d) \<Rightarrow>
                       (Inr (JSON 200 \<lparr>pg_items = items, pg_limit = qi_Limit q, pg_offset = qi_Offset q\<rparr>), d)))"

record auditEvent =
  ae_Action :: string
  ae_ResourceType :: string
  ae_ResourceID :: int
  ae_UserID :: int
  ae_Role :: string
  ae_IPAddress :: string
  ae_UserAgent :: string
  ae_Timestamp :: gotime

definition unmarshal_audit :: "json \<Rightarrow> auditEvent option" where
  "unmarshal_audit j =
     Option.bind (json_get jstr ''action'' [] j) (\<lambda>action.
     Option.bind (json_get jstr ''resource_type'' [] j) (\<lambda>rtype.
     Option.bind (json_get jint ''resource_id'' 0 j) (\<lambda>rid.
     Option.bind (json_get jint ''user_id'' 0 j) (\<lambda>uid.
     Option.bind (json_get jstr ''role'' [] j) (\<lambda>role.
     Option.bind (json_get jstr ''ip_address'' [] j) (\<lambda>ip.
     Option.bind (json_get jstr ''user_agent'' [] j) (\<lambda>ua.
     Option.bind (json_get jtime ''timestamp'' zero_time j) (\<lambda>ts.
       Some \<lparr>ae_Action = action, ae_ResourceType = rtype, ae_ResourceID = rid, ae_UserID = uid,
             ae_Role = role, ae_IPAddress = ip, ae_UserAgent = ua, ae_Timestamp = ts\<rparr>))))))))"

text \<open>The consumer of \<open>audit.log\<close>; the message itself is kept as metadata, errors are logged only.\<close>

definition on_audit_log :: "(string \<Rightarrow> bool) \<Rightarrow> dbenv \<Rightarrow> msg \<Rightarrow> db \<Rightarrow> db" where
  "on_audit_log inet_in e m d =
     (case ms_data m of
        None \<Rightarrow> d
      | Some j \<Rightarrow>
          (case unmarshal_audit j of
             None \<Rightarrow> d
           | Some evt \<Rightarrow>
               let rid = (if ae_ResourceID evt \<noteq> 0 then Some (ae_ResourceID evt) else None)
               in snd (Insert_audit inet_in e 0 ''SYSTEM''
                    \<lparr>in_Action = ae_Action evt, in_ResourceType = ae_ResourceType evt, in_ResourceID = rid,
                     in_UserID = ae_UserID evt, in_Role = ae_Role evt, in_IPAddress = Some (ae_IPAddress evt),
                     in_UserAgent = Some (ae_UserAgent evt), in_Metadata = j, in_Timestamp = ae_Timestamp evt\<rparr> d)))"

end
