(* ===== verification/AuditProps.thy ===== *)
theory AuditProps
  imports AuditLog
begin

text \<open>
  Properties of the audit service: the decimal helper, the query builder against the filter it
  stands for, and the log as an append-only record of the messages.
\<close>

subsection \<open>itoa\<close>

lemma itoa_loop_fmt: "0 < i \<Longrightarrow> itoa_loop i buf = fmt_int i @ buf"
proof (induction i buf rule: itoa_loop.induct)
  case (1 n buf)
  show ?case
  proof (cases "n < 10")
    case True
    with "1.prems" have "n div 10 = 0" "n mod 10 = n" by auto
    with True "1.prems" show ?thesis
      by (subst itoa_loop.simps, subst fmt_int.simps) (simp add: itoa_loop.simps)
  next
    case False
    with "1.prems" have "0 < n div 10" by simp
    with "1.IH" "1.prems" False show ?thesis by (subst itoa_loop.simps, subst fmt_int.simps) simp
  qed
qed

lemma itoa_eq: "0 \<le> i \<Longrightarrow> itoa i = FormatInt i"
proof (cases "i = 0")
  case True
  have "FormatInt 0 = ''0''" by (simp add: FormatInt_code fmt_int.simps digit_char_eval)
  with True show ?thesis by (simp add: itoa_def)
next
  case False
  assume "0 \<le> i"
  with False show ?thesis by (simp add: itoa_def FormatInt_code itoa_loop_fmt)
qed

lemma FormatInt_digits: "0 \<le> i \<Longrightarrow> c \<in> set (FormatInt i) \<Longrightarrow> is_digit c"
  by (auto simp: FormatInt_def dest: fmt_nat_digits)

definition no_digit :: "string \<Rightarrow> bool" where
  "no_digit s \<longleftrightarrow> (s = [] \<or> \<not> is_digit (hd s))"

lemma parse_num_itoa:
  assumes "0 \<le> n" and "int64_ok n" and "no_digit rest"
  shows "parse_num (itoa n @ rest) = Some (n, rest)"
proof -
  have d: "\<forall>c \<in> set (FormatInt n). is_digit c" using FormatInt_digits [OF assms(1)] by blast
  have "takeWhile is_digit rest = []" "dropWhile is_digit rest = rest"
    using assms(3) by (cases rest; simp add: no_digit_def)+
  with d have "takeWhile is_digit (FormatInt n @ rest) = FormatInt n" "dropWhile is_digit (FormatInt n @ rest) = rest"
    by (simp_all add: takeWhile_append2 dropWhile_append2)
  then show ?thesis by (simp add: parse_num_def itoa_eq [OF assms(1)] parse_int64_FormatInt [OF assms(2)])
qed

subsection \<open>The query builder\<close>

text \<open>The conditions a query stands for, with their arguments, and their text from number \<open>n\<close> on.\<close>

definition query_conds :: "QueryInput \<Rightarrow> (cond \<times> sql_arg) list" where
  "query_conds q =
     (if qi_Action q = [] then [] else [(CondAction, AStr (qi_Action q))])
     @ (if qi_Resource q = [] then [] else [(CondResource, AStr (qi_Resource q))])
     @ (case qi_UserID q of None \<Rightarrow> [] | Some u \<Rightarrow> [(CondUser, AInt u)])
     @ (case qi_From q of None \<Rightarrow> [] | Some t \<Rightarrow> [(CondFrom, ATime t)])
     @ (case qi_To q of None \<Rightarrow> [] | Some t \<Rightarrow> [(CondTo, ATime t)])"

fun render :: "int \<Rightarrow> (cond \<times> sql_arg) list \<Rightarrow> string" where
  "render n [] = []"
| "render n ((c, v) # cvs) = cond_text c @ itoa n @ render (n + 1) cvs"

fun numbered :: "int \<Rightarrow> (cond \<times> sql_arg) list \<Rightarrow> (cond \<times> int) list" where
  "numbered n [] = []"
| "numbered n ((c, v) # cvs) = (c, n) # numbered (n + 1) cvs"

lemma render_append: "render n (xs @ ys) = render n xs @ render (n + int (length xs)) ys"
  by (induction n xs rule: render.induct) (simp_all add: ac_simps)

definition built :: "(cond \<times> sql_arg) list \<Rightarrow> string \<times> sql_arg list" where
  "built cvs = (''WHERE 1=1'' @ render 1 cvs, map snd cvs)"

lemma add_filter_built:
  "add_filter (cond_text c) arg (built cvs) = built (cvs @ (case arg of None \<Rightarrow> [] | Some v \<Rightarrow> [(c, v)]))"
  by (simp add: built_def add_filter_def render_append Let_def add.commute split: option.split)

lemma build_where_render: "build_where q = built (query_conds q)"
proof -
  have "(''WHERE 1=1'', []) = built []" by (simp add: built_def)
  then have "build_where q = built (((((
      [] @ (case nonempty (qi_Action q) of None \<Rightarrow> [] | Some v \<Rightarrow> [(CondAction, v)]))
      @ (case nonempty (qi_Resource q) of None \<Rightarrow> [] | Some v \<Rightarrow> [(CondResource, v)]))
      @ (case map_option AInt (qi_UserID q) of None \<Rightarrow> [] | Some v \<Rightarrow> [(CondUser, v)]))
      @ (case map_option ATime (qi_From q) of None \<Rightarrow> [] | Some v \<Rightarrow> [(CondFrom, v)]))
      @ (case map_option ATime (qi_To q) of None \<Rightarrow> [] | Some v \<Rightarrow> [(CondTo, v)]))"
    unfolding build_where_def Let_def cond_text.simps [symmetric] by (simp only: add_filter_built)
  also have "\<dots> = built (query_conds q)"
    by (simp add: query_conds_def nonempty_def split: option.split)
  finally show ?thesis .
qed

lemma first_cond_text: "first_cond [CondAction, CondResource, CondUser, CondFrom, CondTo] (cond_text c @ s) = Some (c, s)"
  by (cases c) (simp_all add: strip_def)

lemma no_digit_render: "no_digit (render n cvs @ tail) \<longleftrightarrow> cvs \<noteq> [] \<or> no_digit tail"
proof (cases cvs)
  case (Cons cv cvs')
  obtain c v where "cv = (c, v)" by (cases cv)
  moreover have "cond_text c @ s \<noteq> [] \<and> hd (cond_text c @ s) = CHR '' ''" for s by (cases c) simp_all
  ultimately show ?thesis using Cons by (simp add: no_digit_def is_digit_def char_ord_def)
qed simp

lemma parse_conds_render:
  assumes "parse_cond tail = None" and "no_digit tail"
  shows "length cvs \<le> k \<Longrightarrow> 0 \<le> n \<Longrightarrow> int64_ok (n + int (length cvs)) \<Longrightarrow>
    parse_conds k (render n cvs @ tail) = (numbered n cvs, tail)"
proof (induction k arbitrary: n cvs)
  case 0
  then show ?case by simp
next
  case (Suc k)
  show ?case
  proof (cases cvs)
    case Nil
    then show ?thesis using assms(1) by simp
  next
    case (Cons cv cvs')
    obtain c v where cv: "cv = (c, v)" by (cases cv)
    have "no_digit (render (n + 1) cvs' @ tail)" using assms(2) no_digit_render by blast
    moreover have "int64_ok n" using Suc.prems by (auto simp: int64_ok_def)
    ultimately have "parse_cond (render n cvs @ tail) = Some (c, n, render (n + 1) cvs' @ tail)"
      using Suc.prems(2) by (simp add: parse_cond_def Cons cv first_cond_text parse_num_itoa del: first_cond.simps)
    moreover have "parse_conds k (render (n + 1) cvs' @ tail) = (numbered (n + 1) cvs', tail)"
      using Suc.prems Cons by (intro Suc.IH) (simp_all add: ac_simps)
    ultimately show ?thesis by (simp add: Cons cv)
  qed
qed

lemma bind_args_numbered:
  assumes "\<forall>(c, v) \<in> set cvs. well_typed c v"
  shows "bind_args (pre @ map snd cvs @ post) (numbered (int (length pre) + 1) cvs) = Some cvs"
  using assms
proof (induction cvs arbitrary: pre)
  case Nil
  then show ?case by simp
next
  case (Cons cv cvs)
  obtain c v where cv: "cv = (c, v)" by (cases cv)
  have "nth_arg (pre @ v # map snd cvs @ post) (int (length pre) + 1) = Some v"
    by (simp add: nth_arg_def nth_append nat_add_distrib)
  moreover have "bind_args ((pre @ [v]) @ map snd cvs @ post) (numbered (int (length (pre @ [v])) + 1) cvs) = Some cvs"
    using Cons by (intro Cons.IH) simp
  ultimately show ?case using Cons.prems cv by (simp add: ac_simps)
qed

lemma length_cond_text: "0 < length (cond_text c)"
  by (cases c) simp_all

lemma length_render: "length cvs \<le> length (render n cvs)"
proof (induction n cvs rule: render.induct)
  case (2 n c v cvs)
  then show ?case using length_cond_text [of c] by (simp del: length_greater_0_conv)
qed simp

lemma run_build_query:
  "run_query (fst (build_query q)) (snd (build_query q)) rows
     = Some (limit_offset (qi_Limit q) (qi_Offset q) (order_desc au_timestamp (filter (row_matches (query_conds q)) rows)))"
proof -
  let ?cvs = "query_conds q" and ?k = "int (length (query_conds q))"
  let ?tail = "'' ORDER BY timestamp DESC LIMIT $'' @ itoa (?k + 1) @ '' OFFSET $'' @ itoa (?k + 2)"
  have short: "length ?cvs \<le> 5" by (simp add: query_conds_def split: option.split)
  have ok: "int64_ok (1 + ?k)" "int64_ok (?k + 1)" "int64_ok (?k + 2)" using short by (simp_all add: int64_ok_def)
  have b: "build_query q = (''WHERE 1=1'' @ render 1 ?cvs @ ?tail, map snd ?cvs @ [AInt (qi_Limit q), AInt (qi_Offset q)])"
    by (simp add: build_query_def build_where_render built_def Let_def ac_simps)
  have tail: "parse_cond ?tail = None" "no_digit ?tail"
    by (simp_all add: parse_cond_def strip_def no_digit_def is_digit_def char_ord_def)
  have p: "parse_conds (length (render 1 ?cvs @ ?tail)) (render 1 ?cvs @ ?tail) = (numbered 1 ?cvs, ?tail)"
    using length_render [of ?cvs 1] ok by (intro parse_conds_render [OF tail]) simp_all
  have wt: "\<forall>(c, v) \<in> set ?cvs. well_typed c v" by (auto simp: query_conds_def split: option.splits)
  have ba: "bind_args (map snd ?cvs @ [AInt (qi_Limit q), AInt (qi_Offset q)]) (numbered 1 ?cvs) = Some ?cvs"
    using bind_args_numbered [OF wt, of "[]" "[AInt (qi_Limit q), AInt (qi_Offset q)]"] by simp
  have l: "int_arg (map snd ?cvs @ [AInt (qi_Limit q), AInt (qi_Offset q)]) (?k + 1) = Some (qi_Limit q)"
    "int_arg (map snd ?cvs @ [AInt (qi_Limit q), AInt (qi_Offset q)]) (?k + 2) = Some (qi_Offset q)"
    by (simp_all add: int_arg_def nth_arg_def nth_append nat_add_distrib)
  have n1: "parse_num (itoa (?k + 1) @ '' OFFSET $'' @ itoa (?k + 2)) = Some (?k + 1, '' OFFSET $'' @ itoa (?k + 2))"
    by (rule parse_num_itoa) (simp_all add: ok no_digit_def is_digit_def char_ord_def)
  have n2: "parse_num (itoa (?k + 2)) = Some (?k + 2, [])"
    using parse_num_itoa [of "?k + 2" "[]"] ok by (simp add: no_digit_def)
  have s: "strip p (p @ s) = Some s" for p s by (simp add: strip_def)
  show ?thesis
    by (simp only: b fst_conv snd_conv run_query_def s bind.bind_lunit Let_def p prod.case ba n1 n2 l simp_thms if_True)
qed

subsection \<open>The properties\<close>

text \<open>
  The helper \<open>itoa\<close> is \<open>strconv.Itoa\<close> on every number from zero on, and the empty string
  below, where its loop does not run.
\<close>

theorem itoa_is_FormatInt: "itoa i = (if i < 0 then [] else FormatInt i)"
proof (cases "i < 0")
  case True
  then show ?thesis by (simp add: itoa_def) (subst itoa_loop.simps, simp)
qed (simp add: itoa_eq)

text \<open>The filter a query stands for: a row passes when it agrees with every filter given.\<close>

definition filter_spec :: "QueryInput \<Rightarrow> audit_row \<Rightarrow> bool" where
  "filter_spec q r \<longleftrightarrow>
     qi_Action q \<in> {[], au_action r} \<and> qi_Resource q \<in> {[], au_resource_type r}
     \<and> qi_UserID q \<in> {None, Some (au_user_id r)}
     \<and> pred_option (\<lambda>t. t \<le> au_timestamp r) (qi_From q) \<and> pred_option (\<lambda>t. au_timestamp r \<le> t) (qi_To q)"

lemma row_matches_conds: "row_matches (query_conds q) = filter_spec q"
proof
  fix r
  show "row_matches (query_conds q) r = filter_spec q r"
    by (cases "qi_UserID q"; cases "qi_From q"; cases "qi_To q")
      (auto simp: row_matches_def query_conds_def filter_spec_def)
qed

text \<open>
  C35. The query the filter builder puts together means what its filters say: run on the log, its
  text and arguments select exactly the rows that agree with every filter given, newest first,
  cut to the page; no placeholder is off by one, whichever filters are present.
\<close>

theorem query_builder_correct:
  "run_query (fst (build_query q)) (snd (build_query q)) rows
     = Some (limit_offset (qi_Limit q) (qi_Offset q) (order_desc au_timestamp (filter (filter_spec q) rows)))"
  by (simp add: run_build_query row_matches_conds)

text \<open>
  C36. The log is read by super administrators and auditors only: for anyone else the answer is 403
  and the log is not looked at; an answer holds exactly the rows the request's filters select,
  on a page of 1 to 500 rows, and reading changes nothing.
\<close>

theorem query_logs_answer:
  assumes "QueryLogs inet_text env c lo d = (r, d')" and "AuthFromLocals lo = Some a"
  shows "d' = d
    \<and> (ai_Role a \<notin> {''SUPER_ADMIN'', ''AUDITOR''} \<longrightarrow> r = Inl (FiberError 403 ''forbidden''))
    \<and> (\<forall>rep. r = Inr rep \<longrightarrow> (\<exists>pg. rep = JSON 200 pg
          \<and> pg_items pg = map (to_AuditRow inet_text) (limit_offset (pg_limit pg) (pg_offset pg)
               (order_desc au_timestamp (filter (filter_spec (audit_query_input c)) (audit_logs d))))
          \<and> 1 \<le> pg_limit pg \<and> pg_limit pg \<le> 500 \<and> int (length (pg_items pg)) \<le> pg_limit pg
          \<and> 0 \<le> pg_offset pg \<and> pg_offset pg \<le> 100000))"
proof -
  let ?q = "audit_query_input c"
  obtain x d0 where x: "Query_audit inet_text (re_db env 0) (ai_UserID a) (ai_Role a) ?q d = (x, d0)" by fastforce
  then have d0: "d0 = d" unfolding Query_audit_def by (rule with_rls_reading)
  have lim: "1 \<le> qi_Limit ?q" "qi_Limit ?q \<le> 500" "0 \<le> qi_Offset ?q" "qi_Offset ?q \<le> 100000"
    using audit_param.clamp_bounds by (simp_all add: audit_query_input_def Let_def)
  have rows: "items = map (to_AuditRow inet_text) (limit_offset (qi_Limit ?q) (qi_Offset ?q)
      (order_desc au_timestamp (filter (filter_spec ?q) (audit_logs d))))" if "x = Inr items" for items
    using with_rls_exec_Inr [OF x [unfolded that Query_audit_def]]
    by (auto simp: reading_def case_prod_beta run_build_query row_matches_conds)
  have len: "int (length (limit_offset (qi_Limit ?q) off rs)) \<le> qi_Limit ?q" for off and rs :: "audit_row list"
    using lim by (intro length_limit_offset) simp
  show ?thesis
    using assms x d0 lim rows len
    by (cases x) (auto simp: QueryLogs_def canReadAudit_def Let_def split: if_splits)
qed

subsection \<open>Append only\<close>

definition log_grows :: "db \<Rightarrow> db \<Rightarrow> bool" where
  "log_grows d d' \<longleftrightarrow> (\<exists>new. audit_logs d' = audit_logs d @ new)"

lemma log_grows_same: "audit_logs d' = audit_logs d \<Longrightarrow> log_grows d d'"
  by (simp add: log_grows_def)

lemma log_grows_trans [trans]: "log_grows a b \<Longrightarrow> log_grows b c \<Longrightarrow> log_grows a c"
  by (auto simp: log_grows_def)

interpretation log: tx_relation log_grows
  by unfold_locales (simp_all add: log_grows_same)

lemma Insert_audit_grows: "log_grows d (snd (Insert_audit inet_in e uid role inp d))"
  unfolding Insert_audit_def
  by (rule log.with_rls_R, rule log.tx_exec_R)
    (auto simp: insert_audit_def nextval_def Let_def log_grows_def started_def)

lemma on_audit_log_grows: "log_grows d (on_audit_log inet_in e m d)"
  by (auto simp: on_audit_log_def Let_def log.R_refl Insert_audit_grows split: option.splits)

lemma Insert_audit_calm:
  assumes "length (in_Action inp) \<le> 50" and "length (in_ResourceType inp) \<le> 50" and "pred_option inet_in (in_IPAddress inp)"
  shows "\<exists>i. audit_logs (snd (Insert_audit inet_in (calm t) uid role inp d)) = audit_logs d @
     [\<lparr>au_id = i, au_action = in_Action inp, au_resource_type = in_ResourceType inp,
       au_resource_id = in_ResourceID inp, au_user_id = in_UserID inp, au_role = in_Role inp,
       au_ip_address = in_IPAddress inp, au_user_agent = in_UserAgent inp,
       au_metadata = in_Metadata inp, au_timestamp = in_Timestamp inp\<rparr>]"
proof -
  obtain t' where "insert_audit inet_in (calm t) inp (first_stmt uid role d) = (Inr (), t')"
    and "\<exists>i. audit_logs (tx_db t') = audit_logs d @
     [\<lparr>au_id = i, au_action = in_Action inp, au_resource_type = in_ResourceType inp,
       au_resource_id = in_ResourceID inp, au_user_id = in_UserID inp, au_role = in_Role inp,
       au_ip_address = in_IPAddress inp, au_user_agent = in_UserAgent inp,
       au_metadata = in_Metadata inp, au_timestamp = in_Timestamp inp\<rparr>]"
    using assms by (simp add: insert_audit_def nextval_def Let_def)
  with with_rls_exec_calm [where stmt = "insert_audit inet_in (calm t) inp" and now = t] show ?thesis
    by (simp add: Insert_audit_def)
qed

subsection \<open>Concrete runs\<close>

definition demo_auditor :: locals where
  "demo_auditor = demo_locals\<lparr>lo_user_role := Some ''AUDITOR''\<rparr>"

theorem query_logs_answer_witness:
  "\<exists>r. QueryLogs (\<lambda>s. s) (demo_env 0) (demo_request ()) demo_auditor empty_db = (r, empty_db)"
proof -
  have a: "AuthFromLocals demo_auditor = Some \<lparr>ai_UserID = 7, ai_Role = ''AUDITOR'', ai_TokenType = ''access'', ai_TokenID = ''a''\<rparr>"
    by (simp add: demo_auditor_def demo_locals_def AuthFromLocals_def str_or_zero_def)
  obtain r d' where run: "QueryLogs (\<lambda>s. s) (demo_env 0) (demo_request ()) demo_auditor empty_db = (r, d')" by fastforce
  from query_logs_answer [OF run a] run show ?thesis by auto
qed

end
