(* ===== verification/Notify.thy ===== *)
theory Notify
  imports Service
begin

text \<open>
  \<open>services/notification-service\<close>: a request is queued as a message \<open>notification.send\<close>, whose
  consumer records it as sent.  The handler works on no state of its own; whether publishing
  fails is an argument.
\<close>

subsection \<open>Repository\<close>

record NotificationRow =
  n_ID :: int
  n_Channel :: string
  n_Recipient :: string
  n_Subject :: string
  n_Body :: string
  n_Status :: string
  n_RequestedBy :: int
  n_CreatedAt :: gotime
  n_SentAt :: "gotime option"

definition new_notification ::
  "gotime \<Rightarrow> int \<Rightarrow> string \<Rightarrow> string \<Rightarrow> string \<Rightarrow> string \<Rightarrow> string \<Rightarrow> int \<Rightarrow> notification_row" where
  "new_notification now i channel recipient subject body status requestedBy =
     \<lparr>nt_id = i, nt_channel = channel, nt_recipient = recipient, nt_subject = subject, nt_body = body,
      nt_status = status, nt_requested_by = Some requestedBy, nt_created_at = now,
      nt_sent_at = (if status = ''SENT'' then Some now else None), nt_deleted_at = None\<rparr>"

definition insert_notification ::
  "dbenv \<Rightarrow> string \<Rightarrow> string \<Rightarrow> string \<Rightarrow> string \<Rightarrow> string \<Rightarrow> int \<Rightarrow> tx \<Rightarrow> NotificationRow res \<times> tx" where
  "insert_notification e channel recipient subject body status requestedBy t =
     (let (i, d) = nextval ''notifications'' (tx_db t);
          r = new_notification (db_now e) i channel recipient subject body status requestedBy
      in if i \<in> nt_id ` set (notifications d)
         then (Inl (OtherErr ''duplicate key value violates unique constraint''), t\<lparr>tx_db := d\<rparr>)
         else if requestedBy \<notin> us_id ` set (users d)
         then (Inl (OtherErr ''insert violates foreign key constraint''), t\<lparr>tx_db := d\<rparr>)
         else (Inr \<lparr>n_ID = nt_id r, n_Channel = nt_channel r, n_Recipient = nt_recipient r,
                    n_Subject = nt_subject r, n_Body = nt_body r, n_Status = nt_status r,
                    n_RequestedBy = requestedBy, n_CreatedAt = nt_created_at r, n_SentAt = nt_sent_at r\<rparr>,
               t\<lparr>tx_db := d\<lparr>notifications := notifications d @ [r]\<rparr>\<rparr>))"

definition InsertNotification ::
  "dbenv \<Rightarrow> int \<Rightarrow> string \<Rightarrow> string \<Rightarrow> string \<Rightarrow> string \<Rightarrow> string \<Rightarrow> string \<Rightarrow> int \<Rightarrow> db \<Rightarrow> NotificationRow res \<times> db" where
  "InsertNotification e userID role channel recipient subject body status requestedBy =
     with_rls e userID role (tx_exec e (insert_notification e channel recipient subject body status requestedBy))"

subsection \<open>Handler\<close>

record sendRequest =
  nq_Channel :: string
  nq_Recipient :: string
  nq_Subject :: string
  nq_Body :: string

record notificationEvent =
  ne_ID :: string
  ne_Channel :: string
  ne_Recipient :: string
  ne_Subject :: string
  ne_Body :: string
  ne_RequestedBy :: int
  ne_Role :: string
  ne_RequestedAt :: gotime

definition marshal_notification :: "notificationEvent \<Rightarrow> json" where
  "marshal_notification evt =
     [(''id'', JStr (ne_ID evt)), (''channel'', JStr (ne_Channel evt)), (''recipient'', JStr (ne_Recipient evt)),
      (''subject'', JStr (ne_Subject evt)), (''body'', JStr (ne_Body evt)),
      (''requested_by'', JInt (ne_RequestedBy evt)), (''role'', JStr (ne_Role evt)),
      (''requested_at'', JTime (ne_RequestedAt evt))]"

definition unmarshal_notification :: "json \<Rightarrow> notificationEvent option" where
  "unmarshal_notification j =
     Option.bind (json_get jstr ''id'' [] j) (\<lambda>i.
     Option.bind (json_get jstr ''channel'' [] j) (\<lambda>channel.
     Option.bind (json_get jstr ''recipient'' [] j) (\<lambda>recipient.
     Option.bind (json_get jstr ''subject'' [] j) (\<lambda>subject.
     Option.bind (json_get jstr ''body'' [] j) (\<lambda>body.
     Option.bind (json_get jint ''requested_by'' 0 j) (\<lambda>uid.
     Option.bind (json_get jstr ''role'' [] j) (\<lambda>role.
     Option.bind (json_get jtime ''requested_at'' zero_time j) (\<lambda>ts.
       Some \<lparr>ne_ID = i, ne_Channel = channel, ne_Recipient = recipient, ne_Subject = subject, ne_Body = body,
             ne_RequestedBy = uid, ne_Role = role, ne_RequestedAt = ts\<rparr>))))))))"

definition newID_notification :: "rand_source \<Rightarrow> nat \<Rightarrow> string res" where
  "newID_notification rand bytesLen = (case rand bytesLen of Inl e \<Rightarrow> Inl e | Inr b \<Rightarrow> Inr (hex_encode b))"

text \<open>\<open>fiber.Map{"id": id, "status": "queued"}\<close>\<close>

record queued =
  qd_id :: string
  qd_status :: string

text \<open>The default is applied before the channel is trimmed.\<close>

definition send_channel :: "string \<Rightarrow> string" where
  "send_channel ch = (let ch = (if ch = [] then ''email'' else ch) in ToLower (TrimSpace ch))"

definition SendTest ::
  "err option \<Rightarrow> renv \<Rightarrow> sendRequest request \<Rightarrow> locals \<Rightarrow> queued reply res \<times> msg list" where
  "SendTest publish env c lo =
     (case rq_body c of
        (Some e, _) \<Rightarrow> (Inl (FiberError 400 ''invalid json''), [])
      | (None, req) \<Rightarrow>
          let channel = send_channel (nq_Channel req) in
          if nq_Recipient req = [] then (Inl (FiberError 400 ''recipient required''), [])
          else (case AuthFromLocals lo of
              None \<Rightarrow> (Inl (unauthorized ''unauthorized''), [])
            | Some a \<Rightarrow>
                (case newID_notification (re_rand env 0) 12 of
                   Inl e \<Rightarrow> (Inl e, [])
                 | Inr i \<Rightarrow>
                     let evt = \<lparr>ne_ID = i, ne_Channel = channel, ne_Recipient = nq_Recipient req,
                                ne_Subject = nq_Subject req, ne_Body = nq_Body req, ne_RequestedBy = ai_UserID a,
                                ne_Role = ai_Role a, ne_RequestedAt = re_clock env 0\<rparr>
                     in (case publish of
                           Some e \<Rightarrow> (Inl e, [])
                         | None \<Rightarrow> (Inr (JSON 202 \<lparr>qd_id = i, qd_status = ''queued''\<rparr>),
                             [\<lparr>ms_subject = ''notification.send'', ms_data = Some (marshal_notification evt)\<rparr>])))))"

text \<open>The consumer of \<open>notification.send\<close>; its errors are logged only.\<close>

definition on_notification_send :: "dbenv \<Rightarrow> msg \<Rightarrow> db \<Rightarrow> db" where
  "on_notification_send e m d =
     (case ms_data m of
        None \<Rightarrow> d
      | Some j \<Rightarrow>
          (case unmarshal_notification j of
             None \<Rightarrow> d
           | Some evt \<Rightarrow>
               snd (InsertNotification e (ne_RequestedBy evt) (ne_Role evt) (ne_Channel evt) (ne_Recipient evt)
                      (ne_Subject evt) (ne_Body evt) ''SENT'' (ne_RequestedBy evt) d)))"

subsection \<open>Properties\<close>

lemma unmarshal_marshal_notification:
  "int64_ok (ne_RequestedBy evt) \<Longrightarrow> unmarshal_notification (marshal_notification evt) = Some evt"
  by (simp add: unmarshal_notification_def marshal_notification_def json_names)

lemma SendTest_Inr:
  assumes "SendTest publish env c lo = (Inr rep, out)"
  shows "\<exists>req a b. rq_body c = (None, req) \<and> nq_Recipient req \<noteq> [] \<and> AuthFromLocals lo = Some a
    \<and> re_rand env 0 12 = Inr b \<and> rep = JSON 202 \<lparr>qd_id = hex_encode b, qd_status = ''queued''\<rparr>
    \<and> out = [\<lparr>ms_subject = ''notification.send'', ms_data = Some (marshal_notification
         \<lparr>ne_ID = hex_encode b, ne_Channel = send_channel (nq_Channel req), ne_Recipient = nq_Recipient req,
          ne_Subject = nq_Subject req, ne_Body = nq_Body req, ne_RequestedBy = ai_UserID a,
          ne_Role = ai_Role a, ne_RequestedAt = re_clock env 0\<rparr>)\<rparr>]"
  using assms
  by (auto simp: SendTest_def newID_notification_def Let_def split: prod.splits option.splits sum.splits if_splits)

lemma InsertNotification_calm:
  assumes "requestedBy \<in> us_id ` set (users d)" and "seqs d ''notifications'' + 1 \<notin> nt_id ` set (notifications d)"
  shows "notifications (snd (InsertNotification (calm t) uid role channel recipient subject body status requestedBy d))
    = notifications d @ [new_notification t (seqs d ''notifications'' + 1) channel recipient subject body status requestedBy]"
proof -
  obtain r t' where "insert_notification (calm t) channel recipient subject body status requestedBy (first_stmt uid role d)
      = (Inr r, t')"
    and "notifications (tx_db t') = notifications d @
      [new_notification t (seqs d ''notifications'' + 1) channel recipient subject body status requestedBy]"
    using assms by (simp add: insert_notification_def nextval_def Let_def calm_def)
  with with_rls_exec_calm [where now = t and uid = uid and role = role and d = d and
      stmt = "insert_notification (calm t) channel recipient subject body status requestedBy"]
  show ?thesis by (simp add: InsertNotification_def)
qed

lemma send_channel_default: "send_channel [] = ''email''"
  by (simp add: send_channel_def TrimSpace_def ToLower_def lower_char_def is_space_def char_ord_def)

lemma send_channel_blank: "ch \<noteq> [] \<Longrightarrow> \<forall>x \<in> set ch. is_space x \<Longrightarrow> send_channel ch = []"
  by (simp add: send_channel_def TrimSpace_def ToLower_def dropWhile_eq_Nil_conv [THEN iffD2])


subsection \<open>Concrete runs\<close>

definition notify_db :: db where
  "notify_db = empty_db\<lparr>users := [\<lparr>us_id = 7, us_username = ''budi'', us_password_hash = [], us_role = ''USER'',
     us_employee_id = None, us_is_active = True, us_mfa_enabled = False, us_mfa_secret_enc = None,
     us_mfa_enrolled_at = None, us_last_login_at = None, us_created_at = 0, us_updated_at = 0, us_deleted_at = None\<rparr>]\<rparr>"

definition demo_send :: "sendRequest request" where
  "demo_send = demo_request \<lparr>nq_Channel = '' SMS '', nq_Recipient = ''x@y'', nq_Subject = ''s'', nq_Body = ''b''\<rparr>"

lemma demo_auth:
  "AuthFromLocals demo_locals = Some \<lparr>ai_UserID = 7, ai_Role = ''USER'', ai_TokenType = ''access'', ai_TokenID = ''a''\<rparr>"
  by (simp add: demo_locals_def AuthFromLocals_def str_or_zero_def)


end
