(* ===== verification/Ooxml.thy ===== *)
theory Ooxml
  imports Service
begin

text \<open>
  \<open>services/document-service/internal/http/ooxml.go\<close>: the parts of the DOCX and XLSX files, with
  the three texts of an order escaped into them, and Go's \<open>xml.EscapeText\<close>.
\<close>

subsection \<open>Escaping\<close>

text \<open>
  \<open>utf8.DecodeRune\<close>: the number of bytes of the valid encoding at the front, 0 when there is none.
\<close>

definition byte_in :: "string \<Rightarrow> nat \<Rightarrow> nat \<Rightarrow> nat \<Rightarrow> bool" where
  "byte_in s i lo hi \<longleftrightarrow> i < length s \<and> lo \<le> char_ord (s ! i) \<and> char_ord (s ! i) \<le> hi"

definition rune_width :: "string \<Rightarrow> nat" where
  "rune_width s =
     (if byte_in s 0 0 127 then 1
      else if byte_in s 0 194 223 \<and> byte_in s 1 128 191 then 2
      else if (byte_in s 0 224 224 \<and> byte_in s 1 160 191 \<or> byte_in s 0 225 236 \<and> byte_in s 1 128 191
               \<or> byte_in s 0 237 237 \<and> byte_in s 1 128 159 \<or> byte_in s 0 238 239 \<and> byte_in s 1 128 191)
              \<and> byte_in s 2 128 191 then 3
      else if (byte_in s 0 240 240 \<and> byte_in s 1 144 191 \<or> byte_in s 0 241 243 \<and> byte_in s 1 128 191
               \<or> byte_in s 0 244 244 \<and> byte_in s 1 128 143)
              \<and> byte_in s 2 128 191 \<and> byte_in s 3 128 191 then 4
      else 0)"

text \<open>\<open>isInCharacterRange\<close> of the encoding at the front: no control characters but tab, line feed
  and carriage return, and neither U+FFFE nor U+FFFF.\<close>

definition in_char_range :: "string \<Rightarrow> bool" where
  "in_char_range s \<longleftrightarrow>
     (if byte_in s 0 0 31 then char_ord (hd s) \<in> {9, 10, 13}
      else \<not> (byte_in s 0 239 239 \<and> byte_in s 1 191 191 \<and> byte_in s 2 190 191))"

definition replacement :: string where
  "replacement = [CHR 0xEF, CHR 0xBF, CHR 0xBD]"

text \<open>What the front of the text becomes, and how many bytes of it that covers.\<close>

definition escape_rune :: "string \<Rightarrow> string \<times> nat" where
  "escape_rune s =
     (if hd s = CHR 0x22 then (''&#34;'', 1)
      else if hd s = CHR 0x27 then (''&#39;'', 1)
      else if hd s = CHR ''&'' then (''&amp;'', 1)
      else if hd s = CHR ''<'' then (''&lt;'', 1)
      else if hd s = CHR ''>'' then (''&gt;'', 1)
      else if hd s = CHR 0x09 then (''&#x9;'', 1)
      else if hd s = CHR 0x0A then (''&#xA;'', 1)
      else if hd s = CHR 0x0D then (''&#xD;'', 1)
      else if rune_width s = 0 then (replacement, 1)
      else if \<not> in_char_range s then (replacement, rune_width s)
      else (take (rune_width s) s, rune_width s))"

lemma escape_rune_width: "0 < snd (escape_rune s)"
  by (simp add: escape_rune_def)

function xmlEscape :: "string \<Rightarrow> string" where
  "xmlEscape s =
     (if s = [] then [] else fst (escape_rune s) @ xmlEscape (drop (snd (escape_rune s)) s))"
  by pat_completeness auto
termination by (relation "measure length") (auto simp: escape_rune_width)

declare xmlEscape.simps [simp del]

subsection \<open>The files\<close>

definition lines_nl :: "string list \<Rightarrow> string" where
  "lines_nl ls = concat (case ls of [] \<Rightarrow> [] | l # rest \<Rightarrow> l # map (Cons (CHR 0x0A)) rest)"

definition docx_document :: "string \<Rightarrow> string \<Rightarrow> string \<Rightarrow> string" where
  "docx_document nomorSurat purpose totalCost = lines_nl
    [''<?xml version=\"1.0\" encoding=\"UTF-8\" standalone=\"yes\"?>'',
     ''<w:document xmlns:w=\"http://schemas.openxmlformats.org/wordprocessingml/2006/main\" xmlns:r=\"http://schemas.openxmlformats.org/officeDocument/2006/relationships\">'',
     ''  <w:body>'',
     ''    <w:p><w:r><w:t>Surat Perintah Perjalanan Dinas</w:t></w:r></w:p>'',
     ''    <w:p><w:r><w:t>Nomor Surat: '' @ nomorSurat @ ''</w:t></w:r></w:p>'',
     ''    <w:p><w:r><w:t>Tujuan: '' @ purpose @ ''</w:t></w:r></w:p>'',
     ''    <w:p><w:r><w:t>Total Biaya: '' @ totalCost @ ''</w:t></w:r></w:p>'',
     ''    <w:sectPr/>'',
     ''  </w:body>'',
     ''</w:document>'']"

definition docx_types :: string where
  "docx_types = lines_nl
    [''<?xml version=\"1.0\" encoding=\"UTF-8\" standalone=\"yes\"?>'',
     ''<Types xmlns=\"http://schemas.openxmlformats.org/package/2006/content-types\">'',
     ''  <Default Extension=\"rels\" ContentType=\"application/vnd.openxmlformats-package.relationships+xml\"/>'',
     ''  <Default Extension=\"xml\" ContentType=\"application/xml\"/>'',
     ''  <Override PartName=\"/word/document.xml\" ContentType=\"application/vnd.openxmlformats-officedocument.wordprocessingml.document.main+xml\"/>'',
     ''</Types>'']"

definition docx_rels :: string where
  "docx_rels = lines_nl
    [''<?xml version=\"1.0\" encoding=\"UTF-8\" standalone=\"yes\"?>'',
     ''<Relationships xmlns=\"http://schemas.openxmlformats.org/package/2006/relationships\">'',
     ''  <Relationship Id=\"rId1\" Type=\"http://schemas.openxmlformats.org/officeDocument/2006/relationships/officeDocument\" Target=\"word/document.xml\"/>'',
     ''</Relationships>'']"

definition xlsx_types :: string where
  "xlsx_types = lines_nl
    [''<?xml version=\"1.0\" encoding=\"UTF-8\" standalone=\"yes\"?>'',
     ''<Types xmlns=\"http://schemas.openxmlformats.org/package/2006/content-types\">'',
     ''  <Default Extension=\"rels\" ContentType=\"application/vnd.openxmlformats-package.relationships+xml\"/>'',
     ''  <Default Extension=\"xml\" ContentType=\"application/xml\"/>'',
     ''  <Override PartName=\"/xl/workbook.xml\" ContentType=\"application/vnd.openxmlformats-officedocument.spreadsheetml.sheet.main+xml\"/>'',
     ''  <Override PartName=\"/xl/worksheets/sheet1.xml\" ContentType=\"application/vnd.openxmlformats-officedocument.spreadsheetml.worksheet+xml\"/>'',
     ''</Types>'']"

definition xlsx_rels :: string where
  "xlsx_rels = lines_nl
    [''<?xml version=\"1.0\" encoding=\"UTF-8\" standalone=\"yes\"?>'',
     ''<Relationships xmlns=\"http://schemas.openxmlformats.org/package/2006/relationships\">'',
     ''  <Relationship Id=\"rId1\" Type=\"http://schemas.openxmlformats.org/officeDocument/2006/relationships/officeDocument\" Target=\"xl/workbook.xml\"/>'',
     ''</Relationships>'']"

definition xlsx_workbook :: string where
  "xlsx_workbook = lines_nl
    [''<?xml version=\"1.0\" encoding=\"UTF-8\" standalone=\"yes\"?>'',
     ''<workbook xmlns=\"http://schemas.openxmlformats.org/spreadsheetml/2006/main\" xmlns:r=\"http://schemas.openxmlformats.org/officeDocument/2006/relationships\">'',
     ''  <sheets>'',
     ''    <sheet name=\"SPD\" sheetId=\"1\" r:id=\"rId1\"/>'',
     ''  </sheets>'',
     ''</workbook>'']"

definition xlsx_workbook_rels :: string where
  "xlsx_workbook_rels = lines_nl
    [''<?xml version=\"1.0\" encoding=\"UTF-8\" standalone=\"yes\"?>'',
     ''<Relationships xmlns=\"http://schemas.openxmlformats.org/package/2006/relationships\">'',
     ''  <Relationship Id=\"rId1\" Type=\"http://schemas.openxmlformats.org/officeDocument/2006/relationships/worksheet\" Target=\"worksheets/sheet1.xml\"/>'',
     ''</Relationships>'']"

definition xlsx_sheet :: "string \<Rightarrow> string \<Rightarrow> string \<Rightarrow> string" where
  "xlsx_sheet nomorSurat purpose totalCost = lines_nl
    [''<?xml version=\"1.0\" encoding=\"UTF-8\" standalone=\"yes\"?>'',
     ''<worksheet xmlns=\"http://schemas.openxmlformats.org/spreadsheetml/2006/main\">'',
     ''  <sheetData>'',
     ''    <row r=\"1\">'',
     ''      <c r=\"A1\" t=\"inlineStr\"><is><t>nomor_surat</t></is></c>'',
     ''      <c r=\"B1\" t=\"inlineStr\"><is><t>purpose</t></is></c>'',
     ''      <c r=\"C1\" t=\"inlineStr\"><is><t>total</t></is></c>'',
     ''    </row>'',
     ''    <row r=\"2\">'',
     ''      <c r=\"A2\" t=\"inlineStr\"><is><t>'' @ nomorSurat @ ''</t></is></c>'',
     ''      <c r=\"B2\" t=\"inlineStr\"><is><t>'' @ purpose @ ''</t></is></c>'',
     ''      <c r=\"C2\" t=\"inlineStr\"><is><t>'' @ totalCost @ ''</t></is></c>'',
     ''    </row>'',
     ''  </sheetData>'',
     ''</worksheet>'']"

text \<open>
  A zip archive is the list of its entries; writing to a buffer does not fail, so that \<open>zipAdd\<close>
  and \<open>Close\<close> have no error to return.  The encoding of the archive is \<open>archive/zip\<close>'s.
\<close>

type_synonym archive = "(string \<times> bytes) list"

definition zipAdd :: "archive \<Rightarrow> string \<Rightarrow> bytes \<Rightarrow> archive" where
  "zipAdd zw name data = zw @ [(name, data)]"

definition buildDOCX :: "string \<Rightarrow> string \<Rightarrow> string \<Rightarrow> archive" where
  "buildDOCX nomorSurat purpose totalCost =
     (let docXML = docx_document (xmlEscape nomorSurat) (xmlEscape purpose) (xmlEscape totalCost);
          zw = [];
          zw = zipAdd zw ''[Content_Types].xml'' (bytes_of docx_types);
          zw = zipAdd zw ''_rels/.rels'' (bytes_of docx_rels);
          zw = zipAdd zw ''word/document.xml'' (bytes_of docXML)
      in zw)"

definition buildXLSX :: "string \<Rightarrow> string \<Rightarrow> string \<Rightarrow> archive" where
  "buildXLSX nomorSurat purpose totalCost =
     (let sheet = xlsx_sheet (xmlEscape nomorSurat) (xmlEscape purpose) (xmlEscape totalCost);
          zw = [];
          zw = zipAdd zw ''[Content_Types].xml'' (bytes_of xlsx_types);
          zw = zipAdd zw ''_rels/.rels'' (bytes_of xlsx_rels);
          zw = zipAdd zw ''xl/workbook.xml'' (bytes_of xlsx_workbook);
          zw = zipAdd zw ''xl/_rels/workbook.xml.rels'' (bytes_of xlsx_workbook_rels);
          zw = zipAdd zw ''xl/worksheets/sheet1.xml'' (bytes_of sheet)
      in zw)"

subsection \<open>What escaping means\<close>

text \<open>The text an escaped text stands for: bytes that are no XML characters are replaced.\<close>

definition rune_text :: "string \<Rightarrow> string" where
  "rune_text s = (if rune_width s = 0 \<or> \<not> in_char_range s then replacement else take (rune_width s) s)"

function xml_text :: "string \<Rightarrow> string" where
  "xml_text s = (if s = [] then [] else rune_text s @ xml_text (drop (max 1 (rune_width s)) s))"
  by pat_completeness auto
termination by (relation "measure length") auto

declare xml_text.simps [simp del]

text \<open>A reader of character data: the references that \<open>xml.EscapeText\<close> writes.\<close>

definition references :: "(string \<times> char) list" where
  "references = [(''&#34;'', CHR 0x22), (''&#39;'', CHR 0x27), (''&amp;'', CHR ''&''), (''&lt;'', CHR ''<''),
     (''&gt;'', CHR ''>''), (''&#x9;'', CHR 0x09), (''&#xA;'', CHR 0x0A), (''&#xD;'', CHR 0x0D)]"

fun reference :: "(string \<times> char) list \<Rightarrow> string \<Rightarrow> (char \<times> nat) option" where
  "reference [] s = None"
| "reference ((r, c) # rs) s = (if take (length r) s = r then Some (c, length r) else reference rs s)"

function unescape :: "string \<Rightarrow> string" where
  "unescape s =
     (case s of
        [] \<Rightarrow> []
      | c # rest \<Rightarrow>
          if c = CHR ''&''
          then (case reference references s of
                  Some (x, n) \<Rightarrow> x # unescape (drop (n - 1) rest)
                | None \<Rightarrow> c # unescape rest)
          else c # unescape rest)"
  by pat_completeness auto
termination by (relation "measure length") auto

declare unescape.simps [simp del]

text \<open>A reader of mark-up: every tag with the character data that follows it.\<close>

lemma shorter: "dropWhile P s = c # r \<Longrightarrow> length (drop 1 (dropWhile Q r)) < length s"
proof -
  assume "dropWhile P s = c # r"
  then have "length (c # r) \<le> length s" by (metis length_dropWhile_le)
  moreover have "length (dropWhile Q r) \<le> length r" by (rule length_dropWhile_le)
  ultimately show ?thesis by simp
qed

function pieces :: "string \<Rightarrow> (string \<times> string) list" where
  "pieces s =
     (case dropWhile (\<lambda>c. c \<noteq> CHR ''<'') s of
        [] \<Rightarrow> []
      | _ # r \<Rightarrow>
          (let rest = drop 1 (dropWhile (\<lambda>c. c \<noteq> CHR ''>'') r)
           in (takeWhile (\<lambda>c. c \<noteq> CHR ''>'') r, unescape (takeWhile (\<lambda>c. c \<noteq> CHR ''<'') rest)) # pieces rest))"
  by pat_completeness auto
termination by (relation "measure length") (auto simp: shorter [unfolded One_nat_def] simp del: length_drop)

declare pieces.simps [simp del]

subsection \<open>Lemmas\<close>

lemma byte_in_hd: "byte_in s 0 lo hi \<longleftrightarrow> s \<noteq> [] \<and> lo \<le> char_ord (hd s) \<and> char_ord (hd s) \<le> hi"
  by (cases s) (auto simp: byte_in_def)

lemma byte_in_mono: "byte_in s i lo hi \<Longrightarrow> lo' \<le> lo \<Longrightarrow> hi \<le> hi' \<Longrightarrow> byte_in s i lo' hi'"
  by (simp add: byte_in_def)

abbreviation high_byte :: "string \<Rightarrow> nat \<Rightarrow> bool" where
  "high_byte s i \<equiv> byte_in s i 128 255"

lemma rune_width_cases:
  "rune_width s = 0 \<or> rune_width s = 1 \<and> byte_in s 0 0 127
    \<or> rune_width s = 2 \<and> high_byte s 0 \<and> high_byte s 1
    \<or> rune_width s = 3 \<and> high_byte s 0 \<and> high_byte s 1 \<and> high_byte s 2
    \<or> rune_width s = 4 \<and> high_byte s 0 \<and> high_byte s 1 \<and> high_byte s 2 \<and> high_byte s 3"
proof -
  have m: "byte_in s i lo hi \<Longrightarrow> 128 \<le> lo \<Longrightarrow> hi \<le> 255 \<Longrightarrow> high_byte s i" for i lo hi
    by (rule byte_in_mono)
  have h: "byte_in s 0 194 223 \<Longrightarrow> high_byte s 0" "byte_in s 0 224 224 \<Longrightarrow> high_byte s 0"
    "byte_in s 0 225 236 \<Longrightarrow> high_byte s 0" "byte_in s 0 237 237 \<Longrightarrow> high_byte s 0"
    "byte_in s 0 238 239 \<Longrightarrow> high_byte s 0" "byte_in s 0 240 240 \<Longrightarrow> high_byte s 0"
    "byte_in s 0 241 243 \<Longrightarrow> high_byte s 0" "byte_in s 0 244 244 \<Longrightarrow> high_byte s 0"
    "byte_in s 1 160 191 \<Longrightarrow> high_byte s 1" "byte_in s 1 128 191 \<Longrightarrow> high_byte s 1"
    "byte_in s 1 128 159 \<Longrightarrow> high_byte s 1" "byte_in s 1 144 191 \<Longrightarrow> high_byte s 1"
    "byte_in s 1 128 143 \<Longrightarrow> high_byte s 1" "byte_in s 2 128 191 \<Longrightarrow> high_byte s 2"
    "byte_in s 3 128 191 \<Longrightarrow> high_byte s 3"
    by (erule m; simp)+
  have "rune_width s \<in> {0, 1, 2, 3, 4}" by (simp add: rune_width_def)
  moreover have "byte_in s 0 0 127" if "rune_width s = 1"
    using that by (simp add: rune_width_def split: if_splits)
  moreover have "high_byte s 0 \<and> high_byte s 1" if "rune_width s = 2"
    using that h(1,10) by (simp add: rune_width_def split: if_splits)
  moreover have "high_byte s 0 \<and> high_byte s 1 \<and> high_byte s 2" if "rune_width s = 3"
    using that h(2-5,9-11,14) by (simp add: rune_width_def split: if_splits) blast
  moreover have "high_byte s 0 \<and> high_byte s 1 \<and> high_byte s 2 \<and> high_byte s 3" if "rune_width s = 4"
    using that h(6-8,10,12-15) by (simp add: rune_width_def split: if_splits) blast
  ultimately show ?thesis by blast
qed

lemma rune_width_length: "rune_width s \<le> length s"
  using rune_width_cases [of s] by (auto simp: byte_in_def Suc_le_eq)

lemma rune_width_high: "i < rune_width s \<Longrightarrow> rune_width s = 1 \<or> 128 \<le> char_ord (s ! i)"
  using rune_width_cases [of s] by (auto simp: byte_in_def less_Suc_eq numeral_eq_Suc)

text \<open>A character whose code is small and known.\<close>

lemma rune_width_ascii: "s \<noteq> [] \<Longrightarrow> char_ord (hd s) < 128 \<Longrightarrow> rune_width s = 1"
  by (simp add: rune_width_def byte_in_hd)

text \<open>The eight characters that are escaped, and the plain ones.\<close>

lemma unescape_plain: "(\<And>c. c \<in> set p \<Longrightarrow> c \<noteq> CHR ''&'') \<Longrightarrow> unescape (p @ r) = p @ unescape r"
  by (induction p) (simp, subst unescape.simps, simp)

lemma unescape_reference:
  "(ref, c) \<in> set references \<Longrightarrow> unescape (ref @ r) = c # unescape r"
  unfolding references_def by (subst unescape.simps) (auto simp: references_def)

lemma special_char:
  assumes "(ref, c) \<in> set references" and "s \<noteq> []" and "hd s = c"
  shows "escape_rune s = (ref, 1)" and "rune_text s = [c]" and "rune_width s = 1"
proof -
  have ord: "char_ord (hd s) \<in> {34, 39, 38, 60, 62, 9, 10, 13}"
    using assms(1,3) by (auto simp: references_def char_ord_def)
  then show w: "rune_width s = 1" using assms(2) by (intro rune_width_ascii) auto
  have "in_char_range s" using ord by (auto simp: in_char_range_def byte_in_hd)
  moreover have "take 1 s = [c]" using assms(2,3) by (cases s) auto
  ultimately show "rune_text s = [c]" using w by (simp add: rune_text_def)
  show "escape_rune s = (ref, 1)"
    using assms(1) unfolding references_def list.set insert_iff empty_iff prod.inject simp_thms
    by (elim disjE conjE; hypsubst) (simp only: escape_rune_def assms(3) char.inject if_True if_False simp_thms)+
qed

lemma plain_char:
  assumes "s \<noteq> []" and "hd s \<notin> snd ` set references"
  shows "escape_rune s = (rune_text s, max 1 (rune_width s))"
    and "c \<in> set (rune_text s) \<Longrightarrow> c \<notin> {CHR ''<'', CHR ''>'', CHR 0x22, CHR 0x27, CHR ''&''}"
proof -
  show "escape_rune s = (rune_text s, max 1 (rune_width s))"
    using assms(2) by (auto simp: escape_rune_def rune_text_def references_def)
  assume c: "c \<in> set (rune_text s)"
  show "c \<notin> {CHR ''<'', CHR ''>'', CHR 0x22, CHR 0x27, CHR ''&''}"
  proof (cases "c \<in> set replacement")
    case True
    then show ?thesis by (auto simp: replacement_def)
  next
    case False
    with c obtain i where i: "i < rune_width s" "c = s ! i" and w: "rune_width s \<noteq> 0"
      using rune_width_length [of s] by (auto simp: rune_text_def in_set_conv_nth split: if_splits)
    from rune_width_high [OF i(1)] show ?thesis
    proof
      assume "rune_width s = 1"
      with i assms have "c = hd s" by (simp add: hd_conv_nth)
      with assms(2) show ?thesis by (auto simp: references_def)
    next
      assume "128 \<le> char_ord (s ! i)"
      with i(2) show ?thesis by (auto simp: char_ord_def)
    qed
  qed
qed

lemma escape_rune_step:
  assumes "s \<noteq> []"
  shows "snd (escape_rune s) = max 1 (rune_width s)"
    and "unescape (fst (escape_rune s) @ r) = rune_text s @ unescape r"
    and "c \<in> set (fst (escape_rune s)) \<Longrightarrow> c \<notin> {CHR ''<'', CHR ''>'', CHR 0x22, CHR 0x27}"
proof -
  have "snd (escape_rune s) = max 1 (rune_width s)
    \<and> unescape (fst (escape_rune s) @ r) = rune_text s @ unescape r
    \<and> (c \<in> set (fst (escape_rune s)) \<longrightarrow> c \<notin> {CHR ''<'', CHR ''>'', CHR 0x22, CHR 0x27})"
  proof (cases "hd s \<in> snd ` set references")
    case True
    then obtain ref where r: "(ref, hd s) \<in> set references" by auto
    from special_char [OF r assms refl] unescape_reference [OF r] r show ?thesis
      by (auto simp: references_def)
  next
    case False
    from plain_char [OF assms False] show ?thesis by (auto intro!: unescape_plain)
  qed
  then show "snd (escape_rune s) = max 1 (rune_width s)"
    and "unescape (fst (escape_rune s) @ r) = rune_text s @ unescape r"
    and "c \<in> set (fst (escape_rune s)) \<Longrightarrow> c \<notin> {CHR ''<'', CHR ''>'', CHR 0x22, CHR 0x27}" by blast+
qed

lemma unescape_xmlEscape: "unescape (xmlEscape s) = xml_text s"
proof (induction s rule: xmlEscape.induct)
  case (1 s)
  show ?case
  proof (cases "s = []")
    case True
    then show ?thesis by (simp add: xmlEscape.simps xml_text.simps unescape.simps)
  next
    case False
    then have "xmlEscape s = fst (escape_rune s) @ xmlEscape (drop (max 1 (rune_width s)) s)"
      and "xml_text s = rune_text s @ xml_text (drop (max 1 (rune_width s)) s)"
      by (simp_all add: xmlEscape.simps [of s] xml_text.simps [of s] escape_rune_step(1))
    then show ?thesis using 1 False by (simp add: escape_rune_step)
  qed
qed

lemma xmlEscape_no_markup: "c \<in> set (xmlEscape s) \<Longrightarrow> c \<notin> {CHR ''<'', CHR ''>'', CHR 0x22, CHR 0x27}"
proof (induction s rule: xmlEscape.induct)
  case (1 s)
  then show ?case
    by (subst (asm) xmlEscape.simps) (use escape_rune_step(3) in \<open>auto split: if_splits\<close>)
qed

lemma xml_text_ascii:
  "(\<And>c. c \<in> set s \<Longrightarrow> 32 \<le> char_ord c \<and> char_ord c < 127) \<Longrightarrow> xml_text s = s"
proof (induction s rule: xml_text.induct)
  case (1 s)
  show ?case
  proof (cases s)
    case Nil
    then show ?thesis by (simp add: xml_text.simps)
  next
    case (Cons c r)
    with 1(2) have c: "32 \<le> char_ord c" "char_ord c < 127" by auto
    with Cons have w: "rune_width s = 1" by (intro rune_width_ascii) simp_all
    with Cons c have "rune_text s = [c]" by (simp add: rune_text_def in_char_range_def byte_in_hd)
    moreover have "xml_text r = r" using 1 Cons w by simp
    ultimately show ?thesis using Cons w by (subst xml_text.simps) simp
  qed
qed

subsection \<open>Reading the files back\<close>

lemma unescape_simps:
  "unescape [] = []" "c \<noteq> CHR ''&'' \<Longrightarrow> unescape (c # r) = c # unescape r"
  by (subst unescape.simps, simp)+

lemma pieces_simps:
  "pieces [] = []"
  "pieces (CHR ''<'' # r) =
     (let rest = drop 1 (dropWhile (\<lambda>c. c \<noteq> CHR ''>'') r)
      in (takeWhile (\<lambda>c. c \<noteq> CHR ''>'') r, unescape (takeWhile (\<lambda>c. c \<noteq> CHR ''<'') rest)) # pieces rest)"
  "c \<noteq> CHR ''<'' \<Longrightarrow> pieces (c # r) = pieces r"
  by (subst pieces.simps, simp, (subst pieces.simps, simp)?)+

lemma escaped_text:
  "takeWhile (\<lambda>c. c \<noteq> CHR ''<'') (xmlEscape a @ r) = xmlEscape a @ takeWhile (\<lambda>c. c \<noteq> CHR ''<'') r"
  "pieces (xmlEscape a @ r) = pieces r"
proof -
  have no: "\<forall>c \<in> set (xmlEscape a). c \<noteq> CHR ''<''" using xmlEscape_no_markup by blast
  then show "takeWhile (\<lambda>c. c \<noteq> CHR ''<'') (xmlEscape a @ r) = xmlEscape a @ takeWhile (\<lambda>c. c \<noteq> CHR ''<'') r"
    by (simp add: takeWhile_append2)
  have "\<forall>c \<in> set x. c \<noteq> CHR ''<'' \<Longrightarrow> pieces (x @ r) = pieces r" for x
    by (induction x) (simp_all add: pieces_simps)
  with no show "pieces (xmlEscape a @ r) = pieces r" by blast
qed

definition tags :: "string \<Rightarrow> string list" where
  "tags s = map fst (pieces s)"

definition texts :: "string \<Rightarrow> string \<Rightarrow> string list" where
  "texts tag s = map snd (filter (\<lambda>p. fst p = tag) (pieces s))"

text \<open>The escaped documents, read once; the rest is about the lists that come out.\<close>

lemma docx_pieces:
  "pieces (docx_document (xmlEscape a) (xmlEscape b) (xmlEscape c)) =
     [(''?xml version=\"1.0\" encoding=\"UTF-8\" standalone=\"yes\"?'', [CHR 0x0A]),
      (''w:document xmlns:w=\"http://schemas.openxmlformats.org/wordprocessingml/2006/main\" xmlns:r=\"http://schemas.openxmlformats.org/officeDocument/2006/relationships\"'', [CHR 0x0A] @ ''  ''),
      (''w:body'', [CHR 0x0A] @ ''    ''), (''w:p'', []), (''w:r'', []),
      (''w:t'', ''Surat Perintah Perjalanan Dinas''), (''/w:t'', []), (''/w:r'', []),
      (''/w:p'', [CHR 0x0A] @ ''    ''), (''w:p'', []), (''w:r'', []),
      (''w:t'', ''Nomor Surat: '' @ xml_text a), (''/w:t'', []), (''/w:r'', []),
      (''/w:p'', [CHR 0x0A] @ ''    ''), (''w:p'', []), (''w:r'', []), (''w:t'', ''Tujuan: '' @ xml_text b),
      (''/w:t'', []), (''/w:r'', []), (''/w:p'', [CHR 0x0A] @ ''    ''), (''w:p'', []), (''w:r'', []),
      (''w:t'', ''Total Biaya: '' @ xml_text c), (''/w:t'', []), (''/w:r'', []),
      (''/w:p'', [CHR 0x0A] @ ''    ''), (''w:sectPr/'', [CHR 0x0A] @ ''  ''), (''/w:body'', [CHR 0x0A]),
      (''/w:document'', [])]"
  by (simp add: docx_document_def lines_nl_def pieces_simps unescape_simps unescape_xmlEscape escaped_text)

lemma xlsx_pieces:
  "pieces (xlsx_sheet (xmlEscape a) (xmlEscape b) (xmlEscape c)) =
     [(''?xml version=\"1.0\" encoding=\"UTF-8\" standalone=\"yes\"?'', [CHR 0x0A]),
      (''worksheet xmlns=\"http://schemas.openxmlformats.org/spreadsheetml/2006/main\"'', [CHR 0x0A] @ ''  ''),
      (''sheetData'', [CHR 0x0A] @ ''    ''), (''row r=\"1\"'', [CHR 0x0A] @ ''      ''),
      (''c r=\"A1\" t=\"inlineStr\"'', []), (''is'', []), (''t'', ''nomor_surat''), (''/t'', []), (''/is'', []),
      (''/c'', [CHR 0x0A] @ ''      ''), (''c r=\"B1\" t=\"inlineStr\"'', []), (''is'', []),
      (''t'', ''purpose''), (''/t'', []), (''/is'', []), (''/c'', [CHR 0x0A] @ ''      ''),
      (''c r=\"C1\" t=\"inlineStr\"'', []), (''is'', []), (''t'', ''total''), (''/t'', []), (''/is'', []),
      (''/c'', [CHR 0x0A] @ ''    ''), (''/row'', [CHR 0x0A] @ ''    ''),
      (''row r=\"2\"'', [CHR 0x0A] @ ''      ''), (''c r=\"A2\" t=\"inlineStr\"'', []), (''is'', []),
      (''t'', xml_text a), (''/t'', []), (''/is'', []), (''/c'', [CHR 0x0A] @ ''      ''),
      (''c r=\"B2\" t=\"inlineStr\"'', []), (''is'', []), (''t'', xml_text b), (''/t'', []), (''/is'', []),
      (''/c'', [CHR 0x0A] @ ''      ''), (''c r=\"C2\" t=\"inlineStr\"'', []), (''is'', []),
      (''t'', xml_text c), (''/t'', []), (''/is'', []), (''/c'', [CHR 0x0A] @ ''    ''),
      (''/row'', [CHR 0x0A] @ ''  ''), (''/sheetData'', [CHR 0x0A]), (''/worksheet'', [])]"
  by (simp add: xlsx_sheet_def lines_nl_def pieces_simps unescape_simps unescape_xmlEscape escaped_text)

lemma xmlEscape_Nil: "xmlEscape [] = []"
  by (simp add: xmlEscape.simps)

lemma docx_tags: "tags (docx_document (xmlEscape a) (xmlEscape b) (xmlEscape c)) = tags (docx_document [] [] [])"
  using docx_pieces [of "[]" "[]" "[]"] by (simp add: tags_def docx_pieces xmlEscape_Nil)

lemma docx_texts:
  "texts ''w:t'' (docx_document (xmlEscape a) (xmlEscape b) (xmlEscape c)) =
     [''Surat Perintah Perjalanan Dinas'', ''Nomor Surat: '' @ xml_text a, ''Tujuan: '' @ xml_text b,
      ''Total Biaya: '' @ xml_text c]"
  by (simp add: texts_def docx_pieces)

lemma xlsx_tags: "tags (xlsx_sheet (xmlEscape a) (xmlEscape b) (xmlEscape c)) = tags (xlsx_sheet [] [] [])"
  using xlsx_pieces [of "[]" "[]" "[]"] by (simp add: tags_def xlsx_pieces xmlEscape_Nil)

lemma xlsx_texts:
  "texts ''t'' (xlsx_sheet (xmlEscape a) (xmlEscape b) (xmlEscape c)) =
     [''nomor_surat'', ''purpose'', ''total'', xml_text a, xml_text b, xml_text c]"
  by (simp add: texts_def xlsx_pieces)

lemma buildDOCX_parts:
  "buildDOCX a b c = [(''[Content_Types].xml'', bytes_of docx_types), (''_rels/.rels'', bytes_of docx_rels),
     (''word/document.xml'', bytes_of (docx_document (xmlEscape a) (xmlEscape b) (xmlEscape c)))]"
  by (simp add: buildDOCX_def zipAdd_def)

lemma buildXLSX_parts:
  "buildXLSX a b c = [(''[Content_Types].xml'', bytes_of xlsx_types), (''_rels/.rels'', bytes_of xlsx_rels),
     (''xl/workbook.xml'', bytes_of xlsx_workbook), (''xl/_rels/workbook.xml.rels'', bytes_of xlsx_workbook_rels),
     (''xl/worksheets/sheet1.xml'', bytes_of (xlsx_sheet (xmlEscape a) (xmlEscape b) (xmlEscape c)))]"
  by (simp add: buildXLSX_def zipAdd_def)

text \<open>
  C28. The texts of an order get into the documents as texts, whatever they are: the main part of the
  DOCX and the sheet of the XLSX have the same tags as for empty texts, so that no text injects
  mark-up, and reading the character data of the text elements gives back the texts, with bytes
  that are no XML characters replaced by U+FFFD (printable ASCII is unchanged: \<open>xml_text_ascii\<close>).
\<close>

theorem ooxml_texts:
  "(\<exists>types rels doc. buildDOCX a b c = [(''[Content_Types].xml'', types), (''_rels/.rels'', rels), (''word/document.xml'', bytes_of doc)]
     \<and> tags doc = tags (docx_document [] [] [])
     \<and> texts ''w:t'' doc = [''Surat Perintah Perjalanan Dinas'', ''Nomor Surat: '' @ xml_text a, ''Tujuan: '' @ xml_text b,
         ''Total Biaya: '' @ xml_text c])
   \<and> (\<exists>types rels book brels sheet. buildXLSX a b c = [(''[Content_Types].xml'', types), (''_rels/.rels'', rels),
         (''xl/workbook.xml'', book), (''xl/_rels/workbook.xml.rels'', brels), (''xl/worksheets/sheet1.xml'', bytes_of sheet)]
     \<and> tags sheet = tags (xlsx_sheet [] [] [])
     \<and> texts ''t'' sheet = [''nomor_surat'', ''purpose'', ''total'', xml_text a, xml_text b, xml_text c])"
proof
  show "\<exists>types rels doc. buildDOCX a b c = [(''[Content_Types].xml'', types), (''_rels/.rels'', rels), (''word/document.xml'', bytes_of doc)]
     \<and> tags doc = tags (docx_document [] [] [])
     \<and> texts ''w:t'' doc = [''Surat Perintah Perjalanan Dinas'', ''Nomor Surat: '' @ xml_text a, ''Tujuan: '' @ xml_text b,
         ''Total Biaya: '' @ xml_text c]"
    unfolding buildDOCX_parts
    by (intro exI conjI, rule refl, rule docx_tags, rule docx_texts)
  show "\<exists>types rels book brels sheet. buildXLSX a b c = [(''[Content_Types].xml'', types), (''_rels/.rels'', rels),
         (''xl/workbook.xml'', book), (''xl/_rels/workbook.xml.rels'', brels), (''xl/worksheets/sheet1.xml'', bytes_of sheet)]
     \<and> tags sheet = tags (xlsx_sheet [] [] [])
     \<and> texts ''t'' sheet = [''nomor_surat'', ''purpose'', ''total'', xml_text a, xml_text b, xml_text c]"
    unfolding buildXLSX_parts
    by (intro exI conjI, rule refl, rule xlsx_tags, rule xlsx_texts)
qed

end
