(* ===== verification/Documents.thy ===== *)
theory Documents
  imports Ooxml
begin

text \<open>
  \<open>services/document-service\<close>: a job reads an order under its requester's row security, decrypts
  it, builds a document, stores it as an object and records it.  The state is the database and
  the objects of the bucket; gofpdf, the zip encoding and MinIO are arguments.
\<close>

subsection \<open>Repository\<close>

record SPDForDoc =
  f_ID :: int
  f_NomorSurat :: string
  f_UnitID :: int
  f_PurposeEnc :: bytes
  f_TotalCostEnc :: bytes
  f_Status :: string
  f_CreatedAt :: gotime

definition to_SPDForDoc :: "spd_row \<Rightarrow> SPDForDoc" where
  "to_SPDForDoc r = \<lparr>f_ID = sp_id r, f_NomorSurat = sp_nomor_surat r, f_UnitID = sp_unit_id r,
     f_PurposeEnc = bytes_or_nil (sp_purpose_enc r), f_TotalCostEnc = bytes_or_nil (sp_total_cost_enc r),
     f_Status = sp_status r, f_CreatedAt = sp_created_at r\<rparr>"

definition GetSPDForDoc :: "dbenv \<Rightarrow> int \<Rightarrow> string \<Rightarrow> int \<Rightarrow> db \<Rightarrow> SPDForDoc res \<times> db" where
  "GetSPDForDoc e userID role spdID =
     with_rls e userID role (tx_exec e (reading (\<lambda>t.
       case query_row (filter (\<lambda>r. sp_id r = spdID \<and> sp_deleted_at r = None
              \<and> spds_select_policy (tx_db t) (tx_uid t) (tx_role t) r) (spds (tx_db t))) of
         Inl x \<Rightarrow> Inl x
       | Inr r \<Rightarrow> Inr (to_SPDForDoc r))))"

record DocumentRow =
  d_ID :: int
  d_SPDID :: int
  d_Format :: string
  d_ObjectKey :: string
  d_RequestedBy :: int
  d_CreatedAt :: gotime

definition to_DocumentRow :: "document_row \<Rightarrow> DocumentRow" where
  "to_DocumentRow r = \<lparr>d_ID = dc_id r, d_SPDID = dc_spd_id r, d_Format = dc_format r, d_ObjectKey = dc_object_key r,
     d_RequestedBy = dc_requested_by r, d_CreatedAt = dc_created_at r\<rparr>"

definition insert_document ::
  "dbenv \<Rightarrow> int \<Rightarrow> string \<Rightarrow> string \<Rightarrow> int \<Rightarrow> tx \<Rightarrow> DocumentRow res \<times> tx" where
  "insert_document e spdID format objectKey requestedBy t =
     (let (i, d) = nextval ''documents'' (tx_db t);
          r = \<lparr>dc_id = i, dc_spd_id = spdID, dc_format = format, dc_object_key = objectKey,
               dc_requested_by = requestedBy, dc_created_at = db_now e\<rparr>
      in if length format > 10
         then (Inl (OtherErr ''value too long for type character varying(10)''), t\<lparr>tx_db := d\<rparr>)
         else if i \<in> dc_id ` set (documents d)
         then (Inl (OtherErr ''duplicate key value violates unique constraint''), t\<lparr>tx_db := d\<rparr>)
         else if spdID \<notin> sp_id ` set (spds d) \<or> requestedBy \<notin> us_id ` set (users d)
         then (Inl (OtherErr ''insert violates foreign key constraint''), t\<lparr>tx_db := d\<rparr>)
         else (Inr (to_DocumentRow r), t\<lparr>tx_db := d\<lparr>documents := documents d @ [r]\<rparr>\<rparr>))"

definition InsertDocument ::
  "dbenv \<Rightarrow> int \<Rightarrow> string \<Rightarrow> int \<Rightarrow> string \<Rightarrow> string \<Rightarrow> int \<Rightarrow> db \<Rightarrow> DocumentRow res \<times> db" where
  "InsertDocument e userID role spdID format objectKey requestedBy =
     with_rls e userID role (tx_exec e (insert_document e spdID format objectKey requestedBy))"

subsection \<open>Building a document\<close>

text \<open>The calls on the PDF writer, in order; lengths are in millimetres.\<close>

datatype pdf_call =
    PdfNew string string string string
  | SetTitle string bool
  | AddPage
  | SetFont string string int
  | Cell int int string
  | Ln int
  | MultiCell int int string string string bool

definition pdf_calls :: "string \<Rightarrow> string \<Rightarrow> string \<Rightarrow> pdf_call list" where
  "pdf_calls nomorSurat purpose totalCost =
     [PdfNew ''P'' ''mm'' ''A4'' '''', SetTitle ''SPD'' False, AddPage, SetFont ''Arial'' ''B'' 16,
      Cell 40 10 ''Surat Perintah Perjalanan Dinas'', Ln 12, SetFont ''Arial'' '''' 12,
      Cell 40 8 (''Nomor Surat: '' @ nomorSurat), Ln 8,
      MultiCell 0 6 (''Tujuan: '' @ purpose) '''' ''L'' False, Ln 2,
      Cell 40 8 (''Total Biaya: '' @ totalCost)]"

record document_handler =
  dh_verifier :: verifier
  dh_aesgcm :: aead
  dh_nc :: bool
  dh_pdf :: "pdf_call list \<Rightarrow> bytes res"
  dh_zip :: "archive \<Rightarrow> bytes"

text \<open>The content, its type and the extension.\<close>

definition buildDocument ::
  "document_handler \<Rightarrow> string \<Rightarrow> string \<Rightarrow> string \<Rightarrow> string \<Rightarrow> (bytes \<times> string \<times> string) res" where
  "buildDocument h format nomorSurat purpose totalCost =
     (if format = ''pdf''
      then (case dh_pdf h (pdf_calls nomorSurat purpose totalCost) of
              Inl e \<Rightarrow> Inl e
            | Inr b \<Rightarrow> Inr (b, ''application/pdf'', ''pdf''))
      else if format = ''docx''
      then Inr (dh_zip h (buildDOCX nomorSurat purpose totalCost),
                ''application/vnd.openxmlformats-officedocument.wordprocessingml.document'', ''docx'')
      else if format = ''xlsx''
      then Inr (dh_zip h (buildXLSX nomorSurat purpose totalCost),
                ''application/vnd.openxmlformats-officedocument.spreadsheetml.sheet'', ''xlsx'')
      else Inl (FiberError 400 ''unsupported format''))"

subsection \<open>Jobs\<close>

record job =
  j_JobID :: string
  j_SPDID :: int
  j_Format :: string
  j_RequestedBy :: int
  j_Role :: string
  j_RequestedAt :: gotime

record documentResult =
  do_DocumentID :: int
  do_SPDID :: int
  do_Format :: string
  do_ObjectKey :: string
  do_CreatedAt :: string

text \<open>Storing an object can fail, before or after it took effect.\<close>

datatype put_outcome = PutOk | PutFailed string | PutUnknown string

record doc_env =
  de_env :: renv
  de_put :: put_outcome
  de_publish :: "err option"

record doc_state =
  ds_db :: db
  ds_objects :: "string \<Rightarrow> (string \<times> bytes) option"

definition PutObject :: "put_outcome \<Rightarrow> string \<Rightarrow> string \<Rightarrow> bytes \<Rightarrow> doc_state \<Rightarrow> unit res \<times> doc_state" where
  "PutObject outcome key contentType content s =
     (let stored = s\<lparr>ds_objects := (ds_objects s)(key \<mapsto> (contentType, content))\<rparr>
      in case outcome of
           PutOk \<Rightarrow> (Inr (), stored)
         | PutFailed m \<Rightarrow> (Inl (OtherErr m), s)
         | PutUnknown m \<Rightarrow> (Inl (OtherErr m), stored))"

definition object_key :: "int \<Rightarrow> string \<Rightarrow> string \<Rightarrow> string" where
  "object_key spdID jobID ext =
     ''spds/'' @ FormatInt spdID @ ''/spd_'' @ FormatInt spdID @ ''_'' @ jobID @ ''.'' @ ext"

text \<open>A repository call on the database of the service's state.\<close>

definition on_db :: "(db \<Rightarrow> 'a \<times> db) \<Rightarrow> doc_state \<Rightarrow> 'a \<times> doc_state" where
  "on_db f s = (let (x, d) = f (ds_db s) in (x, s\<lparr>ds_db := d\<rparr>))"

definition generated_msg :: "doc_env \<Rightarrow> document_handler \<Rightarrow> DocumentRow \<Rightarrow> msg list" where
  "generated_msg env h doc =
     (if dh_nc h \<and> de_publish env = None
      then [\<lparr>ms_subject = ''document.generated'',
             ms_data = Some [(''document_id'', JInt (d_ID doc)), (''spd_id'', JInt (d_SPDID doc))]\<rparr>]
      else [])"

definition processJob ::
  "document_handler \<Rightarrow> doc_env \<Rightarrow> job \<Rightarrow> doc_state \<Rightarrow> documentResult res \<times> doc_state \<times> msg list" where
  "processJob h env j s =
     (case on_db (GetSPDForDoc (re_db (de_env env) 0) (j_RequestedBy j) (j_Role j) (j_SPDID j)) s of
        (Inl e, s) \<Rightarrow> (Inl (if e = ErrNoRows then FiberError 404 ''spd not found'' else e), s, [])
      | (Inr spd, s) \<Rightarrow>
          (case DecryptString (dh_aesgcm h) (f_PurposeEnc spd) (bytes_of ''spds:purpose'') of
             Inl e \<Rightarrow> (Inl e, s, [])
           | Inr purpose \<Rightarrow>
               (case DecryptString (dh_aesgcm h) (f_TotalCostEnc spd) (bytes_of ''spds:total_cost'') of
                  Inl e \<Rightarrow> (Inl e, s, [])
                | Inr totalCost \<Rightarrow>
                    (case buildDocument h (j_Format j) (f_NomorSurat spd) purpose totalCost of
                       Inl e \<Rightarrow> (Inl e, s, [])
                     | Inr (content, contentType, ext) \<Rightarrow>
                         let objectKey = object_key (j_SPDID j) (j_JobID j) ext
                         in (case PutObject (de_put env) objectKey contentType content s of
                               (Inl e, s) \<Rightarrow> (Inl e, s, [])
                             | (Inr _, s) \<Rightarrow>
                                 (case on_db (InsertDocument (re_db (de_env env) 1) (j_RequestedBy j) (j_Role j)
                                          (j_SPDID j) (j_Format j) objectKey (j_RequestedBy j)) s of
                                    (Inl e, s) \<Rightarrow> (Inl e, s, [])
                                  | (Inr doc, s) \<Rightarrow>
                                      (Inr \<lparr>do_DocumentID = d_ID doc, do_SPDID = d_SPDID doc, do_Format = d_Format doc,
                                            do_ObjectKey = d_ObjectKey doc, do_CreatedAt = FormatRFC3339 (d_CreatedAt doc)\<rparr>,
                                       s, generated_msg env h doc)))))))"

subsection \<open>The handler and the consumer\<close>

record generateRequest =
  gq_Format :: string

datatype generated = Queued string string | Document documentResult

definition marshal_job :: "job \<Rightarrow> json" where
  "marshal_job j =
     [(''job_id'', JStr (j_JobID j)), (''spd_id'', JInt (j_SPDID j)), (''format'', JStr (j_Format j)),
      (''requested_by'', JInt (j_RequestedBy j)), (''role'', JStr (j_Role j)),
      (''requested_at'', JTime (j_RequestedAt j))]"

definition unmarshal_job :: "json \<Rightarrow> job option" where
  "unmarshal_job j =
     Option.bind (json_get jstr ''job_id'' [] j) (\<lambda>i.
     Option.bind (json_get jint ''spd_id'' 0 j) (\<lambda>spdID.
     Option.bind (json_get jstr ''format'' [] j) (\<lambda>format.
     Option.bind (json_get jint ''requested_by'' 0 j) (\<lambda>uid.
     Option.bind (json_get jstr ''role'' [] j) (\<lambda>role.
     Option.bind (json_get jtime ''requested_at'' zero_time j) (\<lambda>ts.
       Some \<lparr>j_JobID = i, j_SPDID = spdID, j_Format = format, j_RequestedBy = uid, j_Role = role,
             j_RequestedAt = ts\<rparr>))))))"

definition newID_document :: "rand_source \<Rightarrow> nat \<Rightarrow> string res" where
  "newID_document rand bytesLen = (case rand bytesLen of Inl e \<Rightarrow> Inl e | Inr b \<Rightarrow> Inr (hex_encode b))"

definition job_format :: "string \<Rightarrow> string" where
  "job_format f = (let format = ToLower (TrimSpace f) in if format = [] then ''pdf'' else format)"

definition Generate ::
  "document_handler \<Rightarrow> doc_env \<Rightarrow> generateRequest request \<Rightarrow> locals \<Rightarrow> doc_state
     \<Rightarrow> generated reply res \<times> doc_state \<times> msg list" where
  "Generate h env c lo s =
     (case ParseIDParam c ''spd_id'' of
        Inl e \<Rightarrow> (Inl e, s, [])
      | Inr spdID \<Rightarrow>
          (case AuthFromLocals lo of
             None \<Rightarrow> (Inl (unauthorized ''unauthorized''), s, [])
           | Some a \<Rightarrow>
               let format = job_format (gq_Format (snd (rq_body c))) in
               if format \<notin> {''pdf'', ''docx'', ''xlsx''}
               then (Inl (FiberError 400 ''format must be pdf|docx|xlsx''), s, [])
               else (case newID_document (re_rand (de_env env) 0) 16 of
                   Inl e \<Rightarrow> (Inl e, s, [])
                 | Inr jobID \<Rightarrow>
                     let j = \<lparr>j_JobID = jobID, j_SPDID = spdID, j_Format = format, j_RequestedBy = ai_UserID a,
                              j_Role = ai_Role a, j_RequestedAt = re_clock (de_env env) 0\<rparr>
                     in if dh_nc h
                        then (case de_publish env of
                                Some e \<Rightarrow> (Inl e, s, [])
                              | None \<Rightarrow> (Inr (JSON 202 (Queued jobID ''queued'')), s,
                                  [\<lparr>ms_subject = ''document.generate'', ms_data = Some (marshal_job j)\<rparr>]))
                        else (case processJob h env j s of
                                (Inl e, s, out) \<Rightarrow> (Inl e, s, out)
                              | (Inr res, s, out) \<Rightarrow> (Inr (JSON 201 (Document res)), s, out)))))"

text \<open>The consumer of \<open>document.generate\<close>; errors are logged only.\<close>

definition on_document_generate ::
  "document_handler \<Rightarrow> doc_env \<Rightarrow> msg \<Rightarrow> doc_state \<Rightarrow> doc_state \<times> msg list" where
  "on_document_generate h env m s =
     (case ms_data m of
        None \<Rightarrow> (s, [])
      | Some d \<Rightarrow> (case unmarshal_job d of None \<Rightarrow> (s, []) | Some j \<Rightarrow> snd (processJob h env j s)))"

end
