(* ===== verification/DocumentProps.thy ===== *)
theory DocumentProps
  imports Documents SpdProps
begin

text \<open>
  Properties of the document service: what a finished job leaves, who can have a document made,
  that the queued and the immediate path do the same, and the object that a failure leaves behind.
\<close>

subsection \<open>What the statements do\<close>

lemma GetSPDForDoc_Inr:
  assumes "GetSPDForDoc e uid role i d = (Inr row, d')"
  shows "d' = d" and "\<exists>r \<in> set (spds d). sp_id r = i \<and> sp_deleted_at r = None
    \<and> spds_select_policy d uid role r \<and> row = to_SPDForDoc r"
proof -
  show "d' = d" using assms unfolding GetSPDForDoc_def by (rule with_rls_reading)
  from with_rls_exec_Inr [OF assms [unfolded GetSPDForDoc_def]] obtain r where
    "query_row (filter (\<lambda>r. sp_id r = i \<and> sp_deleted_at r = None \<and> spds_select_policy d uid role r) (spds d)) = Inr r"
    "row = to_SPDForDoc r"
    by (auto simp: reading_def split: sum.splits)
  from query_row_filter [OF this(1)] this(2)
  show "\<exists>r \<in> set (spds d). sp_id r = i \<and> sp_deleted_at r = None \<and> spds_select_policy d uid role r \<and> row = to_SPDForDoc r"
    by blast
qed

lemma GetSPDForDoc_calm:
  "GetSPDForDoc (calm t) uid role i d =
     (case filter (\<lambda>r. sp_id r = i \<and> sp_deleted_at r = None \<and> spds_select_policy d uid role r) (spds d) of
        [] \<Rightarrow> Inl ErrNoRows | r # rs \<Rightarrow> Inr (to_SPDForDoc r), d)"
proof -
  let ?rows = "filter (\<lambda>r. sp_id r = i \<and> sp_deleted_at r = None \<and> spds_select_policy d uid role r) (spds d)"
  let ?q = "\<lambda>t. case query_row (filter (\<lambda>r. sp_id r = i \<and> sp_deleted_at r = None
              \<and> spds_select_policy (tx_db t) (tx_uid t) (tx_role t) r) (spds (tx_db t))) of
         Inl x \<Rightarrow> Inl x | Inr r \<Rightarrow> Inr (to_SPDForDoc r)"
  have "reading ?q (first_stmt uid role d) =
      (case ?rows of [] \<Rightarrow> Inl ErrNoRows | r # rs \<Rightarrow> Inr (to_SPDForDoc r), first_stmt uid role d)"
    by (simp add: reading_def query_row_def split: list.split)
  from with_rls_exec_calm [where stmt = "reading ?q", OF this] show ?thesis
    by (simp add: GetSPDForDoc_def rollback_def split: list.split)
qed

definition new_document :: "gotime \<Rightarrow> int \<Rightarrow> int \<Rightarrow> string \<Rightarrow> string \<Rightarrow> int \<Rightarrow> document_row" where
  "new_document now i spdID format key uid =
     \<lparr>dc_id = i, dc_spd_id = spdID, dc_format = format, dc_object_key = key, dc_requested_by = uid, dc_created_at = now\<rparr>"

lemma InsertDocument_Inr:
  assumes "InsertDocument e uid role i format key by_uid d = (Inr row, d')"
  shows "row = to_DocumentRow (new_document (db_now e) (seqs d ''documents'' + 1) i format key by_uid)
    \<and> d' = d\<lparr>documents := documents d @ [new_document (db_now e) (seqs d ''documents'' + 1) i format key by_uid],
        seqs := (seqs d)(''documents'' := seqs d ''documents'' + 1)\<rparr>"
  using with_rls_exec_Inr [OF assms [unfolded InsertDocument_def]]
  by (auto simp: insert_document_def nextval_def Let_def new_document_def split: if_splits)

lemma InsertDocument_calm:
  assumes "length format \<le> 10" and "seqs d ''documents'' + 1 \<notin> dc_id ` set (documents d)"
    and "i \<in> sp_id ` set (spds d)" and "by_uid \<in> us_id ` set (users d)"
  shows "\<exists>row d'. InsertDocument (calm t) uid role i format key by_uid d = (Inr row, d')"
proof -
  obtain row t' where "insert_document (calm t) i format key by_uid (first_stmt uid role d) = (Inr row, t')"
    using assms by (simp add: insert_document_def nextval_def Let_def)
  from with_rls_exec_calm [where stmt = "insert_document (calm t) i format key by_uid", OF this]
  show ?thesis by (simp add: InsertDocument_def)
qed

lemma PutObject_Inr:
  "PutObject o' key ty content s = (Inr u, s') \<Longrightarrow>
     o' = PutOk \<and> s' = s\<lparr>ds_objects := (ds_objects s)(key \<mapsto> (ty, content))\<rparr>"
  by (auto simp: PutObject_def Let_def split: put_outcome.splits)

lemma processJob_Inr:
  assumes "processJob h env j s = (Inr res, s', out)"
  shows "\<exists>spd purpose cost content ty ext doc d1.
      GetSPDForDoc (re_db (de_env env) 0) (j_RequestedBy j) (j_Role j) (j_SPDID j) (ds_db s) = (Inr spd, ds_db s)
    \<and> DecryptString (dh_aesgcm h) (f_PurposeEnc spd) (bytes_of ''spds:purpose'') = Inr purpose
    \<and> DecryptString (dh_aesgcm h) (f_TotalCostEnc spd) (bytes_of ''spds:total_cost'') = Inr cost
    \<and> buildDocument h (j_Format j) (f_NomorSurat spd) purpose cost = Inr (content, ty, ext)
    \<and> InsertDocument (re_db (de_env env) 1) (j_RequestedBy j) (j_Role j) (j_SPDID j) (j_Format j)
         (object_key (j_SPDID j) (j_JobID j) ext) (j_RequestedBy j) (ds_db s) = (Inr doc, d1)
    \<and> s' = \<lparr>ds_db = d1, ds_objects = (ds_objects s)(object_key (j_SPDID j) (j_JobID j) ext \<mapsto> (ty, content))\<rparr>
    \<and> do_DocumentID res = d_ID doc \<and> do_ObjectKey res = d_ObjectKey doc \<and> out = generated_msg env h doc"
proof -
  from assms obtain spd s1 purpose cost content ty ext u s2 doc where
    g: "on_db (GetSPDForDoc (re_db (de_env env) 0) (j_RequestedBy j) (j_Role j) (j_SPDID j)) s = (Inr spd, s1)"
    and p: "DecryptString (dh_aesgcm h) (f_PurposeEnc spd) (bytes_of ''spds:purpose'') = Inr purpose"
    and c: "DecryptString (dh_aesgcm h) (f_TotalCostEnc spd) (bytes_of ''spds:total_cost'') = Inr cost"
    and b: "buildDocument h (j_Format j) (f_NomorSurat spd) purpose cost = Inr (content, ty, ext)"
    and put: "PutObject (de_put env) (object_key (j_SPDID j) (j_JobID j) ext) ty content s1 = (Inr u, s2)"
    and ins: "on_db (InsertDocument (re_db (de_env env) 1) (j_RequestedBy j) (j_Role j) (j_SPDID j) (j_Format j)
         (object_key (j_SPDID j) (j_JobID j) ext) (j_RequestedBy j)) s2 = (Inr doc, s')"
    and res: "do_DocumentID res = d_ID doc" "do_ObjectKey res = d_ObjectKey doc" "out = generated_msg env h doc"
    by (auto simp: processJob_def Let_def split: sum.splits prod.splits)
  obtain d0 where g': "GetSPDForDoc (re_db (de_env env) 0) (j_RequestedBy j) (j_Role j) (j_SPDID j) (ds_db s) = (Inr spd, d0)"
    and s1: "s1 = s\<lparr>ds_db := d0\<rparr>" using g by (auto simp: on_db_def split: prod.splits)
  with GetSPDForDoc_Inr(1) [OF g'] have "s1 = s" "d0 = ds_db s" by simp_all
  with PutObject_Inr [OF put] ins g' p c b res show ?thesis
    by (cases s; cases s') (auto simp: on_db_def split: prod.splits)
qed

subsection \<open>The properties\<close>

text \<open>
  C30. What a finished job leaves: its order was live and visible to the requester under row
  security; exactly one object is stored, the document built from the decrypted texts of that
  order, under a key made of the order's id and the job's; exactly one row is appended, which
  names that object, the order, the format and the requester.
\<close>

theorem document_contents:
  assumes "processJob h env j s = (Inr res, s', out)"
  shows "\<exists>r \<in> set (spds (ds_db s)). \<exists>purpose cost content ty ext doc.
      sp_id r = j_SPDID j \<and> sp_deleted_at r = None
    \<and> (rls_on (ds_db s) \<longrightarrow> sp_created_by r = j_RequestedBy j \<or> in_unit_of (ds_db s) (j_RequestedBy j) (sp_unit_id r)
         \<or> j_Role j = ''SUPER_ADMIN'')
    \<and> DecryptString (dh_aesgcm h) (bytes_or_nil (sp_purpose_enc r)) (bytes_of ''spds:purpose'') = Inr purpose
    \<and> DecryptString (dh_aesgcm h) (bytes_or_nil (sp_total_cost_enc r)) (bytes_of ''spds:total_cost'') = Inr cost
    \<and> buildDocument h (j_Format j) (sp_nomor_surat r) purpose cost = Inr (content, ty, ext)
    \<and> ds_objects s' = (ds_objects s)(dc_object_key doc \<mapsto> (ty, content))
    \<and> dc_object_key doc = ''spds/'' @ FormatInt (j_SPDID j) @ ''/spd_'' @ FormatInt (j_SPDID j) @ ''_'' @ j_JobID j @ ''.'' @ ext
    \<and> documents (ds_db s') = documents (ds_db s) @ [doc] \<and> spds (ds_db s') = spds (ds_db s)
    \<and> dc_spd_id doc = j_SPDID j \<and> dc_format doc = j_Format j \<and> dc_requested_by doc = j_RequestedBy j
    \<and> do_DocumentID res = dc_id doc \<and> do_ObjectKey res = dc_object_key doc"
proof -
  from processJob_Inr [OF assms] obtain spd purpose cost content ty ext doc d1 where
    g: "GetSPDForDoc (re_db (de_env env) 0) (j_RequestedBy j) (j_Role j) (j_SPDID j) (ds_db s) = (Inr spd, ds_db s)"
    and b: "DecryptString (dh_aesgcm h) (f_PurposeEnc spd) (bytes_of ''spds:purpose'') = Inr purpose"
      "DecryptString (dh_aesgcm h) (f_TotalCostEnc spd) (bytes_of ''spds:total_cost'') = Inr cost"
      "buildDocument h (j_Format j) (f_NomorSurat spd) purpose cost = Inr (content, ty, ext)"
    and ins: "InsertDocument (re_db (de_env env) 1) (j_RequestedBy j) (j_Role j) (j_SPDID j) (j_Format j)
         (object_key (j_SPDID j) (j_JobID j) ext) (j_RequestedBy j) (ds_db s) = (Inr doc, d1)"
    and s': "s' = \<lparr>ds_db = d1, ds_objects = (ds_objects s)(object_key (j_SPDID j) (j_JobID j) ext \<mapsto> (ty, content))\<rparr>"
    and res: "do_DocumentID res = d_ID doc" "do_ObjectKey res = d_ObjectKey doc" by blast
  from GetSPDForDoc_Inr(2) [OF g] obtain r where r: "r \<in> set (spds (ds_db s))" "sp_id r = j_SPDID j"
    "sp_deleted_at r = None" "spds_select_policy (ds_db s) (j_RequestedBy j) (j_Role j) r" "spd = to_SPDForDoc r" by blast
  let ?doc = "new_document (db_now (re_db (de_env env) 1)) (seqs (ds_db s) ''documents'' + 1) (j_SPDID j) (j_Format j)
    (object_key (j_SPDID j) (j_JobID j) ext) (j_RequestedBy j)"
  have "ds_objects s' = (ds_objects s)(dc_object_key ?doc \<mapsto> (ty, content)) \<and> documents (ds_db s') = documents (ds_db s) @ [?doc]
    \<and> spds (ds_db s') = spds (ds_db s) \<and> do_DocumentID res = dc_id ?doc \<and> do_ObjectKey res = dc_object_key ?doc"
    using InsertDocument_Inr [OF ins] s' res by (simp add: new_document_def to_DocumentRow_def)
  moreover have "dc_spd_id ?doc = j_SPDID j" "dc_format ?doc = j_Format j" "dc_requested_by ?doc = j_RequestedBy j"
    "dc_object_key ?doc = object_key (j_SPDID j) (j_JobID j) ext" by (simp_all add: new_document_def)
  ultimately show ?thesis using b r
    by (intro bexI [OF _ r(1)] exI [of _ purpose] exI [of _ cost] exI [of _ content] exI [of _ ty] exI [of _ ext]
        exI [of _ ?doc]) (simp add: to_SPDForDoc_def spds_select_policy_def object_key_def)
qed

text \<open>
  C29. From the form to the file: an order created with a purpose and a cost, and a DOCX job of its
  creator run afterwards with nothing failing, yield an object whose main part reads back as the
  number, the purpose and the cost that were entered (\<open>xml_text\<close> is the identity on XML
  characters).
\<close>

theorem create_then_document:
  assumes "aead_ok (sh_aesgcm h)" and "\<And>k. rand_ok (re_rand env k)" and "Create_spd h env c lo d = (Inr rep, ds_db s)"
    and "AuthFromLocals lo = Some a" and "dh_aesgcm hh = sh_aesgcm h"
    and "j_SPDID j = seqs d ''spds'' + 1" and "j_RequestedBy j = ai_UserID a" and "j_Role j = ai_Role a"
    and "j_Format j = ''docx''" and "re_db (de_env denv) 0 = calm t" and "re_db (de_env denv) 1 = calm t'"
    and "de_put denv = PutOk" and "seqs d ''documents'' + 1 \<notin> dc_id ` set (documents d)"
  shows "\<exists>req res s' out ty types rels doc. rq_body c = (None, req) \<and> processJob hh denv j s = (Inr res, s', out)
    \<and> ds_objects s' (do_ObjectKey res) = Some (ty, dh_zip hh [(''[Content_Types].xml'', types), (''_rels/.rels'', rels),
        (''word/document.xml'', bytes_of doc)])
    \<and> texts ''w:t'' doc = [''Surat Perintah Perjalanan Dinas'', ''Nomor Surat: '' @ xml_text (sq_NomorSurat req),
        ''Tujuan: '' @ xml_text (sq_Purpose req), ''Total Biaya: '' @ xml_text (sq_TotalCost req)]"
proof -
  from Create_spd_row [OF assms(1-3)] obtain req a' r where req: "rq_body c = (None, req)" "AuthFromLocals lo = Some a'"
    and r: "sp_id r = seqs d ''spds'' + 1" "sp_nomor_surat r = sq_NomorSurat req" "sp_deleted_at r = None"
    and us: "ai_UserID a' \<in> us_id ` set (users d)"
    and dec: "DecryptString (sh_aesgcm h) (bytes_or_nil (sp_purpose_enc r)) purpose_aad = Inr (sq_Purpose req)"
      "DecryptString (sh_aesgcm h) (bytes_or_nil (sp_total_cost_enc r)) total_cost_aad = Inr (sq_TotalCost req)"
    and d1: "ds_db s = d\<lparr>spds := spds d @ [r], seqs := (seqs d)(''spds'' := seqs d ''spds'' + 1)\<rparr>"
    and vis: "filter (\<lambda>x. sp_id x = seqs d ''spds'' + 1 \<and> sp_deleted_at x = None)
        (filter (spds_select_policy (ds_db s) (ai_UserID a') (ai_Role a')) (spds (ds_db s))) = [r]" by blast
  have a': "a' = a" using req(2) assms(4) by simp
  let ?arch = "buildDOCX (sq_NomorSurat req) (sq_Purpose req) (sq_TotalCost req)"
  let ?key = "object_key (j_SPDID j) (j_JobID j) ''docx''"
  let ?ty = "''application/vnd.openxmlformats-officedocument.wordprocessingml.document''"
  have "filter (\<lambda>x. sp_id x = j_SPDID j \<and> sp_deleted_at x = None
      \<and> spds_select_policy (ds_db s) (j_RequestedBy j) (j_Role j) x) (spds (ds_db s)) = [r]"
    using vis by (simp add: assms(6-8) a' conj_ac cong: filter_cong)
  then have get: "GetSPDForDoc (calm t) (j_RequestedBy j) (j_Role j) (j_SPDID j) (ds_db s) = (Inr (to_SPDForDoc r), ds_db s)"
    by (simp add: GetSPDForDoc_calm)
  have build: "buildDocument hh (j_Format j) (sp_nomor_surat r) (sq_Purpose req) (sq_TotalCost req)
      = Inr (dh_zip hh ?arch, ?ty, ''docx'')"
    by (simp add: buildDocument_def assms(9) r(2))
  have "\<exists>row d2. InsertDocument (calm t') (j_RequestedBy j) (j_Role j) (j_SPDID j) (j_Format j) ?key (j_RequestedBy j)
      (ds_db s) = (Inr row, d2)"
    using assms(13) us r(1) by (intro InsertDocument_calm) (simp_all add: d1 a' assms(6,7,9))
  then obtain row d2 where ins: "InsertDocument (calm t') (j_RequestedBy j) (j_Role j) (j_SPDID j) (j_Format j) ?key
      (j_RequestedBy j) (ds_db s) = (Inr row, d2)" by blast
  have key: "d_ObjectKey row = ?key" using InsertDocument_Inr [OF ins] by (simp add: to_DocumentRow_def new_document_def)
  have "\<exists>res s' out. processJob hh denv j s = (Inr res, s', out) \<and> do_ObjectKey res = ?key
    \<and> ds_objects s' = (ds_objects s)(?key \<mapsto> (?ty, dh_zip hh ?arch))"
    using get dec build ins key
    by (simp add: processJob_def on_db_def assms(5,10-12) to_SPDForDoc_def purpose_aad_def total_cost_aad_def PutObject_def
        Let_def del: One_nat_def)
  then obtain res s' out where run: "processJob hh denv j s = (Inr res, s', out)" "do_ObjectKey res = ?key"
    "ds_objects s' = (ds_objects s)(?key \<mapsto> (?ty, dh_zip hh ?arch))" by blast
  have "ds_objects s' (do_ObjectKey res) = Some (?ty, dh_zip hh ?arch)" by (simp add: run)
  with req(1) run(1) show ?thesis
    unfolding buildDOCX_parts using docx_texts by (intro exI conjI) (assumption | simp)+
qed

text \<open>
  A job never makes a document of an order its requester may not see: when row security hides
  the order (or it is deleted or missing) the job ends with 404 and changes nothing, neither in the
  database nor among the objects, and publishes nothing.
\<close>

theorem document_refused:
  assumes "re_db (de_env env) 0 = calm t"
    and "\<And>r. r \<in> set (spds (ds_db s)) \<Longrightarrow> sp_id r = j_SPDID j \<Longrightarrow> sp_deleted_at r = None
      \<Longrightarrow> \<not> spds_select_policy (ds_db s) (j_RequestedBy j) (j_Role j) r"
  shows "processJob h env j s = (Inl (FiberError 404 ''spd not found''), s, [])"
proof -
  have "filter (\<lambda>r. sp_id r = j_SPDID j \<and> sp_deleted_at r = None
      \<and> spds_select_policy (ds_db s) (j_RequestedBy j) (j_Role j) r) (spds (ds_db s)) = []"
    using assms(2) by (auto simp: filter_empty_conv)
  then show ?thesis by (simp add: processJob_def on_db_def assms(1) GetSPDForDoc_calm)
qed

lemma buildDocument_nc [simp]: "buildDocument (h\<lparr>dh_nc := b\<rparr>) = buildDocument h"
  by (simp add: buildDocument_def fun_eq_iff)

lemma processJob_nc:
  "fst (processJob (h\<lparr>dh_nc := b\<rparr>) env j s) = fst (processJob h env j s)"
  "fst (snd (processJob (h\<lparr>dh_nc := b\<rparr>) env j s)) = fst (snd (processJob h env j s))"
  by (auto simp: processJob_def Let_def split: prod.splits sum.splits)

lemma unmarshal_marshal_job:
  "int64_ok (j_SPDID j) \<Longrightarrow> int64_ok (j_RequestedBy j) \<Longrightarrow> unmarshal_job (marshal_job j) = Some j"
  by (simp add: unmarshal_job_def marshal_job_def json_names)

text \<open>
  C31. The queue changes nothing but the time: a request that is queued leaves the state as it is and
  publishes one message, and consuming that message later, on whatever state, does exactly what
  answering the same request without a bus does on that state.
\<close>

theorem generate_async_sync:
  assumes "Generate h env c lo s = (Inr rep, s', out)" and "dh_nc h" and "AuthFromLocals lo = Some a" and "int64_ok (ai_UserID a)"
    and "re_rand (de_env env') 0 = re_rand (de_env env) 0" and "re_clock (de_env env') 0 = re_clock (de_env env) 0"
  shows "s' = s \<and> (\<exists>m jobID. out = [m] \<and> ms_subject m = ''document.generate'' \<and> rep = JSON 202 (Queued jobID ''queued'')
    \<and> fst (on_document_generate h env' m s0) = fst (snd (Generate (h\<lparr>dh_nc := False\<rparr>) env' c lo s0)))"
proof -
  from assms(1-3) obtain i jobID where i: "ParseIDParam c ''spd_id'' = Inr i"
    and f: "job_format (gq_Format (snd (rq_body c))) \<in> {''pdf'', ''docx'', ''xlsx''}"
    and r: "newID_document (re_rand (de_env env) 0) 16 = Inr jobID"
    and o: "rep = JSON 202 (Queued jobID ''queued'')" "s' = s" "out = [\<lparr>ms_subject = ''document.generate'', ms_data = Some (marshal_job
        \<lparr>j_JobID = jobID, j_SPDID = i, j_Format = job_format (gq_Format (snd (rq_body c))), j_RequestedBy = ai_UserID a,
         j_Role = ai_Role a, j_RequestedAt = re_clock (de_env env) 0\<rparr>)\<rparr>]"
    unfolding Generate_def Let_def by (auto split: sum.splits option.splits if_split_asm)
  let ?j = "\<lparr>j_JobID = jobID, j_SPDID = i, j_Format = job_format (gq_Format (snd (rq_body c))), j_RequestedBy = ai_UserID a,
    j_Role = ai_Role a, j_RequestedAt = re_clock (de_env env) 0\<rparr>"
  have "int64_ok i" using i parse_int64_ok by (auto simp: ParseIDParam_Inr)
  then have "fst (on_document_generate h env' (hd out) s0) = fst (snd (processJob h env' ?j s0))"
    by (simp add: on_document_generate_def o(3) unmarshal_marshal_job assms(4))
  also have "\<dots> = fst (snd (Generate (h\<lparr>dh_nc := False\<rparr>) env' c lo s0))"
    using f processJob_nc(2) [where h = h and b = False and env = env' and j = ?j and s = s0]
    by (auto simp: Generate_def i assms(3,5,6) r Let_def split: prod.splits sum.splits)
  finally show ?thesis using o by simp
qed

text \<open>
  A failure can leave an object nobody knows of: when a job that would succeed cannot begin the
  transaction of its last statement, the object is stored all the same, no row names it, and
  nothing removes it.
\<close>

theorem document_orphan:
  assumes "processJob h env j s = (Inr res, s', out)"
    and "env' = env\<lparr>de_env := (de_env env)\<lparr>re_db := (re_db (de_env env))(1 := (re_db (de_env env) 1)\<lparr>begin_err := Some m\<rparr>)\<rparr>\<rparr>"
  shows "processJob h env' j s = (Inl (OtherErr m), s\<lparr>ds_objects := ds_objects s'\<rparr>, [])
    \<and> ds_objects s' (do_ObjectKey res) \<noteq> None"
proof -
  from processJob_Inr [OF assms(1)] obtain spd purpose cost content ty ext doc d1 where
    g: "GetSPDForDoc (re_db (de_env env) 0) (j_RequestedBy j) (j_Role j) (j_SPDID j) (ds_db s) = (Inr spd, ds_db s)"
    and b: "DecryptString (dh_aesgcm h) (f_PurposeEnc spd) (bytes_of ''spds:purpose'') = Inr purpose"
      "DecryptString (dh_aesgcm h) (f_TotalCostEnc spd) (bytes_of ''spds:total_cost'') = Inr cost"
      "buildDocument h (j_Format j) (f_NomorSurat spd) purpose cost = Inr (content, ty, ext)"
    and ins: "InsertDocument (re_db (de_env env) 1) (j_RequestedBy j) (j_Role j) (j_SPDID j) (j_Format j)
         (object_key (j_SPDID j) (j_JobID j) ext) (j_RequestedBy j) (ds_db s) = (Inr doc, d1)"
    and s': "s' = \<lparr>ds_db = d1, ds_objects = (ds_objects s)(object_key (j_SPDID j) (j_JobID j) ext \<mapsto> (ty, content))\<rparr>"
    and res: "do_ObjectKey res = d_ObjectKey doc" by blast
  have put: "de_put env = PutOk"
    using assms(1) b g by (auto simp: processJob_def on_db_def PutObject_def Let_def split: put_outcome.splits)
  have "InsertDocument (e\<lparr>begin_err := Some m\<rparr>) uid role i f k u d = (Inl (OtherErr m), d)" for e uid role i f k u d
    by (simp add: InsertDocument_def with_rls_def WithTx_def)
  with g b put have "processJob h env' j s = (Inl (OtherErr m), s\<lparr>ds_objects := ds_objects s'\<rparr>, [])"
    by (simp add: processJob_def on_db_def assms(2) PutObject_def Let_def s')
  moreover have "d_ObjectKey doc = object_key (j_SPDID j) (j_JobID j) ext"
    using InsertDocument_Inr [OF ins] by (simp add: to_DocumentRow_def new_document_def)
  ultimately show ?thesis by (simp add: s' res)
qed

subsection \<open>Concrete runs\<close>

definition demo_docs :: document_handler where
  "demo_docs = \<lparr>dh_verifier = demo_verifier, dh_aesgcm = demo_aead, dh_nc = True, dh_pdf = (\<lambda>_. Inr [1]),
     dh_zip = (\<lambda>a. concat (map snd a))\<rparr>"

definition demo_doc_env :: doc_env where
  "demo_doc_env = \<lparr>de_env = demo_env 0, de_put = PutOk, de_publish = None\<rparr>"

definition demo_store :: doc_state where
  "demo_store = \<lparr>ds_db = spd_db1, ds_objects = (\<lambda>_. None)\<rparr>"

definition demo_job :: "string \<Rightarrow> int \<Rightarrow> job" where
  "demo_job f uid = \<lparr>j_JobID = ''ab'', j_SPDID = 1, j_Format = f, j_RequestedBy = uid, j_Role = ''USER'', j_RequestedAt = 0\<rparr>"

definition demo_generate :: "generateRequest request" where
  "demo_generate = (demo_request \<lparr>gq_Format = '' DOCX ''\<rparr>)\<lparr>rq_params := (\<lambda>_. ''1'')\<rparr>"

lemma demo_doc_runs:
  "\<not> isl (fst (processJob demo_docs demo_doc_env (demo_job ''pdf'' 7) demo_store))"
  "\<not> isl (fst (Generate demo_docs demo_doc_env demo_generate demo_locals demo_store))"
  "list_all (\<lambda>r. \<not> spds_select_policy spd_db1 8 ''USER'' r) (spds spd_db1)"
  "seqs spd_db0 ''spds'' + 1 = 1" "seqs spd_db0 ''documents'' + 1 = 1" "documents spd_db0 = []"
  by code_simp+

lemma demo_job_run:
  "\<exists>res s' out. processJob demo_docs demo_doc_env (demo_job ''pdf'' 7) demo_store = (Inr res, s', out)"
  using demo_doc_runs(1) by (metis isl_def prod.collapse sum.exhaust_sel)

theorem document_contents_witness:
  "\<exists>res s' out. processJob demo_docs demo_doc_env (demo_job ''pdf'' 7) demo_store = (Inr res, s', out)
     \<and> length (documents (ds_db s')) = Suc (length (documents spd_db1))"
proof -
  from demo_job_run obtain res s' out where
    run: "processJob demo_docs demo_doc_env (demo_job ''pdf'' 7) demo_store = (Inr res, s', out)" by blast
  from document_contents [OF run] run show ?thesis by (auto simp: demo_store_def)
qed

theorem create_then_document_witness:
  "\<exists>res s' out. processJob demo_docs demo_doc_env (demo_job ''docx'' 7) demo_store = (Inr res, s', out)
     \<and> ds_objects s' (do_ObjectKey res) \<noteq> None"
proof -
  obtain rep where run: "Create_spd demo_spd (demo_env 0) demo_create demo_locals spd_db0 = (Inr rep, ds_db demo_store)"
    using demo_spd_runs(1) by (metis demo_store_def doc_state.select_convs(1) isl_def prod.collapse spd_db1_def sum.exhaust_sel)
  have aead: "aead_ok (sh_aesgcm demo_spd)" by (simp add: demo_aad demo_aead_ok)
  from create_then_document [OF aead demo_rand_env run demo_aad(2), of demo_docs "demo_job ''docx'' 7" demo_doc_env "100 * second" "100 * second"]
    demo_doc_runs(4,5,6)
  show ?thesis by (auto simp: demo_docs_def demo_aad demo_job_def demo_doc_env_def)
qed

theorem document_refused_witness:
  "processJob demo_docs demo_doc_env (demo_job ''pdf'' 8) demo_store = (Inl (FiberError 404 ''spd not found''), demo_store, [])"
proof (rule document_refused)
  show "re_db (de_env demo_doc_env) 0 = calm (100 * second)" by (simp add: demo_doc_env_def)
  show "\<not> spds_select_policy (ds_db demo_store) (j_RequestedBy (demo_job ''pdf'' 8)) (j_Role (demo_job ''pdf'' 8)) r"
    if "r \<in> set (spds (ds_db demo_store))" for r
    using demo_doc_runs(3) that by (simp add: list_all_iff demo_store_def demo_job_def)
qed

theorem generate_async_sync_witness:
  "\<exists>rep m. Generate demo_docs demo_doc_env demo_generate demo_locals demo_store = (Inr rep, demo_store, [m])
     \<and> fst (on_document_generate demo_docs demo_doc_env m demo_store)
       = fst (snd (Generate (demo_docs\<lparr>dh_nc := False\<rparr>) demo_doc_env demo_generate demo_locals demo_store))"
proof -
  obtain rep s' out where run: "Generate demo_docs demo_doc_env demo_generate demo_locals demo_store = (Inr rep, s', out)"
    using demo_doc_runs(2) by (metis isl_def prod.collapse sum.exhaust_sel)
  have "dh_nc demo_docs" by (simp add: demo_docs_def)
  moreover have "int64_ok (ai_UserID \<lparr>ai_UserID = 7, ai_Role = ''USER'', ai_TokenType = ''access'', ai_TokenID = ''a''\<rparr>)"
    by (simp add: int64_ok_def)
  ultimately show ?thesis using generate_async_sync [OF run _ demo_aad(2) _ refl refl, of demo_store] run by auto
qed

theorem document_orphan_witness:
  "\<exists>s'. processJob demo_docs (demo_doc_env\<lparr>de_env := (demo_env 0)\<lparr>re_db := (re_db (demo_env 0))(1 :=
       (re_db (demo_env 0) 1)\<lparr>begin_err := Some ''down''\<rparr>)\<rparr>\<rparr>) (demo_job ''pdf'' 7) demo_store
     = (Inl (OtherErr ''down''), s', []) \<and> ds_objects s' \<noteq> ds_objects demo_store"
proof -
  from demo_job_run obtain res s' out where
    run: "processJob demo_docs demo_doc_env (demo_job ''pdf'' 7) demo_store = (Inr res, s', out)" by blast
  have env: "de_env demo_doc_env = demo_env 0" by (simp add: demo_doc_env_def)
  have "ds_objects demo_store = (\<lambda>_. None)" by (simp add: demo_store_def)
  with document_orphan [OF run refl, of "''down''"] show ?thesis unfolding env by auto
qed

end
