(* ===== verification/Cachex.thy ===== *)
theory Cachex
  imports GoStd
begin

text \<open>
  \<open>shared/cachex/cache.go\<close>: a prefixed cache over Redis.  The store holds values with the moment
  they expire; what becomes of each command, and when it runs, are arguments, numbered in the order
  the code issues the commands.  A client that is nil is no cache.
\<close>

type_synonym redis_kv = "string \<Rightarrow> (bytes \<times> gotime option) option"

datatype cmd_outcome = CmdOk | CmdFailed string | CmdUnknown string

record redis_env =
  rd_out :: "nat \<Rightarrow> cmd_outcome"
  rd_now :: "nat \<Rightarrow> gotime"

definition redis_up :: "(nat \<Rightarrow> gotime) \<Rightarrow> redis_env" where
  "redis_up clk = \<lparr>rd_out = (\<lambda>_. CmdOk), rd_now = clk\<rparr>"

definition alive :: "gotime \<Rightarrow> bytes \<times> gotime option \<Rightarrow> bool" where
  "alive now e \<longleftrightarrow> (case snd e of None \<Rightarrow> True | Some t \<Rightarrow> now < t)"

definition redis_get :: "gotime \<Rightarrow> redis_kv \<Rightarrow> string \<Rightarrow> bytes option" where
  "redis_get now kv k =
     (case kv k of None \<Rightarrow> None | Some e \<Rightarrow> if alive now e then Some (fst e) else None)"

text \<open>A command that changes the store.\<close>

definition redis_write :: "redis_env \<Rightarrow> nat \<Rightarrow> (redis_kv \<Rightarrow> redis_kv) \<Rightarrow> redis_kv \<Rightarrow> unit res \<times> redis_kv" where
  "redis_write env n f kv =
     (case rd_out env n of
        CmdOk \<Rightarrow> (Inr (), f kv)
      | CmdFailed m \<Rightarrow> (Inl (OtherErr m), kv)
      | CmdUnknown m \<Rightarrow> (Inl (OtherErr m), f kv))"

record cache =
  ca_rdb :: bool
  ca_prefix :: string

definition New_cache :: "bool \<Rightarrow> string \<Rightarrow> cache option" where
  "New_cache rdb prefix = (if \<not> rdb then None else Some \<lparr>ca_rdb = rdb, ca_prefix = prefix\<rparr>)"

definition cache_key :: "cache \<Rightarrow> string \<Rightarrow> string" where
  "cache_key c k = (if ca_prefix c = [] then k else ca_prefix c @ '':'' @ k)"

definition no_client :: "cache option \<Rightarrow> bool" where
  "no_client c \<longleftrightarrow> (case c of None \<Rightarrow> True | Some c \<Rightarrow> \<not> ca_rdb c)"

text \<open>\<open>Get\<close>: the value, none when the key is absent or expired, or the error.\<close>

definition Get_cache :: "redis_env \<Rightarrow> nat \<Rightarrow> cache option \<Rightarrow> string \<Rightarrow> redis_kv \<Rightarrow> bytes option res" where
  "Get_cache env n c k kv =
     (if no_client c then Inr None
      else case rd_out env n of
             CmdOk \<Rightarrow> Inr (redis_get (rd_now env n) kv (cache_key (the c) k))
           | CmdFailed m \<Rightarrow> Inl (OtherErr m)
           | CmdUnknown m \<Rightarrow> Inl (OtherErr m))"

definition expiry :: "gotime \<Rightarrow> duration \<Rightarrow> gotime option" where
  "expiry now ttl = (if ttl > 0 then Some (now + ttl) else None)"

definition Set_cache ::
  "redis_env \<Rightarrow> nat \<Rightarrow> cache option \<Rightarrow> string \<Rightarrow> bytes \<Rightarrow> duration \<Rightarrow> redis_kv \<Rightarrow> unit res \<times> redis_kv" where
  "Set_cache env n c k v ttl kv =
     (if no_client c then (Inr (), kv)
      else redis_write env n (\<lambda>kv. kv(cache_key (the c) k \<mapsto> (v, expiry (rd_now env n) ttl))) kv)"

definition Del_cache :: "redis_env \<Rightarrow> nat \<Rightarrow> cache option \<Rightarrow> string list \<Rightarrow> redis_kv \<Rightarrow> unit res \<times> redis_kv" where
  "Del_cache env n c ks kv =
     (if no_client c \<or> ks = [] then (Inr (), kv)
      else redis_write env n (\<lambda>kv x. if x \<in> set (map (cache_key (the c)) ks) then None else kv x) kv)"

text \<open>\<open>GetJSON\<close>, for \<open>json.Unmarshal\<close> into the destination: a corrupt entry is deleted.\<close>

definition GetJSON ::
  "(bytes \<Rightarrow> 'j option) \<Rightarrow> redis_env \<Rightarrow> nat \<Rightarrow> cache option \<Rightarrow> string \<Rightarrow> redis_kv \<Rightarrow> 'j option res \<times> redis_kv" where
  "GetJSON unmarshal env n c k kv =
     (case Get_cache env n c k kv of
        Inl e \<Rightarrow> (Inl e, kv)
      | Inr None \<Rightarrow> (Inr None, kv)
      | Inr (Some b) \<Rightarrow>
          (case unmarshal b of
             None \<Rightarrow> (Inr None, snd (Del_cache env (n + 1) c [k] kv))
           | Some v \<Rightarrow> (Inr (Some v), kv)))"

definition SetJSON ::
  "('j \<Rightarrow> bytes res) \<Rightarrow> redis_env \<Rightarrow> nat \<Rightarrow> cache option \<Rightarrow> string \<Rightarrow> 'j \<Rightarrow> duration \<Rightarrow> redis_kv \<Rightarrow> unit res \<times> redis_kv" where
  "SetJSON marshal env n c k v ttl kv =
     (if no_client c then (Inr (), kv)
      else case marshal v of Inl e \<Rightarrow> (Inl e, kv) | Inr b \<Rightarrow> Set_cache env n c k b ttl kv)"

subsection \<open>Lemmas\<close>

lemma cache_key_eq [simp]: "cache_key c k = cache_key c k' \<longleftrightarrow> k = k'"
  by (simp add: cache_key_def)

text \<open>A write touches its own keys only, and a read looks at its own key only.\<close>

lemma Set_cache_other: "x \<noteq> cache_key c k \<Longrightarrow> snd (Set_cache env n (Some c) k v ttl kv) x = kv x"
  by (auto simp: Set_cache_def redis_write_def split: cmd_outcome.splits)

lemma Get_cache_cong:
  "kv (cache_key c k) = kv' (cache_key c k) \<Longrightarrow> Get_cache env n (Some c) k kv = Get_cache env n (Some c) k kv'"
  by (simp add: Get_cache_def redis_get_def split: cmd_outcome.split)

text \<open>What was set is got until it expires, and not after.\<close>

lemma Get_after_Set:
  assumes "ca_rdb c" and "rd_out env n = CmdOk" and "rd_out env' m = CmdOk" and "0 < ttl"
  shows "Get_cache env' m (Some c) k (snd (Set_cache env n (Some c) k v ttl kv))
    = Inr (if rd_now env' m < rd_now env n + ttl then Some v else None)"
  using assms by (simp add: Get_cache_def Set_cache_def no_client_def redis_write_def redis_get_def alive_def expiry_def)

end
