(* ===== verification/Csv.thy ===== *)
theory Csv
  imports GoStd
begin

text \<open>
  Go's \<open>encoding/csv\<close>: the writer with its defaults and the reader with \<open>TrimLeadingSpace\<close>, as
  the report and the migration tool use them.
\<close>

abbreviation quote :: char where "quote \<equiv> CHR 0x22"
abbreviation comma :: char where "comma \<equiv> CHR '',''"
abbreviation newline :: char where "newline \<equiv> CHR 0x0A"
abbreviation creturn :: char where "creturn \<equiv> CHR 0x0D"

subsection \<open>Writer\<close>

definition fieldNeedsQuotes :: "string \<Rightarrow> bool" where
  "fieldNeedsQuotes f \<longleftrightarrow>
     f \<noteq> [] \<and> (f = [CHR 0x5C, CHR ''.''] \<or> {comma, quote, creturn, newline} \<inter> set f \<noteq> {} \<or> is_space (hd f))"

definition quoted_field :: "string \<Rightarrow> string" where
  "quoted_field f = [quote] @ concat (map (\<lambda>c. if c = quote then [quote, quote] else [c]) f) @ [quote]"

definition csv_field :: "string \<Rightarrow> string" where
  "csv_field f = (if fieldNeedsQuotes f then quoted_field f else f)"

fun csv_line :: "string list \<Rightarrow> string" where
  "csv_line [] = [newline]"
| "csv_line [f] = csv_field f @ [newline]"
| "csv_line (f # g # fs) = csv_field f @ [comma] @ csv_line (g # fs)"

definition csv_write :: "string list list \<Rightarrow> string" where
  "csv_write rows = concat (map csv_line rows)"

subsection \<open>Reader\<close>

text \<open>\<open>readLine\<close>: the next line with its line feed, a carriage return before that dropped.\<close>

definition drop_cr :: "string \<Rightarrow> string" where
  "drop_cr l = (if l \<noteq> [] \<and> last l = creturn then butlast l else l)"

definition read_line :: "string \<Rightarrow> (string \<times> string) option" where
  "read_line s =
     (if s = [] then None
      else let pre = takeWhile (\<lambda>c. c \<noteq> newline) s; rest = dropWhile (\<lambda>c. c \<noteq> newline) s
           in if rest = [] then Some (drop_cr pre, []) else Some (drop_cr pre @ [newline], tl rest))"

definition chomp :: "string \<Rightarrow> string" where
  "chomp l = (if l \<noteq> [] \<and> last l = newline then butlast l else l)"

definition ErrQuote :: err where "ErrQuote = OtherErr ''extraneous or missing quote in quoted-field''"
definition ErrBareQuote :: err where "ErrBareQuote = OtherErr ''bare quote in non-quoted-field''"
definition ErrFieldCount :: err where "ErrFieldCount = OtherErr ''wrong number of fields''"

lemma drop_cr_length: "length (drop_cr l) \<le> length l"
  by (simp add: drop_cr_def)

lemma read_line_length: "read_line s = Some (l, r) \<Longrightarrow> length l + length r \<le> length s \<and> length r < length s"
proof -
  assume a: "read_line s = Some (l, r)"
  have s: "length (takeWhile (\<lambda>c. c \<noteq> newline) s) + length (dropWhile (\<lambda>c. c \<noteq> newline) s) = length s"
    by (metis length_append takeWhile_dropWhile_id)
  show ?thesis using a s drop_cr_length [of "takeWhile (\<lambda>c. c \<noteq> newline) s"]
    by (cases "dropWhile (\<lambda>c. c \<noteq> newline) s") (auto simp: read_line_def Let_def split: if_splits)
qed

text \<open>
  \<open>readRecord\<close> from a field on: outside quotes (\<open>None\<close>) or inside, with what the field has so far;
  the line, the input after it, and the fields so far.
\<close>

function csv_fields :: "string option \<Rightarrow> string \<Rightarrow> string \<Rightarrow> string list \<Rightarrow> string list res \<times> string" where
  "csv_fields None line rest acc =
     (let line = dropWhile is_space line in
      if line \<noteq> [] \<and> hd line = quote then csv_fields (Some []) (tl line) rest acc
      else if comma \<in> set line
      then (let f = takeWhile (\<lambda>c. c \<noteq> comma) line in
            if quote \<in> set f then (Inl ErrBareQuote, rest)
            else csv_fields None (tl (dropWhile (\<lambda>c. c \<noteq> comma) line)) rest (acc @ [f]))
      else if quote \<in> set line then (Inl ErrBareQuote, rest)
      else (Inr (acc @ [chomp line]), rest))"
| "csv_fields (Some buf) line rest acc =
     (let pre = takeWhile (\<lambda>c. c \<noteq> quote) line; post = dropWhile (\<lambda>c. c \<noteq> quote) line in
      if post \<noteq> []
      then (let r = tl post in
            if r \<noteq> [] \<and> hd r = quote then csv_fields (Some (buf @ pre @ [quote])) (tl r) rest acc
            else if r \<noteq> [] \<and> hd r = comma then csv_fields None (tl r) rest (acc @ [buf @ pre])
            else if chomp r = [] then (Inr (acc @ [buf @ pre]), rest)
            else (Inl ErrQuote, rest))
      else if line \<noteq> []
      then (case read_line rest of
              None \<Rightarrow> (Inl ErrQuote, [])
            | Some (l, r) \<Rightarrow> csv_fields (Some (buf @ line)) l r acc)
      else (Inl ErrQuote, rest))"
  by pat_completeness auto

lemma dropWhile_tl_length: "x \<in> set s \<Longrightarrow> length (tl (dropWhile (\<lambda>c. c \<noteq> x) (dropWhile P s))) < length s"
proof -
  assume "x \<in> set s"
  then have "0 < length s" by (cases s) auto
  moreover have "length (dropWhile (\<lambda>c. c \<noteq> x) (dropWhile P s)) \<le> length s"
    by (meson dual_order.trans length_dropWhile_le)
  ultimately show ?thesis unfolding length_tl by linarith
qed

lemma tl_shorter: "s \<noteq> [] \<Longrightarrow> length s \<le> n \<Longrightarrow> length (tl s) < n"
  by (cases s) auto

termination csv_fields
proof (relation "measure (\<lambda>(m, line, rest, acc). length line + length rest)")
  fix line rest :: string and acc x
  assume "x = dropWhile is_space line" "x \<noteq> [] \<and> hd x = quote"
  then show "((Some [], tl x, rest, acc), (None, line, rest, acc)) \<in> measure (\<lambda>(m, line, rest, acc). length line + length rest)"
    using tl_shorter [of x "length line"] length_dropWhile_le [of is_space line] by simp
next
  fix line rest :: string and acc x xa
  assume "x = dropWhile is_space line" "comma \<in> set x"
  then show "((None, tl (dropWhile (\<lambda>c. c \<noteq> comma) x), rest, acc @ [xa]), (None, line, rest, acc))
      \<in> measure (\<lambda>(m, line, rest, acc). length line + length rest)"
    using dropWhile_tl_length [of comma line is_space] set_dropWhileD by fastforce
next
  fix buf line rest :: string and acc pre post r
  assume "post = dropWhile (\<lambda>c. c \<noteq> quote) line" "post \<noteq> []" "r = tl post" "r \<noteq> [] \<and> hd r = quote"
  then show "((Some (buf @ pre @ [quote]), tl r, rest, acc), (Some buf, line, rest, acc))
      \<in> measure (\<lambda>(m, line, rest, acc). length line + length rest)"
    using tl_shorter [of post "length line"] length_dropWhile_le [of "\<lambda>c. c \<noteq> quote" line] by simp
next
  fix buf line rest :: string and acc pre post r
  assume "post = dropWhile (\<lambda>c. c \<noteq> quote) line" "post \<noteq> []" "r = tl post" "r \<noteq> [] \<and> hd r = comma"
  then show "((None, tl r, rest, acc @ [buf @ pre]), (Some buf, line, rest, acc))
      \<in> measure (\<lambda>(m, line, rest, acc). length line + length rest)"
    using tl_shorter [of post "length line"] length_dropWhile_le [of "\<lambda>c. c \<noteq> quote" line] by simp
next
  fix buf line rest :: string and acc l r x2
  assume "line \<noteq> []" "read_line rest = Some x2" "(l, r) = x2"
  then show "((Some (buf @ line), l, r, acc), (Some buf, line, rest, acc))
      \<in> measure (\<lambda>(m, line, rest, acc). length line + length rest)"
    using read_line_length [of rest l r] by (cases line) auto
qed simp


declare csv_fields.simps [simp del]

lemma csv_fields_rest: "length (snd (csv_fields m line rest acc)) \<le> length rest"
proof (induction m line rest acc rule: csv_fields.induct)
  case (1 line rest acc)
  then show ?case by (subst csv_fields.simps) (simp add: Let_def)
next
  case (2 buf line rest acc)
  have line: "length (snd (csv_fields (Some (buf @ line)) l r acc)) \<le> length rest"
    if "quote \<notin> set line" "line \<noteq> []" "read_line rest = Some (l, r)" for l r
  proof -
    have "dropWhile (\<lambda>c. c \<noteq> quote) line = []" using that(1) by auto
    then show ?thesis using "2.IH"(3) [OF refl refl _ that(2,3) refl] read_line_length [OF that(3)] by simp
  qed
  show ?case
    by (subst csv_fields.simps)
      (use "2.IH"(1,2) in \<open>auto simp: Let_def split: option.split intro: line\<close>)
qed

text \<open>\<open>Read\<close> without the check of the number of fields: blank lines are skipped; none at the end.\<close>

function csv_next :: "string \<Rightarrow> (string list res \<times> string) option" where
  "csv_next s =
     (case read_line s of
        None \<Rightarrow> None
      | Some (l, r) \<Rightarrow> if chomp l = [] then csv_next r else Some (csv_fields None l r []))"
  by pat_completeness auto
termination by (relation "measure length") (auto dest: read_line_length)

declare csv_next.simps [simp del]

lemma csv_next_rest: "csv_next s = Some (x, r) \<Longrightarrow> length r < length s"
proof (induction s rule: csv_next.induct)
  case (1 s)
  from "1.prems" obtain l r0 where l: "read_line s = Some (l, r0)"
    by (subst (asm) csv_next.simps) (auto split: option.splits)
  note short = read_line_length [OF l]
  show ?case
  proof (cases "chomp l = []")
    case True
    with "1.prems" l have "csv_next r0 = Some (x, r)" by (subst (asm) csv_next.simps) simp
    with "1.IH" [OF l refl True] short show ?thesis by simp
  next
    case False
    with "1.prems" l have "csv_fields None l r0 [] = (x, r)" by (subst (asm) csv_next.simps) simp
    with csv_fields_rest [of None l r0 "[]"] short show ?thesis by simp
  qed
qed

text \<open>The records from here on, each of \<open>n\<close> fields.\<close>

function csv_rows :: "nat \<Rightarrow> string \<Rightarrow> string list list res" where
  "csv_rows n s =
     (case csv_next s of
        None \<Rightarrow> Inr []
      | Some (Inl e, r) \<Rightarrow> Inl e
      | Some (Inr record, r) \<Rightarrow>
          if length record \<noteq> n then Inl ErrFieldCount
          else (case csv_rows n r of Inl e \<Rightarrow> Inl e | Inr rows \<Rightarrow> Inr (record # rows)))"
  by pat_completeness auto
termination by (relation "measure (\<lambda>(n, s). length s)") (auto dest: csv_next_rest)

declare csv_rows.simps [simp del]

subsection \<open>Reading what was written\<close>

text \<open>A field without line breaks.\<close>

definition one_line :: "string \<Rightarrow> bool" where
  "one_line f \<longleftrightarrow> newline \<notin> set f \<and> creturn \<notin> set f"

lemma quoted_char:
  "c \<noteq> quote \<Longrightarrow> quote \<in> set line \<Longrightarrow> csv_fields (Some buf) (c # line) rest acc = csv_fields (Some (buf @ [c])) line rest acc"
  unfolding csv_fields.simps(2) [of buf "c # line"] csv_fields.simps(2) [of "buf @ [c]" line] by (simp add: Let_def)

lemma quoted_quote: "csv_fields (Some buf) (quote # quote # line) rest acc = csv_fields (Some (buf @ [quote])) line rest acc"
  unfolding csv_fields.simps(2) [of buf "quote # quote # line"] by simp

lemma quoted_end:
  "csv_fields (Some buf) (quote # comma # line) rest acc = csv_fields None line rest (acc @ [buf])"
  "csv_fields (Some buf) [quote, newline] rest acc = (Inr (acc @ [buf]), rest)"
  unfolding csv_fields.simps(2) [of buf "quote # comma # line"] csv_fields.simps(2) [of buf "[quote, newline]"]
  by (simp_all add: chomp_def)

lemma quoted_content:
  "quote \<in> set line \<Longrightarrow> csv_fields (Some buf) (concat (map (\<lambda>c. if c = quote then [quote, quote] else [c]) f) @ line) rest acc
     = csv_fields (Some (buf @ f)) line rest acc"
  by (induction f arbitrary: buf) (simp_all add: quoted_char quoted_quote)

text \<open>One field, before a comma and at the end of the line.\<close>

lemma read_field:
  assumes "one_line f"
  shows "csv_fields None (csv_field f @ comma # line) rest acc = csv_fields None line rest (acc @ [f])"
    and "csv_fields None (csv_field f @ [newline]) rest acc = (Inr (acc @ [f]), rest)"
proof -
  have sp: "\<not> is_space quote" "\<not> is_space comma" "is_space newline" by (simp_all add: is_space_def char_ord_def)
  have "csv_fields None (csv_field f @ comma # line) rest acc = csv_fields None line rest (acc @ [f])
    \<and> csv_fields None (csv_field f @ [newline]) rest acc = (Inr (acc @ [f]), rest)"
  proof (cases "fieldNeedsQuotes f")
    case True
    have "csv_fields None (quote # line') rest acc = csv_fields (Some []) line' rest acc" for line'
      unfolding csv_fields.simps(1) [of "quote # line'"] using sp by simp
    with True show ?thesis by (simp add: csv_field_def quoted_field_def quoted_content quoted_end)
  next
    case False
    then have f: "comma \<notin> set f" "quote \<notin> set f" and h: "f = [] \<or> \<not> is_space (hd f)"
      by (auto simp: fieldNeedsQuotes_def)
    from h sp have d: "dropWhile is_space (f @ comma # line) = f @ comma # line"
      "dropWhile is_space (f @ [newline]) = (if f = [] then [] else f @ [newline])"
      by (cases f; simp)+
    have t: "takeWhile (\<lambda>c. c \<noteq> comma) (f @ comma # line) = f" "dropWhile (\<lambda>c. c \<noteq> comma) (f @ comma # line) = comma # line"
      using f(1) by (auto simp: takeWhile_append dropWhile_append)
    have hq: "\<not> (f @ x # l \<noteq> [] \<and> hd (f @ x # l) = quote)" if "x \<noteq> quote" for x l
      using f(2) that by (cases f) auto
    have "csv_fields None (f @ comma # line) rest acc = csv_fields None line rest (acc @ [f])"
      unfolding csv_fields.simps(1) [of "f @ comma # line"] Let_def d t using hq [of comma line] f by simp
    moreover have "csv_fields None (f @ [newline]) rest acc = (Inr (acc @ [f]), rest)"
      unfolding csv_fields.simps(1) [of "f @ [newline]"] Let_def d using hq [of newline "[]"] f by (auto simp: chomp_def)
    ultimately show ?thesis using False by (simp add: csv_field_def)
  qed
  then show "csv_fields None (csv_field f @ comma # line) rest acc = csv_fields None line rest (acc @ [f])"
    and "csv_fields None (csv_field f @ [newline]) rest acc = (Inr (acc @ [f]), rest)" by blast+
qed

lemma read_fields:
  "fs \<noteq> [] \<Longrightarrow> (\<And>f. f \<in> set fs \<Longrightarrow> one_line f) \<Longrightarrow> csv_fields None (csv_line fs) rest acc = (Inr (acc @ fs), rest)"
  by (induction fs arbitrary: acc rule: csv_line.induct) (simp_all add: read_field)

lemma csv_line_split:
  "(\<And>f. f \<in> set fs \<Longrightarrow> one_line f) \<Longrightarrow>
     \<exists>b. csv_line fs = b @ [newline] \<and> newline \<notin> set b \<and> creturn \<notin> set b \<and> (2 \<le> length fs \<longrightarrow> b \<noteq> [])"
proof (induction fs rule: csv_line.induct)
  case 1
  then show ?case by simp
next
  have field: "newline \<notin> set (csv_field f) \<and> creturn \<notin> set (csv_field f)" if "one_line f" for f
    using that by (auto simp: csv_field_def quoted_field_def one_line_def)
  case (2 f)
  with field show ?case by simp
next
  have field: "newline \<notin> set (csv_field f) \<and> creturn \<notin> set (csv_field f)" if "one_line f" for f
    using that by (auto simp: csv_field_def quoted_field_def one_line_def)
  case (3 f g fs)
  then obtain b where "csv_line (g # fs) = b @ [newline]" "newline \<notin> set b" "creturn \<notin> set b" by force
  with field [of f] "3.prems" show ?case by (intro exI [of _ "csv_field f @ [comma] @ b"]) simp
qed

lemma csv_next_line:
  assumes "\<And>f. f \<in> set fs \<Longrightarrow> one_line f" and "2 \<le> length fs"
  shows "csv_next (csv_line fs @ more) = Some (Inr fs, more)"
proof -
  obtain b where b: "csv_line fs = b @ [newline]" "newline \<notin> set b" "creturn \<notin> set b" "b \<noteq> []"
    using csv_line_split [of fs] assms by blast
  have "last b \<noteq> creturn" using b(3,4) last_in_set by metis
  then have "read_line (b @ newline # more) = Some (b @ [newline], more)"
    using b(2,4) by (auto simp: read_line_def drop_cr_def Let_def takeWhile_append dropWhile_append)
  moreover have "chomp (b @ [newline]) \<noteq> []" using b(4) by (simp add: chomp_def)
  moreover have "csv_fields None (b @ [newline]) more [] = (Inr fs, more)"
    using read_fields [of fs more "[]"] assms b(1) by (cases fs) auto
  ultimately show ?thesis by (subst csv_next.simps) (simp add: b(1))
qed

lemma csv_roundtrip:
  "2 \<le> n \<Longrightarrow> (\<And>fs. fs \<in> set rows \<Longrightarrow> length fs = n \<and> (\<forall>f \<in> set fs. one_line f)) \<Longrightarrow>
     csv_rows n (csv_write rows) = Inr rows"
proof (induction rows)
  case Nil
  show ?case
    by (subst csv_rows.simps) (simp add: csv_write_def csv_next.simps [of "[]"] read_line_def)
next
  case (Cons fs rows)
  have "length fs = n" "\<And>f. f \<in> set fs \<Longrightarrow> one_line f" using Cons.prems(2) by auto
  then have "csv_next (csv_write (fs # rows)) = Some (Inr fs, csv_write rows)"
    using csv_next_line [of fs "csv_write rows"] Cons.prems(1) by (simp add: csv_write_def)
  moreover have "csv_rows n (csv_write rows) = Inr rows" using Cons.prems by (intro Cons.IH) auto
  ultimately show ?case using \<open>length fs = n\<close> by (subst csv_rows.simps) simp
qed

end
