(* ===== verification/Reporting.thy ===== *)
theory Reporting
  imports Service Cachex Csv "HOL-Library.Char_ord" "HOL-Library.List_Lexorder" "HOL-Library.Product_Lexorder"
begin

text \<open>
  \<open>services/reporting-service\<close>: counts of orders by status and by month, as JSON and CSV, cached
  for 15 seconds.  Arguments of the model: how pgx encodes a Go \<open>int\<close> for a parameter of type
  \<open>text\<close> (\<open>ph_text\<close>, none when it refuses), and JSON (\<open>ph_json\<close> the JSON value of a report,
  \<open>ph_marshal\<close> and \<open>ph_unmarshal\<close>).  The session's time zone is UTC.
\<close>

subsection \<open>Repository\<close>

record StatusCount =
  sc_Status :: string
  sc_Count :: int

record MonthlyStatusCount =
  mc_Month :: gotime
  mc_Status :: string
  mc_Count :: int

text \<open>\<open>SELECT k, COUNT(*) ... GROUP BY k ORDER BY k\<close>\<close>

definition group_count :: "('r \<Rightarrow> 'k::linorder) \<Rightarrow> 'r list \<Rightarrow> ('k \<times> int) list" where
  "group_count k rows = map (\<lambda>x. (x, int (length (filter (\<lambda>r. k r = x) rows)))) (sort (remdups (map k rows)))"

definition live_spds :: "tx \<Rightarrow> spd_row list" where
  "live_spds t = filter (\<lambda>r. sp_deleted_at r = None \<and> spds_select_policy (tx_db t) (tx_uid t) (tx_role t) r) (spds (tx_db t))"

definition SPDCountsByStatus :: "dbenv \<Rightarrow> int \<Rightarrow> string \<Rightarrow> db \<Rightarrow> StatusCount list res \<times> db" where
  "SPDCountsByStatus e userID role =
     with_rls e userID role (tx_exec e (reading (\<lambda>t.
       Inr (map (\<lambda>(s, n). \<lparr>sc_Status = s, sc_Count = n\<rparr>) (group_count sp_status (live_spds t))))))"

definition day_ns :: int where
  "day_ns = 86400 * 1000000000"

text \<open>\<open>date_trunc('month', t)\<close>\<close>

definition month_start :: "gotime \<Rightarrow> gotime" where
  "month_start t = (case civil_from_days (t div day_ns) of (y, m, d) \<Rightarrow> days_from_civil y m 1 * day_ns)"

text \<open>\<open>t - (n || ' months')::interval\<close>: the same day of an earlier month, or that month's last.\<close>

definition minus_months :: "int \<Rightarrow> gotime \<Rightarrow> gotime" where
  "minus_months n t =
     (case civil_from_days (t div day_ns) of
        (y, m, d) \<Rightarrow>
          let k = y * 12 + (m - 1) - n; y' = k div 12; m' = k mod 12 + 1
          in days_from_civil y' m' (min d (days_in y' m')) * day_ns + t mod day_ns)"

text \<open>Ordered by the month, descending, then by status.\<close>

definition monthly_counts :: "gotime \<Rightarrow> int \<Rightarrow> spd_row list \<Rightarrow> MonthlyStatusCount list" where
  "monthly_counts now n rows =
     map (\<lambda>((m, s), c). \<lparr>mc_Month = - m, mc_Status = s, mc_Count = c\<rparr>)
       (group_count (\<lambda>r. (- month_start (sp_created_at r), sp_status r))
          (filter (\<lambda>r. minus_months n now \<le> sp_created_at r) rows))"

definition SPDMonthlyCounts ::
  "(int \<Rightarrow> string option) \<Rightarrow> dbenv \<Rightarrow> int \<Rightarrow> string \<Rightarrow> int \<Rightarrow> db \<Rightarrow> MonthlyStatusCount list res \<times> db" where
  "SPDMonthlyCounts text_arg e userID role months =
     with_rls e userID role (tx_exec e (reading (\<lambda>t.
       case text_arg months of
         None \<Rightarrow> Inl (OtherErr ''unable to encode into text format for text'')
       | Some s \<Rightarrow>
           (case parse_int64 s of
              None \<Rightarrow> Inl (OtherErr ''invalid input syntax for type interval'')
            | Some n \<Rightarrow> Inr (monthly_counts (db_now e) n (live_spds t))))))"

subsection \<open>Handlers\<close>

record report =
  rp_by_status :: "StatusCount list"
  rp_by_month :: "MonthlyStatusCount list"

record 'j report_handler =
  ph_verifier :: verifier
  ph_cache :: "cache option"
  ph_text :: "int \<Rightarrow> string option"
  ph_json :: "report \<Rightarrow> 'j"
  ph_marshal :: "'j \<Rightarrow> bytes res"
  ph_unmarshal :: "bytes \<Rightarrow> 'j option"

definition parseInt_report :: "string \<Rightarrow> int \<Rightarrow> int" where
  "parseInt_report s def =
     (if s = [] then def else case ParseInt s of (i, Some e) \<Rightarrow> def | (i, None) \<Rightarrow> i)"

definition clampInt_report :: "int \<Rightarrow> int \<Rightarrow> int \<Rightarrow> int" where
  "clampInt_report v mn mx = (if v < mn then mn else if v > mx then mx else v)"

interpretation report_param: int_param parseInt_report clampInt_report
  by (rule int_param_copy) (simp_all add: parseInt_report_def clampInt_report_def)

definition report_months :: "unit request \<Rightarrow> int" where
  "report_months c = clampInt_report (parseInt_report (rq_query c ''months'') 6) 1 36"

definition summary_key :: "int \<Rightarrow> string \<Rightarrow> int \<Rightarrow> string" where
  "summary_key uid role months =
     ''spds:summary:uid:'' @ FormatInt uid @ '':role:'' @ role @ '':months:'' @ FormatInt months"

definition csv_key :: "int \<Rightarrow> string \<Rightarrow> int \<Rightarrow> string" where
  "csv_key uid role months =
     ''spds:summarycsv:uid:'' @ FormatInt uid @ '':role:'' @ role @ '':months:'' @ FormatInt months"

definition cache_ttl :: duration where
  "cache_ttl = 15 * 1000000000"

text \<open>The report itself: two queries.\<close>

definition make_report ::
  "'j report_handler \<Rightarrow> renv \<Rightarrow> int \<Rightarrow> string \<Rightarrow> int \<Rightarrow> db \<Rightarrow> report res \<times> db" where
  "make_report h env uid role months d =
     (case SPDCountsByStatus (re_db env 0) uid role d of
        (Inl e, d) \<Rightarrow> (Inl e, d)
      | (Inr byStatus, d) \<Rightarrow>
          (case SPDMonthlyCounts (ph_text h) (re_db env 1) uid role months d of
             (Inl e, d) \<Rightarrow> (Inl e, d)
           | (Inr byMonth, d) \<Rightarrow> (Inr \<lparr>rp_by_status = byStatus, rp_by_month = byMonth\<rparr>, d)))"

text \<open>\<open>Summary\<close>, on the database and the cache's store; the commands are GET 0, DEL 1 and SET 2.\<close>

definition Summary ::
  "'j report_handler \<Rightarrow> renv \<Rightarrow> redis_env \<Rightarrow> unit request \<Rightarrow> locals \<Rightarrow> db \<times> redis_kv \<Rightarrow> 'j reply res \<times> db \<times> redis_kv" where
  "Summary h env renv c lo s =
     (case AuthFromLocals lo of
        None \<Rightarrow> (Inl (unauthorized ''unauthorized''), s)
      | Some a \<Rightarrow>
          let months = report_months c;
              cacheKey = summary_key (ai_UserID a) (ai_Role a) months;
              (cached, kv) = (if ph_cache h \<noteq> None then GetJSON (ph_unmarshal h) renv 0 (ph_cache h) cacheKey (snd s)
                              else (Inr None, snd s))
          in (case cached of
                Inr (Some v) \<Rightarrow> (Inr (JSON 200 v), fst s, kv)
              | _ \<Rightarrow>
                  (case make_report h env (ai_UserID a) (ai_Role a) months (fst s) of
                     (Inl e, d) \<Rightarrow> (Inl e, d, kv)
                   | (Inr r, d) \<Rightarrow>
                       let out = ph_json h r;
                           kv = (if ph_cache h \<noteq> None
                                 then snd (SetJSON (ph_marshal h) renv 2 (ph_cache h) cacheKey out cache_ttl kv) else kv)
                       in (Inr (JSON 200 out), d, kv))))"

text \<open>\<open>Format("2006-01")\<close> of a time in UTC.\<close>

definition format_month :: "gotime \<Rightarrow> string" where
  "format_month t = (case civil_from_days (t div day_ns) of (y, m, d) \<Rightarrow> pad4 y @ ''-'' @ pad2 m)"

definition csv_row :: "MonthlyStatusCount \<Rightarrow> string list" where
  "csv_row r = [format_month (mc_Month r), mc_Status r, FormatInt (mc_Count r)]"

definition csv_body :: "MonthlyStatusCount list \<Rightarrow> string" where
  "csv_body rows = csv_write ([''month'', ''status'', ''count''] # map csv_row rows)"

record csv_answer =
  an_content_type :: string
  an_disposition :: string
  an_body :: bytes

definition csv_file :: "bytes \<Rightarrow> csv_answer" where
  "csv_file b = \<lparr>an_content_type = ''text/csv; charset=utf-8'',
     an_disposition = ''attachment; filename=spd_summary.csv'', an_body = b\<rparr>"

definition SummaryCSV ::
  "'j report_handler \<Rightarrow> renv \<Rightarrow> redis_env \<Rightarrow> unit request \<Rightarrow> locals \<Rightarrow> db \<times> redis_kv \<Rightarrow> csv_answer res \<times> db \<times> redis_kv" where
  "SummaryCSV h env renv c lo s =
     (case AuthFromLocals lo of
        None \<Rightarrow> (Inl (unauthorized ''unauthorized''), s)
      | Some a \<Rightarrow>
          let months = report_months c;
              cacheKey = csv_key (ai_UserID a) (ai_Role a) months;
              cached = (if ph_cache h \<noteq> None then Get_cache renv 0 (ph_cache h) cacheKey (snd s) else Inr None)
          in (case cached of
                Inr (Some b) \<Rightarrow> (Inr (csv_file b), s)
              | _ \<Rightarrow>
                  (case SPDMonthlyCounts (ph_text h) (re_db env 0) (ai_UserID a) (ai_Role a) months (fst s) of
                     (Inl e, d) \<Rightarrow> (Inl e, d, snd s)
                   | (Inr rows, d) \<Rightarrow>
                       let b = bytes_of (csv_body rows);
                           kv = (if ph_cache h \<noteq> None
                                 then snd (Set_cache renv 1 (ph_cache h) cacheKey b cache_ttl (snd s)) else snd s)
                       in (Inr (csv_file b), d, kv))))"

end
