(* ===== verification/ReportProps.thy ===== *)
theory ReportProps
  imports Reporting SpdProps
begin

text \<open>
  Properties of the reporting service: what a report counts, that its CSV reads back, and what the
  cache may and may not show to whom.
\<close>

subsection \<open>Grouping\<close>

lemma group_count_mem:
  "(x, n) \<in> set (group_count k rows) \<longleftrightarrow> x \<in> k ` set rows \<and> n = int (length (filter (\<lambda>r. k r = x) rows))"
  by (auto simp: group_count_def)

lemma group_count_sorted: "sorted_wrt (<) (map fst (group_count k rows))"
proof -
  have "map fst (group_count k rows) = sort (remdups (map k rows))" by (simp add: group_count_def o_def)
  then show ?thesis by (simp add: strict_sorted_iff)
qed

lemma sum_groups:
  "finite A \<Longrightarrow> k ` set rows \<subseteq> A \<Longrightarrow> (\<Sum>x\<in>A. int (length (filter (\<lambda>r. k r = x) rows))) = int (length rows)"
proof (induction rows)
  case (Cons r rows)
  have "(\<Sum>x\<in>A. int (length (filter (\<lambda>r. k r = x) (r # rows))))
      = (\<Sum>x\<in>A. (if x = k r then 1 else 0) + int (length (filter (\<lambda>r. k r = x) rows)))"
    by (rule sum.cong) auto
  also have "\<dots> = 1 + int (length rows)" using Cons by (simp add: sum.distrib)
  finally show ?case by simp
qed simp

lemma group_count_sum: "sum_list (map snd (group_count k rows)) = int (length rows)"
  using sum_groups [of "set (map k rows)" k rows]
  by (simp add: group_count_def o_def sum_list_distinct_conv_sum_set)

subsection \<open>What the statements do\<close>

abbreviation readable :: "db \<Rightarrow> int \<Rightarrow> string \<Rightarrow> spd_row list" where
  "readable d uid role \<equiv> filter (\<lambda>r. sp_deleted_at r = None \<and> spds_select_policy d uid role r) (spds d)"

lemma SPDCountsByStatus_Inr:
  assumes "SPDCountsByStatus e uid role d = (Inr xs, d')"
  shows "d' = d" and "xs = map (\<lambda>(s, n). \<lparr>sc_Status = s, sc_Count = n\<rparr>) (group_count sp_status (readable d uid role))"
proof -
  show "d' = d" using assms unfolding SPDCountsByStatus_def by (rule with_rls_reading)
  show "xs = map (\<lambda>(s, n). \<lparr>sc_Status = s, sc_Count = n\<rparr>) (group_count sp_status (readable d uid role))"
    using with_rls_exec_Inr [OF assms [unfolded SPDCountsByStatus_def]] by (auto simp: reading_def live_spds_def)
qed

lemma SPDMonthlyCounts_Inr:
  assumes "SPDMonthlyCounts text_arg e uid role months d = (Inr xs, d')"
  shows "d' = d" and "\<exists>s n. text_arg months = Some s \<and> parse_int64 s = Some n
    \<and> xs = monthly_counts (db_now e) n (readable d uid role)"
proof -
  show "d' = d" using assms unfolding SPDMonthlyCounts_def by (rule with_rls_reading)
  show "\<exists>s n. text_arg months = Some s \<and> parse_int64 s = Some n \<and> xs = monthly_counts (db_now e) n (readable d uid role)"
    using with_rls_exec_Inr [OF assms [unfolded SPDMonthlyCounts_def]]
    by (auto simp: reading_def live_spds_def split: option.splits)
qed

lemma make_report_Inr:
  assumes "make_report h env uid role months d = (Inr rp, d')"
  shows "d' = d \<and> rp_by_status rp = map (\<lambda>(s, n). \<lparr>sc_Status = s, sc_Count = n\<rparr>) (group_count sp_status (readable d uid role))
    \<and> (\<exists>t n. ph_text h months = Some t \<and> parse_int64 t = Some n
         \<and> rp_by_month rp = monthly_counts (db_now (re_db env 1)) n (readable d uid role))"
proof -
  from assms obtain xs d1 ys where x: "SPDCountsByStatus (re_db env 0) uid role d = (Inr xs, d1)"
    and y: "SPDMonthlyCounts (ph_text h) (re_db env 1) uid role months d1 = (Inr ys, d')"
    and rp: "rp = \<lparr>rp_by_status = xs, rp_by_month = ys\<rparr>"
    by (auto simp: make_report_def split: prod.splits sum.splits)
  from SPDCountsByStatus_Inr [OF x] SPDMonthlyCounts_Inr [OF y] rp show ?thesis by simp
qed

lemma SPDCountsByStatus_calm:
  "SPDCountsByStatus (calm t) uid role d =
     (Inr (map (\<lambda>(s, n). \<lparr>sc_Status = s, sc_Count = n\<rparr>) (group_count sp_status (readable d uid role))), d)"
proof -
  let ?q = "\<lambda>t. Inr (map (\<lambda>(s, n). \<lparr>sc_Status = s, sc_Count = n\<rparr>) (group_count sp_status (live_spds t)))"
  have "reading ?q (first_stmt uid role d) =
      (Inr (map (\<lambda>(s, n). \<lparr>sc_Status = s, sc_Count = n\<rparr>) (group_count sp_status (readable d uid role))), first_stmt uid role d)"
    by (simp add: reading_def live_spds_def)
  from with_rls_exec_calm [where stmt = "reading ?q", OF this] show ?thesis by (simp add: SPDCountsByStatus_def)
qed

lemma SPDMonthlyCounts_calm:
  assumes "text_arg months = Some s" and "parse_int64 s = Some n"
  shows "SPDMonthlyCounts text_arg (calm t) uid role months d = (Inr (monthly_counts t n (readable d uid role)), d)"
proof -
  let ?q = "\<lambda>x. case text_arg months of
         None \<Rightarrow> Inl (OtherErr ''unable to encode into text format for text'')
       | Some s \<Rightarrow>
           (case parse_int64 s of
              None \<Rightarrow> Inl (OtherErr ''invalid input syntax for type interval'')
            | Some n \<Rightarrow> Inr (monthly_counts (db_now (calm t)) n (live_spds x)))"
  have "reading ?q (first_stmt uid role d) = (Inr (monthly_counts t n (readable d uid role)), first_stmt uid role d)"
    using assms by (simp add: reading_def live_spds_def calm_def)
  from with_rls_exec_calm [where stmt = "reading ?q", OF this] show ?thesis by (simp add: SPDMonthlyCounts_def)
qed

text \<open>The monthly counts, as a set, in order, and in sum.\<close>

lemma monthly_counts_mem:
  "\<lparr>mc_Month = m, mc_Status = s, mc_Count = k\<rparr> \<in> set (monthly_counts now n rows) \<longleftrightarrow>
     (\<exists>r \<in> set rows. minus_months n now \<le> sp_created_at r \<and> month_start (sp_created_at r) = m \<and> sp_status r = s)
     \<and> k = int (length (filter (\<lambda>r. minus_months n now \<le> sp_created_at r \<and> month_start (sp_created_at r) = m \<and> sp_status r = s) rows))"
proof -
  have "\<lparr>mc_Month = m, mc_Status = s, mc_Count = k\<rparr> \<in> set (monthly_counts now n rows) \<longleftrightarrow>
      ((- m, s), k) \<in> set (group_count (\<lambda>r. (- month_start (sp_created_at r), sp_status r))
          (filter (\<lambda>r. minus_months n now \<le> sp_created_at r) rows))"
    unfolding monthly_counts_def by force
  then show ?thesis by (auto simp: group_count_mem conj_ac)
qed

lemma monthly_counts_sorted:
  "sorted_wrt (\<lambda>x y. mc_Month y < mc_Month x \<or> mc_Month x = mc_Month y \<and> mc_Status x < mc_Status y) (monthly_counts now n rows)"
proof -
  let ?g = "group_count (\<lambda>r. (- month_start (sp_created_at r), sp_status r)) (filter (\<lambda>r. minus_months n now \<le> sp_created_at r) rows)"
  have "sorted_wrt (\<lambda>x y. fst x < fst y) ?g" using group_count_sorted by (simp add: sorted_wrt_map)
  then show ?thesis unfolding monthly_counts_def sorted_wrt_map
    by (rule sorted_wrt_mono_rel [rotated]) (auto simp: less_prod_def')
qed

lemma monthly_counts_sum:
  "sum_list (map mc_Count (monthly_counts now n rows)) = int (length (filter (\<lambda>r. minus_months n now \<le> sp_created_at r) rows))"
proof -
  have "map mc_Count (map (\<lambda>((m, s), c). \<lparr>mc_Month = - m, mc_Status = s, mc_Count = c\<rparr>) g) = map snd g" for g
    by (auto simp: case_prod_beta)
  then show ?thesis unfolding monthly_counts_def by (simp only: group_count_sum)
qed

subsection \<open>The properties\<close>


subsection \<open>Keys\<close>

lemma FormatInt_chars: "c \<in> set (FormatInt i) \<Longrightarrow> is_digit c \<or> c = CHR ''-''"
  by (auto simp: FormatInt_def dest: fmt_nat_digits split: if_splits)

lemma FormatInt_no_colon: "CHR '':'' \<notin> set (FormatInt i)"
  using FormatInt_chars [of "CHR '':''" i] by (auto simp: is_digit_def char_ord_def)

lemma FormatInt_inj: "int64_ok i \<Longrightarrow> int64_ok j \<Longrightarrow> FormatInt i = FormatInt j \<longleftrightarrow> i = j"
  by (metis option.inject parse_int64_FormatInt)

lemma split_at_mark:
  assumes "x \<notin> set a" and "x \<notin> set b" and "a @ x # s = b @ x # t"
  shows "a = b \<and> s = t"
proof -
  have "takeWhile (\<lambda>c. c \<noteq> x) (a @ x # s) = a" "takeWhile (\<lambda>c. c \<noteq> x) (b @ x # t) = b"
    using assms(1,2) by (auto simp: takeWhile_append)
  with assms(3) show ?thesis by auto
qed

text \<open>The part of a key that names the caller and the months determines them.\<close>

lemma key_inj:
  assumes "int64_ok u" and "int64_ok u'" and "int64_ok m" and "int64_ok m'"
    and "FormatInt u @ '':role:'' @ r @ '':months:'' @ FormatInt m = FormatInt u' @ '':role:'' @ r' @ '':months:'' @ FormatInt m'"
  shows "u = u' \<and> r = r' \<and> m = m'"
proof -
  have "FormatInt u = FormatInt u' \<and> ''role:'' @ r @ '':months:'' @ FormatInt m = ''role:'' @ r' @ '':months:'' @ FormatInt m'"
    by (rule split_at_mark [of "CHR '':''"]) (use assms(5) in \<open>simp_all add: FormatInt_no_colon\<close>)
  then have u: "FormatInt u = FormatInt u'" and t: "r @ '':months:'' @ FormatInt m = r' @ '':months:'' @ FormatInt m'" by simp_all
  from arg_cong [where f = rev, OF t]
  have "rev (FormatInt m) @ CHR '':'' # rev (r @ '':months'') = rev (FormatInt m') @ CHR '':'' # rev (r' @ '':months'')" by simp
  then have "rev (FormatInt m) = rev (FormatInt m') \<and> rev (r @ '':months'') = rev (r' @ '':months'')"
    by (rule split_at_mark [rotated 2]) (simp_all add: FormatInt_no_colon)
  then show ?thesis using u assms FormatInt_inj by auto
qed

lemma summary_key_inj:
  "int64_ok u \<Longrightarrow> int64_ok u' \<Longrightarrow> int64_ok m \<Longrightarrow> int64_ok m' \<Longrightarrow>
     summary_key u r m = summary_key u' r' m' \<longleftrightarrow> u = u' \<and> r = r' \<and> m = m'"
  using key_inj [of u u' m m' r r'] by (auto simp: summary_key_def)

lemma summary_not_csv_key: "summary_key u r m \<noteq> csv_key u' r' m'"
  by (simp add: summary_key_def csv_key_def)

lemma report_months_ok: "int64_ok (report_months c)"
proof -
  have "1 \<le> report_months c \<and> report_months c \<le> 36" by (simp add: report_months_def report_param.clamp_bounds)
  then show ?thesis by (simp add: int64_ok_def)
qed

subsection \<open>The cache\<close>

lemma GetJSON_other: "x \<noteq> cache_key ca k \<Longrightarrow> snd (GetJSON um renv n (Some ca) k kv) x = kv x"
  by (auto simp: GetJSON_def Del_cache_def redis_write_def split: sum.splits option.splits cmd_outcome.splits)

lemma SetJSON_other: "x \<noteq> cache_key ca k \<Longrightarrow> snd (SetJSON mm renv n (Some ca) k v ttl kv) x = kv x"
  by (auto simp: SetJSON_def Set_cache_other split: sum.splits)

lemma GetJSON_cong:
  "kv (cache_key ca k) = kv' (cache_key ca k) \<Longrightarrow> fst (GetJSON um renv n (Some ca) k kv) = fst (GetJSON um renv n (Some ca) k kv')"
  using Get_cache_cong [of kv ca k kv'] by (simp add: GetJSON_def split: sum.split option.split)

text \<open>A summary writes its own key only, and looks at no other.\<close>

lemma Summary_writes:
  assumes "ph_cache h = Some ca" and "AuthFromLocals lo = Some a"
    and "x \<noteq> cache_key ca (summary_key (ai_UserID a) (ai_Role a) (report_months c))"
  shows "snd (snd (Summary h env renv c lo (d, kv))) x = kv x"
proof -
  let ?k = "summary_key (ai_UserID a) (ai_Role a) (report_months c)"
  obtain cached kv1 where g: "GetJSON (ph_unmarshal h) renv 0 (Some ca) ?k kv = (cached, kv1)" by fastforce
  then have "kv1 x = kv x" using GetJSON_other [OF assms(3)] by (metis snd_conv)
  then show ?thesis
    by (auto simp: Summary_def Let_def assms(1,2) g SetJSON_other [OF assms(3)] split: prod.splits sum.splits option.splits)
qed

lemma Summary_reads:
  assumes "ph_cache h = Some ca" and "AuthFromLocals lo = Some a"
    and "kv (cache_key ca (summary_key (ai_UserID a) (ai_Role a) (report_months c)))
       = kv' (cache_key ca (summary_key (ai_UserID a) (ai_Role a) (report_months c)))"
  shows "fst (Summary h env renv c lo (d, kv)) = fst (Summary h env renv c lo (d, kv'))"
proof -
  let ?k = "summary_key (ai_UserID a) (ai_Role a) (report_months c)"
  obtain cached kv1 kv2 where "GetJSON (ph_unmarshal h) renv 0 (Some ca) ?k kv = (cached, kv1)"
    and "GetJSON (ph_unmarshal h) renv 0 (Some ca) ?k kv' = (cached, kv2)"
    using GetJSON_cong [where kv = kv and kv' = kv' and ca = ca and k = ?k and um = "ph_unmarshal h" and renv = renv and n = 0]
      assms(3) by (metis prod.collapse)
  then show ?thesis
    by (auto simp: Summary_def Let_def assms(1,2) split: prod.splits sum.splits option.splits)
qed

text \<open>
  C34. The cache keeps callers apart: what a summary leaves in the cache is seen by no other caller
  and for no other number of months; the answer to anyone else, and every CSV answer, is what it
  would have been had that request never been made.
\<close>

theorem report_cache_isolation:
  assumes "ph_cache h = Some ca" and "AuthFromLocals lo1 = Some a1" and "AuthFromLocals lo2 = Some a2"
    and "int64_ok (ai_UserID a1)" and "int64_ok (ai_UserID a2)"
    and "(ai_UserID a1, ai_Role a1, report_months c1) \<noteq> (ai_UserID a2, ai_Role a2, report_months c2)"
    and "Summary h env1 renv1 c1 lo1 (d1, kv1) = (r1, d', kv2)"
  shows "fst (Summary h env2 renv2 c2 lo2 (d2, kv2)) = fst (Summary h env2 renv2 c2 lo2 (d2, kv1))
    \<and> fst (SummaryCSV h env2 renv2 c3 lo2 (d2, kv2)) = fst (SummaryCSV h env2 renv2 c3 lo2 (d2, kv1))"
proof
  let ?k1 = "summary_key (ai_UserID a1) (ai_Role a1) (report_months c1)"
  have same: "kv2 x = kv1 x" if "x \<noteq> cache_key ca ?k1" for x
    using Summary_writes [OF assms(1,2) that, of env1 renv1 d1 kv1] assms(7) by simp
  have "summary_key (ai_UserID a2) (ai_Role a2) (report_months c2) \<noteq> ?k1"
    using summary_key_inj [OF assms(5,4) report_months_ok report_months_ok] assms(6) by auto
  then show "fst (Summary h env2 renv2 c2 lo2 (d2, kv2)) = fst (Summary h env2 renv2 c2 lo2 (d2, kv1))"
    by (intro Summary_reads [OF assms(1,3)] same) simp
  let ?k3 = "csv_key (ai_UserID a2) (ai_Role a2) (report_months c3)"
  have "kv2 (cache_key ca ?k3) = kv1 (cache_key ca ?k3)"
    by (rule same) (simp add: summary_not_csv_key [symmetric])
  then have "Get_cache renv2 0 (Some ca) ?k3 kv2 = Get_cache renv2 0 (Some ca) ?k3 kv1" by (rule Get_cache_cong)
  then show "fst (SummaryCSV h env2 renv2 c3 lo2 (d2, kv2)) = fst (SummaryCSV h env2 renv2 c3 lo2 (d2, kv1))"
    by (auto simp: SummaryCSV_def Let_def assms(1,3) split: prod.splits sum.splits option.splits)
qed

text \<open>
  A cached report is at most fifteen seconds old: after a summary that was computed and stored,
  the same caller asking for the same months gets, within fifteen seconds of the store, that very
  answer whatever happened to the orders since, and from then on the cache has nothing for it.
\<close>

theorem report_cache_fresh:
  assumes "ph_cache h = Some ca" and "ca_rdb ca" and "AuthFromLocals lo = Some a" and "report_months c' = report_months c"
    and "Summary h env renv c lo (d, kv) = (Inr (JSON 200 j), d', kv')"
    and "kv (cache_key ca (summary_key (ai_UserID a) (ai_Role a) (report_months c))) = None"
    and "\<And>n. rd_out renv n = CmdOk" and "\<And>n. rd_out renv' n = CmdOk"
    and "ph_marshal h j = Inr b" and "ph_unmarshal h b = Some j"
  shows "(rd_now renv' 0 < rd_now renv 2 + 15 * 1000000000 \<longrightarrow>
        Summary h env' renv' c' lo (d2, kv') = (Inr (JSON 200 j), d2, kv'))
    \<and> (rd_now renv 2 + 15 * 1000000000 \<le> rd_now renv' 0 \<longrightarrow>
        fst (Summary h env' renv' c' lo (d2, kv')) = fst (Summary h env' renv' c' lo (d2, kv)))"
proof -
  let ?k = "summary_key (ai_UserID a) (ai_Role a) (report_months c)"
  have client: "\<not> no_client (Some ca)" using assms(2) by (simp add: no_client_def)
  have miss: "GetJSON um e n (Some ca) ?k kv = (Inr None, kv)" if "rd_out e n = CmdOk" for um :: "bytes \<Rightarrow> 'a option" and e n
    using assms(6) that client by (simp add: GetJSON_def Get_cache_def redis_get_def)
  have kv': "kv' = snd (Set_cache renv 2 (Some ca) ?k b cache_ttl kv)"
    using assms(5,9) miss [OF assms(7), of "ph_unmarshal h" 0] client
    by (auto simp: Summary_def Let_def assms(1,3) SetJSON_def split: prod.splits sum.splits)
  have "Get_cache renv' 0 (Some ca) ?k kv' = Inr (if rd_now renv' 0 < rd_now renv 2 + 15 * 1000000000 then Some b else None)"
    unfolding kv' using Get_after_Set [where k = ?k and v = b and kv = kv and ttl = cache_ttl, OF assms(2,7,8)] by (simp add: cache_ttl_def)
  then have "GetJSON (ph_unmarshal h) renv' 0 (Some ca) ?k kv'
      = (Inr (if rd_now renv' 0 < rd_now renv 2 + 15 * 1000000000 then Some j else None), kv')"
    by (simp add: GetJSON_def assms(10))
  then show ?thesis
    using miss [OF assms(8), of "ph_unmarshal h" 0]
    by (auto simp: Summary_def Let_def assms(1,3,4) split: prod.splits sum.splits)
qed

text \<open>
  The CSV report reads back: whatever the statuses are, as long as they have no line breaks, Go's
  CSV reader gets from a fresh answer exactly the header and one record for each monthly count the
  caller may see, in order.
\<close>

theorem summary_csv_reads:
  assumes "SummaryCSV h env renv c lo (d, kv) = (Inr ans, d', kv')" and "AuthFromLocals lo = Some a" and "ph_cache h = None"
    and "\<And>r. r \<in> set (spds d) \<Longrightarrow> one_line (sp_status r)"
  shows "\<exists>t n. ph_text h (report_months c) = Some t \<and> parse_int64 t = Some n
    \<and> csv_rows 3 (string_of (an_body ans)) = Inr ([''month'', ''status'', ''count''] #
        map (\<lambda>x. [format_month (mc_Month x), mc_Status x, FormatInt (mc_Count x)])
          (monthly_counts (db_now (re_db env 0)) n (readable d (ai_UserID a) (ai_Role a))))
    \<and> d' = d \<and> kv' = kv"
proof -
  from assms(1-3) obtain rows where rows: "SPDMonthlyCounts (ph_text h) (re_db env 0) (ai_UserID a) (ai_Role a) (report_months c) d
      = (Inr rows, d')" and ans: "ans = csv_file (bytes_of (csv_body rows))" "kv' = kv"
    by (auto simp: SummaryCSV_def Let_def split: prod.splits sum.splits)
  from SPDMonthlyCounts_Inr [OF rows] obtain t n where d': "d' = d" and t: "ph_text h (report_months c) = Some t" "parse_int64 t = Some n"
    and m: "rows = monthly_counts (db_now (re_db env 0)) n (readable d (ai_UserID a) (ai_Role a))" by blast
  have num: "one_line (FormatInt i)" for i
    using FormatInt_chars [of newline i] FormatInt_chars [of creturn i] by (auto simp: one_line_def is_digit_def char_ord_def)
  have "c \<in> set (format_month x) \<Longrightarrow> is_digit c \<or> c = CHR ''-''" for c x
    using FormatInt_chars by (auto simp: format_month_def pad4_def pad2_def Let_def is_digit_def char_ord_def split: prod.splits)
  from this [of newline] this [of creturn] have month: "one_line (format_month x)" for x
    by (auto simp: one_line_def is_digit_def char_ord_def)
  have status: "one_line (mc_Status x)" if "x \<in> set rows" for x
  proof -
    have e: "\<lparr>mc_Month = mc_Month x, mc_Status = mc_Status x, mc_Count = mc_Count x\<rparr> = x" by (cases x) simp
    have "\<lparr>mc_Month = mc_Month x, mc_Status = mc_Status x, mc_Count = mc_Count x\<rparr> \<in> set rows"
      unfolding e by (rule that)
    then obtain r where "r \<in> set (spds d)" "sp_status r = mc_Status x" unfolding m monthly_counts_mem by auto
    with assms(4) [of r] show ?thesis by simp
  qed
  have "csv_rows 3 (csv_write ([''month'', ''status'', ''count''] # map csv_row rows)) = Inr ([''month'', ''status'', ''count''] # map csv_row rows)"
    by (rule csv_roundtrip) (use num month status in \<open>auto simp: csv_row_def one_line_def\<close>)
  with t d' ans m show ?thesis by (simp add: csv_file_def csv_body_def csv_row_def [abs_def])
qed

text \<open>
  When the driver refuses to encode an \<open>int\<close> for the parameter that the statement casts to \<open>text\<close>,
  which is what pgx does, no report is ever made.
\<close>

lemma reports_need_text:
  assumes "ph_text h (report_months c) = None" and "ph_cache h = None" and "AuthFromLocals lo = Some a"
  shows "isl (fst (Summary h env renv c lo (d, kv))) \<and> isl (fst (SummaryCSV h env renv c lo (d, kv)))"
proof -
  have "isl (fst (SPDMonthlyCounts (ph_text h) e uid role (report_months c) d'))" for e uid role d'
  proof (cases "SPDMonthlyCounts (ph_text h) e uid role (report_months c) d'")
    case (Pair x d1)
    with SPDMonthlyCounts_Inr(2) [of "ph_text h" e uid role "report_months c" d' _ d1] assms(1) show ?thesis by (cases x) auto
  qed
  note no = this
  have "isl (fst (Summary h env renv c lo (d, kv)))"
  proof (cases "SPDCountsByStatus (re_db env 0) (ai_UserID a) (ai_Role a) d")
    case (Pair x d1)
    with no [of "re_db env 1" "ai_UserID a" "ai_Role a" d1] assms show ?thesis
      by (auto simp: Summary_def make_report_def Let_def split: sum.splits prod.splits)
  qed
  moreover have "isl (fst (SummaryCSV h env renv c lo (d, kv)))"
    using no [of "re_db env 0" "ai_UserID a" "ai_Role a" d] assms
    by (auto simp: SummaryCSV_def Let_def split: sum.splits prod.splits)
  ultimately show ?thesis ..
qed

subsection \<open>Concrete runs\<close>

definition demo_reports :: "cache option \<Rightarrow> report report_handler" where
  "demo_reports ca = \<lparr>ph_verifier = demo_verifier, ph_cache = ca, ph_text = (\<lambda>i. Some (FormatInt i)), ph_json = (\<lambda>r. r),
     ph_marshal = (\<lambda>_. Inr [1]), ph_unmarshal = (\<lambda>_. Some \<lparr>rp_by_status = [], rp_by_month = []\<rparr>)\<rparr>"

definition demo_redis :: redis_env where
  "demo_redis = redis_up (\<lambda>_. 7)"

definition demo_cache :: cache where
  "demo_cache = \<lparr>ca_rdb = True, ca_prefix = ''reporting''\<rparr>"

definition demo_other :: locals where
  "demo_other = demo_locals\<lparr>lo_user_id := Some 8\<rparr>"

lemma demo_report_runs:
  "fst (Summary (demo_reports (Some demo_cache)) (demo_env 0) demo_redis (demo_request ()) demo_locals (empty_db, \<lambda>_. None))
     = Inr (JSON 200 \<lparr>rp_by_status = [], rp_by_month = []\<rparr>)"
  "list_all (\<lambda>r. one_line (sp_status r)) (spds spd_db1)" "length (spds spd_db1) = 1"
  "report_months (demo_request ()) = 6" "parse_int64 (FormatInt 6) = Some 6"
  by code_simp+

lemma demo_other_auth:
  "AuthFromLocals demo_other = Some \<lparr>ai_UserID = 8, ai_Role = ''USER'', ai_TokenType = ''access'', ai_TokenID = ''a''\<rparr>"
  by (simp add: demo_other_def demo_locals_def AuthFromLocals_def str_or_zero_def)

text \<open>Without a cache, reports on the database with one order.\<close>

lemma demo_report_text: "ph_text (demo_reports None) 6 = Some (FormatInt 6)"
  by (simp add: demo_reports_def)

lemma demo_no_cache: "ph_cache (demo_reports None) = None"
  by (simp add: demo_reports_def)

lemma demo_report_ok:
  "\<exists>rep d' kv'. Summary (demo_reports None) (demo_env 0) demo_redis (demo_request ()) demo_locals (spd_db1, \<lambda>_. None) = (Inr rep, d', kv')"
  "\<exists>ans d' kv'. SummaryCSV (demo_reports None) (demo_env 0) demo_redis (demo_request ()) demo_locals (spd_db1, \<lambda>_. None) = (Inr ans, d', kv')"
  using SPDMonthlyCounts_calm [where text_arg = "ph_text (demo_reports None)" and months = 6, OF demo_report_text demo_report_runs(5)]
  by (simp_all add: Summary_def SummaryCSV_def demo_aad(2) Let_def make_report_def demo_report_runs(4) SPDCountsByStatus_calm demo_no_cache)


theorem summary_csv_reads_witness:
  "\<exists>ans rows. SummaryCSV (demo_reports None) (demo_env 0) demo_redis (demo_request ()) demo_locals (spd_db1, \<lambda>_. None)
     = (Inr ans, spd_db1, \<lambda>_. None) \<and> csv_rows 3 (string_of (an_body ans)) = Inr ([''month'', ''status'', ''count''] # rows)"
proof -
  obtain ans d' kv' where run: "SummaryCSV (demo_reports None) (demo_env 0) demo_redis (demo_request ()) demo_locals (spd_db1, \<lambda>_. None)
      = (Inr ans, d', kv')" using demo_report_ok(2) by blast
  have "one_line (sp_status r)" if "r \<in> set (spds spd_db1)" for r using demo_report_runs(2) that by (simp add: list_all_iff)
  from summary_csv_reads [OF run demo_aad(2) demo_no_cache this] run show ?thesis by auto
qed

theorem report_cache_isolation_witness:
  "\<exists>kv2. snd (snd (Summary (demo_reports (Some demo_cache)) (demo_env 0) demo_redis (demo_request ()) demo_locals (empty_db, \<lambda>_. None))) = kv2
     \<and> fst (Summary (demo_reports (Some demo_cache)) (demo_env 0) demo_redis (demo_request ()) demo_other (spd_db1, kv2))
       = fst (Summary (demo_reports (Some demo_cache)) (demo_env 0) demo_redis (demo_request ()) demo_other (spd_db1, \<lambda>_. None))"
proof -
  obtain r d' kv2 where run: "Summary (demo_reports (Some demo_cache)) (demo_env 0) demo_redis (demo_request ()) demo_locals (empty_db, \<lambda>_. None)
      = (r, d', kv2)" by (metis prod.collapse)
  have "ph_cache (demo_reports (Some demo_cache)) = Some demo_cache" by (simp add: demo_reports_def)
  from report_cache_isolation [OF this demo_aad(2) demo_other_auth _ _ _ run, of "demo_request ()" "demo_env 0" demo_redis spd_db1 "demo_request ()"]
    run show ?thesis by (simp add: int64_ok_def)
qed

theorem report_cache_fresh_witness:
  "\<exists>kv'. Summary (demo_reports (Some demo_cache)) (demo_env 0) demo_redis (demo_request ()) demo_locals (spd_db1, kv')
     = (Inr (JSON 200 \<lparr>rp_by_status = [], rp_by_month = []\<rparr>), spd_db1, kv')"
proof -
  obtain d' kv' where run: "Summary (demo_reports (Some demo_cache)) (demo_env 0) demo_redis (demo_request ()) demo_locals (empty_db, \<lambda>_. None)
      = (Inr (JSON 200 \<lparr>rp_by_status = [], rp_by_month = []\<rparr>), d', kv')"
    using demo_report_runs(1) by (metis prod.collapse)
  have c: "ph_cache (demo_reports (Some demo_cache)) = Some demo_cache" "ca_rdb demo_cache"
    by (simp_all add: demo_reports_def demo_cache_def)
  have up: "rd_out demo_redis n = CmdOk" "rd_now demo_redis n = 7" for n by (simp_all add: demo_redis_def redis_up_def)
  have j: "ph_marshal (demo_reports (Some demo_cache)) \<lparr>rp_by_status = [], rp_by_month = []\<rparr> = Inr [1]"
    "ph_unmarshal (demo_reports (Some demo_cache)) [1] = Some \<lparr>rp_by_status = [], rp_by_month = []\<rparr>"
    by (simp_all add: demo_reports_def)
  from report_cache_fresh [OF c demo_aad(2) refl run _ up(1) up(1) j, of "demo_env 0" spd_db1] up show ?thesis by auto
qed

end
