(* ===== verification/Config.thy ===== *)
theory Config
  imports GoStd
begin

text \<open>
  \<open>shared/config/config.go\<close>: the configuration of the services from environment variables.  The
  environment is a map (\<open>os.LookupEnv\<close>); the strings of a variable that is set count even when
  empty, and a number, a truth value or a duration that does not parse gives the default.
\<close>

type_synonym environ = "string \<Rightarrow> string option"

subsection \<open>Standard library\<close>

definition ParseBool :: "string \<Rightarrow> bool option" where
  "ParseBool s =
     (if s \<in> {''1'', ''t'', ''T'', ''TRUE'', ''true'', ''True''} then Some True
      else if s \<in> {''0'', ''f'', ''F'', ''FALSE'', ''false'', ''False''} then Some False
      else None)"

text \<open>
  \<open>time.ParseDuration\<close>.  \<open>leadingInt\<close> stops at the first digit that takes the value beyond \<open>2^63\<close>;
  the product of a fraction with its unit is computed in floating point, and is an argument
  (\<open>frac\<close>: digits of the fraction, as a number and its power of ten, and the unit).
\<close>

fun leadingInt :: "nat \<Rightarrow> string \<Rightarrow> (nat \<times> string) option" where
  "leadingInt x [] = Some (x, [])"
| "leadingInt x (c # s) =
     (if \<not> is_digit c then Some (x, c # s)
      else if x > 2 ^ 63 div 10 then None
      else if x * 10 + digit_val c > 2 ^ 63 then None
      else leadingInt (x * 10 + digit_val c) s)"

text \<open>Digits of a fraction beyond the range are dropped; the flag says that this has begun.\<close>

fun leadingFraction :: "bool \<Rightarrow> nat \<Rightarrow> nat \<Rightarrow> string \<Rightarrow> nat \<times> nat \<times> string" where
  "leadingFraction over x n [] = (x, n, [])"
| "leadingFraction over x n (c # s) =
     (if \<not> is_digit c then (x, n, c # s)
      else if over \<or> x > (2 ^ 63 - 1) div 10 \<or> x * 10 + digit_val c > 2 ^ 63 then leadingFraction True x n s
      else leadingFraction False (x * 10 + digit_val c) (Suc n) s)"

definition unit_ns :: "string \<Rightarrow> nat option" where
  "unit_ns u =
     (if u = ''ns'' then Some 1
      else if u \<in> {''us'', [CHR 0xC2, CHR 0xB5, CHR ''s''], [CHR 0xCE, CHR 0xBC, CHR ''s'']} then Some 1000
      else if u = ''ms'' then Some 1000000
      else if u = ''s'' then Some 1000000000
      else if u = ''m'' then Some 60000000000
      else if u = ''h'' then Some 3600000000000
      else None)"

definition unit_char :: "char \<Rightarrow> bool" where
  "unit_char c \<longleftrightarrow> c \<noteq> CHR ''.'' \<and> \<not> is_digit c"

text \<open>One number with its unit; what is left of the text.\<close>

definition duration_part :: "(nat \<Rightarrow> nat \<Rightarrow> nat \<Rightarrow> nat) \<Rightarrow> string \<Rightarrow> (nat \<times> string) option" where
  "duration_part frac s =
     (if s = [] \<or> unit_char (hd s) then None
      else Option.bind (leadingInt 0 s) (\<lambda>(v, s1).
        let pre = (length s1 \<noteq> length s);
            (f, n, s2, post) =
              (if s1 \<noteq> [] \<and> hd s1 = CHR ''.''
               then (case leadingFraction False 0 0 (tl s1) of (f, n, s2) \<Rightarrow> (f, n, s2, length s2 \<noteq> length (tl s1)))
               else (0, 0, s1, False));
            u = takeWhile unit_char s2
        in if \<not> pre \<and> \<not> post \<or> u = [] then None
           else Option.bind (unit_ns u) (\<lambda>unit.
             if v > 2 ^ 63 div unit then None
             else let w = v * unit + (if f > 0 then frac f n unit else 0)
                  in if w > 2 ^ 63 then None else Some (w, dropWhile unit_char s2))))"

lemma leadingInt_length: "leadingInt x s = Some (v, r) \<Longrightarrow> length r \<le> length s"
  by (induction x s rule: leadingInt.induct) (auto split: if_splits)

lemma leadingFraction_length: "leadingFraction b x n s = (f, m, r) \<Longrightarrow> length r \<le> length s"
  by (induction b x n s rule: leadingFraction.induct) (auto split: if_splits)

lemma duration_part_length: "duration_part frac s = Some (w, r) \<Longrightarrow> length r < length s"
proof -
  assume p: "duration_part frac s = Some (w, r)"
  then obtain v s1 where i: "leadingInt 0 s = Some (v, s1)"
    by (auto simp: duration_part_def split: if_splits Option.bind_splits)
  let ?fr = "leadingFraction False 0 0 (tl s1)"
  define s2 where "s2 = (if s1 \<noteq> [] \<and> hd s1 = CHR ''.'' then snd (snd ?fr) else s1)"
  have "length s2 \<le> length s1"
    using leadingFraction_length [of False 0 0 "tl s1" "fst ?fr" "fst (snd ?fr)" "snd (snd ?fr)"] by (auto simp: s2_def)
  moreover have "length s1 \<le> length s" by (rule leadingInt_length [OF i])
  moreover have "takeWhile unit_char s2 \<noteq> [] \<and> r = dropWhile unit_char s2"
    using p i by (auto simp: duration_part_def s2_def Let_def split: if_splits Option.bind_splits prod.splits)
  moreover have "length (takeWhile unit_char s2) + length (dropWhile unit_char s2) = length s2"
    by (metis length_append takeWhile_dropWhile_id)
  ultimately show ?thesis by (metis add_gr_0 add_less_cancel_right length_greater_0_conv less_le_trans order_less_le_trans not_gr_zero plus_nat.add_0)
qed

text \<open>The sum is a \<open>uint64\<close>.\<close>

function duration_sum :: "(nat \<Rightarrow> nat \<Rightarrow> nat \<Rightarrow> nat) \<Rightarrow> nat \<Rightarrow> string \<Rightarrow> nat option" where
  "duration_sum frac d s =
     (if s = [] then Some d
      else (case duration_part frac s of
              None \<Rightarrow> None
            | Some (w, r) \<Rightarrow>
                let d' = (d + w) mod 2 ^ 64
                in if d' > 2 ^ 63 then None else duration_sum frac d' r))"
  by pat_completeness auto
termination by (relation "measure (\<lambda>(frac, d, s). length s)") (auto dest: duration_part_length)

declare duration_sum.simps [simp del]

definition ParseDuration :: "(nat \<Rightarrow> nat \<Rightarrow> nat \<Rightarrow> nat) \<Rightarrow> string \<Rightarrow> duration option" where
  "ParseDuration frac s =
     (let neg = (s \<noteq> [] \<and> hd s = CHR ''-'');
          s = (if s \<noteq> [] \<and> (hd s = CHR ''-'' \<or> hd s = CHR ''+'') then tl s else s)
      in if s = ''0'' then Some 0
         else if s = [] then None
         else (case duration_sum frac 0 s of
                 None \<Rightarrow> None
               | Some d \<Rightarrow> if neg then Some (- int d) else if d > 2 ^ 63 - 1 then None else Some (int d)))"

subsection \<open>Getters\<close>

definition GetString :: "environ \<Rightarrow> string \<Rightarrow> string \<Rightarrow> string" where
  "GetString env key def = (case env key of Some v \<Rightarrow> v | None \<Rightarrow> def)"

definition MustString :: "environ \<Rightarrow> string \<Rightarrow> string res" where
  "MustString env key =
     (case env key of
        None \<Rightarrow> Inl (OtherErr (''missing required env var '' @ key))
      | Some v \<Rightarrow> if v = [] then Inl (OtherErr (''missing required env var '' @ key)) else Inr v)"

definition GetInt :: "environ \<Rightarrow> string \<Rightarrow> int \<Rightarrow> int" where
  "GetInt env key def =
     (case env key of
        Some v \<Rightarrow> (case ParseInt v of (i, None) \<Rightarrow> i | (i, Some e) \<Rightarrow> def)
      | None \<Rightarrow> def)"

definition GetInt64 :: "environ \<Rightarrow> string \<Rightarrow> int \<Rightarrow> int" where
  "GetInt64 env key def =
     (case env key of
        Some v \<Rightarrow> (case ParseInt v of (i, None) \<Rightarrow> i | (i, Some e) \<Rightarrow> def)
      | None \<Rightarrow> def)"

definition GetBool :: "environ \<Rightarrow> string \<Rightarrow> bool \<Rightarrow> bool" where
  "GetBool env key def =
     (case env key of
        Some v \<Rightarrow> (case ParseBool v of Some b \<Rightarrow> b | None \<Rightarrow> def)
      | None \<Rightarrow> def)"

definition GetDuration :: "(nat \<Rightarrow> nat \<Rightarrow> nat \<Rightarrow> nat) \<Rightarrow> environ \<Rightarrow> string \<Rightarrow> duration \<Rightarrow> duration" where
  "GetDuration frac env key def =
     (case env key of
        Some v \<Rightarrow> (case ParseDuration frac v of Some d \<Rightarrow> d | None \<Rightarrow> def)
      | None \<Rightarrow> def)"

subsection \<open>Sections\<close>

record Common =
  Env :: string
  LogLevel :: string
  ServiceName :: string
  Port :: int
  ShutdownTimeout :: duration
  RateLimitPerMin :: int
  AllowedIPRanges :: "string list"
  TrustedProxies :: "string list"
  EnableHTTPTiming :: bool

definition LoadCommon :: "(nat \<Rightarrow> nat \<Rightarrow> nat \<Rightarrow> nat) \<Rightarrow> environ \<Rightarrow> string \<Rightarrow> string \<Rightarrow> int \<Rightarrow> Common" where
  "LoadCommon frac env serviceName portEnv defaultPort =
     \<lparr>Env = GetString env ''ENV'' ''development'', LogLevel = GetString env ''LOG_LEVEL'' ''info'',
      ServiceName = serviceName, Port = GetInt env portEnv defaultPort,
      ShutdownTimeout = GetDuration frac env ''SHUTDOWN_TIMEOUT'' (15 * 1000000000),
      RateLimitPerMin = GetInt env ''RATE_LIMIT_PER_MIN'' 120,
      AllowedIPRanges = [], TrustedProxies = [], EnableHTTPTiming = False\<rparr>"

record Postgres =
  pg_Host :: string
  pg_Port :: int
  pg_DB :: string
  pg_User :: string
  pg_Password :: string
  pg_SSLMode :: string
  pg_MaxConns :: int

text \<open>The conversion \<open>int32(i)\<close>.\<close>

definition int32 :: "int \<Rightarrow> int" where
  "int32 i = sint (word_of_int i :: 32 word)"

definition LoadPostgres :: "environ \<Rightarrow> Postgres" where
  "LoadPostgres env =
     \<lparr>pg_Host = GetString env ''POSTGRES_HOST'' ''localhost'', pg_Port = GetInt env ''POSTGRES_PORT'' 5432,
      pg_DB = GetString env ''POSTGRES_DB'' ''esppd'', pg_User = GetString env ''POSTGRES_USER'' ''esppd'',
      pg_Password = GetString env ''POSTGRES_PASSWORD'' [], pg_SSLMode = GetString env ''POSTGRES_SSLMODE'' ''disable'',
      pg_MaxConns = int32 (GetInt env ''POSTGRES_MAX_CONNS'' 20)\<rparr>"

definition DSN :: "Postgres \<Rightarrow> string" where
  "DSN p = ''postgres://'' @ pg_User p @ '':'' @ pg_Password p @ ''@'' @ pg_Host p @ '':'' @ FormatInt (pg_Port p)
     @ ''/'' @ pg_DB p @ ''?sslmode='' @ pg_SSLMode p"

record Redis =
  rd_Addr :: string
  rd_Password :: string
  rd_DB :: int

definition LoadRedis :: "environ \<Rightarrow> Redis" where
  "LoadRedis env = \<lparr>rd_Addr = GetString env ''REDIS_ADDR'' ''localhost:6379'',
     rd_Password = GetString env ''REDIS_PASSWORD'' [], rd_DB = GetInt env ''REDIS_DB'' 0\<rparr>"

record NATS =
  na_URL :: string
  na_Stream :: string

definition LoadNATS :: "environ \<Rightarrow> NATS" where
  "LoadNATS env = \<lparr>na_URL = GetString env ''NATS_URL'' ''nats://localhost:4222'',
     na_Stream = GetString env ''NATS_STREAM'' ''esppd''\<rparr>"

record MinIO =
  mi_Endpoint :: string
  mi_AccessKey :: string
  mi_SecretKey :: string
  mi_Bucket :: string
  mi_UseSSL :: bool

definition LoadMinIO :: "environ \<Rightarrow> MinIO" where
  "LoadMinIO env = \<lparr>mi_Endpoint = GetString env ''MINIO_ENDPOINT'' ''localhost:9000'',
     mi_AccessKey = GetString env ''MINIO_ACCESS_KEY'' ''minioadmin'',
     mi_SecretKey = GetString env ''MINIO_SECRET_KEY'' ''minioadmin'',
     mi_Bucket = GetString env ''MINIO_BUCKET'' ''esppd-docs'', mi_UseSSL = GetBool env ''MINIO_USE_SSL'' False\<rparr>"

record JWT =
  jw_Issuer :: string
  jw_Audience :: string
  jw_AccessTTL :: duration
  jw_RefreshTTL :: duration
  jw_PrivateKey :: string
  jw_PublicKey :: string
  jw_PrivateKeyPassphrase :: string
  jw_RequiredKID :: string
  jw_EnableKeyGen :: bool

definition LoadJWT :: "(nat \<Rightarrow> nat \<Rightarrow> nat \<Rightarrow> nat) \<Rightarrow> environ \<Rightarrow> JWT" where
  "LoadJWT frac env =
     \<lparr>jw_Issuer = GetString env ''JWT_ISSUER'' ''esppd'', jw_Audience = GetString env ''JWT_AUDIENCE'' ''esppd-users'',
      jw_AccessTTL = GetDuration frac env ''JWT_ACCESS_TTL'' (15 * 60000000000),
      jw_RefreshTTL = GetDuration frac env ''JWT_REFRESH_TTL'' (7 * 24 * 3600000000000),
      jw_PrivateKey = GetString env ''JWT_PRIVATE_KEY'' ''/secrets/jwt_private.pem'',
      jw_PublicKey = GetString env ''JWT_PUBLIC_KEY'' ''/secrets/jwt_public.pem'',
      jw_PrivateKeyPassphrase = GetString env ''JWT_PRIVATE_KEY_PASSPHRASE'' [],
      jw_RequiredKID = [], jw_EnableKeyGen = False\<rparr>"

record Crypto =
  cr_DataKeyBase64 :: string

definition LoadCrypto :: "environ \<Rightarrow> Crypto" where
  "LoadCrypto env = \<lparr>cr_DataKeyBase64 = GetString env ''DATA_ENC_KEY_BASE64'' []\<rparr>"

record LDAP =
  ld_Mode :: string
  ld_URL :: string
  ld_BindDN :: string
  ld_BindPassword :: string
  ld_BaseDN :: string
  ld_UserFilter :: string
  ld_StartTLS :: bool
  ld_InsecureSkipVerify :: bool
  ld_Timeout :: duration

definition LoadLDAP :: "(nat \<Rightarrow> nat \<Rightarrow> nat \<Rightarrow> nat) \<Rightarrow> environ \<Rightarrow> LDAP" where
  "LoadLDAP frac env =
     \<lparr>ld_Mode = GetString env ''AUTH_LDAP_MODE'' ''disabled'', ld_URL = GetString env ''LDAP_URL'' [],
      ld_BindDN = GetString env ''LDAP_BIND_DN'' [], ld_BindPassword = GetString env ''LDAP_BIND_PASSWORD'' [],
      ld_BaseDN = GetString env ''LDAP_BASE_DN'' [], ld_UserFilter = GetString env ''LDAP_USER_FILTER'' ''(uid={username})'',
      ld_StartTLS = GetBool env ''LDAP_STARTTLS'' False,
      ld_InsecureSkipVerify = GetBool env ''LDAP_INSECURE_SKIP_VERIFY'' False,
      ld_Timeout = GetDuration frac env ''LDAP_TIMEOUT'' (5 * 1000000000)\<rparr>"

subsection \<open>What the getters give\<close>

lemma GetInt_given: "int64_ok i \<Longrightarrow> env key = Some (FormatInt i) \<Longrightarrow> GetInt env key def = i"
  using parse_int64_FormatInt [of i] by (cases "ParseInt (FormatInt i)" rule: parsed.cases) (auto simp: GetInt_def)

lemma leadingInt_append:
  "list_all is_digit xs \<Longrightarrow> leadingInt x xs = Some (v, []) \<Longrightarrow> leadingInt x (xs @ ys) = leadingInt v ys"
  by (induction xs arbitrary: x) (auto split: if_splits)

lemma fmt_nat_all_digits: "list_all is_digit (fmt_nat n)"
  by (simp add: list_all_iff fmt_nat_digits)

lemma leadingInt_fmt_nat: "n \<le> 2 ^ 63 \<Longrightarrow> leadingInt 0 (fmt_nat n) = Some (n, [])"
proof (induction n rule: fmt_nat.induct)
  case (1 n)
  show ?case
  proof (cases "n < 10")
    case True
    then show ?thesis by (subst fmt_nat.simps) simp
  next
    case False
    with "1" have IH: "leadingInt 0 (fmt_nat (n div 10)) = Some (n div 10, [])" by simp
    have "n div 10 \<le> 2 ^ 63 div 10" using "1.prems" by (rule div_le_mono)
    moreover have "n div 10 * 10 + n mod 10 = n" by simp
    ultimately have "leadingInt (n div 10) [digit_char (n mod 10)] = Some (n, [])" using "1.prems" by simp
    with leadingInt_append [OF fmt_nat_all_digits IH] False show ?thesis by (subst fmt_nat.simps) simp
  qed
qed

text \<open>A whole number of seconds, the way the configuration is written.\<close>

lemma ParseDuration_seconds:
  assumes "n \<le> 2 ^ 63 div 1000000000"
  shows "ParseDuration frac (fmt_nat n @ ''s'') = Some (int n * 1000000000)"
proof -
  have d: "is_digit (hd (fmt_nat n))" by (rule hd_fmt_nat)
  then have nonneg: "hd (fmt_nat n) \<noteq> CHR ''-''" "hd (fmt_nat n) \<noteq> CHR ''+''" "\<not> unit_char (hd (fmt_nat n))"
    using digit_not_sign by (auto simp: unit_char_def)
  have s: "\<not> is_digit CHR ''s''" "unit_char CHR ''s''" by (simp_all add: is_digit_def char_ord_def unit_char_def)
  have le: "n * 1000000000 \<le> 2 ^ 63"
    using assms by simp
  have "n \<le> 2 ^ 63" using assms div_le_dividend le_trans by blast
  from leadingInt_append [OF fmt_nat_all_digits leadingInt_fmt_nat [OF this], of "''s''"]
  have "leadingInt 0 (fmt_nat n @ ''s'') = Some (n, ''s'')" using s by simp
  then have part: "duration_part frac (fmt_nat n @ ''s'') = Some (n * 1000000000, [])"
    using nonneg s le assms by (simp add: duration_part_def Let_def unit_ns_def)
  have "n * 1000000000 < 2 ^ 63" using assms by simp
  moreover have "duration_sum frac (n * 1000000000) [] = Some (n * 1000000000)" by (subst duration_sum.simps) simp
  ultimately have "duration_sum frac 0 (fmt_nat n @ ''s'') = Some (n * 1000000000)"
    by (subst duration_sum.simps) (simp add: part)
  with nonneg \<open>n * 1000000000 < 2 ^ 63\<close> show ?thesis by (auto simp: ParseDuration_def Let_def Cons_eq_append_conv)
qed

text \<open>A number of connections beyond 32 bits wraps around, to no connection at all for \<open>2^32\<close>.\<close>

lemma MaxConns_wraps: "int32 (i + 2 ^ 32) = int32 i" "int32 (2 ^ 32) = 0"
proof -
  have "(word_of_int (i + 2 ^ 32) :: 32 word) = word_of_int i"
    unfolding word_of_int_eq_iff by (simp add: take_bit_eq_mod)
  then show "int32 (i + 2 ^ 32) = int32 i" by (simp only: int32_def)
  show "int32 (2 ^ 32) = 0" by code_simp
qed

lemma MaxConns_range: "- (2 ^ 31) \<le> int32 i \<and> int32 i < 2 ^ 31"
  unfolding int32_def using sint_ge [of "word_of_int i :: 32 word"] sint_lt [of "word_of_int i :: 32 word"] by simp

text \<open>
  The connection string does not escape its parts: different accounts can have the same string.
\<close>

lemma DSN_ambiguous:
  "DSN (p\<lparr>pg_User := ''a'', pg_Password := ''b:c''\<rparr>) = DSN (p\<lparr>pg_User := ''a:b'', pg_Password := ''c''\<rparr>)"
  by (simp add: DSN_def)

end
