(* ===== verification/Etl.thy ===== *)
theory Etl
  imports Csv GoTime Cryptox Db Config
begin

text \<open>
  \<open>tools/etl\<close>: the migration tool, which reads CSV exports of the legacy system and inserts their
  rows with the ids they have.  The reading of a file, the conversions of its columns, one
  step per table for a row, the transaction around a file, and \<open>main\<close>.

  A file is its content, \<open>None\<close> when it does not exist; an error of \<open>os.Open\<close> is \<open>Inl\<close>.  The text of a
  \<open>strconv\<close> error is shortened to its cause.  PostgreSQL keeps microseconds.
\<close>

subsection \<open>Columns of a row\<close>

type_synonym csvrow = "string \<Rightarrow> string option"

text \<open>A repeated column name keeps its last value.\<close>

definition record_row :: "string list \<Rightarrow> string list \<Rightarrow> csvrow" where
  "record_row header rec = map_of (rev (zip header (map TrimSpace rec)))"

definition readCSV :: "string option res \<Rightarrow> csvrow list res" where
  "readCSV f =
     (case f of
        Inl x \<Rightarrow> Inl x
      | Inr None \<Rightarrow> Inr []
      | Inr (Some text) \<Rightarrow>
          (case csv_next text of
             None \<Rightarrow> Inr []
           | Some (Inl x, _) \<Rightarrow> Inl x
           | Some (Inr header, rest) \<Rightarrow>
               (case csv_rows (length header) rest of
                  Inl x \<Rightarrow> Inl x
                | Inr recs \<Rightarrow> Inr (map (record_row (map (\<lambda>h. ToLower (TrimSpace h)) header)) recs))))"

definition str :: "csvrow \<Rightarrow> string \<Rightarrow> string" where
  "str row key = (case row (ToLower key) of None \<Rightarrow> [] | Some v \<Rightarrow> v)"

fun num_error_text :: "num_error \<Rightarrow> string" where
  "num_error_text ErrSyntax = ''invalid syntax''"
| "num_error_text ErrRange = ''value out of range''"

definition int64Ptr :: "csvrow \<Rightarrow> string \<Rightarrow> int option res" where
  "int64Ptr row key =
     (let v = str row key in
      if v = [] then Inr None
      else case ParseInt v of
             (i, Some x) \<Rightarrow> Inl (OtherErr (key @ '': '' @ num_error_text x))
           | (i, None) \<Rightarrow> Inr (Some i))"

definition int64Val :: "csvrow \<Rightarrow> string \<Rightarrow> int res" where
  "int64Val row key =
     (let v = str row key in
      if v = [] then Inl (OtherErr (key @ '': required''))
      else case ParseInt v of
             (i, Some x) \<Rightarrow> Inl (OtherErr (num_error_text x))
           | (i, None) \<Rightarrow> Inr i)"

definition boolVal :: "csvrow \<Rightarrow> string \<Rightarrow> bool \<Rightarrow> bool" where
  "boolVal row key def =
     (let v = ToLower (str row key) in
      if v = [] then def
      else if v \<in> {''1'', ''t'', ''true'', ''y'', ''yes''} then True
      else if v \<in> {''0'', ''f'', ''false'', ''n'', ''no''} then False
      else def)"

text \<open>
  The layouts without a zone are read in UTC; like \<open>RFC3339\<close> they accept a fraction of a second
  whether the layout has one or not, so that the first two and the next two of the five are one.
\<close>

definition parse_day :: "string \<Rightarrow> (int \<times> string) option" where
  "parse_day s =
     Option.bind (take_num 4 s) (\<lambda>(y, s). Option.bind (take_char (CHR ''-'') s) (\<lambda>s.
     Option.bind (take_num 2 s) (\<lambda>(m, s). Option.bind (take_char (CHR ''-'') s) (\<lambda>s.
     Option.bind (take_num 2 s) (\<lambda>(d, s).
       if 1 \<le> m \<and> m \<le> 12 \<and> 1 \<le> d \<and> d \<le> days_in y m then Some (days_from_civil y m d, s) else None)))))"

definition parse_blank :: "string \<Rightarrow> gotime option" where
  "parse_blank s =
     Option.bind (parse_day s) (\<lambda>(days, s). Option.bind (take_char (CHR '' '') s) (\<lambda>s.
     Option.bind (take_hour s) (\<lambda>(hh, s). Option.bind (take_char (CHR '':'') s) (\<lambda>s.
     Option.bind (take_num 2 s) (\<lambda>(mm, s). Option.bind (take_char (CHR '':'') s) (\<lambda>s.
     Option.bind (take_num 2 s) (\<lambda>(ss, s).
     let (ns, s) = take_fraction s in
       if s = [] \<and> hh < 24 \<and> mm < 60 \<and> ss < 60
       then Some ((days * 86400 + hh * 3600 + mm * 60 + ss) * 1000000000 + ns) else None)))))))"

definition parse_date :: "string \<Rightarrow> gotime option" where
  "parse_date s =
     Option.bind (parse_day s) (\<lambda>(days, s). if s = [] then Some (days * 86400 * 1000000000) else None)"

fun first_some :: "('a \<Rightarrow> 'b option) list \<Rightarrow> 'a \<Rightarrow> 'b option" where
  "first_some [] x = None"
| "first_some (f # fs) x = (case f x of None \<Rightarrow> first_some fs x | Some y \<Rightarrow> Some y)"

definition parseTime :: "string \<Rightarrow> gotime res" where
  "parseTime s0 =
     (let s = TrimSpace s0 in
      if s = [] then Inl (OtherErr ''empty'')
      else case first_some [ParseRFC3339, ParseRFC3339, parse_blank, parse_blank, parse_date] s of
             Some t \<Rightarrow> Inr t
           | None \<Rightarrow> Inl (OtherErr ''unrecognized time format''))"

definition timePtr :: "csvrow \<Rightarrow> string \<Rightarrow> gotime option res" where
  "timePtr row key =
     (let v = str row key in
      if v = [] then Inr None
      else case parseTime v of
             Inl (OtherErr m) \<Rightarrow> Inl (OtherErr (key @ '': '' @ m))
           | Inl x \<Rightarrow> Inl x
           | Inr t \<Rightarrow> Inr (Some t))"

definition to_micros :: "gotime \<Rightarrow> gotime" where
  "to_micros t = t div 1000 * 1000"

text \<open>\<open>COALESCE($n, NOW())\<close>\<close>

definition or_now :: "dbenv \<Rightarrow> gotime option \<Rightarrow> gotime" where
  "or_now e t = (case t of None \<Rightarrow> db_now e | Some t \<Rightarrow> to_micros t)"

text \<open>\<open>v, err := ...; if err != nil { return err }\<close>\<close>

definition or_return :: "'a res \<Rightarrow> ('a \<Rightarrow> 'b res) \<Rightarrow> 'b res" where
  "or_return r k = (case r of Inl x \<Rightarrow> Inl x | Inr v \<Rightarrow> k v)"

lemma or_return_Inr: "or_return r k = Inr v \<longleftrightarrow> (\<exists>u. r = Inr u \<and> k u = Inr v)"
  by (cases r) (simp_all add: or_return_def)

lemma or_return_simps [simp]: "or_return (Inl x) k = Inl x" "or_return (Inr v) k = k v"
  by (simp_all add: or_return_def)

subsection \<open>INSERT ... ON CONFLICT (id) DO NOTHING\<close>

text \<open>
  The statement, for a table given by its reader, its writer and its key: lengths and \<open>CHECK\<close>
  constraints first, then row security; a row whose key is taken is skipped; then the other unique
  keys and the foreign keys.
\<close>

definition insert_nothing ::
  "(db \<Rightarrow> 'r list) \<Rightarrow> ('r list \<Rightarrow> db \<Rightarrow> db) \<Rightarrow> ('r \<Rightarrow> 'k) \<Rightarrow> ('r \<Rightarrow> string option) \<Rightarrow>
     (db \<Rightarrow> int \<Rightarrow> string \<Rightarrow> 'r \<Rightarrow> bool) \<Rightarrow> (db \<Rightarrow> 'r \<Rightarrow> string option) \<Rightarrow> 'r \<Rightarrow> tx \<Rightarrow> unit res \<times> tx" where
  "insert_nothing get put key chk policy refused r t =
     (let d = tx_db t in
      case chk r of
        Some m \<Rightarrow> (Inl (OtherErr m), t)
      | None \<Rightarrow>
          if \<not> policy d (tx_uid t) (tx_role t) r
          then (Inl (OtherErr ''new row violates row-level security policy''), t)
          else if key r \<in> key ` set (get d) then (Inr (), t)
          else case refused d r of
                 Some m \<Rightarrow> (Inl (OtherErr m), t)
               | None \<Rightarrow> (Inr (), t\<lparr>tx_db := put (get d @ [r]) d\<rparr>))"

abbreviation no_check :: "'r \<Rightarrow> string option" where
  "no_check r \<equiv> None"

abbreviation no_policy :: "db \<Rightarrow> int \<Rightarrow> string \<Rightarrow> 'r \<Rightarrow> bool" where
  "no_policy d uid role r \<equiv> True"

abbreviation unique_violation :: string where
  "unique_violation \<equiv> ''duplicate key value violates unique constraint''"

abbreviation foreign_violation :: string where
  "foreign_violation \<equiv> ''insert violates foreign key constraint''"

text \<open>A foreign key that may be \<open>NULL\<close>.\<close>

definition refers :: "int option \<Rightarrow> int list \<Rightarrow> bool" where
  "refers k ids \<longleftrightarrow> (case k of None \<Rightarrow> True | Some i \<Rightarrow> i \<in> set ids)"

definition unit_violates :: "db \<Rightarrow> unit_row \<Rightarrow> string option" where
  "unit_violates d r = (if un_code r \<in> un_code ` set (units d) then Some unique_violation else None)"

definition employee_violates :: "db \<Rightarrow> employee_row \<Rightarrow> string option" where
  "employee_violates d r =
     (if em_nip r \<in> em_nip ` set (employees d) then Some unique_violation
      else if \<not> refers (em_unit_id r) (map un_id (units d)) then Some foreign_violation else None)"

definition user_violates :: "db \<Rightarrow> user_row \<Rightarrow> string option" where
  "user_violates d r =
     (if us_username r \<in> us_username ` set (users d) then Some unique_violation
      else if \<not> refers (us_employee_id r) (map em_id (employees d)) then Some foreign_violation else None)"

definition user_unit_violates :: "db \<Rightarrow> user_unit_row \<Rightarrow> string option" where
  "user_unit_violates d r =
     (if uu_user_id r \<notin> us_id ` set (users d) \<or> uu_unit_id r \<notin> un_id ` set (units d)
      then Some foreign_violation else None)"

definition budget_violates :: "db \<Rightarrow> budget_row \<Rightarrow> string option" where
  "budget_violates d r =
     (if bg_unit_id r \<notin> un_id ` set (units d) \<or> bg_created_by r \<notin> us_id ` set (users d)
      then Some foreign_violation else None)"

definition spd_check :: "spd_row \<Rightarrow> string option" where
  "spd_check r =
     (if length (sp_nomor_surat r) > 50 then Some ''value too long for type character varying(50)''
      else if length (sp_status r) > 20 then Some ''value too long for type character varying(20)''
      else if sp_status r \<notin> {''DRAFT'', ''SUBMITTED'', ''APPROVED'', ''REJECTED'', ''CANCELLED''}
      then Some ''new row violates check constraint spds_valid_status'' else None)"

definition spd_violates :: "db \<Rightarrow> spd_row \<Rightarrow> string option" where
  "spd_violates d r =
     (if sp_nomor_surat r \<in> sp_nomor_surat ` set (spds d) then Some unique_violation
      else if \<not> refers (sp_employee_id r) (map em_id (employees d)) \<or> sp_unit_id r \<notin> un_id ` set (units d)
        \<or> \<not> refers (sp_budget_id r) (map bg_id (budgets d)) \<or> sp_created_by r \<notin> us_id ` set (users d)
      then Some foreign_violation else None)"

text \<open>\<open>step\<close> is an \<open>INT\<close>: the driver refuses a Go int beyond 32 bits.\<close>

definition approval_check :: "approval_row \<Rightarrow> string option" where
  "approval_check r =
     (if ap_step r < - (2 ^ 31) \<or> 2 ^ 31 \<le> ap_step r then Some ''out of range for int4''
      else if length (ap_status r) > 20 then Some ''value too long for type character varying(20)''
      else if ap_status r \<notin> {''PENDING'', ''APPROVED'', ''REJECTED''}
      then Some ''new row violates check constraint approvals_valid_status'' else None)"

definition approval_violates :: "db \<Rightarrow> approval_row \<Rightarrow> string option" where
  "approval_violates d r =
     (if ap_spd_id r \<notin> sp_id ` set (spds d) \<or> \<not> refers (ap_approver_id r) (map us_id (users d))
        \<or> \<not> refers (ap_decided_by r) (map us_id (users d))
      then Some foreign_violation else None)"

definition document_check :: "document_row \<Rightarrow> string option" where
  "document_check r =
     (if length (dc_format r) > 10 then Some ''value too long for type character varying(10)'' else None)"

definition document_violates :: "db \<Rightarrow> document_row \<Rightarrow> string option" where
  "document_violates d r =
     (if dc_spd_id r \<notin> sp_id ` set (spds d) \<or> dc_requested_by r \<notin> us_id ` set (users d)
      then Some foreign_violation else None)"

definition notification_violates :: "db \<Rightarrow> notification_row \<Rightarrow> string option" where
  "notification_violates d r =
     (if \<not> refers (nt_requested_by r) (map us_id (users d)) then Some foreign_violation else None)"

subsection \<open>A file\<close>

text \<open>The loop over the rows of a file; the number of the row picks its random bytes.\<close>

fun each_row :: "(nat \<Rightarrow> csvrow \<Rightarrow> tx \<Rightarrow> unit res \<times> tx) \<Rightarrow> nat \<Rightarrow> csvrow list \<Rightarrow> tx \<Rightarrow> unit res \<times> tx" where
  "each_row step n [] t = (Inr (), t)"
| "each_row step n (row # rows) t =
     (case step n row t of
        (Inl x, t) \<Rightarrow> (Inl x, t)
      | (Inr _, t) \<Rightarrow> each_row step (Suc n) rows t)"

definition migrate ::
  "dbenv \<Rightarrow> (nat \<Rightarrow> csvrow \<Rightarrow> tx \<Rightarrow> unit res \<times> tx) \<Rightarrow> string option res \<Rightarrow> bool \<Rightarrow> db \<Rightarrow> unit res \<times> db" where
  "migrate e step file dry d =
     (case readCSV file of
        Inl x \<Rightarrow> (Inl x, d)
      | Inr rows \<Rightarrow> if rows = [] \<or> dry then (Inr (), d) else WithTx e (each_row step 0 rows) d)"

text \<open>A row whose columns convert is inserted.\<close>

definition exec_row :: "dbenv \<Rightarrow> 'r res \<Rightarrow> ('r \<Rightarrow> tx \<Rightarrow> unit res \<times> tx) \<Rightarrow> tx \<Rightarrow> unit res \<times> tx" where
  "exec_row e row ins t =
     (case row of Inl x \<Rightarrow> (Inl x, t) | Inr r \<Rightarrow> tx_exec e (ins r) t)"

text \<open>
  Budgets and orders: after the keys, the settings of the creator as a super administrator, then the
  encrypted columns and the times.
\<close>

definition exec_row_as ::
  "dbenv \<Rightarrow> 'k res \<Rightarrow> ('k \<Rightarrow> int) \<Rightarrow> ('k \<Rightarrow> 'r res) \<Rightarrow> ('r \<Rightarrow> tx \<Rightarrow> unit res \<times> tx) \<Rightarrow> tx \<Rightarrow> unit res \<times> tx" where
  "exec_row_as e keys creator row ins t =
     (case keys of
        Inl x \<Rightarrow> (Inl x, t)
      | Inr k \<Rightarrow>
          (case SetRLSContext e (creator k) ''SUPER_ADMIN'' t of
             (Inl x, t) \<Rightarrow> (Inl x, t)
           | (Inr _, t) \<Rightarrow> exec_row e (row k) ins t))"

text \<open>An empty column is stored as \<open>NULL\<close>, any other encrypted.\<close>

definition encrypt_column :: "aead \<Rightarrow> (nat \<Rightarrow> bytes res) \<Rightarrow> string \<Rightarrow> string \<Rightarrow> bytes option res" where
  "encrypt_column a rand v aad =
     (if v = [] then Inr None
      else case EncryptString a rand v (bytes_of aad) of Inl x \<Rightarrow> Inl x | Inr c \<Rightarrow> Inr (Some c))"

definition or_default :: "string \<Rightarrow> string \<Rightarrow> string" where
  "or_default v def = (if v = [] then def else v)"

subsection \<open>The tables\<close>

definition unit_of_row :: "dbenv \<Rightarrow> csvrow \<Rightarrow> unit_row res" where
  "unit_of_row e row =
     or_return (int64Val row ''id'') (\<lambda>i.
     or_return (timePtr row ''created_at'') (\<lambda>cr.
     or_return (timePtr row ''updated_at'') (\<lambda>up.
     or_return (timePtr row ''deleted_at'') (\<lambda>del.
     Inr \<lparr>un_id = i, un_code = str row ''code'', un_name = str row ''name'', un_created_at = or_now e cr,
       un_updated_at = or_now e up, un_deleted_at = map_option to_micros del\<rparr>))))"

definition migrateUnits :: "dbenv \<Rightarrow> string option res \<Rightarrow> bool \<Rightarrow> db \<Rightarrow> unit res \<times> db" where
  "migrateUnits e = migrate e (\<lambda>_ row. exec_row e (unit_of_row e row)
     (insert_nothing units (\<lambda>rs d. d\<lparr>units := rs\<rparr>) un_id no_check no_policy unit_violates))"

definition employee_of_row :: "dbenv \<Rightarrow> csvrow \<Rightarrow> employee_row res" where
  "employee_of_row e row =
     or_return (int64Val row ''id'') (\<lambda>i.
     or_return (int64Ptr row ''unit_id'') (\<lambda>un.
     or_return (timePtr row ''created_at'') (\<lambda>cr.
     or_return (timePtr row ''updated_at'') (\<lambda>up.
     or_return (timePtr row ''deleted_at'') (\<lambda>del.
     Inr \<lparr>em_id = i, em_nip = str row ''nip'', em_name = str row ''name'', em_unit_id = un, em_created_at = or_now e cr,
       em_updated_at = or_now e up, em_deleted_at = map_option to_micros del\<rparr>)))))"

definition migrateEmployees :: "dbenv \<Rightarrow> string option res \<Rightarrow> bool \<Rightarrow> db \<Rightarrow> unit res \<times> db" where
  "migrateEmployees e = migrate e (\<lambda>_ row. exec_row e (employee_of_row e row)
     (insert_nothing employees (\<lambda>rs d. d\<lparr>employees := rs\<rparr>) em_id no_check no_policy employee_violates))"

definition user_of_row :: "dbenv \<Rightarrow> csvrow \<Rightarrow> user_row res" where
  "user_of_row e row =
     or_return (int64Val row ''id'') (\<lambda>i.
     or_return (int64Ptr row ''employee_id'') (\<lambda>em.
     or_return (timePtr row ''last_login_at'') (\<lambda>lg.
     or_return (timePtr row ''created_at'') (\<lambda>cr.
     or_return (timePtr row ''updated_at'') (\<lambda>up.
     or_return (timePtr row ''deleted_at'') (\<lambda>del.
     (let pw = str row ''password_hash'' in
      if pw = [] then Inl (OtherErr (''users.id='' @ FormatInt i @ '': password_hash required''))
      else Inr \<lparr>us_id = i, us_username = str row ''username'', us_password_hash = pw, us_role = str row ''role'',
        us_employee_id = em, us_is_active = boolVal row ''is_active'' True,
        us_mfa_enabled = boolVal row ''mfa_enabled'' False, us_mfa_secret_enc = None,
        us_mfa_enrolled_at = None, us_last_login_at = map_option to_micros lg, us_created_at = or_now e cr,
        us_updated_at = or_now e up, us_deleted_at = map_option to_micros del\<rparr>)))))))"

definition migrateUsers :: "dbenv \<Rightarrow> string option res \<Rightarrow> bool \<Rightarrow> db \<Rightarrow> unit res \<times> db" where
  "migrateUsers e = migrate e (\<lambda>_ row. exec_row e (user_of_row e row)
     (insert_nothing users (\<lambda>rs d. d\<lparr>users := rs\<rparr>) us_id no_check no_policy user_violates))"

definition user_unit_of_row :: "dbenv \<Rightarrow> csvrow \<Rightarrow> user_unit_row res" where
  "user_unit_of_row e row =
     or_return (int64Val row ''user_id'') (\<lambda>u.
     or_return (int64Val row ''unit_id'') (\<lambda>un.
     or_return (timePtr row ''created_at'') (\<lambda>cr.
     Inr \<lparr>uu_user_id = u, uu_unit_id = un, uu_created_at = or_now e cr\<rparr>)))"

definition migrateUserUnits :: "dbenv \<Rightarrow> string option res \<Rightarrow> bool \<Rightarrow> db \<Rightarrow> unit res \<times> db" where
  "migrateUserUnits e = migrate e (\<lambda>_ row. exec_row e (user_unit_of_row e row)
     (insert_nothing user_units (\<lambda>rs d. d\<lparr>user_units := rs\<rparr>) (\<lambda>r. (uu_user_id r, uu_unit_id r))
        no_check no_policy user_unit_violates))"

definition budget_keys :: "csvrow \<Rightarrow> (int \<times> int \<times> int) res" where
  "budget_keys row =
     or_return (int64Val row ''id'') (\<lambda>i.
     or_return (int64Val row ''unit_id'') (\<lambda>un.
     or_return (int64Val row ''created_by'') (\<lambda>by.
     Inr (i, un, by))))"

definition budget_of_row ::
  "dbenv \<Rightarrow> aead \<Rightarrow> (nat \<Rightarrow> nat \<Rightarrow> bytes res) \<Rightarrow> csvrow \<Rightarrow> int \<times> int \<times> int \<Rightarrow> budget_row res" where
  "budget_of_row e a rnd row = (\<lambda>(i, un, by).
     or_return (encrypt_column a (rnd 0) (str row ''amount'') ''budgets:amount'') (\<lambda>amountEnc.
     or_return (encrypt_column a (rnd 1) (str row ''source'') ''budgets:source'') (\<lambda>sourceEnc.
     or_return (timePtr row ''created_at'') (\<lambda>cr.
     or_return (timePtr row ''updated_at'') (\<lambda>up.
     or_return (timePtr row ''deleted_at'') (\<lambda>del.
     Inr \<lparr>bg_id = i, bg_unit_id = un, bg_amount_enc = amountEnc, bg_source_enc = sourceEnc,
       bg_description = str row ''description'', bg_created_by = by, bg_created_at = or_now e cr,
       bg_updated_at = or_now e up, bg_deleted_at = map_option to_micros del\<rparr>))))))"

definition migrateBudgets ::
  "dbenv \<Rightarrow> aead \<Rightarrow> (nat \<Rightarrow> nat \<Rightarrow> nat \<Rightarrow> bytes res) \<Rightarrow> string option res \<Rightarrow> bool \<Rightarrow> db \<Rightarrow> unit res \<times> db" where
  "migrateBudgets e a rnd = migrate e (\<lambda>n row.
     exec_row_as e (budget_keys row) (\<lambda>(i, un, by). by) (budget_of_row e a (rnd n) row)
     (insert_nothing budgets (\<lambda>rs d. d\<lparr>budgets := rs\<rparr>) bg_id no_check budgets_insert_policy budget_violates))"

type_synonym spd_keys = "int \<times> int \<times> int option \<times> int option \<times> int option \<times> int"

definition spd_keys_of :: "csvrow \<Rightarrow> spd_keys res" where
  "spd_keys_of row =
     or_return (int64Val row ''id'') (\<lambda>i.
     or_return (int64Val row ''unit_id'') (\<lambda>un.
     or_return (int64Ptr row ''employee_id'') (\<lambda>em.
     or_return (int64Ptr row ''budget_id'') (\<lambda>bg.
     or_return (int64Ptr row ''current_approver_id'') (\<lambda>ca.
     or_return (int64Val row ''created_by'') (\<lambda>by.
     Inr (i, un, em, bg, ca, by)))))))"

definition spd_of_row ::
  "dbenv \<Rightarrow> aead \<Rightarrow> (nat \<Rightarrow> nat \<Rightarrow> bytes res) \<Rightarrow> csvrow \<Rightarrow> spd_keys \<Rightarrow> spd_row res" where
  "spd_of_row e a rnd row = (\<lambda>(i, un, em, bg, ca, by).
     or_return (encrypt_column a (rnd 0) (str row ''purpose'') ''spds:purpose'') (\<lambda>purposeEnc.
     or_return (encrypt_column a (rnd 1) (str row ''total_cost'') ''spds:total_cost'') (\<lambda>totalEnc.
     or_return (timePtr row ''created_at'') (\<lambda>cr.
     or_return (timePtr row ''updated_at'') (\<lambda>up.
     or_return (timePtr row ''deleted_at'') (\<lambda>del.
     Inr \<lparr>sp_id = i, sp_nomor_surat = str row ''nomor_surat'', sp_employee_id = em, sp_unit_id = un,
       sp_budget_id = bg, sp_purpose_enc = purposeEnc, sp_total_cost_enc = totalEnc,
       sp_status = or_default (str row ''status'') ''DRAFT'', sp_current_approver_id = ca, sp_created_by = by,
       sp_created_at = or_now e cr, sp_updated_at = or_now e up, sp_deleted_at = map_option to_micros del\<rparr>))))))"

definition migrateSPDs ::
  "dbenv \<Rightarrow> aead \<Rightarrow> (nat \<Rightarrow> nat \<Rightarrow> nat \<Rightarrow> bytes res) \<Rightarrow> string option res \<Rightarrow> bool \<Rightarrow> db \<Rightarrow> unit res \<times> db" where
  "migrateSPDs e a rnd = migrate e (\<lambda>n row.
     exec_row_as e (spd_keys_of row) (\<lambda>(i, un, em, bg, ca, by). by) (spd_of_row e a (rnd n) row)
     (insert_nothing spds (\<lambda>rs d. d\<lparr>spds := rs\<rparr>) sp_id spd_check spds_insert_policy spd_violates))"

text \<open>The error of the step is dropped and the value \<open>Atoi\<close> gives with it kept; it is never \<open>NULL\<close>.\<close>

definition approval_of_row :: "dbenv \<Rightarrow> csvrow \<Rightarrow> approval_row res" where
  "approval_of_row e row =
     or_return (int64Val row ''id'') (\<lambda>i.
     or_return (int64Val row ''spd_id'') (\<lambda>sp.
     or_return (int64Ptr row ''approver_id'') (\<lambda>ap.
     or_return (int64Ptr row ''decided_by'') (\<lambda>db.
     or_return (timePtr row ''decided_at'') (\<lambda>da.
     or_return (timePtr row ''created_at'') (\<lambda>cr.
     or_return (timePtr row ''updated_at'') (\<lambda>up.
     Inr \<lparr>ap_id = i, ap_spd_id = sp, ap_step = fst (ParseInt (str row ''step'')), ap_approver_id = ap,
       ap_status = or_default (str row ''status'') ''PENDING'', ap_comment = Some (str row ''comment''),
       ap_decided_by = db, ap_decided_at = map_option to_micros da, ap_created_at = or_now e cr,
       ap_updated_at = or_now e up\<rparr>)))))))"

definition migrateApprovals :: "dbenv \<Rightarrow> string option res \<Rightarrow> bool \<Rightarrow> db \<Rightarrow> unit res \<times> db" where
  "migrateApprovals e = migrate e (\<lambda>_ row. exec_row e (approval_of_row e row)
     (insert_nothing approvals (\<lambda>rs d. d\<lparr>approvals := rs\<rparr>) ap_id approval_check no_policy approval_violates))"

definition document_of_row :: "dbenv \<Rightarrow> csvrow \<Rightarrow> document_row res" where
  "document_of_row e row =
     or_return (int64Val row ''id'') (\<lambda>i.
     or_return (int64Val row ''spd_id'') (\<lambda>sp.
     or_return (int64Val row ''requested_by'') (\<lambda>rb.
     or_return (timePtr row ''created_at'') (\<lambda>cr.
     Inr \<lparr>dc_id = i, dc_spd_id = sp, dc_format = str row ''format'', dc_object_key = str row ''object_key'',
       dc_requested_by = rb, dc_created_at = or_now e cr\<rparr>))))"

definition migrateDocuments :: "dbenv \<Rightarrow> string option res \<Rightarrow> bool \<Rightarrow> db \<Rightarrow> unit res \<times> db" where
  "migrateDocuments e = migrate e (\<lambda>_ row. exec_row e (document_of_row e row)
     (insert_nothing documents (\<lambda>rs d. d\<lparr>documents := rs\<rparr>) dc_id document_check no_policy document_violates))"

definition notification_of_row :: "dbenv \<Rightarrow> csvrow \<Rightarrow> notification_row res" where
  "notification_of_row e row =
     or_return (int64Val row ''id'') (\<lambda>i.
     or_return (int64Ptr row ''requested_by'') (\<lambda>rb.
     or_return (timePtr row ''created_at'') (\<lambda>cr.
     or_return (timePtr row ''sent_at'') (\<lambda>sn.
     or_return (timePtr row ''deleted_at'') (\<lambda>del.
     Inr \<lparr>nt_id = i, nt_channel = str row ''channel'', nt_recipient = str row ''recipient'', nt_subject = str row ''subject'',
       nt_body = str row ''body'', nt_status = or_default (str row ''status'') ''QUEUED'', nt_requested_by = rb,
       nt_created_at = or_now e cr, nt_sent_at = map_option to_micros sn, nt_deleted_at = map_option to_micros del\<rparr>)))))"

definition migrateNotifications :: "dbenv \<Rightarrow> string option res \<Rightarrow> bool \<Rightarrow> db \<Rightarrow> unit res \<times> db" where
  "migrateNotifications e = migrate e (\<lambda>_ row. exec_row e (notification_of_row e row)
     (insert_nothing notifications (\<lambda>rs d. d\<lparr>notifications := rs\<rparr>) nt_id no_check no_policy notification_violates))"

subsection \<open>Sequences and main\<close>

text \<open>
  \<open>setval(seq, COALESCE(MAX(id), 1), true)\<close>, outside any transaction: the ids are those a session
  without settings may read.  A sequence takes no value below 1.
\<close>

definition visible_ids :: "string \<Rightarrow> tx \<Rightarrow> int list" where
  "visible_ids tab t =
     (let d = tx_db t in
      if tab = ''units'' then map un_id (units d)
      else if tab = ''employees'' then map em_id (employees d)
      else if tab = ''users'' then map us_id (users d)
      else if tab = ''budgets'' then map bg_id (filter (budgets_select_policy d (tx_uid t) (tx_role t)) (budgets d))
      else if tab = ''spds'' then map sp_id (filter (spds_select_policy d (tx_uid t) (tx_role t)) (spds d))
      else if tab = ''approvals'' then map ap_id (approvals d)
      else if tab = ''documents'' then map dc_id (documents d)
      else if tab = ''notifications'' then map nt_id (notifications d)
      else [])"

definition max_id :: "int list \<Rightarrow> int" where
  "max_id ids = (case ids of [] \<Rightarrow> 1 | i # is \<Rightarrow> fold max is i)"

definition bump_stmt :: "string \<Rightarrow> tx \<Rightarrow> unit res \<times> tx" where
  "bump_stmt tab t =
     (let v = max_id (visible_ids tab t) in
      if v < 1 then (Inl (OtherErr ''setval: value is out of bounds''), t)
      else (Inr (), t\<lparr>tx_db := (tx_db t)\<lparr>seqs := (seqs (tx_db t))(tab := v)\<rparr>\<rparr>))"

definition bump_tables :: "string list" where
  "bump_tables = [''units'', ''employees'', ''users'', ''budgets'', ''spds'', ''approvals'', ''documents'', ''notifications'']"

fun bump_each :: "(string \<Rightarrow> dbenv) \<Rightarrow> string list \<Rightarrow> db \<Rightarrow> unit res \<times> db" where
  "bump_each es [] d = (Inr (), d)"
| "bump_each es (tab # tabs) d =
     (case autocommit (es tab) (bump_stmt tab) d of
        (Inl x, d) \<Rightarrow> (Inl x, d)
      | (Inr _, d) \<Rightarrow> bump_each es tabs d)"

definition bumpSequences :: "(string \<Rightarrow> dbenv) \<Rightarrow> db \<Rightarrow> unit res \<times> db" where
  "bumpSequences es = bump_each es bump_tables"

text \<open>\<open>must(...); must(...)\<close>: the first error ends the program.\<close>

fun must_all :: "(db \<Rightarrow> unit res \<times> db) list \<Rightarrow> db \<Rightarrow> unit res \<times> db" where
  "must_all [] d = (Inr (), d)"
| "must_all (f # fs) d =
     (case f d of
        (Inl x, d) \<Rightarrow> (Inl x, d)
      | (Inr _, d) \<Rightarrow> must_all fs d)"

text \<open>
  The environment of the transaction of each file, of each sequence, the random bytes of the two
  files with encrypted columns, and the files by their names.
\<close>

record etl_env =
  ev_file :: "string \<Rightarrow> string option res"
  ev_tx :: "string \<Rightarrow> dbenv"
  ev_seq :: "string \<Rightarrow> dbenv"
  ev_rand :: "string \<Rightarrow> nat \<Rightarrow> nat \<Rightarrow> nat \<Rightarrow> bytes res"

definition etl_steps :: "etl_env \<Rightarrow> aead \<Rightarrow> bool \<Rightarrow> (db \<Rightarrow> unit res \<times> db) list" where
  "etl_steps v a dry =
     [migrateUnits (ev_tx v ''units'') (ev_file v ''units.csv'') dry,
      migrateEmployees (ev_tx v ''employees'') (ev_file v ''employees.csv'') dry,
      migrateUsers (ev_tx v ''users'') (ev_file v ''users.csv'') dry,
      migrateUserUnits (ev_tx v ''user_units'') (ev_file v ''user_units.csv'') dry,
      migrateBudgets (ev_tx v ''budgets'') a (ev_rand v ''budgets'') (ev_file v ''budgets.csv'') dry,
      migrateSPDs (ev_tx v ''spds'') a (ev_rand v ''spds'') (ev_file v ''spds.csv'') dry,
      migrateApprovals (ev_tx v ''approvals'') (ev_file v ''approvals.csv'') dry,
      migrateDocuments (ev_tx v ''documents'') (ev_file v ''documents.csv'') dry,
      migrateNotifications (ev_tx v ''notifications'') (ev_file v ''notifications.csv'') dry]
     @ (if dry then [] else [bumpSequences (ev_seq v)])"

text \<open>
  \<open>main\<close> after the flags: the key, the pool (\<open>connect\<close> is what \<open>db.NewPool\<close> gives), also for a dry
  run, then the files in the order of their references.
\<close>

definition etl_main ::
  "(bytes \<Rightarrow> 'blk res) \<Rightarrow> ('blk \<Rightarrow> aead res) \<Rightarrow> string \<Rightarrow> unit res \<Rightarrow> etl_env \<Rightarrow> bool \<Rightarrow> db \<Rightarrow> unit res \<times> db" where
  "etl_main new_cipher new_gcm dataKeyBase64 connect v dry d =
     (if dataKeyBase64 = [] \<or> HasPrefix dataKeyBase64 ''REPLACE_''
      then (Inl (OtherErr ''DATA_ENC_KEY_BASE64 is required''), d)
      else case NewAESGCMFromBase64 new_cipher new_gcm dataKeyBase64 of
             Inl x \<Rightarrow> (Inl x, d)
           | Inr a \<Rightarrow>
               (case connect of
                  Inl x \<Rightarrow> (Inl x, d)
                | Inr _ \<Rightarrow> must_all (etl_steps v a dry) d))"

text \<open>The configuration of \<open>main\<close>: the DSN of the flag, or else that of the environment.\<close>

definition etl_program ::
  "(bytes \<Rightarrow> 'blk res) \<Rightarrow> ('blk \<Rightarrow> aead res) \<Rightarrow> environ \<Rightarrow> (string \<Rightarrow> unit res) \<Rightarrow> string \<Rightarrow> etl_env \<Rightarrow> bool
     \<Rightarrow> db \<Rightarrow> unit res \<times> db" where
  "etl_program new_cipher new_gcm env newPool targetDSN v dry =
     etl_main new_cipher new_gcm (cr_DataKeyBase64 (LoadCrypto env))
       (newPool (if targetDSN = [] then DSN (LoadPostgres env) else targetDSN)) v dry"

end
