(* ===== verification/EtlProps.thy ===== *)
theory EtlProps
  imports Etl Spd
begin

text \<open>
  What the migration tool does to the database: a locale for a table a file is imported into, its
  nine interpretations, and the properties of a file and of the whole run.
\<close>

subsection \<open>Importing a table\<close>

definition rand_total :: "(nat \<Rightarrow> nat \<Rightarrow> bytes res) \<Rightarrow> bool" where
  "rand_total rnd \<longleftrightarrow> (\<forall>i n. is_ok (rnd i n))"

text \<open>
  A step that succeeds on a row found its key taken and did nothing, or appended the row made of it,
  with that key; and from then on it succeeds and does nothing, at any time and with any random bytes.
\<close>

locale importer =
  fixes get :: "db \<Rightarrow> 'r list"
    and put :: "'r list \<Rightarrow> db \<Rightarrow> db"
    and key :: "'r \<Rightarrow> 'k"
    and row_key :: "csvrow \<Rightarrow> 'k option"
    and step :: "dbenv \<Rightarrow> (nat \<Rightarrow> nat \<Rightarrow> bytes res) \<Rightarrow> csvrow \<Rightarrow> tx \<Rightarrow> unit res \<times> tx"
    and made :: "dbenv \<Rightarrow> (nat \<Rightarrow> nat \<Rightarrow> bytes res) \<Rightarrow> csvrow \<Rightarrow> 'r \<Rightarrow> bool"
  assumes get_put: "get (put rs d) = rs"
    and put_get: "put (get d) d = d"
    and put_put: "put rs (put rs' d) = put rs d"
    and step_ok: "step e rnd row t = (Inr u, t') \<Longrightarrow> \<exists>k. row_key row = Some k \<and>
      (k \<in> key ` set (get (tx_db t)) \<and> tx_db t' = tx_db t \<or>
       k \<notin> key ` set (get (tx_db t)) \<and> (\<exists>r. key r = k \<and> made e rnd row r \<and> tx_db t' = put (get (tx_db t) @ [r]) (tx_db t)))"
    and step_again: "step e rnd row t = (Inr u, t') \<Longrightarrow> row_key row = Some k \<Longrightarrow>
      k \<in> key ` set (get (tx_db t2)) \<Longrightarrow> rand_total rnd2 \<Longrightarrow>
      \<exists>t3. step (calm now) rnd2 row t2 = (Inr (), t3) \<and> tx_db t3 = tx_db t2"
begin

definition accepted :: "csvrow \<Rightarrow> bool" where
  "accepted row \<longleftrightarrow> (\<exists>e rnd t t'. step e rnd row t = (Inr (), t'))"

text \<open>All rows of a file were accepted at some time and their keys are there.\<close>

definition loaded :: "csvrow list \<Rightarrow> db \<Rightarrow> bool" where
  "loaded rows d \<longleftrightarrow> (\<forall>row \<in> set rows. accepted row \<and> (\<exists>k \<in> key ` set (get d). row_key row = Some k))"

lemma loaded_mono: "loaded rows d \<Longrightarrow> set (get d) \<subseteq> set (get d') \<Longrightarrow> loaded rows d'"
  unfolding loaded_def by blast

text \<open>What the rows of a file add to a table.\<close>

definition adds :: "dbenv \<Rightarrow> (nat \<Rightarrow> nat \<Rightarrow> nat \<Rightarrow> bytes res) \<Rightarrow> csvrow list \<Rightarrow> db \<Rightarrow> db \<Rightarrow> 'r list \<Rightarrow> bool" where
  "adds e rnd rows d d' new \<longleftrightarrow> d' = put (get d @ new) d \<and> distinct (map key new)
     \<and> key ` set new \<inter> key ` set (get d) = {}
     \<and> (\<forall>r \<in> set new. \<exists>n. \<exists>row \<in> set rows. row_key row = Some (key r) \<and> made e (rnd n) row r)"

lemma each_row_adds:
  assumes "each_row (\<lambda>n. step e (rnd n)) n rows t = (Inr u, t')"
  shows "loaded rows (tx_db t') \<and> (\<exists>new. adds e rnd rows (tx_db t) (tx_db t') new)"
  using assms
proof (induction rows arbitrary: n t)
  case Nil
  then show ?case by (auto simp: loaded_def adds_def put_get intro!: exI [of _ "[]"])
next
  case (Cons row rows)
  then obtain t1 where s: "step e (rnd n) row t = (Inr (), t1)"
    and r: "each_row (\<lambda>n. step e (rnd n)) (Suc n) rows t1 = (Inr u, t')"
    by (auto split: prod.splits sum.splits)
  from Cons.IH [OF r] obtain new where l: "loaded rows (tx_db t')" and n: "adds e rnd rows (tx_db t1) (tx_db t') new"
    by blast
  have g': "get (tx_db t') = get (tx_db t1) @ new" using n by (simp add: adds_def get_put)
  from step_ok [OF s] obtain k where k: "row_key row = Some k" and c:
    "k \<in> key ` set (get (tx_db t)) \<and> tx_db t1 = tx_db t \<or>
     k \<notin> key ` set (get (tx_db t)) \<and> (\<exists>r. key r = k \<and> made e (rnd n) row r \<and> tx_db t1 = put (get (tx_db t) @ [r]) (tx_db t))" by blast
  have acc: "accepted row" using s by (auto simp: accepted_def)
  from c show ?case
  proof
    assume "k \<in> key ` set (get (tx_db t)) \<and> tx_db t1 = tx_db t"
    moreover from this n have "adds e rnd (row # rows) (tx_db t) (tx_db t') new"
      unfolding adds_def by (metis list.set_intros(2))
    ultimately show ?thesis using l k acc g' by (auto simp: loaded_def)
  next
    assume "k \<notin> key ` set (get (tx_db t)) \<and> (\<exists>r. key r = k \<and> made e (rnd n) row r \<and> tx_db t1 = put (get (tx_db t) @ [r]) (tx_db t))"
    then obtain r where k': "k \<notin> key ` set (get (tx_db t))" and r: "key r = k" "made e (rnd n) row r"
      and t1: "tx_db t1 = put (get (tx_db t) @ [r]) (tx_db t)" by blast
    have "\<forall>x \<in> set (r # new). \<exists>n. \<exists>row \<in> set (row # rows). row_key row = Some (key x) \<and> made e (rnd n) row x"
    proof
      fix x assume "x \<in> set (r # new)"
      then consider "x = r" | "x \<in> set new" by auto
      then show "\<exists>n. \<exists>row \<in> set (row # rows). row_key row = Some (key x) \<and> made e (rnd n) row x"
      proof cases
        case 1
        with k r show ?thesis by (intro exI [of _ n] bexI [of _ row]) simp_all
      next
        case 2
        with n show ?thesis unfolding adds_def by (meson list.set_intros(2))
      qed
    qed
    then have "adds e rnd (row # rows) (tx_db t) (tx_db t') (r # new)"
      using n r(1) k' by (auto simp: adds_def t1 get_put put_put)
    moreover have "loaded (row # rows) (tx_db t')"
      using l k r acc g' by (auto simp: loaded_def t1 get_put)
    ultimately show ?thesis by blast
  qed
qed

lemma each_row_again:
  assumes "loaded rows (tx_db t)" and "\<And>n. rand_total (rnd n)"
  shows "\<exists>t'. each_row (\<lambda>n. step (calm now) (rnd n)) n rows t = (Inr (), t') \<and> tx_db t' = tx_db t"
  using assms(1)
proof (induction rows arbitrary: n t)
  case Nil
  then show ?case by simp
next
  case (Cons row rows)
  then obtain k e r t0 t0' where "row_key row = Some k" "k \<in> key ` set (get (tx_db t))"
    "step e r row t0 = (Inr (), t0')" by (auto simp: loaded_def accepted_def)
  from step_again [OF this(3,1,2) assms(2)] obtain t1
    where s: "step (calm now) (rnd n) row t = (Inr (), t1)" "tx_db t1 = tx_db t" by blast
  with Cons.prems have "loaded rows (tx_db t1)" by (simp add: loaded_def)
  from Cons.IH [OF this] s show ?case by fastforce
qed

text \<open>A file that was imported.\<close>

lemma migrate_adds:
  assumes "migrate e (\<lambda>n. step e (rnd n)) file False d = (Inr u, d')" and "readCSV file = Inr rows"
  shows "loaded rows d' \<and> (\<exists>new. adds e rnd rows d d' new)"
proof (cases "rows = []")
  case True
  with assms show ?thesis by (auto simp: migrate_def loaded_def adds_def put_get intro!: exI [of _ "[]"])
next
  case False
  with assms have "WithTx e (each_row (\<lambda>n. step e (rnd n)) 0 rows) d = (Inr u, d')" by (simp add: migrate_def)
  then obtain t' where "each_row (\<lambda>n. step e (rnd n)) 0 rows \<lparr>tx_db = d, tx_uid = 0, tx_role = [], tx_n = 0\<rparr> = (Inr u, t')"
    "d' = tx_db t'"
    by (auto simp: WithTx_def split: option.splits prod.splits sum.splits commit_outcome.splits)
  with each_row_adds show ?thesis by force
qed

lemma migrate_readable: "migrate e s file dry d = (Inr u, d') \<Longrightarrow> \<exists>rows. readCSV file = Inr rows"
  by (auto simp: migrate_def split: sum.splits)

lemma migrate_again:
  assumes "readCSV file = Inr rows" and "loaded rows d" and "\<And>n. rand_total (rnd n)"
  shows "migrate (calm now) (\<lambda>n. step (calm now) (rnd n)) file False d = (Inr (), d)"
proof -
  obtain t' where "each_row (\<lambda>n. step (calm now) (rnd n)) 0 rows \<lparr>tx_db = d, tx_uid = 0, tx_role = [], tx_n = 0\<rparr> = (Inr (), t')"
    "tx_db t' = d"
    using each_row_again [of rows "\<lparr>tx_db = d, tx_uid = 0, tx_role = [], tx_n = 0\<rparr>" rnd now 0] assms(2,3) by auto
  with assms(1) show ?thesis by (simp add: migrate_def WithTx_def) (simp add: calm_def)
qed

end

subsection \<open>The steps meet the contract\<close>

lemma insert_nothing_Inr:
  "insert_nothing get put key chk policy refused r t = (Inr u, t') \<longleftrightarrow>
     chk r = None \<and> policy (tx_db t) (tx_uid t) (tx_role t) r \<and>
     (key r \<in> key ` set (get (tx_db t)) \<and> t' = t \<or>
      key r \<notin> key ` set (get (tx_db t)) \<and> refused (tx_db t) r = None
        \<and> t' = t\<lparr>tx_db := put (get (tx_db t) @ [r]) (tx_db t)\<rparr>)"
  by (auto simp: insert_nothing_def Let_def split: option.splits)

lemma tx_exec_Inr:
  "tx_exec e stmt t = (Inr u, t') \<longleftrightarrow> exec_err e (tx_n t) = None \<and> stmt (t\<lparr>tx_n := Suc (tx_n t)\<rparr>) = (Inr u, t')"
  by (auto simp: tx_exec_def split: option.splits)

lemma exec_row_Inr: "exec_row e row ins t = (Inr u, t') \<longleftrightarrow> (\<exists>r. row = Inr r \<and> tx_exec e (ins r) t = (Inr u, t'))"
  by (cases row) (simp_all add: exec_row_def)

lemma SetRLSContext_Inr:
  assumes "SetRLSContext e uid role t = (Inr u, t')"
  shows "tx_db t' = tx_db t \<and> tx_uid t' = uid \<and> tx_role t' = role"
  using assms by (auto simp: SetRLSContext_def tx_exec_def split: option.splits sum.splits prod.splits err.splits)

lemma SetRLSContext_calm:
  "\<exists>t'. SetRLSContext (calm now) uid role t = (Inr (), t') \<and> tx_db t' = tx_db t \<and> tx_uid t' = uid \<and> tx_role t' = role"
  by (simp add: SetRLSContext_def tx_exec_def calm_def)

lemma importer_exec_row:
  assumes "\<And>rs d. get (put rs d) = rs" and "\<And>d. put (get d) d = d" and "\<And>rs rs' d. put rs (put rs' d) = put rs d"
    and key: "\<And>e row r. p e row = Inr r \<Longrightarrow> row_key row = Some (key r)"
    and again: "\<And>e row r e2. p e row = Inr r \<Longrightarrow> is_ok (p e2 row)"
    and same: "\<And>e row r e2 r2. p e row = Inr r \<Longrightarrow> p e2 row = Inr r2 \<Longrightarrow> chk r2 = chk r"
  shows "importer get put key row_key
    (\<lambda>e rnd row. exec_row e (p e row) (insert_nothing get put key chk no_policy refused))
    (\<lambda>e rnd row r. p e row = Inr r)"
proof (unfold_locales; (rule assms(1-3))?)
  fix e :: dbenv and rnd :: "nat \<Rightarrow> nat \<Rightarrow> bytes res" and row t u t'
  assume "exec_row e (p e row) (insert_nothing get put key chk no_policy refused) t = (Inr u, t')"
  then obtain r where r: "p e row = Inr r" and t: "chk r = None"
    "key r \<in> key ` set (get (tx_db t)) \<and> tx_db t' = tx_db t \<or>
     key r \<notin> key ` set (get (tx_db t)) \<and> tx_db t' = put (get (tx_db t) @ [r]) (tx_db t)"
    by (auto simp: exec_row_Inr tx_exec_Inr insert_nothing_Inr)
  show "\<exists>k. row_key row = Some k \<and>
      (k \<in> key ` set (get (tx_db t)) \<and> tx_db t' = tx_db t \<or>
       k \<notin> key ` set (get (tx_db t)) \<and> (\<exists>r. key r = k \<and> p e row = Inr r \<and> tx_db t' = put (get (tx_db t) @ [r]) (tx_db t)))"
    using t(2) key [OF r] r by blast
  fix k and t2 :: tx and rnd2 :: "nat \<Rightarrow> nat \<Rightarrow> bytes res" and now
  assume k: "row_key row = Some k" "k \<in> key ` set (get (tx_db t2))"
  obtain r2 where "p (calm now) row = Inr r2" "chk r2 = None" using again [OF r] same [OF r] t(1) unfolding is_ok_iff by metis
  with key [of "calm now" row r2] k
  show "\<exists>t3. exec_row (calm now) (p (calm now) row) (insert_nothing get put key chk no_policy refused) t2 = (Inr (), t3)
      \<and> tx_db t3 = tx_db t2"
    by (auto simp: exec_row_Inr tx_exec_Inr insert_nothing_Inr) (simp add: calm_def)
qed

lemma importer_exec_row_as:
  assumes "\<And>rs d. get (put rs d) = rs" and "\<And>d. put (get d) d = d" and "\<And>rs rs' d. put rs (put rs' d) = put rs d"
    and key: "\<And>e rnd row k r. keys row = Inr k \<Longrightarrow> p e rnd row k = Inr r \<Longrightarrow> row_key row = Some (key r)"
    and again: "\<And>e rnd row k r e2 rnd2. keys row = Inr k \<Longrightarrow> p e rnd row k = Inr r \<Longrightarrow> rand_total rnd2 \<Longrightarrow>
      is_ok (p e2 rnd2 row k)"
    and same: "\<And>e rnd row k r e2 rnd2 r2. keys row = Inr k \<Longrightarrow> p e rnd row k = Inr r \<Longrightarrow> p e2 rnd2 row k = Inr r2 \<Longrightarrow>
      chk r2 = chk r"
    and policy: "\<And>e rnd row k r d. keys row = Inr k \<Longrightarrow> p e rnd row k = Inr r \<Longrightarrow> policy d (creator k) ''SUPER_ADMIN'' r"
  shows "importer get put key row_key
    (\<lambda>e rnd row. exec_row_as e (keys row) creator (p e rnd row) (insert_nothing get put key chk policy refused))
    (\<lambda>e rnd row r. \<exists>k. keys row = Inr k \<and> p e rnd row k = Inr r)"
proof (unfold_locales; (rule assms(1-3))?)
  fix e :: dbenv and rnd :: "nat \<Rightarrow> nat \<Rightarrow> bytes res" and row t u t'
  assume "exec_row_as e (keys row) creator (p e rnd row) (insert_nothing get put key chk policy refused) t = (Inr u, t')"
  then obtain i t1 r where i: "keys row = Inr i" and s: "SetRLSContext e (creator i) ''SUPER_ADMIN'' t = (Inr (), t1)"
    and r: "p e rnd row i = Inr r" and x: "tx_exec e (insert_nothing get put key chk policy refused r) t1 = (Inr u, t')"
    by (auto simp: exec_row_as_def exec_row_Inr split: sum.splits prod.splits)
  from SetRLSContext_Inr [OF s] x have t: "chk r = None"
    "key r \<in> key ` set (get (tx_db t)) \<and> tx_db t' = tx_db t \<or>
     key r \<notin> key ` set (get (tx_db t)) \<and> tx_db t' = put (get (tx_db t) @ [r]) (tx_db t)"
    by (auto simp: tx_exec_Inr insert_nothing_Inr)
  show "\<exists>k. row_key row = Some k \<and>
      (k \<in> key ` set (get (tx_db t)) \<and> tx_db t' = tx_db t \<or>
       k \<notin> key ` set (get (tx_db t)) \<and> (\<exists>r. key r = k \<and> (\<exists>k. keys row = Inr k \<and> p e rnd row k = Inr r) \<and> tx_db t' = put (get (tx_db t) @ [r]) (tx_db t)))"
    using t(2) key [OF i r] i r by blast
  fix k and t2 :: tx and rnd2 :: "nat \<Rightarrow> nat \<Rightarrow> bytes res" and now
  assume k: "row_key row = Some k" "k \<in> key ` set (get (tx_db t2))" and tot: "rand_total rnd2"
  obtain r2 where r2: "p (calm now) rnd2 row i = Inr r2" "chk r2 = None" using again [OF i r tot] same [OF i r] t(1) unfolding is_ok_iff by metis
  obtain t3 where "SetRLSContext (calm now) (creator i) ''SUPER_ADMIN'' t2 = (Inr (), t3)"
    "tx_db t3 = tx_db t2" "tx_uid t3 = creator i" "tx_role t3 = ''SUPER_ADMIN''" using SetRLSContext_calm by blast
  with r2 i key [OF i r2(1)] k policy [OF i r2(1)]
  show "\<exists>t3. exec_row_as (calm now) (keys row) creator (p (calm now) rnd2 row)
      (insert_nothing get put key chk policy refused) t2 = (Inr (), t3) \<and> tx_db t3 = tx_db t2"
    by (auto simp: exec_row_as_def exec_row_Inr tx_exec_Inr insert_nothing_Inr) (simp add: calm_def)
qed

subsection \<open>The nine tables\<close>

definition id_key :: "csvrow \<Rightarrow> int option" where
  "id_key row = (case int64Val row ''id'' of Inl _ \<Rightarrow> None | Inr i \<Rightarrow> Some i)"

definition pair_key :: "csvrow \<Rightarrow> (int \<times> int) option" where
  "pair_key row =
     (case int64Val row ''user_id'' of Inl _ \<Rightarrow> None
      | Inr u \<Rightarrow> (case int64Val row ''unit_id'' of Inl _ \<Rightarrow> None | Inr i \<Rightarrow> Some (u, i)))"

lemma encrypt_column_total:
  "\<forall>n. is_ok (rand n) \<Longrightarrow> \<exists>c. encrypt_column a rand v aad = Inr c"
  by (auto simp: encrypt_column_def EncryptString_def Encrypt_def is_ok_iff split: sum.splits)
    (metis Inl_Inr_False)

lemma or_return_isl: "isl (or_return r k) \<longleftrightarrow> isl r \<or> (\<exists>u. r = Inr u \<and> isl (k u))"
  by (cases r) simp_all

lemma check_cong:
  "sp_nomor_surat s = sp_nomor_surat s' \<Longrightarrow> sp_status s = sp_status s' \<Longrightarrow> spd_check s = spd_check s'"
  "ap_step r = ap_step r' \<Longrightarrow> ap_status r = ap_status r' \<Longrightarrow> approval_check r = approval_check r'"
  "dc_format x = dc_format x' \<Longrightarrow> document_check x = document_check x'"
  by (simp_all add: spd_check_def approval_check_def document_check_def)

interpretation unit_csv: importer units "\<lambda>rs d. d\<lparr>units := rs\<rparr>" un_id id_key
  "\<lambda>e rnd row. exec_row e (unit_of_row e row) (insert_nothing units (\<lambda>rs d. d\<lparr>units := rs\<rparr>) un_id no_check no_policy unit_violates)"
  "\<lambda>e rnd row r. unit_of_row e row = Inr r"
  by (rule importer_exec_row) (auto simp: unit_of_row_def or_return_Inr or_return_isl id_key_def Let_def split: if_splits)

interpretation employee_csv: importer employees "\<lambda>rs d. d\<lparr>employees := rs\<rparr>" em_id id_key
  "\<lambda>e rnd row. exec_row e (employee_of_row e row) (insert_nothing employees (\<lambda>rs d. d\<lparr>employees := rs\<rparr>) em_id no_check no_policy employee_violates)"
  "\<lambda>e rnd row r. employee_of_row e row = Inr r"
  by (rule importer_exec_row) (auto simp: employee_of_row_def or_return_Inr or_return_isl id_key_def Let_def split: if_splits)

interpretation user_csv: importer users "\<lambda>rs d. d\<lparr>users := rs\<rparr>" us_id id_key
  "\<lambda>e rnd row. exec_row e (user_of_row e row) (insert_nothing users (\<lambda>rs d. d\<lparr>users := rs\<rparr>) us_id no_check no_policy user_violates)"
  "\<lambda>e rnd row r. user_of_row e row = Inr r"
  by (rule importer_exec_row) (auto simp: user_of_row_def or_return_Inr or_return_isl id_key_def Let_def split: if_splits)

interpretation user_unit_csv: importer user_units "\<lambda>rs d. d\<lparr>user_units := rs\<rparr>" "(\<lambda>r. (uu_user_id r, uu_unit_id r))" pair_key
  "\<lambda>e rnd row. exec_row e (user_unit_of_row e row) (insert_nothing user_units (\<lambda>rs d. d\<lparr>user_units := rs\<rparr>) (\<lambda>r. (uu_user_id r, uu_unit_id r)) no_check no_policy user_unit_violates)"
  "\<lambda>e rnd row r. user_unit_of_row e row = Inr r"
  by (rule importer_exec_row) (auto simp: user_unit_of_row_def or_return_Inr or_return_isl pair_key_def Let_def split: if_splits)

interpretation approval_csv: importer approvals "\<lambda>rs d. d\<lparr>approvals := rs\<rparr>" ap_id id_key
  "\<lambda>e rnd row. exec_row e (approval_of_row e row) (insert_nothing approvals (\<lambda>rs d. d\<lparr>approvals := rs\<rparr>) ap_id approval_check no_policy approval_violates)"
  "\<lambda>e rnd row r. approval_of_row e row = Inr r"
  by (rule importer_exec_row) (auto simp: approval_of_row_def or_return_Inr or_return_isl id_key_def intro!: check_cong)

interpretation document_csv: importer documents "\<lambda>rs d. d\<lparr>documents := rs\<rparr>" dc_id id_key
  "\<lambda>e rnd row. exec_row e (document_of_row e row) (insert_nothing documents (\<lambda>rs d. d\<lparr>documents := rs\<rparr>) dc_id document_check no_policy document_violates)"
  "\<lambda>e rnd row r. document_of_row e row = Inr r"
  by (rule importer_exec_row) (auto simp: document_of_row_def or_return_Inr or_return_isl id_key_def intro!: check_cong)

interpretation notification_csv: importer notifications "\<lambda>rs d. d\<lparr>notifications := rs\<rparr>" nt_id id_key
  "\<lambda>e rnd row. exec_row e (notification_of_row e row) (insert_nothing notifications (\<lambda>rs d. d\<lparr>notifications := rs\<rparr>) nt_id no_check no_policy notification_violates)"
  "\<lambda>e rnd row r. notification_of_row e row = Inr r"
  by (rule importer_exec_row) (auto simp: notification_of_row_def or_return_Inr or_return_isl id_key_def Let_def split: if_splits)

lemma encrypted_again:
  "rand_total rnd \<Longrightarrow> is_ok (encrypt_column a (rnd i) v aad)"
  unfolding is_ok_iff
  by (rule encrypt_column_total) (simp add: rand_total_def)

interpretation budget_csv: importer budgets "\<lambda>rs d. d\<lparr>budgets := rs\<rparr>" bg_id id_key
  "\<lambda>e rnd row. exec_row_as e (budget_keys row) (\<lambda>(i, un, by). by) (budget_of_row e a rnd row)
     (insert_nothing budgets (\<lambda>rs d. d\<lparr>budgets := rs\<rparr>) bg_id no_check budgets_insert_policy budget_violates)"
  "\<lambda>e rnd row r. \<exists>k. budget_keys row = Inr k \<and> budget_of_row e a rnd row k = Inr r"
  for a
  by (rule importer_exec_row_as)
    (auto simp: budget_keys_def budget_of_row_def or_return_Inr or_return_isl id_key_def budgets_insert_policy_def budget_roles_def encrypted_again)

interpretation spd_csv: importer spds "\<lambda>rs d. d\<lparr>spds := rs\<rparr>" sp_id id_key
  "\<lambda>e rnd row. exec_row_as e (spd_keys_of row) (\<lambda>(i, un, em, bg, ca, by). by) (spd_of_row e a rnd row)
     (insert_nothing spds (\<lambda>rs d. d\<lparr>spds := rs\<rparr>) sp_id spd_check spds_insert_policy spd_violates)"
  "\<lambda>e rnd row r. \<exists>k. spd_keys_of row = Inr k \<and> spd_of_row e a rnd row k = Inr r"
  for a
  by (rule importer_exec_row_as)
    (auto simp: spd_keys_of_def spd_of_row_def or_return_Inr or_return_isl id_key_def spds_insert_policy_def encrypted_again intro!: check_cong)

subsection \<open>Nothing is overwritten\<close>

text \<open>Rows are appended to the nine tables; the sessions and the audit log are left alone.\<close>

definition db_grows :: "db \<Rightarrow> db \<Rightarrow> bool" where
  "db_grows d d' \<longleftrightarrow>
     grows (=) (units d) (units d')
     \<and> grows (=) (employees d) (employees d')
     \<and> grows (=) (users d) (users d')
     \<and> grows (=) (user_units d) (user_units d')
     \<and> grows (=) (budgets d) (budgets d')
     \<and> grows (=) (spds d) (spds d')
     \<and> grows (=) (approvals d) (approvals d')
     \<and> grows (=) (documents d) (documents d')
     \<and> grows (=) (notifications d) (notifications d')
     \<and> refresh_tokens d' = refresh_tokens d \<and> audit_logs d' = audit_logs d \<and> rls_on d' = rls_on d"

lemma grows_eq_trans: "grows (=) xs ys \<Longrightarrow> grows (=) ys zs \<Longrightarrow> grows (=) xs zs"
  by (rule grows_trans) simp_all

lemma db_grows_refl: "db_grows d d"
  by (simp add: db_grows_def grows_refl)

lemma db_grows_trans: "db_grows a b \<Longrightarrow> db_grows b c \<Longrightarrow> db_grows a c"
  unfolding db_grows_def by (elim conjE, intro conjI; (erule (1) grows_eq_trans)?) simp_all

interpretation growth: tx_relation db_grows
  by unfold_locales (simp_all add: db_grows_def grows_refl)

definition step_grows :: "(nat \<Rightarrow> csvrow \<Rightarrow> tx \<Rightarrow> unit res \<times> tx) \<Rightarrow> bool" where
  "step_grows step \<longleftrightarrow> (\<forall>n row t. db_grows (tx_db t) (tx_db (snd (step n row t)))
     \<and> seqs (tx_db (snd (step n row t))) = seqs (tx_db t))"

lemma insert_nothing_grows:
  assumes "\<And>r d. db_grows d (put (get d @ [r]) d)" and "\<And>rs d. seqs (put rs d) = seqs d"
  shows "db_grows (tx_db t) (tx_db (snd (insert_nothing get put key chk policy refused r t)))
    \<and> seqs (tx_db (snd (insert_nothing get put key chk policy refused r t))) = seqs (tx_db t)"
  using assms by (simp add: insert_nothing_def Let_def db_grows_refl split: option.split)

lemma SetRLSContext_db: "tx_db (snd (SetRLSContext e uid role t)) = tx_db t"
  by (simp add: SetRLSContext_def tx_exec_def split: option.splits sum.splits prod.splits err.splits)

lemma exec_row_grows:
  assumes "\<And>r d. db_grows d (put (get d @ [r]) d)" and "\<And>rs d. seqs (put rs d) = seqs d"
  shows "db_grows (tx_db t) (tx_db (snd (exec_row e x (insert_nothing get put key chk policy refused) t)))
    \<and> seqs (tx_db (snd (exec_row e x (insert_nothing get put key chk policy refused) t))) = seqs (tx_db t)"
proof -
  have "db_grows (tx_db t1) (tx_db (snd (insert_nothing get put key chk policy refused r t1)))
    \<and> seqs (tx_db (snd (insert_nothing get put key chk policy refused r t1))) = seqs (tx_db t1)" for r t1
    by (rule insert_nothing_grows) (rule assms)+
  from this [of "t\<lparr>tx_n := Suc (tx_n t)\<rparr>"] show ?thesis
    by (simp add: exec_row_def tx_exec_def db_grows_refl split: sum.split option.split)
qed

lemma exec_row_as_grows:
  assumes "\<And>r d. db_grows d (put (get d @ [r]) d)" and "\<And>rs d. seqs (put rs d) = seqs d"
  shows "db_grows (tx_db t) (tx_db (snd (exec_row_as e k c x (insert_nothing get put key chk policy refused) t)))
    \<and> seqs (tx_db (snd (exec_row_as e k c x (insert_nothing get put key chk policy refused) t))) = seqs (tx_db t)"
proof -
  have "db_grows (tx_db t1) (tx_db (snd (exec_row e r (insert_nothing get put key chk policy refused) t1)))
    \<and> seqs (tx_db (snd (exec_row e r (insert_nothing get put key chk policy refused) t1))) = seqs (tx_db t1)" for r t1
    by (rule exec_row_grows) (rule assms)+
  note row = this
  show ?thesis
  proof (cases k)
    case (Inl y)
    then show ?thesis by (simp add: exec_row_as_def db_grows_refl)
  next
    case (Inr i)
    obtain v t1 where t1: "SetRLSContext e (c i) ''SUPER_ADMIN'' t = (v, t1)" by fastforce
    then have "tx_db t1 = tx_db t" using SetRLSContext_db by (metis snd_conv)
    with row [of t1 "x i"] t1 Inr show ?thesis by (cases v) (simp_all add: exec_row_as_def db_grows_refl)
  qed
qed

lemma each_row_grows:
  assumes "step_grows step"
  shows "db_grows (tx_db t) (tx_db (snd (each_row step n rows t)))
    \<and> seqs (tx_db (snd (each_row step n rows t))) = seqs (tx_db t)"
proof (induction rows arbitrary: n t)
  case Nil
  then show ?case by (simp add: db_grows_refl)
next
  case (Cons row rows)
  obtain r t1 where s: "step n row t = (r, t1)" by fastforce
  with assms have "db_grows (tx_db t) (tx_db t1) \<and> seqs (tx_db t1) = seqs (tx_db t)"
    unfolding step_grows_def by (metis snd_conv)
  with Cons.IH [of t1 "Suc n"] s show ?case by (cases r) (auto intro: db_grows_trans)
qed

text \<open>A file that fails leaves nothing behind, unless only the acknowledgement of its commit was lost.\<close>

lemma migrate_grows:
  assumes "step_grows step"
  shows "db_grows d (snd (migrate e step file dry d)) \<and> (dry \<longrightarrow> snd (migrate e step file dry d) = d)"
proof -
  have "db_grows d (snd (WithTx e (each_row step 0 rows) d))" for rows
    by (rule growth.WithTx_R) (use each_row_grows [OF assms] in metis)
  then show ?thesis by (simp add: migrate_def db_grows_refl split: sum.split)
qed

lemma migrate_error:
  assumes "step_grows step" and "migrate e step file dry d = (Inl x, d')"
  shows "d' = d \<or> (\<exists>m. commit_res e = CommitUnknown m \<and> x = OtherErr m)"
proof -
  have "rollback d (tx_db t') = d" if "each_row step 0 rows \<lparr>tx_db = d, tx_uid = 0, tx_role = [], tx_n = 0\<rparr> = (y, t')"
    for rows y t'
    using each_row_grows [OF assms(1), of "\<lparr>tx_db = d, tx_uid = 0, tx_role = [], tx_n = 0\<rparr>" 0 rows] that
    by (simp add: rollback_def)
  with assms(2) show ?thesis
    by (auto simp: migrate_def WithTx_def split: sum.splits if_splits option.splits prod.splits commit_outcome.splits)
qed

lemma append_grows:
  "db_grows d (d\<lparr>units := units d @ [r0]\<rparr>)"
  "db_grows d (d\<lparr>employees := employees d @ [r1]\<rparr>)"
  "db_grows d (d\<lparr>users := users d @ [r2]\<rparr>)"
  "db_grows d (d\<lparr>user_units := user_units d @ [r3]\<rparr>)"
  "db_grows d (d\<lparr>budgets := budgets d @ [r4]\<rparr>)"
  "db_grows d (d\<lparr>spds := spds d @ [r5]\<rparr>)"
  "db_grows d (d\<lparr>approvals := approvals d @ [r6]\<rparr>)"
  "db_grows d (d\<lparr>documents := documents d @ [r7]\<rparr>)"
  "db_grows d (d\<lparr>notifications := notifications d @ [r8]\<rparr>)"
  by (simp_all add: db_grows_def grows_refl grows_append)

lemmas migrate_defs = migrateUnits_def migrateEmployees_def migrateUsers_def migrateUserUnits_def migrateBudgets_def
  migrateSPDs_def migrateApprovals_def migrateDocuments_def migrateNotifications_def

lemma table_grows:
  "db_grows d (snd (migrateUnits e file dry d)) \<and> (dry \<longrightarrow> snd (migrateUnits e file dry d) = d)"
  "db_grows d (snd (migrateEmployees e file dry d)) \<and> (dry \<longrightarrow> snd (migrateEmployees e file dry d) = d)"
  "db_grows d (snd (migrateUsers e file dry d)) \<and> (dry \<longrightarrow> snd (migrateUsers e file dry d) = d)"
  "db_grows d (snd (migrateUserUnits e file dry d)) \<and> (dry \<longrightarrow> snd (migrateUserUnits e file dry d) = d)"
  "db_grows d (snd (migrateBudgets e a rnd file dry d)) \<and> (dry \<longrightarrow> snd (migrateBudgets e a rnd file dry d) = d)"
  "db_grows d (snd (migrateSPDs e a rnd file dry d)) \<and> (dry \<longrightarrow> snd (migrateSPDs e a rnd file dry d) = d)"
  "db_grows d (snd (migrateApprovals e file dry d)) \<and> (dry \<longrightarrow> snd (migrateApprovals e file dry d) = d)"
  "db_grows d (snd (migrateDocuments e file dry d)) \<and> (dry \<longrightarrow> snd (migrateDocuments e file dry d) = d)"
  "db_grows d (snd (migrateNotifications e file dry d)) \<and> (dry \<longrightarrow> snd (migrateNotifications e file dry d) = d)"
  unfolding migrate_defs
  by (rule migrate_grows, unfold step_grows_def, intro allI, rule exec_row_grows exec_row_as_grows,
      rule append_grows, simp)+

subsection \<open>Sequences\<close>

text \<open>A statement outside any transaction runs without settings.\<close>

abbreviation bare :: "db \<Rightarrow> tx" where
  "bare d \<equiv> \<lparr>tx_db = d, tx_uid = 0, tx_role = [], tx_n = Suc 0\<rparr>"

lemma visible_ids_seqs: "visible_ids tab (bare (d\<lparr>seqs := s\<rparr>)) = visible_ids tab (bare d)"
proof -
  have "spds_select_policy (d\<lparr>seqs := s\<rparr>) = spds_select_policy d"
    "budgets_select_policy (d\<lparr>seqs := s\<rparr>) = budgets_select_policy d"
    by (simp_all add: fun_eq_iff spds_select_policy_def budgets_select_policy_def in_unit_of_def)
  then show ?thesis by (simp add: visible_ids_def)
qed

definition bumped :: "string list \<Rightarrow> db \<Rightarrow> db" where
  "bumped tabs d = d\<lparr>seqs := (\<lambda>tab. if tab \<in> set tabs then max_id (visible_ids tab (bare d)) else seqs d tab)\<rparr>"

lemma bump_each_Inr:
  "bump_each es tabs d = (Inr u, d') \<Longrightarrow>
     d' = bumped tabs d \<and> (\<forall>tab \<in> set tabs. 1 \<le> max_id (visible_ids tab (bare d)))"
proof (induction tabs arbitrary: d)
  case Nil
  then show ?case by (simp add: bumped_def)
next
  case (Cons tab tabs)
  then obtain d1 where a: "autocommit (es tab) (bump_stmt tab) d = (Inr (), d1)" and r: "bump_each es tabs d1 = (Inr u, d')"
    by (auto split: prod.splits sum.splits)
  let ?m = "max_id (visible_ids tab (bare d))"
  from autocommit_Inr [OF a] have d1: "d1 = d\<lparr>seqs := (seqs d)(tab := ?m)\<rparr>" and m: "1 \<le> ?m"
    by (auto simp: bump_stmt_def Let_def split: if_splits)
  from Cons.IH [OF r] have d': "d' = bumped tabs d1" and ms: "\<forall>tab \<in> set tabs. 1 \<le> max_id (visible_ids tab (bare d))"
    by (simp_all add: d1 visible_ids_seqs)
  have "bumped tabs d1 = bumped (tab # tabs) d"
    unfolding d1 bumped_def visible_ids_seqs by (auto intro!: arg_cong [where f = "\<lambda>s. d\<lparr>seqs := s\<rparr>"])
  with d' m ms show ?case by simp
qed

lemma bumped_seqs: "seqs (bumped tabs d) tab = (if tab \<in> set tabs then max_id (visible_ids tab (bare d)) else seqs d tab)"
  by (simp add: bumped_def)

lemma bumped_idem: "bumped tabs (bumped tabs d) = bumped tabs d"
proof -
  have same: "visible_ids tab (bare (bumped tabs d)) = visible_ids tab (bare d)" for tab
    unfolding bumped_def [of _ d] by (rule visible_ids_seqs)
  have "seqs (bumped tabs (bumped tabs d)) = seqs (bumped tabs d)"
    by (rule ext, unfold bumped_seqs same) auto
  then show ?thesis unfolding bumped_def [of tabs "bumped tabs d"] by (simp add: bumped_def)
qed

lemma bump_each_calm:
  assumes "\<forall>tab \<in> set tabs. es tab = calm (now tab) \<and> 1 \<le> max_id (visible_ids tab (bare d))"
  shows "bump_each es tabs d = (Inr (), bumped tabs d)"
  using assms
proof (induction tabs arbitrary: d)
  case Nil
  then show ?case by (simp add: bumped_def)
next
  case (Cons tab tabs)
  let ?d1 = "d\<lparr>seqs := (seqs d)(tab := max_id (visible_ids tab (bare d)))\<rparr>"
  have "bump_stmt tab (bare d) = (Inr (), (bare d)\<lparr>tx_db := ?d1\<rparr>)"
    using Cons.prems by (simp add: bump_stmt_def Let_def)
  then have "autocommit (es tab) (bump_stmt tab) d = (Inr (), ?d1)"
    using Cons.prems autocommit_calm by fastforce
  moreover have "bump_each es tabs ?d1 = (Inr (), bumped tabs ?d1)"
    using Cons.prems by (intro Cons.IH) (simp add: visible_ids_seqs)
  moreover have "bumped tabs ?d1 = bumped (tab # tabs) d"
    unfolding bumped_def visible_ids_seqs by (auto intro!: arg_cong [where f = "\<lambda>s. d\<lparr>seqs := s\<rparr>"])
  ultimately show ?case by simp
qed

lemma max_id_upper: "i \<in> set ids \<Longrightarrow> i \<le> max_id ids"
proof -
  have "\<forall>m. m \<le> fold max is m \<and> (\<forall>i \<in> set is. i \<le> fold max is m)" for "is" :: "int list"
    by (induction "is") (auto, meson dual_order.trans max.bounded_iff, meson dual_order.trans max.bounded_iff)
  then show "i \<in> set ids \<Longrightarrow> i \<le> max_id ids" by (cases ids) (auto simp: max_id_def)
qed

subsection \<open>The whole run\<close>

lemma must_all_Cons_Inr:
  "must_all (f # fs) d = (Inr u, d') \<longleftrightarrow> (\<exists>d1. f d = (Inr (), d1) \<and> must_all fs d1 = (Inr u, d'))"
  by (auto split: prod.splits sum.splits)

lemma etl_main_steps:
  "etl_main nc ng key conn v dry d = (Inr u, d') \<longleftrightarrow>
     (\<exists>a. key \<noteq> [] \<and> \<not> HasPrefix key ''REPLACE_'' \<and> NewAESGCMFromBase64 nc ng key = Inr a \<and> conn = Inr ()
        \<and> must_all (etl_steps v a dry) d = (Inr u, d'))"
  by (auto simp: etl_main_def split: sum.splits)

lemma must_all_grows:
  "\<forall>f \<in> set fs. \<forall>d. db_grows d (snd (f d)) \<and> (dry \<longrightarrow> snd (f d) = d) \<Longrightarrow>
     db_grows d (snd (must_all fs d)) \<and> (dry \<longrightarrow> snd (must_all fs d) = d)"
proof (induction fs arbitrary: d)
  case Nil
  then show ?case by (simp add: db_grows_refl)
next
  case (Cons f fs)
  obtain r d1 where f: "f d = (r, d1)" by fastforce
  with Cons.prems have "db_grows d d1" "dry \<longrightarrow> d1 = d" by (metis list.set_intros(1) snd_conv)+
  moreover have "db_grows d1 (snd (must_all fs d1)) \<and> (dry \<longrightarrow> snd (must_all fs d1) = d1)"
    using Cons by simp
  ultimately show ?case using f by (cases r) (auto intro: db_grows_trans)
qed

lemma bump_each_grows: "db_grows d (snd (bump_each es tabs d))"
proof (induction tabs arbitrary: d)
  case Nil
  then show ?case by (simp add: db_grows_refl)
next
  case (Cons tab tabs)
  obtain r d1 where a: "autocommit (es tab) (bump_stmt tab) d = (r, d1)" by fastforce
  have "db_grows d (snd (autocommit (es tab) (bump_stmt tab) d))"
    by (rule growth.autocommit_R) (auto simp: bump_stmt_def Let_def db_grows_def grows_refl)
  with a Cons.IH [of d1] show ?case by (cases r) (auto intro: db_grows_trans)
qed

text \<open>
  C39. Whatever the files hold and whatever fails, a run of the migration tool only appends rows: no
  row that was there is changed or removed, in any table.  A dry run leaves the database as it is.
\<close>

theorem etl_never_overwrites:
  "db_grows d (snd (etl_main nc ng key conn v dry d)) \<and> snd (etl_main nc ng key conn v True d) = d"
proof -
  have "db_grows d (snd (must_all (etl_steps v a b) d)) \<and> (b \<longrightarrow> snd (must_all (etl_steps v a b) d) = d)" for a b
  proof (rule must_all_grows, intro ballI allI)
    fix f d0 assume "f \<in> set (etl_steps v a b)"
    then show "db_grows d0 (snd (f d0)) \<and> (b \<longrightarrow> snd (f d0) = d0)"
      unfolding etl_steps_def bumpSequences_def by (auto simp: table_grows bump_each_grows db_grows_refl split: if_splits)
  qed
  then show ?thesis by (simp add: etl_main_def db_grows_refl split: sum.split)
qed

text \<open>
  All rows of a readable file are in their table: \<open>loaded\<close> of the nine tables, for the files of a run.
\<close>

definition file_rows :: "etl_env \<Rightarrow> string \<Rightarrow> csvrow list" where
  "file_rows v name = (case readCSV (ev_file v name) of Inl _ \<Rightarrow> [] | Inr rows \<Rightarrow> rows)"

definition readable :: "etl_env \<Rightarrow> string \<Rightarrow> bool" where
  "readable v name \<longleftrightarrow> is_ok (readCSV (ev_file v name))"

lemma readable_rows: "readable v name \<longleftrightarrow> readCSV (ev_file v name) = Inr (file_rows v name)"
  by (auto simp: readable_def file_rows_def is_ok_iff)

text \<open>One table: a successful import loads its file, and importing a loaded file again changes nothing.\<close>

lemma unit_import:
  "migrateUnits e (ev_file v ''units.csv'') False d = (Inr u, d') \<Longrightarrow>
     readable v ''units.csv'' \<and> unit_csv.loaded (file_rows v ''units.csv'') d'"
  unfolding migrateUnits_def using unit_csv.migrate_readable unit_csv.migrate_adds [where rnd = "\<lambda>_ _ _. Inl ErrNoRows"]
  by (fastforce simp: readable_rows file_rows_def)

lemma employee_import:
  "migrateEmployees e (ev_file v ''employees.csv'') False d = (Inr u, d') \<Longrightarrow>
     readable v ''employees.csv'' \<and> employee_csv.loaded (file_rows v ''employees.csv'') d'"
  unfolding migrateEmployees_def using employee_csv.migrate_readable employee_csv.migrate_adds [where rnd = "\<lambda>_ _ _. Inl ErrNoRows"]
  by (fastforce simp: readable_rows file_rows_def)

lemma user_import:
  "migrateUsers e (ev_file v ''users.csv'') False d = (Inr u, d') \<Longrightarrow>
     readable v ''users.csv'' \<and> user_csv.loaded (file_rows v ''users.csv'') d'"
  unfolding migrateUsers_def using user_csv.migrate_readable user_csv.migrate_adds [where rnd = "\<lambda>_ _ _. Inl ErrNoRows"]
  by (fastforce simp: readable_rows file_rows_def)

lemma user_unit_import:
  "migrateUserUnits e (ev_file v ''user_units.csv'') False d = (Inr u, d') \<Longrightarrow>
     readable v ''user_units.csv'' \<and> user_unit_csv.loaded (file_rows v ''user_units.csv'') d'"
  unfolding migrateUserUnits_def using user_unit_csv.migrate_readable user_unit_csv.migrate_adds [where rnd = "\<lambda>_ _ _. Inl ErrNoRows"]
  by (fastforce simp: readable_rows file_rows_def)

lemma budget_import:
  "migrateBudgets e a rnd (ev_file v ''budgets.csv'') False d = (Inr u, d') \<Longrightarrow>
     readable v ''budgets.csv'' \<and> budget_csv.loaded a (file_rows v ''budgets.csv'') d'"
  unfolding migrateBudgets_def using budget_csv.migrate_readable budget_csv.migrate_adds [where rnd = rnd]
  by (fastforce simp: readable_rows file_rows_def)

lemma spd_import:
  "migrateSPDs e a rnd (ev_file v ''spds.csv'') False d = (Inr u, d') \<Longrightarrow>
     readable v ''spds.csv'' \<and> spd_csv.loaded a (file_rows v ''spds.csv'') d'"
  unfolding migrateSPDs_def using spd_csv.migrate_readable spd_csv.migrate_adds [where rnd = rnd]
  by (fastforce simp: readable_rows file_rows_def)

lemma approval_import:
  "migrateApprovals e (ev_file v ''approvals.csv'') False d = (Inr u, d') \<Longrightarrow>
     readable v ''approvals.csv'' \<and> approval_csv.loaded (file_rows v ''approvals.csv'') d'"
  unfolding migrateApprovals_def using approval_csv.migrate_readable approval_csv.migrate_adds [where rnd = "\<lambda>_ _ _. Inl ErrNoRows"]
  by (fastforce simp: readable_rows file_rows_def)

lemma document_import:
  "migrateDocuments e (ev_file v ''documents.csv'') False d = (Inr u, d') \<Longrightarrow>
     readable v ''documents.csv'' \<and> document_csv.loaded (file_rows v ''documents.csv'') d'"
  unfolding migrateDocuments_def using document_csv.migrate_readable document_csv.migrate_adds [where rnd = "\<lambda>_ _ _. Inl ErrNoRows"]
  by (fastforce simp: readable_rows file_rows_def)

lemma notification_import:
  "migrateNotifications e (ev_file v ''notifications.csv'') False d = (Inr u, d') \<Longrightarrow>
     readable v ''notifications.csv'' \<and> notification_csv.loaded (file_rows v ''notifications.csv'') d'"
  unfolding migrateNotifications_def using notification_csv.migrate_readable notification_csv.migrate_adds [where rnd = "\<lambda>_ _ _. Inl ErrNoRows"]
  by (fastforce simp: readable_rows file_rows_def)

lemma unit_again:
  "readable v ''units.csv'' \<Longrightarrow> unit_csv.loaded (file_rows v ''units.csv'') d \<Longrightarrow>
     migrateUnits (calm now) (ev_file v ''units.csv'') False d = (Inr (), d)"
  unfolding migrateUnits_def readable_rows
  by (erule unit_csv.migrate_again [where rnd = "\<lambda>_ _ _. Inr []"]) (simp_all add: rand_total_def)

lemma employee_again:
  "readable v ''employees.csv'' \<Longrightarrow> employee_csv.loaded (file_rows v ''employees.csv'') d \<Longrightarrow>
     migrateEmployees (calm now) (ev_file v ''employees.csv'') False d = (Inr (), d)"
  unfolding migrateEmployees_def readable_rows
  by (erule employee_csv.migrate_again [where rnd = "\<lambda>_ _ _. Inr []"]) (simp_all add: rand_total_def)

lemma user_again:
  "readable v ''users.csv'' \<Longrightarrow> user_csv.loaded (file_rows v ''users.csv'') d \<Longrightarrow>
     migrateUsers (calm now) (ev_file v ''users.csv'') False d = (Inr (), d)"
  unfolding migrateUsers_def readable_rows
  by (erule user_csv.migrate_again [where rnd = "\<lambda>_ _ _. Inr []"]) (simp_all add: rand_total_def)

lemma user_unit_again:
  "readable v ''user_units.csv'' \<Longrightarrow> user_unit_csv.loaded (file_rows v ''user_units.csv'') d \<Longrightarrow>
     migrateUserUnits (calm now) (ev_file v ''user_units.csv'') False d = (Inr (), d)"
  unfolding migrateUserUnits_def readable_rows
  by (erule user_unit_csv.migrate_again [where rnd = "\<lambda>_ _ _. Inr []"]) (simp_all add: rand_total_def)

lemma budget_again:
  "(\<And>n. rand_total (rnd n)) \<Longrightarrow>
     readable v ''budgets.csv'' \<Longrightarrow> budget_csv.loaded a (file_rows v ''budgets.csv'') d \<Longrightarrow>
     migrateBudgets (calm now) a rnd (ev_file v ''budgets.csv'') False d = (Inr (), d)"
  unfolding migrateBudgets_def readable_rows
  by (erule budget_csv.migrate_again [where rnd = rnd]) (simp_all)

lemma spd_again:
  "(\<And>n. rand_total (rnd n)) \<Longrightarrow>
     readable v ''spds.csv'' \<Longrightarrow> spd_csv.loaded a (file_rows v ''spds.csv'') d \<Longrightarrow>
     migrateSPDs (calm now) a rnd (ev_file v ''spds.csv'') False d = (Inr (), d)"
  unfolding migrateSPDs_def readable_rows
  by (erule spd_csv.migrate_again [where rnd = rnd]) (simp_all)

lemma approval_again:
  "readable v ''approvals.csv'' \<Longrightarrow> approval_csv.loaded (file_rows v ''approvals.csv'') d \<Longrightarrow>
     migrateApprovals (calm now) (ev_file v ''approvals.csv'') False d = (Inr (), d)"
  unfolding migrateApprovals_def readable_rows
  by (erule approval_csv.migrate_again [where rnd = "\<lambda>_ _ _. Inr []"]) (simp_all add: rand_total_def)

lemma document_again:
  "readable v ''documents.csv'' \<Longrightarrow> document_csv.loaded (file_rows v ''documents.csv'') d \<Longrightarrow>
     migrateDocuments (calm now) (ev_file v ''documents.csv'') False d = (Inr (), d)"
  unfolding migrateDocuments_def readable_rows
  by (erule document_csv.migrate_again [where rnd = "\<lambda>_ _ _. Inr []"]) (simp_all add: rand_total_def)

lemma notification_again:
  "readable v ''notifications.csv'' \<Longrightarrow> notification_csv.loaded (file_rows v ''notifications.csv'') d \<Longrightarrow>
     migrateNotifications (calm now) (ev_file v ''notifications.csv'') False d = (Inr (), d)"
  unfolding migrateNotifications_def readable_rows
  by (erule notification_csv.migrate_again [where rnd = "\<lambda>_ _ _. Inr []"]) (simp_all add: rand_total_def)

lemmas import_again = unit_again employee_again user_again user_unit_again budget_again spd_again approval_again document_again notification_again

text \<open>What is loaded stays loaded as the tables grow.\<close>

lemma grows_subset: "grows (=) xs ys \<Longrightarrow> set xs \<subseteq> set ys"
  using grows_mem by fastforce

lemma unit_loaded_mono: "unit_csv.loaded rows d \<Longrightarrow> db_grows d d' \<Longrightarrow> unit_csv.loaded rows d'"
  by (erule unit_csv.loaded_mono) (simp add: db_grows_def grows_subset)

lemma employee_loaded_mono: "employee_csv.loaded rows d \<Longrightarrow> db_grows d d' \<Longrightarrow> employee_csv.loaded rows d'"
  by (erule employee_csv.loaded_mono) (simp add: db_grows_def grows_subset)

lemma user_loaded_mono: "user_csv.loaded rows d \<Longrightarrow> db_grows d d' \<Longrightarrow> user_csv.loaded rows d'"
  by (erule user_csv.loaded_mono) (simp add: db_grows_def grows_subset)

lemma user_unit_loaded_mono: "user_unit_csv.loaded rows d \<Longrightarrow> db_grows d d' \<Longrightarrow> user_unit_csv.loaded rows d'"
  by (erule user_unit_csv.loaded_mono) (simp add: db_grows_def grows_subset)

lemma budget_loaded_mono: "budget_csv.loaded a rows d \<Longrightarrow> db_grows d d' \<Longrightarrow> budget_csv.loaded a rows d'"
  by (erule budget_csv.loaded_mono) (simp add: db_grows_def grows_subset)

lemma spd_loaded_mono: "spd_csv.loaded a rows d \<Longrightarrow> db_grows d d' \<Longrightarrow> spd_csv.loaded a rows d'"
  by (erule spd_csv.loaded_mono) (simp add: db_grows_def grows_subset)

lemma approval_loaded_mono: "approval_csv.loaded rows d \<Longrightarrow> db_grows d d' \<Longrightarrow> approval_csv.loaded rows d'"
  by (erule approval_csv.loaded_mono) (simp add: db_grows_def grows_subset)

lemma document_loaded_mono: "document_csv.loaded rows d \<Longrightarrow> db_grows d d' \<Longrightarrow> document_csv.loaded rows d'"
  by (erule document_csv.loaded_mono) (simp add: db_grows_def grows_subset)

lemma notification_loaded_mono: "notification_csv.loaded rows d \<Longrightarrow> db_grows d d' \<Longrightarrow> notification_csv.loaded rows d'"
  by (erule notification_csv.loaded_mono) (simp add: db_grows_def grows_subset)

lemmas loaded_mono = unit_loaded_mono employee_loaded_mono user_loaded_mono user_unit_loaded_mono budget_loaded_mono spd_loaded_mono approval_loaded_mono document_loaded_mono notification_loaded_mono

text \<open>The files of a run, all loaded in one database.\<close>

definition all_loaded :: "etl_env \<Rightarrow> aead \<Rightarrow> db \<Rightarrow> bool" where
  "all_loaded v a d \<longleftrightarrow>
     readable v ''units.csv'' \<and> unit_csv.loaded (file_rows v ''units.csv'') d
     \<and> readable v ''employees.csv'' \<and> employee_csv.loaded (file_rows v ''employees.csv'') d
     \<and> readable v ''users.csv'' \<and> user_csv.loaded (file_rows v ''users.csv'') d
     \<and> readable v ''user_units.csv'' \<and> user_unit_csv.loaded (file_rows v ''user_units.csv'') d
     \<and> readable v ''budgets.csv'' \<and> budget_csv.loaded a (file_rows v ''budgets.csv'') d
     \<and> readable v ''spds.csv'' \<and> spd_csv.loaded a (file_rows v ''spds.csv'') d
     \<and> readable v ''approvals.csv'' \<and> approval_csv.loaded (file_rows v ''approvals.csv'') d
     \<and> readable v ''documents.csv'' \<and> document_csv.loaded (file_rows v ''documents.csv'') d
     \<and> readable v ''notifications.csv'' \<and> notification_csv.loaded (file_rows v ''notifications.csv'') d"

lemma etl_steps_Inr:
  assumes "must_all (etl_steps v a False) d = (Inr u, d')"
  shows "\<exists>d9. all_loaded v a d9 \<and> d' = bumped bump_tables d9 \<and> (\<forall>tab \<in> set bump_tables. 1 \<le> max_id (visible_ids tab (bare d9)))"
proof -
  from assms obtain d1 d2 d3 d4 d5 d6 d7 d8 d9 where
    m1: "migrateUnits (ev_tx v ''units'') (ev_file v ''units.csv'') False d = (Inr (), d1)"
    and m2: "migrateEmployees (ev_tx v ''employees'') (ev_file v ''employees.csv'') False d1 = (Inr (), d2)"
    and m3: "migrateUsers (ev_tx v ''users'') (ev_file v ''users.csv'') False d2 = (Inr (), d3)"
    and m4: "migrateUserUnits (ev_tx v ''user_units'') (ev_file v ''user_units.csv'') False d3 = (Inr (), d4)"
    and m5: "migrateBudgets (ev_tx v ''budgets'') a (ev_rand v ''budgets'') (ev_file v ''budgets.csv'') False d4 = (Inr (), d5)"
    and m6: "migrateSPDs (ev_tx v ''spds'') a (ev_rand v ''spds'') (ev_file v ''spds.csv'') False d5 = (Inr (), d6)"
    and m7: "migrateApprovals (ev_tx v ''approvals'') (ev_file v ''approvals.csv'') False d6 = (Inr (), d7)"
    and m8: "migrateDocuments (ev_tx v ''documents'') (ev_file v ''documents.csv'') False d7 = (Inr (), d8)"
    and m9: "migrateNotifications (ev_tx v ''notifications'') (ev_file v ''notifications.csv'') False d8 = (Inr (), d9)"
    and b: "bumpSequences (ev_seq v) d9 = (Inr u, d')"
    by (auto simp: etl_steps_def must_all_Cons_Inr simp del: must_all.simps(2))
  have g2: "db_grows d1 d2" using table_grows(2) [of d1] m2 by (metis snd_conv)
  have g3: "db_grows d2 d3" using table_grows(3) [of d2] m3 by (metis snd_conv)
  have g4: "db_grows d3 d4" using table_grows(4) [of d3] m4 by (metis snd_conv)
  have g5: "db_grows d4 d5" using table_grows(5) [of d4] m5 by (metis snd_conv)
  have g6: "db_grows d5 d6" using table_grows(6) [of d5] m6 by (metis snd_conv)
  have g7: "db_grows d6 d7" using table_grows(7) [of d6] m7 by (metis snd_conv)
  have g8: "db_grows d7 d8" using table_grows(8) [of d7] m8 by (metis snd_conv)
  have g9: "db_grows d8 d9" using table_grows(9) [of d8] m9 by (metis snd_conv)
  have s9: "db_grows d9 d9" by (rule db_grows_refl)
  have s8: "db_grows d8 d9" by (rule db_grows_trans [OF g9 s9])
  have s7: "db_grows d7 d9" by (rule db_grows_trans [OF g8 s8])
  have s6: "db_grows d6 d9" by (rule db_grows_trans [OF g7 s7])
  have s5: "db_grows d5 d9" by (rule db_grows_trans [OF g6 s6])
  have s4: "db_grows d4 d9" by (rule db_grows_trans [OF g5 s5])
  have s3: "db_grows d3 d9" by (rule db_grows_trans [OF g4 s4])
  have s2: "db_grows d2 d9" by (rule db_grows_trans [OF g3 s3])
  have s1: "db_grows d1 d9" by (rule db_grows_trans [OF g2 s2])
  have "all_loaded v a d9"
    unfolding all_loaded_def
    using unit_import [OF m1] unit_loaded_mono [OF _ s1]
      employee_import [OF m2] employee_loaded_mono [OF _ s2]
      user_import [OF m3] user_loaded_mono [OF _ s3]
      user_unit_import [OF m4] user_unit_loaded_mono [OF _ s4]
      budget_import [OF m5] budget_loaded_mono [OF _ s5]
      spd_import [OF m6] spd_loaded_mono [OF _ s6]
      approval_import [OF m7] approval_loaded_mono [OF _ s7]
      document_import [OF m8] document_loaded_mono [OF _ s8]
      notification_import [OF m9] notification_loaded_mono [OF _ s9]
    by blast
  with bump_each_Inr [OF b [unfolded bumpSequences_def]] show ?thesis by blast
qed

lemma etl_steps_again:
  assumes "all_loaded v a d" and "\<And>t n. rand_total (ev_rand v t n)"
    and "\<And>t. ev_tx v t = calm (now t)" and "\<And>t. ev_seq v t = calm (now' t)"
    and "\<forall>tab \<in> set bump_tables. 1 \<le> max_id (visible_ids tab (bare d))"
  shows "must_all (etl_steps v a False) d = (Inr (), bumped bump_tables d)"
proof -
  have "bumpSequences (ev_seq v) d = (Inr (), bumped bump_tables d)"
    unfolding bumpSequences_def by (rule bump_each_calm [where now = now']) (simp add: assms(4,5))
  with assms(1,2) show ?thesis
    by (simp add: etl_steps_def assms(3) all_loaded_def import_again)
qed

lemma bumped_grows: "db_grows d (bumped tabs d)"
  by (simp add: bumped_def db_grows_def grows_refl)

text \<open>
  C37. The migration can be repeated: after a run that succeeded, a second run with the same files, at
  another time and with other random bytes, succeeds and leaves the database exactly as it is,
  sequences included.
\<close>

theorem etl_rerun:
  assumes "etl_main nc ng key conn v False d = (Inr u, d')"
    and "ev_file v' = ev_file v"
    and "\<And>t. ev_tx v' t = calm (now t)" and "\<And>t. ev_seq v' t = calm (now' t)"
    and "\<And>t n. rand_total (ev_rand v' t n)"
  shows "etl_main nc ng key (Inr ()) v' False d' = (Inr (), d')"
proof -
  from assms(1) obtain a where a: "key \<noteq> []" "\<not> HasPrefix key ''REPLACE_''" "NewAESGCMFromBase64 nc ng key = Inr a"
    and m: "must_all (etl_steps v a False) d = (Inr u, d')" by (auto simp: etl_main_steps)
  from etl_steps_Inr [OF m] obtain d9 where l: "all_loaded v a d9" and d': "d' = bumped bump_tables d9"
    and ids: "\<forall>tab \<in> set bump_tables. 1 \<le> max_id (visible_ids tab (bare d9))" by blast
  have g: "db_grows d9 d'" unfolding d' by (rule bumped_grows)
  have rows: "file_rows v' = file_rows v" "readable v' = readable v"
    by (simp_all add: fun_eq_iff file_rows_def readable_def assms(2))
  have "all_loaded v' a d'" using l loaded_mono [OF _ g] unfolding all_loaded_def rows by blast
  moreover have "\<forall>tab \<in> set bump_tables. 1 \<le> max_id (visible_ids tab (bare d'))"
    using ids unfolding d' bumped_def visible_ids_seqs .
  ultimately have "must_all (etl_steps v' a False) d' = (Inr (), bumped bump_tables d')"
    by (rule etl_steps_again [OF _ assms(5,3,4)])
  with a show ?thesis by (simp add: etl_main_def d' bumped_idem)
qed


subsection \<open>An order imported\<close>

lemma encrypt_column_Inr:
  assumes "encrypt_column a rand v aad = Inr c" and "aead_ok a" and "rand_ok rand"
  shows "DecryptString a (bytes_or_nil c) (bytes_of aad) = (if v = [] then Inl ErrCiphertextTooShort else Inr v)"
proof (cases "v = []")
  case True
  with assms show ?thesis by (simp add: encrypt_column_def bytes_or_nil_def cx.dec_empty)
next
  case False
  with assms obtain b where "c = Some b" "EncryptString a rand v (bytes_of aad) = Inr b"
    by (auto simp: encrypt_column_def split: sum.splits)
  with assms False show ?thesis by (simp add: bytes_or_nil_def cx.dec_enc)
qed


subsection \<open>A run\<close>

definition demo_files :: "string \<Rightarrow> string option res" where
  "demo_files name =
     (if name = ''units.csv'' then Inr (Some (csv_write [[''id'', ''code'', ''name''], [''1'', ''U1'', ''Unit'']]))
      else Inr None)"

definition demo_run :: "gotime \<Rightarrow> etl_env" where
  "demo_run now = \<lparr>ev_file = demo_files, ev_tx = (\<lambda>_. calm now), ev_seq = (\<lambda>_. calm now), ev_rand = (\<lambda>_ _ _. demo_rand)\<rparr>"

text \<open>An empty database, whose owner connects.\<close>

definition fresh_db :: db where
  "fresh_db = empty_db\<lparr>rls_on := False\<rparr>"

abbreviation demo_etl :: "gotime \<Rightarrow> db \<Rightarrow> unit res \<times> db" where
  "demo_etl now \<equiv> etl_main (\<lambda>k. Inr k) (\<lambda>_. Inr demo_aead) demo_key (Inr ()) (demo_run now) False"

lemma read_written:
  assumes "2 \<le> length header" and "\<And>fs. fs \<in> set (header # rows) \<Longrightarrow> length fs = length header \<and> (\<forall>f \<in> set fs. one_line f)"
  shows "readCSV (Inr (Some (csv_write (header # rows)))) = Inr (map (record_row (map (\<lambda>h. ToLower (TrimSpace h)) header)) rows)"
proof -
  have "csv_next (csv_write (header # rows)) = Some (Inr header, csv_write rows)"
  proof -
    have "csv_write (header # rows) = csv_line header @ csv_write rows" by (simp add: csv_write_def)
    moreover have "csv_next (csv_line header @ csv_write rows) = Some (Inr header, csv_write rows)"
      by (rule csv_next_line [OF _ assms(1)]) (use conjunct2 [OF assms(2) [of header]] in simp)
    ultimately show ?thesis by simp
  qed
  moreover have "csv_rows (length header) (csv_write rows) = Inr rows" by (rule csv_roundtrip [OF assms(1)], rule assms(2)) simp
  ultimately show ?thesis by (simp add: readCSV_def)
qed

definition demo_unit :: unit_row where
  "demo_unit = \<lparr>un_id = 1, un_code = ''U1'', un_name = ''Unit'', un_created_at = 0, un_updated_at = 0, un_deleted_at = None\<rparr>"

lemma demo_csv:
  "readCSV (demo_files ''units.csv'') = Inr [record_row [''id'', ''code'', ''name''] [''1'', ''U1'', ''Unit'']]"
proof -
  have "\<forall>f \<in> set [''id'', ''code'', ''name'', ''1'', ''U1'', ''Unit'']. one_line f" by code_simp
  moreover have "map (\<lambda>h. ToLower (TrimSpace h)) [''id'', ''code'', ''name''] = [''id'', ''code'', ''name'']" by code_simp
  moreover have "readCSV (Inr (Some (csv_write ([''id'', ''code'', ''name''] # [[''1'', ''U1'', ''Unit'']])))) =
      Inr (map (record_row (map (\<lambda>h. ToLower (TrimSpace h)) [''id'', ''code'', ''name''])) [[''1'', ''U1'', ''Unit'']])"
    by (rule read_written) (use calculation in auto)
  ultimately show ?thesis unfolding demo_files_def by simp
qed

lemma demo_unit_row: "unit_of_row (calm 0) (record_row [''id'', ''code'', ''name''] [''1'', ''U1'', ''Unit'']) = Inr demo_unit"
proof -
  have "record_row [''id'', ''code'', ''name''] [''1'', ''U1'', ''Unit''] =
      [''name'' \<mapsto> ''Unit'', ''code'' \<mapsto> ''U1'', ''id'' \<mapsto> ''1'']"
    by (rule ext) (simp add: record_row_def TrimSpace_def is_space_def char_ord_def)
  moreover have "ToLower ''id'' = ''id''" "ToLower ''code'' = ''code''" "ToLower ''name'' = ''name''"
    "ToLower ''created_at'' = ''created_at''" "ToLower ''updated_at'' = ''updated_at''" "ToLower ''deleted_at'' = ''deleted_at''"
    "ParseInt ''1'' = (1, None)" by code_simp+
  ultimately show ?thesis
    by (simp add: unit_of_row_def int64Val_def timePtr_def str_def or_now_def demo_unit_def) (simp add: calm_def)
qed

lemma demo_run_ok: "demo_etl 0 fresh_db = (Inr (), fresh_db\<lparr>units := [demo_unit], seqs :=
    (\<lambda>t. if t \<in> set bump_tables then 1 else 0)\<rparr>)"
proof -
  let ?d = "fresh_db\<lparr>units := [demo_unit]\<rparr>"
  have miss: "readCSV (Inr None) = Inr []" by (simp add: readCSV_def)
  have "migrateUnits (calm 0) (demo_files ''units.csv'') False fresh_db = (Inr (), ?d)"
    by (simp add: migrateUnits_def migrate_def demo_csv exec_row_def demo_unit_row WithTx_def tx_exec_def
        insert_nothing_def unit_violates_def fresh_db_def empty_db_def calm_simps)
  moreover have "bumpSequences (\<lambda>_. calm 0) ?d = (Inr (), bumped bump_tables ?d)"
    unfolding bumpSequences_def
    by (rule bump_each_calm [where now = "\<lambda>_. 0"]) (auto simp: bump_tables_def visible_ids_def fresh_db_def empty_db_def max_id_def demo_unit_def)
  moreover have "bumped bump_tables ?d = ?d\<lparr>seqs := (\<lambda>t. if t \<in> set bump_tables then 1 else 0)\<rparr>"
    by (auto simp: bumped_def bump_tables_def visible_ids_def fresh_db_def empty_db_def max_id_def demo_unit_def)
  ultimately show ?thesis
    by (simp add: etl_main_def demo_key_ok etl_steps_def demo_run_def migrate_defs migrate_def demo_files_def miss)
qed

abbreviation demo_migrated :: db where
  "demo_migrated \<equiv> fresh_db\<lparr>units := [demo_unit], seqs := (\<lambda>t. if t \<in> set bump_tables then 1 else 0)\<rparr>"

theorem etl_rerun_witness:
  "demo_etl 0 fresh_db = (Inr (), demo_migrated) \<and> demo_etl 5 demo_migrated = (Inr (), demo_migrated)"
proof -
  have "demo_etl 5 demo_migrated = (Inr (), demo_migrated)"
    by (rule etl_rerun [OF demo_run_ok, where now = "\<lambda>_. 5" and now' = "\<lambda>_. 5"])
      (simp_all add: demo_run_def rand_total_def demo_rand_def)
  with demo_run_ok show ?thesis by blast
qed


text \<open>An order without a cost, in a file of its own.\<close>

definition demo_spd_header :: "string list" where
  "demo_spd_header = [''id'', ''unit_id'', ''created_by'', ''nomor_surat'', ''purpose'']"

definition demo_spd_line :: "string list" where
  "demo_spd_line = [''4'', ''1'', ''1'', ''SPD-4'', ''visit'']"

definition demo_spd_file :: "string option res" where
  "demo_spd_file = Inr (Some (csv_write [demo_spd_header, demo_spd_line]))"

definition demo_spd_row :: csvrow where
  "demo_spd_row = [''purpose'' \<mapsto> ''visit'', ''nomor_surat'' \<mapsto> ''SPD-4'', ''created_by'' \<mapsto> ''1'', ''unit_id'' \<mapsto> ''1'', ''id'' \<mapsto> ''4'']"

lemma demo_spd_csv: "readCSV demo_spd_file = Inr [demo_spd_row]"
proof -
  have one: "\<forall>f \<in> set (demo_spd_header @ demo_spd_line). one_line f" by code_simp
  have "map (\<lambda>h. ToLower (TrimSpace h)) demo_spd_header = demo_spd_header" by code_simp
  moreover have "readCSV (Inr (Some (csv_write (demo_spd_header # [demo_spd_line])))) =
      Inr (map (record_row (map (\<lambda>h. ToLower (TrimSpace h)) demo_spd_header)) [demo_spd_line])"
    by (rule read_written) (use one in \<open>auto simp: demo_spd_header_def demo_spd_line_def\<close>)
  moreover have "record_row demo_spd_header demo_spd_line = demo_spd_row"
    by (rule ext) (simp add: record_row_def demo_spd_header_def demo_spd_line_def demo_spd_row_def TrimSpace_def is_space_def char_ord_def)
  ultimately show ?thesis by (simp add: demo_spd_file_def)
qed

lemma lower_names:
  "ToLower ''id'' = ''id''" "ToLower ''unit_id'' = ''unit_id''" "ToLower ''employee_id'' = ''employee_id''"
  "ToLower ''budget_id'' = ''budget_id''" "ToLower ''current_approver_id'' = ''current_approver_id''"
  "ToLower ''created_by'' = ''created_by''" "ToLower ''nomor_surat'' = ''nomor_surat''" "ToLower ''purpose'' = ''purpose''"
  "ToLower ''total_cost'' = ''total_cost''" "ToLower ''status'' = ''status''" "ToLower ''created_at'' = ''created_at''"
  "ToLower ''updated_at'' = ''updated_at''" "ToLower ''deleted_at'' = ''deleted_at''"
  by code_simp+

lemma demo_numbers: "ParseInt ''1'' = (1, None)" "ParseInt ''4'' = (4, None)"
  by code_simp+

lemma demo_spd_keys: "spd_keys_of demo_spd_row = Inr (4, 1, None, None, None, 1)" "int64Val demo_spd_row ''id'' = Inr 4"
  by (simp_all add: spd_keys_of_def int64Val_def int64Ptr_def str_def lower_names demo_spd_row_def demo_numbers)

definition demo_before :: db where
  "demo_before = fresh_db\<lparr>units := [demo_unit], users := [\<lparr>us_id = 1, us_username = ''u'', us_password_hash = ''h'',
     us_role = ''USER'', us_employee_id = None, us_is_active = True, us_mfa_enabled = False, us_mfa_secret_enc = None,
     us_mfa_enrolled_at = None, us_last_login_at = None, us_created_at = 0, us_updated_at = 0, us_deleted_at = None\<rparr>]\<rparr>"

lemma demo_spd_import: "\<exists>d'. migrateSPDs (calm 0) demo_aead (\<lambda>_ _. demo_rand) demo_spd_file False demo_before = (Inr (), d')"
proof -
  obtain c where c: "EncryptString demo_aead demo_rand ''visit'' (bytes_of ''spds:purpose'') = Inr c"
    by (simp add: EncryptString_def Encrypt_def demo_rand_def)
  have "\<exists>r. spd_of_row (calm 0) demo_aead (\<lambda>_. demo_rand) demo_spd_row (4, 1, None, None, None, 1) = Inr r
      \<and> sp_nomor_surat r = ''SPD-4'' \<and> sp_status r = ''DRAFT'' \<and> sp_unit_id r = 1 \<and> sp_created_by r = 1
      \<and> sp_employee_id r = None \<and> sp_budget_id r = None"
    by (simp add: spd_of_row_def timePtr_def str_def lower_names demo_spd_row_def encrypt_column_def c or_default_def)
  then obtain r where r: "spd_of_row (calm 0) demo_aead (\<lambda>_. demo_rand) demo_spd_row (4, 1, None, None, None, 1) = Inr r"
      "sp_nomor_surat r = ''SPD-4''" "sp_status r = ''DRAFT''" "sp_unit_id r = 1" "sp_created_by r = 1"
      "sp_employee_id r = None" "sp_budget_id r = None" by blast
  have set: "SetRLSContext (calm 0) 1 ''SUPER_ADMIN'' \<lparr>tx_db = demo_before, tx_uid = 0, tx_role = [], tx_n = 0\<rparr>
      = (Inr (), started (calm 0) 1 ''SUPER_ADMIN'' demo_before)" by (simp add: SetRLSContext_cases calm_simps)
  have db: "spds demo_before = []" "un_id ` set (units demo_before) = {1}" "us_id ` set (users demo_before) = {1}"
    by (simp_all add: demo_before_def fresh_db_def empty_db_def demo_unit_def)
  have "insert_nothing spds (\<lambda>rs d. d\<lparr>spds := rs\<rparr>) sp_id spd_check spds_insert_policy spd_violates r
      (first_stmt 1 ''SUPER_ADMIN'' demo_before) = (Inr (), (first_stmt 1 ''SUPER_ADMIN'' demo_before)\<lparr>tx_db := demo_before\<lparr>spds := [r]\<rparr>\<rparr>)"
    by (simp add: insert_nothing_def spd_check_def spds_insert_policy_def spd_violates_def refers_def r db)
  then show ?thesis
    by (simp add: migrateSPDs_def migrate_def demo_spd_csv WithTx_def calm_simps exec_row_as_def demo_spd_keys set
        exec_row_def r tx_exec_def started_def)
qed


end
