(* ===== verification/Workflow.thy ===== *)
theory Workflow
  imports SpdProps ApprovalProps AuthProps Budget AuditLog Notify Documents
begin

text \<open>
  The services together, around the life of a travel order: what the SPD service publishes the
  approval service consumes, both write the same two tables, and the other services write others.
  A step relation over all of them, its invariant, and the life cycle of an order it refines.
\<close>

subsection \<open>Whatever happens to a transaction\<close>

text \<open>
  A call leaves the database as it was, but for sequence values, or as the call leaves it when its
  transaction begins and commits (\<open>steady\<close>); the answer may be an error in either case.
\<close>

definition steady :: "dbenv \<Rightarrow> dbenv" where
  "steady e = e\<lparr>begin_err := None, commit_res := Committed\<rparr>"

lemma steady_simps [simp]:
  "begin_err (steady e) = None" "exec_err (steady e) = exec_err e" "commit_res (steady e) = Committed"
  "db_now (steady e) = db_now e"
  by (simp_all add: steady_def)

lemma tx_exec_steady [simp]: "tx_exec (steady e) = tx_exec e"
  by (simp add: tx_exec_def fun_eq_iff)

lemma SetRLSContext_steady [simp]: "SetRLSContext (steady e) = SetRLSContext e"
  by (intro ext, unfold SetRLSContext_def tx_exec_steady, rule refl)

definition untouched :: "db \<Rightarrow> db \<Rightarrow> bool" where
  "untouched d d' \<longleftrightarrow> (\<exists>s. d' = d\<lparr>seqs := s\<rparr>)"

lemma untouched_refl [simp]: "untouched d d"
  unfolding untouched_def by (rule exI [of _ "seqs d"]) simp

lemma untouched_tables: "untouched d d' \<Longrightarrow> spds d' = spds d \<and> approvals d' = approvals d"
  by (auto simp: untouched_def)

lemma WithTx_outcome:
  assumes "WithTx e fn d = (r, d')"
  shows "untouched d d' \<or> (\<exists>v. WithTx (steady e) fn d = (Inr v, d'))"
proof -
  have "untouched d (rollback d x)" for x by (auto simp: untouched_def rollback_def)
  with assms show ?thesis
    by (auto simp: WithTx_def split: option.splits prod.splits sum.splits commit_outcome.splits)
qed

lemma with_rls_outcome:
  "with_rls e uid role body d = (r, d') \<Longrightarrow> untouched d d' \<or> (\<exists>v. with_rls (steady e) uid role body d = (Inr v, d'))"
  unfolding with_rls_def SetRLSContext_steady by (rule WithTx_outcome)

lemma CreateSPD_outcome:
  "CreateSPD e uid role nomor unit emp pe te d = (r, d') \<Longrightarrow>
     untouched d d' \<or> (\<exists>v. CreateSPD (steady e) uid role nomor unit emp pe te d = (Inr v, d'))"
proof -
  have "insert_spd (steady e) = insert_spd e" by (intro ext, unfold insert_spd_def steady_simps, rule refl)
  then show "CreateSPD e uid role nomor unit emp pe te d = (r, d') \<Longrightarrow>
     untouched d d' \<or> (\<exists>v. CreateSPD (steady e) uid role nomor unit emp pe te d = (Inr v, d'))"
    unfolding CreateSPD_def tx_exec_steady by (simp add: with_rls_outcome)
qed

lemma SubmitSPD_outcome:
  "SubmitSPD e uid role i d = (r, d') \<Longrightarrow> untouched d d' \<or> (\<exists>v. SubmitSPD (steady e) uid role i d = (Inr v, d'))"
proof -
  have "submit_spd (steady e) = submit_spd e" by (intro ext, unfold submit_spd_def steady_simps, rule refl)
  then show "SubmitSPD e uid role i d = (r, d') \<Longrightarrow> untouched d d' \<or> (\<exists>v. SubmitSPD (steady e) uid role i d = (Inr v, d'))"
    unfolding SubmitSPD_def tx_exec_steady by (simp add: with_rls_outcome)
qed

lemma decide_outcome:
  "with_rls e uid role (decide_tx e status uid spdID comment) d = (r, d') \<Longrightarrow>
     untouched d d' \<or> (\<exists>v. with_rls (steady e) uid role (decide_tx (steady e) status uid spdID comment) d = (Inr v, d'))"
proof -
  have up: "update_approvals (steady e) = update_approvals e"
    by (intro ext, unfold update_approvals_def steady_simps, rule refl)
  have st: "update_spd_status (steady e) = update_spd_status e"
    by (simp add: update_spd_status_def fun_eq_iff)
  have "decide_tx (steady e) = decide_tx e" by (intro ext, unfold decide_tx_def tx_exec_steady up st, rule refl)
  then show "with_rls e uid role (decide_tx e status uid spdID comment) d = (r, d') \<Longrightarrow>
     untouched d d' \<or> (\<exists>v. with_rls (steady e) uid role (decide_tx (steady e) status uid spdID comment) d = (Inr v, d'))"
    by (simp add: with_rls_outcome)
qed

text \<open>What each call may leave in the two tables.\<close>

lemma Create_spd_effect:
  assumes "Create_spd h env c lo d = (rep, d')"
  shows "approvals d' = approvals d \<and> (spds d' = spds d \<or>
    (\<exists>r. spds d' = spds d @ [r] \<and> sp_status r = ''DRAFT'' \<and> sp_id r \<notin> sp_id ` set (spds d)))"
proof -
  have "approvals d1 = approvals d \<and> (spds d1 = spds d \<or>
      (\<exists>r. spds d1 = spds d @ [r] \<and> sp_status r = ''DRAFT'' \<and> sp_id r \<notin> sp_id ` set (spds d)))"
    if "CreateSPD e uid role nomor unit emp pe te d = (x, d1)" for e uid role nomor unit emp pe te x d1
    using CreateSPD_outcome [OF that]
  proof
    assume "untouched d d1"
    then show ?thesis using untouched_tables by blast
  next
    assume "\<exists>v. CreateSPD (steady e) uid role nomor unit emp pe te d = (Inr v, d1)"
    then obtain v where "CreateSPD (steady e) uid role nomor unit emp pe te d = (Inr v, d1)" ..
    from CreateSPD_Inr [OF this] show ?thesis by (auto simp: spd_refused_def split: if_splits)
  qed
  with assms show ?thesis
    by (auto simp: Create_spd_def split: prod.splits option.splits sum.splits if_splits)
qed

lemma Submit_spd_effect:
  assumes "Submit_spd h env c lo d = (rep, d', out)"
  shows "approvals d' = approvals d \<and> (out = [] \<and> spds d' = spds d \<or>
    (\<exists>i uid role now. (\<exists>r \<in> set (spds d). submittable d uid role i r) \<and>
       spds d' = update_where (submittable d uid role i) (submitted now) (spds d) \<and>
       (out = [] \<or> (\<exists>evt. ev_SPDID evt = i \<and> out = [\<lparr>ms_subject = ''spd.submitted'', ms_data = Some (marshal_submitted evt)\<rparr>]))))"
proof -
  have tables: "approvals d1 = approvals d \<and> (spds d1 = spds d \<or>
      (\<exists>now. (\<exists>r \<in> set (spds d). submittable d uid role i r) \<and>
        spds d1 = update_where (submittable d uid role i) (submitted now) (spds d)))"
    if "SubmitSPD e uid role i d = (x, d1)" for e uid role i x d1
    using SubmitSPD_outcome [OF that]
  proof
    assume "untouched d d1"
    then show ?thesis using untouched_tables by blast
  next
    assume "\<exists>v. SubmitSPD (steady e) uid role i d = (Inr v, d1)"
    then obtain v where "SubmitSPD (steady e) uid role i d = (Inr v, d1)" ..
    from SubmitSPD_Inr [OF this] show ?thesis by auto
  qed
  show ?thesis
  proof (cases "out = []")
    case True
    from assms have "d' = d \<or> (\<exists>e uid role i x. SubmitSPD e uid role i d = (x, d'))"
      by (auto simp: Submit_spd_def Let_def split: prod.splits option.splits sum.splits if_splits)
    then show ?thesis
    proof
      assume "d' = d"
      with True show ?thesis by simp
    next
      assume "\<exists>e uid role i x. SubmitSPD e uid role i d = (x, d')"
      with tables True show ?thesis by blast
    qed
  next
    case False
    from Submit_spd_cases [OF assms False] obtain i a row where "ParseIDParam c ''id'' = Inr i" "AuthFromLocals lo = Some a"
      and sub: "SubmitSPD (re_db env 0) (ai_UserID a) (ai_Role a) i d = (Inr row, d')"
      and out: "out = [\<lparr>ms_subject = ''spd.submitted'', ms_data = Some (marshal_submitted
         \<lparr>ev_SPDID = s_ID row, ev_UnitID = s_UnitID row, ev_UserID = ai_UserID a, ev_SubmittedAt = re_clock env 0\<rparr>)\<rparr>]" by blast
    from SubmitSPD_Inr [OF sub] obtain r where r: "r \<in> set (spds d)" "submittable d (ai_UserID a) (ai_Role a) i r"
      "row = to_SPDRow (submitted (db_now (re_db env 0)) r)"
      and d': "d' = d\<lparr>spds := update_where (submittable d (ai_UserID a) (ai_Role a) i) (submitted (db_now (re_db env 0))) (spds d)\<rparr>"
      by blast
    have "s_ID row = i" using r by (simp add: to_SPDRow_def submitted_def)
    then have "\<exists>evt. ev_SPDID evt = i \<and> out = [\<lparr>ms_subject = ''spd.submitted'', ms_data = Some (marshal_submitted evt)\<rparr>]"
      using out by (metis SPDSubmittedEvent.select_convs(1))
    with r(1,2) d' show ?thesis by auto
  qed
qed

lemma decision_effect:
  assumes "(H, status) \<in> decisions" and "H env c lo d = (rep, d')"
  shows "(spds d' = spds d \<and> approvals d' = approvals d) \<or>
    (\<exists>now uid role i comment. (\<exists>r \<in> set (approvals d). decidable i uid r) \<and>
       d' = after_decision status now uid role i comment d)"
proof -
  have "(spds d1 = spds d \<and> approvals d1 = approvals d) \<or>
    (\<exists>now. (\<exists>r \<in> set (approvals d). decidable i uid r) \<and> d1 = after_decision status now uid role i comment d)"
    if "with_rls e uid role (decide_tx e status uid i comment) d = (x, d1)" for e uid role i comment x d1
    using decide_outcome [OF that]
  proof
    assume "untouched d d1"
    then show ?thesis using untouched_tables by blast
  next
    assume "\<exists>v. with_rls (steady e) uid role (decide_tx (steady e) status uid i comment) d = (Inr v, d1)"
    then obtain v where "with_rls (steady e) uid role (decide_tx (steady e) status uid i comment) d = (Inr v, d1)" ..
    from decide_Inr [OF this] show ?thesis by auto
  qed
  note tables = this
  from assms(2) [unfolded decisions_repo [OF assms(1)]]
  have "d' = d \<or> (\<exists>e uid role i comment x. with_rls e uid role (decide_tx e status uid i comment) d = (x, d'))"
    by (auto simp: decide_handler_def split: prod.splits option.splits sum.splits if_splits)
  then show ?thesis
  proof
    assume "d' = d"
    then show ?thesis by simp
  next
    assume "\<exists>e uid role i comment x. with_rls e uid role (decide_tx e status uid i comment) d = (x, d')"
    then show ?thesis using tables by blast
  qed
qed

subsection \<open>The other services\<close>

text \<open>They leave orders and approvals alone, whatever fails.\<close>

definition order_frame :: "db \<Rightarrow> db \<Rightarrow> bool" where
  "order_frame d d' \<longleftrightarrow> spds d' = spds d \<and> approvals d' = approvals d"

lemma order_frame_refl [simp]: "order_frame d d"
  by (simp add: order_frame_def)

interpretation frame: tx_relation order_frame
  by unfold_locales (simp_all add: order_frame_def)

interpretation auth_frame: auth_relation order_frame
proof (unfold_locales, goal_cases)
  case (1 a b c)
  then show ?case by (simp add: order_frame_def)
next
  case (2 d e tid uid x)
  show ?case unfolding InsertRefreshToken_def
    by (rule frame.autocommit_R) (auto simp: order_frame_def Let_def)
next
  case (3 d e tid rb)
  show ?case unfolding RevokeRefreshToken_def
    by (rule frame.autocommit_R) (auto simp: order_frame_def Let_def)
next
  case (4 b d e uid)
  show ?case unfolding SetMFASecret_def update_user_def
    by (rule frame.autocommit_R) (auto simp: order_frame_def Let_def)
next
  case (5 d uid e)
  show ?case unfolding EnableMFA_def update_user_def
    by (rule frame.autocommit_R) (auto simp: order_frame_def Let_def)
next
  case (6 d e uid)
  show ?case unfolding DisableMFA_def update_user_def
    by (rule frame.autocommit_R) (auto simp: order_frame_def Let_def)
qed

lemma CreateBudget_frame: "order_frame d (snd (CreateBudget e uid role unit am so desc d))"
  unfolding CreateBudget_def
  by (rule frame.with_rls_R, rule frame.tx_exec_R)
    (auto simp: order_frame_def insert_budget_def nextval_def Let_def started_def split: option.splits)

lemma Create_budget_frame: "order_frame d (fst (snd (Create_budget h env c lo d)))"
proof -
  have "CreateBudget e uid role unit am so desc d = (r, d') \<Longrightarrow> order_frame d d'" for e uid role unit am so desc r d'
    using CreateBudget_frame [of d e uid role unit am so desc] by simp
  then show ?thesis by (auto simp: Create_budget_def Let_def split: prod.splits option.splits sum.splits)
qed

lemma on_audit_log_frame: "order_frame d (on_audit_log inet e m d)"
proof -
  have "order_frame d (snd (Insert_audit inet e uid role inp d))" for uid role inp
    unfolding Insert_audit_def
    by (rule frame.with_rls_R, rule frame.tx_exec_R) (auto simp: order_frame_def insert_audit_def nextval_def Let_def started_def)
  then show ?thesis by (simp add: on_audit_log_def Let_def split: option.split)
qed

lemma on_notification_send_frame: "order_frame d (on_notification_send e m d)"
proof -
  have "order_frame d (snd (InsertNotification e uid role ch rc su bo st rb d))" for uid role ch rc su bo st rb
    unfolding InsertNotification_def
    by (rule frame.with_rls_R, rule frame.tx_exec_R) (auto simp: order_frame_def insert_notification_def nextval_def Let_def started_def)
  then show ?thesis by (simp add: on_notification_send_def Let_def split: option.split)
qed

lemma processJob_frame: "order_frame (ds_db s) (ds_db (fst (snd (processJob h env j s))))"
proof -
  have get: "GetSPDForDoc e uid role i d = (r, d') \<Longrightarrow> d' = d" for e uid role i d r d'
    unfolding GetSPDForDoc_def by (rule with_rls_reading)
  have ins: "InsertDocument e uid role i f k rb d = (r, d') \<Longrightarrow> order_frame d d'" for e uid role i f k rb d r d'
  proof -
    have "order_frame d (snd (InsertDocument e uid role i f k rb d))"
      unfolding InsertDocument_def
      by (rule frame.with_rls_R, rule frame.tx_exec_R) (auto simp: order_frame_def insert_document_def nextval_def Let_def started_def)
    then show "InsertDocument e uid role i f k rb d = (r, d') \<Longrightarrow> order_frame d d'" by simp
  qed
  have put: "PutObject oc k ty c s = (r, s') \<Longrightarrow> ds_db s' = ds_db s" for oc k ty c s r s'
    by (auto simp: PutObject_def Let_def split: put_outcome.splits)
  show ?thesis
    by (auto simp: processJob_def on_db_def Let_def split: prod.splits sum.splits dest!: get put dest: ins)
qed

lemmas others_frame = auth_frame.auth_serve_R Create_budget_frame on_audit_log_frame on_notification_send_frame
  processJob_frame

end
