(* ===== verification/OrderLife.thy ===== *)
theory OrderLife
  imports Workflow
begin

text \<open>
  The life of a travel order across the SPD and approval services: an abstract machine with its
  phases, the step relation of the system, and the refinement; then that an order can be approved,
  and what a second consumption of a message does.
\<close>

subsection \<open>The life of an order\<close>

text \<open>
  Abstractly an order goes from a draft to review to a decision.  \<open>Absent\<close> is before its creation;
  \<open>Cancelled\<close> is a status the table allows and no service writes.
\<close>

datatype phase = Absent | Draft | InReview | Approved | Rejected | Cancelled

inductive phase_step :: "phase \<Rightarrow> phase \<Rightarrow> bool" where
  create: "phase_step Absent Draft"
| submit: "phase_step Draft InReview"
| approve: "phase_step InReview Approved"
| reject: "phase_step InReview Rejected"

code_pred phase_step .

inductive_cases phase_step_ends: "phase_step Approved p" "phase_step Rejected p"

lemma phase_final: "phase_step\<^sup>*\<^sup>* p q \<Longrightarrow> p \<in> {Approved, Rejected} \<Longrightarrow> q = p"
  by (induction rule: converse_rtranclp_induct) (auto elim: phase_step_ends)

text \<open>What the statuses of the table stand for.\<close>

definition status_phase :: "string \<Rightarrow> phase" where
  "status_phase st =
     (if st = ''DRAFT'' then Draft else if st = ''SUBMITTED'' then InReview
      else if st = ''APPROVED'' then Approved else if st = ''REJECTED'' then Rejected else Cancelled)"

definition phase :: "db \<Rightarrow> int \<Rightarrow> phase" where
  "phase d i = (case filter (\<lambda>r. sp_id r = i) (spds d) of [] \<Rightarrow> Absent | r # _ \<Rightarrow> status_phase (sp_status r))"

lemma phase_mem:
  assumes "distinct (map sp_id (spds d))" and "r \<in> set (spds d)"
  shows "phase d (sp_id r) = status_phase (sp_status r)"
proof -
  have "filter (\<lambda>x. sp_id x = sp_id r) (spds d) = [r]"
    using filter_key_unique [OF assms refl, of "\<lambda>_. True"] by simp
  then show ?thesis by (simp add: phase_def)
qed

lemma phase_Absent: "phase d i = Absent \<longleftrightarrow> i \<notin> sp_id ` set (spds d)"
proof -
  have "phase d i = Absent \<longleftrightarrow> filter (\<lambda>r. sp_id r = i) (spds d) = []"
    by (auto simp: phase_def status_phase_def split: list.split)
  then show ?thesis by (auto simp: filter_empty_conv)
qed

lemma phase_cong: "spds d' = spds d \<Longrightarrow> phase d' = phase d"
  by (simp add: phase_def fun_eq_iff)

lemma phase_append: "sp_id r \<notin> sp_id ` set (spds d) \<Longrightarrow> spds d' = spds d @ [r] \<Longrightarrow>
    phase d' i = (if i = sp_id r then status_phase (sp_status r) else phase d i)"
proof -
  assume new: "sp_id r \<notin> sp_id ` set (spds d)" and d': "spds d' = spds d @ [r]"
  from new have "filter (\<lambda>x. sp_id x = sp_id r) (spds d) = []" by (auto simp: filter_empty_conv image_iff)
  with d' show ?thesis by (simp add: phase_def)
qed

text \<open>An update that keeps the ids changes the phase of the rows it touches.\<close>

lemma phase_update:
  assumes "distinct (map sp_id (spds d))" and "spds d' = update_where p f (spds d)" and "\<And>r. sp_id (f r) = sp_id r"
    and "r \<in> set (spds d)"
  shows "phase d' (sp_id r) = status_phase (sp_status (if p r then f r else r))"
proof -
  have "distinct (map sp_id (spds d'))" using assms(1) map_key_update_where [of sp_id f p] assms(2,3) by simp
  moreover have "(if p r then f r else r) \<in> set (spds d')" using assms(2,4) by (auto simp: set_update_where)
  ultimately show ?thesis using phase_mem assms(3) by (metis (full_types))
qed

lemma phase_update_Absent: "spds d' = update_where p f (spds d) \<Longrightarrow> (\<And>r. sp_id (f r) = sp_id r) \<Longrightarrow>
    phase d' i = Absent \<longleftrightarrow> phase d i = Absent"
  unfolding phase_Absent using map_key_update_where [of sp_id f p "spds d"] by (metis list.set_map)

subsection \<open>The system\<close>

text \<open>
  The database and the messages of the SPD service that are on their way.  A message is consumed at
  most once: NATS keeps no copy of it, and there is one approval service.
\<close>

record sys =
  sy_db :: db
  sy_wire :: "msg list"

inductive step :: "sys \<Rightarrow> sys \<Rightarrow> bool" where
  create: "step \<lparr>sy_db = d, sy_wire = w\<rparr> \<lparr>sy_db = snd (Create_spd h env c lo d), sy_wire = w\<rparr>"
| submit: "Submit_spd h env c lo d = (rep, d', out) \<Longrightarrow> step \<lparr>sy_db = d, sy_wire = w\<rparr> \<lparr>sy_db = d', sy_wire = w @ out\<rparr>"
| consume: "step \<lparr>sy_db = d, sy_wire = w1 @ m # w2\<rparr> \<lparr>sy_db = on_spd_submitted e m d, sy_wire = w1 @ w2\<rparr>"
| lose: "step \<lparr>sy_db = d, sy_wire = w1 @ m # w2\<rparr> \<lparr>sy_db = d, sy_wire = w1 @ w2\<rparr>"
| decide: "(H, status) \<in> decisions \<Longrightarrow> step \<lparr>sy_db = d, sy_wire = w\<rparr> \<lparr>sy_db = snd (H env c lo d), sy_wire = w\<rparr>"
| other: "order_frame d d' \<Longrightarrow> step \<lparr>sy_db = d, sy_wire = w\<rparr> \<lparr>sy_db = d', sy_wire = w\<rparr>"

text \<open>The order a message asks an approval for, and those that await one.\<close>

definition msg_order :: "msg \<Rightarrow> int list" where
  "msg_order m = (case ms_data m of None \<Rightarrow> []
     | Some j \<Rightarrow> (case json_get jint ''spd_id'' 0 j of None \<Rightarrow> [] | Some i \<Rightarrow> if i = 0 then [] else [i]))"

definition awaiting :: "msg list \<Rightarrow> int list" where
  "awaiting w = concat (map msg_order w)"

lemma msg_order_single: "msg_order m = [] \<or> (\<exists>i. msg_order m = [i])"
  by (simp add: msg_order_def split: option.split)

lemma msg_order_submitted: "set (msg_order \<lparr>ms_subject = sj, ms_data = Some (marshal_submitted evt)\<rparr>) \<subseteq> {ev_SPDID evt}"
  by (auto simp: msg_order_def marshal_submitted_def json_names split: option.splits if_splits)

text \<open>
  The invariant: orders have unique ids; an order has at most one approval or message on the way;
  while one is pending or on the way the order is in review, and no order with an approval is a draft.
\<close>

definition order_inv :: "sys \<Rightarrow> bool" where
  "order_inv s \<longleftrightarrow>
     distinct (map sp_id (spds (sy_db s)))
     \<and> distinct (map ap_spd_id (approvals (sy_db s)) @ awaiting (sy_wire s))
     \<and> (\<forall>i \<in> set (awaiting (sy_wire s)). phase (sy_db s) i = InReview)
     \<and> (\<forall>a \<in> set (approvals (sy_db s)). phase (sy_db s) (ap_spd_id a) \<notin> {Absent, Draft}
          \<and> (ap_status a = ''PENDING'' \<longrightarrow> phase (sy_db s) (ap_spd_id a) = InReview))"

lemma CreatePendingApproval_effect:
  "spds (snd (CreatePendingApproval e i k d)) = spds d \<and>
     (approvals (snd (CreatePendingApproval e i k d)) = approvals d \<or>
      (\<exists>a. approvals (snd (CreatePendingApproval e i k d)) = approvals d @ [a] \<and> ap_spd_id a = i))"
  by (auto simp: CreatePendingApproval_def autocommit_def WithTx_def tx_exec_def nextval_def Let_def rollback_def pending_row_def
      split: option.splits prod.splits sum.splits commit_outcome.splits if_splits)

lemma on_spd_submitted_effect:
  "spds (on_spd_submitted e m d) = spds d \<and>
     (approvals (on_spd_submitted e m d) = approvals d \<or>
      (\<exists>a i. approvals (on_spd_submitted e m d) = approvals d @ [a] \<and> ap_spd_id a = i \<and> msg_order m = [i]))"
proof (cases "ms_data m")
  case None
  then show ?thesis by (simp add: on_spd_submitted_def)
next
  case (Some j)
  show ?thesis
  proof (cases "json_get jint ''spd_id'' 0 j")
    case None
    with Some show ?thesis by (simp add: on_spd_submitted_def)
  next
    case (Some i)
    with \<open>ms_data m = Some j\<close> CreatePendingApproval_effect [of e i 1 d] show ?thesis
      by (cases "i = 0") (auto simp: on_spd_submitted_def msg_order_def)
  qed
qed

subsection \<open>Invariant and refinement, step by step\<close>

abbreviation moves :: "phase \<Rightarrow> phase \<Rightarrow> bool" where
  "moves p q \<equiv> p = q \<or> phase_step p q"

text \<open>An order that is updated keeps the phases of all others.\<close>

lemma update_one:
  assumes "distinct (map sp_id (spds d))" and "spds d' = update_where p f (spds d)" and "\<And>r. sp_id (f r) = sp_id r"
    and "\<forall>r. p r \<longrightarrow> sp_id r = i"
  shows "j \<noteq> i \<Longrightarrow> phase d' j = phase d j"
    and "phase d' i = phase d i \<or> (\<exists>r \<in> set (spds d). p r \<and> phase d' i = status_phase (sp_status (f r)) \<and> phase d i = status_phase (sp_status r))"
proof -
  note ph = phase_update [OF assms(1-3)] phase_mem [OF assms(1)]
  show "phase d' j = phase d j" if "j \<noteq> i"
  proof (cases "j \<in> sp_id ` set (spds d)")
    case True
    then obtain r where "r \<in> set (spds d)" "sp_id r = j" by blast
    with ph [of r] assms(4) that show ?thesis by auto
  next
    case False
    then show ?thesis using phase_update_Absent [OF assms(2,3)] phase_Absent by metis
  qed
  show "phase d' i = phase d i \<or> (\<exists>r \<in> set (spds d). p r \<and> phase d' i = status_phase (sp_status (f r)) \<and> phase d i = status_phase (sp_status r))"
  proof (cases "i \<in> sp_id ` set (spds d)")
    case True
    then obtain r where "r \<in> set (spds d)" "sp_id r = i" by blast
    with ph [of r] show ?thesis by auto
  next
    case False
    then show ?thesis using phase_update_Absent [OF assms(2,3)] phase_Absent by metis
  qed
qed

lemma update_ids:
  assumes "distinct (map sp_id (spds d))" and "spds d' = update_where p f (spds d)" and "\<And>r. sp_id (f r) = sp_id r"
  shows "distinct (map sp_id (spds d'))"
  using assms map_key_update_where [of sp_id f p] by simp

lemma awaiting_append [simp]: "awaiting (w1 @ w2) = awaiting w1 @ awaiting w2"
  by (simp add: awaiting_def)

lemma awaiting_Cons [simp]: "awaiting (m # w) = msg_order m @ awaiting w"
  by (simp add: awaiting_def)

lemma awaiting_Nil [simp]: "awaiting [] = []"
  by (simp add: awaiting_def)

lemma create_step:
  assumes "order_inv \<lparr>sy_db = d, sy_wire = w\<rparr>" and "approvals d' = approvals d"
    and "spds d' = spds d @ [r]" and "sp_status r = ''DRAFT''" and "sp_id r \<notin> sp_id ` set (spds d)"
  shows "order_inv \<lparr>sy_db = d', sy_wire = w\<rparr> \<and> (\<forall>i. moves (phase d i) (phase d' i))"
proof -
  have ph: "phase d' i = (if i = sp_id r then Draft else phase d i)" for i
    using phase_append [OF assms(5,3)] assms(4) by (simp add: status_phase_def)
  have new: "phase d (sp_id r) = Absent" using assms(5) by (simp add: phase_Absent)
  then have "sp_id r \<notin> set (awaiting w)" "sp_id r \<notin> ap_spd_id ` set (approvals d)"
    using assms(1) by (auto simp: order_inv_def)
  with assms(1) show ?thesis
    using new phase_step.create by (auto simp: order_inv_def ph assms(2,3,5))
qed

lemma submit_step:
  assumes "order_inv \<lparr>sy_db = d, sy_wire = w\<rparr>" and "approvals d' = approvals d"
    and "spds d' = update_where p (submitted now) (spds d)" and "\<And>r. p r \<Longrightarrow> sp_id r = i \<and> sp_status r = ''DRAFT''"
    and "r \<in> set (spds d)" and "p r" and "distinct (awaiting out)" and "set (awaiting out) \<subseteq> {i}"
  shows "order_inv \<lparr>sy_db = d', sy_wire = w @ out\<rparr> \<and> (\<forall>i. moves (phase d i) (phase d' i))"
proof -
  have dis: "distinct (map sp_id (spds d))" using assms(1) by (simp add: order_inv_def)
  have idf: "sp_id (submitted now x) = sp_id x" for x by (simp add: submitted_def)
  have pi: "\<forall>x. p x \<longrightarrow> sp_id x = i" using assms(4) by blast
  note one = update_one [OF dis assms(3) idf pi]
  have draft: "phase d i = Draft" using phase_mem [OF dis assms(5)] assms(4) [OF assms(6)] by (simp add: status_phase_def)
  have rev: "phase d' i = InReview"
    using phase_update [OF dis assms(3) idf assms(5)] assms(4) [OF assms(6)] assms(6)
    by (simp add: submitted_def status_phase_def)
  have "i \<notin> set (awaiting w)" "i \<notin> ap_spd_id ` set (approvals d)"
    using assms(1) draft by (auto simp: order_inv_def)
  moreover have "awaiting out = [] \<or> awaiting out = [i]" using assms(7,8) by (cases "awaiting out") (auto simp: subset_singleton_iff)
  moreover have ph: "phase d' j = (if j = i then InReview else phase d j)" for j using one(1) rev by simp
  ultimately show ?thesis
    using assms(1) update_ids [OF dis assms(3) idf] draft phase_step.submit
    by (auto simp: order_inv_def assms(2) ph)
qed

lemma decide_step:
  assumes "order_inv \<lparr>sy_db = d, sy_wire = w\<rparr>" and "status \<in> {''APPROVED'', ''REJECTED''}"
    and "a \<in> set (approvals d)" and "decidable i uid a"
    and "d' = after_decision status now uid role i comment d"
  shows "order_inv \<lparr>sy_db = d', sy_wire = w\<rparr> \<and> (\<forall>i. moves (phase d i) (phase d' i))"
proof -
  let ?p = "status_rows d uid role i" and ?f = "with_status status now"
  have dis: "distinct (map sp_id (spds d))" and dap: "distinct (map ap_spd_id (approvals d))"
    using assms(1) by (auto simp: order_inv_def)
  have sp: "spds d' = update_where ?p ?f (spds d)" and ap: "approvals d' = update_where (decidable i uid) (decided status now uid comment) (approvals d)"
    by (simp_all add: assms(5) after_decision_def)
  have idf: "sp_id (?f x) = sp_id x" for x by (simp add: with_status_def)
  have pi: "\<forall>x. ?p x \<longrightarrow> sp_id x = i" by simp
  note one = update_one [OF dis sp idf pi]
  have a: "ap_spd_id a = i" "ap_status a = ''PENDING''" using assms(4) by (auto simp: decidable_def)
  have rev: "phase d i = InReview" using assms(1,3) a by (auto simp: order_inv_def)
  have now: "phase d' i = InReview \<or> phase d' i = status_phase status" using one(2) rev by (auto simp: with_status_def)
  have dec: "status_phase status \<in> {Approved, Rejected}" using assms(2) by (auto simp: status_phase_def)
  have keys: "map ap_spd_id (approvals d') = map ap_spd_id (approvals d)"
    unfolding ap by (rule map_key_update_where) (simp add: decided_def)
  have pend: "x \<in> set (approvals d) \<and> ap_spd_id x \<noteq> i" if "x \<in> set (approvals d')" "ap_status x = ''PENDING''" for x
  proof -
    from that assms(2) have x: "x \<in> set (approvals d)" "\<not> decidable i uid x"
      by (auto simp: ap set_update_where decided_def)
    have "x \<noteq> a" using x(2) assms(4) by auto
    with distinct_key_eq [OF dap x(1) assms(3)] a(1) x(1) show ?thesis by auto
  qed
  have "set (map ap_spd_id (approvals d')) = set (map ap_spd_id (approvals d))" unfolding keys ..
  then have refs: "ap_spd_id x \<in> ap_spd_id ` set (approvals d)" if "x \<in> set (approvals d')" for x using that by auto
  have i: "i \<notin> set (awaiting w)" using assms(1,3) a(1) by (auto simp: order_inv_def)
  have old: "phase d j \<notin> {Absent, Draft}" if "j \<in> ap_spd_id ` set (approvals d)" for j
    using assms(1) that by (auto simp: order_inv_def)
  have some: "phase d' j \<notin> {Absent, Draft}" if "j \<in> ap_spd_id ` set (approvals d)" for j
    using old [OF that] now dec one(1) [of j] by (cases "j = i") auto
  have "order_inv \<lparr>sy_db = d', sy_wire = w\<rparr>"
    unfolding order_inv_def sys.select_convs keys
  proof (intro conjI ballI impI)
    show "distinct (map sp_id (spds d'))" by (rule update_ids [OF dis sp idf])
    show "distinct (map ap_spd_id (approvals d) @ awaiting w)" using assms(1) by (simp add: order_inv_def)
    show "phase d' j = InReview" if "j \<in> set (awaiting w)" for j
    proof -
      have "j \<noteq> i" using i that by auto
      from one(1) [OF this] show ?thesis using assms(1) that by (simp add: order_inv_def)
    qed
    show "phase d' (ap_spd_id x) \<notin> {Absent, Draft}" if "x \<in> set (approvals d')" for x using some refs [OF that] .
    show "phase d' (ap_spd_id x) = InReview" if "x \<in> set (approvals d')" "ap_status x = ''PENDING''" for x
    proof -
      from pend [OF that] have x: "x \<in> set (approvals d)" "ap_spd_id x \<noteq> i" by auto
      from one(1) [OF x(2)] show ?thesis using assms(1) x(1) that(2) by (simp add: order_inv_def)
    qed
  qed
  moreover have "moves (phase d j) (phase d' j)" for j
  proof (cases "j = i")
    case True
    with rev now dec phase_step.approve phase_step.reject show ?thesis by auto
  next
    case False
    from one(1) [OF this] show ?thesis by simp
  qed
  ultimately show ?thesis by blast
qed

lemma same_step:
  assumes "order_inv \<lparr>sy_db = d, sy_wire = w\<rparr>" and "spds d' = spds d" and "approvals d' = approvals d"
    and "distinct (awaiting w')" and "set (awaiting w') \<subseteq> set (awaiting w)"
  shows "order_inv \<lparr>sy_db = d', sy_wire = w'\<rparr> \<and> (\<forall>i. moves (phase d i) (phase d' i))"
  using assms phase_cong [OF assms(2)] by (auto simp: order_inv_def)

lemma consume_step:
  assumes "order_inv \<lparr>sy_db = d, sy_wire = w1 @ m # w2\<rparr>"
  shows "order_inv \<lparr>sy_db = on_spd_submitted e m d, sy_wire = w1 @ w2\<rparr>
    \<and> (\<forall>i. moves (phase d i) (phase (on_spd_submitted e m d) i))"
proof -
  note eff = on_spd_submitted_effect [of e m d]
  have ph: "phase (on_spd_submitted e m d) = phase d" by (rule phase_cong) (use eff in simp)
  from eff consider "approvals (on_spd_submitted e m d) = approvals d"
    | a i where "approvals (on_spd_submitted e m d) = approvals d @ [a]" "ap_spd_id a = i" "msg_order m = [i]" by blast
  then show ?thesis
  proof cases
    case 1
    with assms eff show ?thesis by (intro same_step [OF assms]) (auto simp: order_inv_def)
  next
    case 2
    with assms eff show ?thesis by (auto simp: order_inv_def ph)
  qed
qed

text \<open>Every step of the system keeps the invariant and is a step of the life of each order, or none.\<close>

lemma step_refines:
  assumes "step s s'" and "order_inv s"
  shows "order_inv s' \<and> (\<forall>i. moves (phase (sy_db s) i) (phase (sy_db s') i))"
  using assms
proof cases
  case (create d w h env c lo)
  obtain rep d' where run: "Create_spd h env c lo d = (rep, d')" by fastforce
  from Create_spd_effect [OF run] consider "approvals d' = approvals d" "spds d' = spds d"
    | r where "approvals d' = approvals d" "spds d' = spds d @ [r]" "sp_status r = ''DRAFT''" "sp_id r \<notin> sp_id ` set (spds d)" by blast
  then show ?thesis
  proof cases
    case 1
    with assms(2) run create show ?thesis using same_step [of d w d' w] by (simp add: order_inv_def)
  next
    case 2
    with create_step [of d w d' r] assms(2) run create show ?thesis by simp
  qed
next
  case (submit h env c lo d rep d' out w)
  from Submit_spd_effect [OF submit(3)] consider "approvals d' = approvals d" "out = []" "spds d' = spds d"
    | i uid role now r where "approvals d' = approvals d" "r \<in> set (spds d)" "submittable d uid role i r"
      "spds d' = update_where (submittable d uid role i) (submitted now) (spds d)"
      "out = [] \<or> (\<exists>evt. ev_SPDID evt = i \<and> out = [\<lparr>ms_subject = ''spd.submitted'', ms_data = Some (marshal_submitted evt)\<rparr>])"
    by blast
  then show ?thesis
  proof cases
    case 1
    with assms(2) submit show ?thesis using same_step [of d w d' w] by (simp add: order_inv_def)
  next
    case 2
    have "awaiting out = [] \<or> (\<exists>j. awaiting out = [j])" using 2(5) msg_order_single [of "hd out"] by auto
    then have dis: "distinct (awaiting out)" by auto
    have sub: "set (awaiting out) \<subseteq> {i}" using 2(5) subsetD [OF msg_order_submitted] by auto
    have inv: "order_inv \<lparr>sy_db = d, sy_wire = w\<rparr>" using assms(2) submit(1) by simp
    have "order_inv \<lparr>sy_db = d', sy_wire = w @ out\<rparr> \<and> (\<forall>i. moves (phase d i) (phase d' i))"
      by (rule submit_step [OF inv 2(1,4) _ 2(2,3) dis sub]) simp
    with submit(1,2) show ?thesis by simp
  qed
next
  case (consume d w1 m w2 e)
  with assms(2) consume_step show ?thesis by simp
next
  case (lose d w1 m w2)
  with assms(2) same_step [of d "w1 @ m # w2" d "w1 @ w2"] show ?thesis by (auto simp: order_inv_def)
next
  case (decide H status d w env c lo)
  obtain rep d' where run: "H env c lo d = (rep, d')" by fastforce
  have st: "status \<in> {''APPROVED'', ''REJECTED''}" using decide(3) by (auto simp: decisions_def)
  from decision_effect [OF decide(3) run] consider "spds d' = spds d" "approvals d' = approvals d"
    | now uid role i comment a where "a \<in> set (approvals d)" "decidable i uid a" "d' = after_decision status now uid role i comment d"
    by blast
  then show ?thesis
  proof cases
    case 1
    with assms(2) run decide show ?thesis using same_step [of d w d' w] by (simp add: order_inv_def)
  next
    case 2
    from decide_step [OF _ st 2] assms(2) run decide show ?thesis by simp
  qed
next
  case (other d d' w)
  with assms(2) same_step [of d w d' w] show ?thesis by (simp add: order_frame_def order_inv_def)
qed

subsection \<open>The properties\<close>

lemma steps_refine:
  assumes "step\<^sup>*\<^sup>* s s'" and "order_inv s"
  shows "order_inv s' \<and> (\<forall>i. phase_step\<^sup>*\<^sup>* (phase (sy_db s) i) (phase (sy_db s') i))"
  using assms
proof (induction rule: rtranclp_induct)
  case base
  then show ?case by simp
next
  case (step s1 s2)
  then have inv: "order_inv s1" and run: "\<And>i. phase_step\<^sup>*\<^sup>* (phase (sy_db s) i) (phase (sy_db s1) i)" by auto
  from step_refines [OF step.hyps(2) inv]
  have "order_inv s2" and m: "\<And>i. moves (phase (sy_db s1) i) (phase (sy_db s2) i)" by auto
  then show ?case using run by (metis rtranclp.rtrancl_into_rtrancl)
qed

lemma order_inv_init: "spds (sy_db s) = [] \<Longrightarrow> approvals (sy_db s) = [] \<Longrightarrow> sy_wire s = [] \<Longrightarrow> order_inv s"
  by (simp add: order_inv_def)

text \<open>
  C7. The services, starting from a database without orders and running in any interleaving with any
  failures, messages lost but none consumed twice, refine the life cycle draft, review, decision of
  every order: whatever state the system reached and whatever happens from there, an order's phase
  only moves forward, a decision is final, and a pending approval is one of an order in review, which
  has no other.
\<close>

theorem order_lifecycle:
  assumes "spds (sy_db s0) = []" and "approvals (sy_db s0) = []" and "sy_wire s0 = []"
    and "step\<^sup>*\<^sup>* s0 s" and "step\<^sup>*\<^sup>* s s'"
  shows "phase_step\<^sup>*\<^sup>* (phase (sy_db s) i) (phase (sy_db s') i)
    \<and> (phase (sy_db s) i \<in> {Approved, Rejected} \<longrightarrow> phase (sy_db s') i = phase (sy_db s) i)
    \<and> distinct (map ap_spd_id (approvals (sy_db s)))
    \<and> (\<forall>a \<in> set (approvals (sy_db s)). ap_status a = ''PENDING'' \<longrightarrow> phase (sy_db s) (ap_spd_id a) = InReview)"
proof -
  from steps_refine [OF assms(4) order_inv_init [OF assms(1-3)]] have inv: "order_inv s" by simp
  from steps_refine [OF assms(5) inv] have run: "phase_step\<^sup>*\<^sup>* (phase (sy_db s) i) (phase (sy_db s') i)" by simp
  with phase_final [OF run] inv show ?thesis by (auto simp: order_inv_def)
qed

lemma decide_some:
  assumes "r \<in> set (approvals d)" and "decidable i uid r" and "uid \<in> us_id ` set (users d)"
  shows "\<exists>row d'. with_rls (calm now) uid role (decide_tx (calm now) status uid i comment) d = (Inr row, d')"
proof -
  let ?rs = "returning (decidable i uid) (decided status (db_now (calm now)) uid comment) (approvals d)"
  have "?rs \<noteq> []" using assms(1,2) by auto
  then obtain x xs where "?rs = x # xs" by (cases ?rs) auto
  then have "\<exists>row t1. update_approvals (calm now) status i uid comment (first_stmt uid role d) = (Inr row, t1)"
    using assms(3) by (simp add: update_approvals_def query_row_def)
  then obtain row t1 where "update_approvals (calm now) status i uid comment (first_stmt uid role d) = (Inr row, t1)" by blast
  then have "\<exists>t. decide_tx (calm now) status uid i comment (started (calm now) uid role d) = (Inr row, t)"
    by (simp add: decide_tx_def tx_exec_def started_def update_spd_status_def calm_simps)
  then obtain t where "decide_tx (calm now) status uid i comment (started (calm now) uid role d) = (Inr row, t)" by blast
  from with_rls_calm [where body = "decide_tx (calm now) status uid i comment", OF this] show ?thesis by simp
qed

text \<open>A message about an order that is there, and then a decision of somebody who may make it.\<close>

lemma deliver_then_decide:
  assumes "(H, status) \<in> decisions" and "distinct (map sp_id (spds d))" and "r \<in> set (spds d)"
    and "sp_deleted_at r = None" and "msg_order m = [sp_id r]" and "seqs d ''approvals'' + 1 \<notin> ap_id ` set (approvals d)"
    and "parse_int64 (rq_params c ''spd_id'') = Some (sp_id r)" and "AuthFromLocals lo = Some a" and "canApprove (ai_Role a)"
    and "ai_UserID a \<in> us_id ` set (users d)" and "rls_on d \<longrightarrow> sp_created_by r = ai_UserID a \<or> ai_Role a = ''SUPER_ADMIN''"
    and "re_db env 0 = calm t"
  shows "\<exists>row d'. H env c lo (on_spd_submitted (calm t0) m d) = (Inr (JSON 200 row), d')
    \<and> a_SPDID row = sp_id r \<and> a_Status row = status \<and> phase d' (sp_id r) = status_phase status"
proof -
  let ?p = "pending_row t0 (seqs d ''approvals'' + 1) (sp_id r) 1"
  let ?d1 = "on_spd_submitted (calm t0) m d"
  obtain j where j: "ms_data m = Some j" "json_get jint ''spd_id'' 0 j = Some (sp_id r)" "sp_id r \<noteq> 0"
    using assms(5) by (auto simp: msg_order_def split: option.splits if_splits)
  have d1: "?d1 = d\<lparr>approvals := approvals d @ [?p], seqs := (seqs d)(''approvals'' := seqs d ''approvals'' + 1)\<rparr>"
    using assms(3,6) j
    by (auto simp: on_spd_submitted_def CreatePendingApproval_def autocommit_def WithTx_def tx_exec_def nextval_def Let_def calm_simps)
  have p: "?p \<in> set (approvals ?d1)" "decidable (sp_id r) (ai_UserID a) ?p"
    by (simp_all add: d1 decidable_def pending_row_def)
  have "\<exists>row d'. with_rls (calm t) (ai_UserID a) (ai_Role a)
      (decide_tx (calm t) status (ai_UserID a) (sp_id r) (dr_Comment (snd (rq_body c)))) ?d1 = (Inr row, d')"
    by (rule decide_some [OF p]) (use assms(10) in \<open>simp add: d1\<close>)
  then obtain row d' where "with_rls (calm t) (ai_UserID a) (ai_Role a)
      (decide_tx (calm t) status (ai_UserID a) (sp_id r) (dr_Comment (snd (rq_body c)))) ?d1 = (Inr row, d')" by blast
  moreover have "ParseIDParam c ''spd_id'' = Inr (sp_id r)" using assms(7) by (simp add: ParseIDParam_Inr)
  ultimately have run: "H env c lo ?d1 = (Inr (JSON 200 row), d')"
    using assms(8,9,12) by (simp add: decisions_repo [OF assms(1)] decide_handler_def)
  from decision_Inr [OF assms(1) run] assms(7,8) obtain x now comment where x: "decidable (sp_id r) (ai_UserID a) x"
    and row: "row = to_ApprovalRow (decided status now (ai_UserID a) comment x)" by auto
  have "spds d' = map (\<lambda>x. if sp_id x = sp_id r \<and> sp_deleted_at x = None
        \<and> (rls_on ?d1 \<longrightarrow> sp_created_by x = ai_UserID a \<or> ai_Role a = ''SUPER_ADMIN'')
      then x\<lparr>sp_status := status, sp_updated_at := db_now (re_db env 0)\<rparr> else x) (spds ?d1)"
    using decision_on_order [OF assms(1) run assms(8,7)] by blast
  then have "spds d' = update_where (\<lambda>x. sp_id x = sp_id r \<and> sp_deleted_at x = None
        \<and> (rls_on d \<longrightarrow> sp_created_by x = ai_UserID a \<or> ai_Role a = ''SUPER_ADMIN''))
      (with_status status (db_now (re_db env 0))) (spds d)"
    unfolding update_where_def with_status_def by (simp add: d1 del: map_eq_conv)
  from phase_update [OF assms(2) this _ assms(3)] have "phase d' (sp_id r) = status_phase status"
    using assms(4,11) by (simp add: with_status_def)
  moreover have "a_SPDID row = sp_id r" "a_Status row = status"
    using x by (simp_all add: row to_ApprovalRow_def decided_def decidable_def)
  ultimately show ?thesis using run by blast
qed

text \<open>What a submission that publishes leaves: the order in review, and a message that asks for its approval.\<close>

lemma submission_leaves:
  assumes "order_inv \<lparr>sy_db = d, sy_wire = w\<rparr>" and "Submit_spd h env c lo d = (rep, d1, [m])"
    and "rq_params c ''id'' = FormatInt i" and "int64_ok i" and "i \<noteq> 0"
  shows "\<exists>r \<in> set (spds d1). sp_id r = i \<and> sp_deleted_at r = None \<and> msg_order m = [i]
    \<and> phase d i = Draft \<and> phase d1 i = InReview \<and> distinct (map sp_id (spds d1))"
proof -
  have "\<exists>j a row. ParseIDParam c ''id'' = Inr j \<and> AuthFromLocals lo = Some a
      \<and> SubmitSPD (re_db env 0) (ai_UserID a) (ai_Role a) j d = (Inr row, d1)
      \<and> [m] = [\<lparr>ms_subject = ''spd.submitted'', ms_data = Some (marshal_submitted
         \<lparr>ev_SPDID = s_ID row, ev_UnitID = s_UnitID row, ev_UserID = ai_UserID a, ev_SubmittedAt = re_clock env 0\<rparr>)\<rparr>]"
    using Submit_spd_cases [OF assms(2)] by blast
  then obtain j b row where j: "ParseIDParam c ''id'' = Inr j" and "AuthFromLocals lo = Some b"
    and sub: "SubmitSPD (re_db env 0) (ai_UserID b) (ai_Role b) j d = (Inr row, d1)"
    and m: "m = \<lparr>ms_subject = ''spd.submitted'', ms_data = Some (marshal_submitted
         \<lparr>ev_SPDID = s_ID row, ev_UnitID = s_UnitID row, ev_UserID = ai_UserID b, ev_SubmittedAt = re_clock env 0\<rparr>)\<rparr>"
    by (elim exE conjE) (rule that, assumption+, simp)
  have "j = i" using j assms(3,4) parse_int64_FormatInt [of i] by (simp add: ParseIDParam_Inr)
  let ?now = "db_now (re_db env 0)"
  from SubmitSPD_Inr [OF sub] \<open>j = i\<close> obtain r where r: "r \<in> set (spds d)" "submittable d (ai_UserID b) (ai_Role b) i r"
    and row: "row = to_SPDRow (submitted ?now r)"
    and d1: "d1 = d\<lparr>spds := update_where (submittable d (ai_UserID b) (ai_Role b) i) (submitted ?now) (spds d)\<rparr>" by auto
  have dis: "distinct (map sp_id (spds d))" using assms(1) by (simp add: order_inv_def)
  have idf: "sp_id (submitted ?now x) = sp_id x" for x by (simp add: submitted_def)
  have spds1: "spds d1 = update_where (submittable d (ai_UserID b) (ai_Role b) i) (submitted ?now) (spds d)" by (simp add: d1)
  have dis1: "distinct (map sp_id (spds d1))" by (rule update_ids [OF dis spds1 idf])
  have r1: "submitted ?now r \<in> set (spds d1)" "sp_id (submitted ?now r) = i" "sp_deleted_at (submitted ?now r) = None"
    using r by (auto simp: spds1 set_update_where submitted_def)
  have "phase d i = Draft" "phase d1 i = InReview"
    using phase_mem [OF dis r(1)] phase_mem [OF dis1 r1(1)] r(2) r1(2) by (simp_all add: status_phase_def submitted_def)
  moreover have "msg_order m = [i]"
    using assms(5) row r1(2) by (simp add: m msg_order_def marshal_submitted_def json_names to_SPDRow_def assms(4))
  ultimately show ?thesis using r1 dis1 by blast
qed

text \<open>
  C8. An order can be approved: a draft whose submission is answered with an event, the event
  delivered, and an approver who may change the order lead to an approval answered by 200 and the
  order \<open>Approved\<close>, when nothing fails on the way; whatever else the database holds.
\<close>

theorem submit_to_approval:
  assumes "order_inv \<lparr>sy_db = d, sy_wire = w\<rparr>" and "Submit_spd h env c lo d = (rep, d1, [m])"
    and "rq_params c ''id'' = FormatInt i" and "int64_ok i" and "i \<noteq> 0"
    and "seqs d1 ''approvals'' + 1 \<notin> ap_id ` set (approvals d1)"
    and "rq_params c' ''spd_id'' = FormatInt i" and "AuthFromLocals lo' = Some a" and "ai_Role a = ''SUPER_ADMIN''"
    and "ai_UserID a \<in> us_id ` set (users d1)" and "re_db env' 0 = calm t"
  shows "\<exists>row d3. Approve_approval env' c' lo' (on_spd_submitted (calm t0) m d1) = (Inr (JSON 200 row), d3)
    \<and> a_SPDID row = i \<and> phase d i = Draft \<and> phase d1 i = InReview \<and> phase d3 i = Approved
    \<and> step\<^sup>*\<^sup>* \<lparr>sy_db = d, sy_wire = w\<rparr> \<lparr>sy_db = d3, sy_wire = w\<rparr>"
proof -
  from submission_leaves [OF assms(1-5)] obtain r where r: "r \<in> set (spds d1)" "sp_id r = i" "sp_deleted_at r = None"
    and mo: "msg_order m = [sp_id r]" and ph: "phase d i = Draft" "phase d1 i = InReview"
    and dis: "distinct (map sp_id (spds d1))" by auto
  have par: "parse_int64 (rq_params c' ''spd_id'') = Some (sp_id r)"
    using assms(4,7) r(2) parse_int64_FormatInt [of i] by simp
  have ok: "canApprove (ai_Role a)" "rls_on d1 \<longrightarrow> sp_created_by r = ai_UserID a \<or> ai_Role a = ''SUPER_ADMIN''"
    by (simp_all add: assms(9) canApprove_def)
  have dec: "(Approve_approval, ''APPROVED'') \<in> decisions" by (simp add: decisions_def)
  from deliver_then_decide [OF dec dis r(1,3) mo assms(6) par assms(8) ok(1) assms(10) ok(2) assms(11)]
  obtain row d3 where run: "Approve_approval env' c' lo' (on_spd_submitted (calm t0) m d1) = (Inr (JSON 200 row), d3)"
    and "a_SPDID row = sp_id r" "phase d3 (sp_id r) = status_phase ''APPROVED''" by blast
  then have fin: "a_SPDID row = i" "phase d3 i = Approved" by (simp_all add: r(2) status_phase_def)
  have "step \<lparr>sy_db = d, sy_wire = w\<rparr> \<lparr>sy_db = d1, sy_wire = w @ [m]\<rparr>" by (rule step.submit [OF assms(2)])
  moreover have "step \<lparr>sy_db = d1, sy_wire = w @ m # []\<rparr> \<lparr>sy_db = on_spd_submitted (calm t0) m d1, sy_wire = w @ []\<rparr>"
    by (rule step.consume)
  moreover have "step \<lparr>sy_db = on_spd_submitted (calm t0) m d1, sy_wire = w\<rparr> \<lparr>sy_db = d3, sy_wire = w\<rparr>"
    using step.decide [OF dec, of "on_spd_submitted (calm t0) m d1" w env' c' lo'] run by simp
  ultimately have "step\<^sup>*\<^sup>* \<lparr>sy_db = d, sy_wire = w\<rparr> \<lparr>sy_db = d3, sy_wire = w\<rparr>"
    by (metis append_Nil2 converse_rtranclp_into_rtranclp r_into_rtranclp)
  with run fin ph show ?thesis by blast
qed

text \<open>
  C9. A message consumed again undoes a decision: after an order is \<open>Approved\<close>, a second delivery of
  its event, or its consumption by a second replica, makes a new pending approval, and its
  rejection is answered by 200 and turns the order to \<open>Rejected\<close>.
\<close>

theorem redelivery_flips_decision:
  assumes "distinct (map sp_id (spds d))" and "r \<in> set (spds d)" and "sp_deleted_at r = None"
    and "phase d (sp_id r) = Approved" and "msg_order m = [sp_id r]"
    and "seqs d ''approvals'' + 1 \<notin> ap_id ` set (approvals d)"
    and "parse_int64 (rq_params c ''spd_id'') = Some (sp_id r)" and "AuthFromLocals lo = Some a"
    and "ai_Role a = ''SUPER_ADMIN''" and "ai_UserID a \<in> us_id ` set (users d)" and "re_db env 0 = calm t"
  shows "\<exists>row d'. Reject_approval env c lo (on_spd_submitted (calm t0) m d) = (Inr (JSON 200 row), d')
    \<and> a_Status row = ''REJECTED'' \<and> phase d' (sp_id r) = Rejected"
proof -
  have "(Reject_approval, ''REJECTED'') \<in> decisions" by (simp add: decisions_def)
  moreover have "canApprove (ai_Role a)" "rls_on d \<longrightarrow> sp_created_by r = ai_UserID a \<or> ai_Role a = ''SUPER_ADMIN''"
    by (simp_all add: assms(9) canApprove_def)
  ultimately obtain row d' where "Reject_approval env c lo (on_spd_submitted (calm t0) m d) = (Inr (JSON 200 row), d')"
    "a_Status row = ''REJECTED''" "phase d' (sp_id r) = status_phase ''REJECTED''"
    using deliver_then_decide [OF _ assms(1,2,3,5,6,7,8) _ assms(10) _ assms(11)] by blast
  then show ?thesis by (auto simp: status_phase_def)
qed

subsection \<open>Concrete runs\<close>

lemma demo_created: "step\<^sup>*\<^sup>* \<lparr>sy_db = spd_db0, sy_wire = []\<rparr> \<lparr>sy_db = spd_db1, sy_wire = []\<rparr>"
  unfolding spd_db1_def by (rule r_into_rtranclp) (rule step.create)

lemma demo_no_orders: "spds spd_db0 = []" "approvals spd_db0 = []"
  by (simp_all add: spd_db0_def empty_db_def)

theorem order_lifecycle_witness:
  "phase_step\<^sup>*\<^sup>* (phase spd_db0 1) (phase spd_db1 1) \<and> phase spd_db0 1 = Absent \<and> phase spd_db1 1 = Draft"
proof -
  have "phase_step\<^sup>*\<^sup>* (phase spd_db0 1) (phase spd_db1 1)"
    using order_lifecycle [of "\<lparr>sy_db = spd_db0, sy_wire = []\<rparr>" "\<lparr>sy_db = spd_db0, sy_wire = []\<rparr>" "\<lparr>sy_db = spd_db1, sy_wire = []\<rparr>" 1]
      demo_created demo_no_orders by simp
  moreover have "phase spd_db0 1 = Absent" "phase spd_db1 1 = Draft" by code_simp+
  ultimately show ?thesis by blast
qed

definition demo_super :: locals where
  "demo_super = demo_locals\<lparr>lo_user_role := Some ''SUPER_ADMIN''\<rparr>"

lemma demo_super_auth:
  "AuthFromLocals demo_super = Some \<lparr>ai_UserID = 7, ai_Role = ''SUPER_ADMIN'', ai_TokenType = ''access'', ai_TokenID = ''a''\<rparr>"
  by (simp add: demo_super_def demo_locals_def AuthFromLocals_def str_or_zero_def)

abbreviation demo_submission :: "spdResponse reply res \<times> db \<times> msg list" where
  "demo_submission \<equiv> Submit_spd demo_spd (demo_env 0) demo_id_request demo_locals spd_db1"

lemma demo_submission_runs:
  "length (snd (snd demo_submission)) = 1" "approvals (fst (snd demo_submission)) = []"
  "map us_id (users (fst (snd demo_submission))) = [7]" "FormatInt 1 = ''1''" "int64_ok 1"
  by code_simp+

theorem submit_to_approval_witness:
  "\<exists>rep d1 m row d3. demo_submission = (rep, d1, [m])
     \<and> Approve_approval (demo_env 1) demo_decision demo_super (on_spd_submitted (calm 5) m d1) = (Inr (JSON 200 row), d3)
     \<and> phase spd_db1 1 = Draft \<and> phase d3 1 = Approved"
proof -
  obtain rep d1 out where sub: "demo_submission = (rep, d1, out)" by (cases demo_submission)
  then have "length out = 1" "approvals d1 = []" "map us_id (users d1) = [7]" using demo_submission_runs by simp_all
  then obtain m where out: "out = [m]" and no: "seqs d1 ''approvals'' + 1 \<notin> ap_id ` set (approvals d1)"
    and us: "7 \<in> us_id ` set (users d1)" by (auto simp: length_Suc_conv)
  have inv: "order_inv \<lparr>sy_db = spd_db1, sy_wire = []\<rparr>"
    using steps_refine [OF demo_created] order_inv_init [of "\<lparr>sy_db = spd_db0, sy_wire = []\<rparr>"] demo_no_orders by simp
  have ids: "rq_params demo_id_request ''id'' = FormatInt 1" "rq_params demo_decision ''spd_id'' = FormatInt 1"
    using demo_submission_runs(4) by (simp_all add: demo_id_request_def demo_decision_def)
  obtain row d3 where "Approve_approval (demo_env 1) demo_decision demo_super (on_spd_submitted (calm 5) m d1) = (Inr (JSON 200 row), d3)"
    "phase spd_db1 1 = Draft" "phase d3 1 = Approved"
    using submit_to_approval [OF inv sub [unfolded out] ids(1) demo_submission_runs(5) _ no ids(2) demo_super_auth _ _
        demo_env_simps(2) [of 1 0], of 5] us by auto
  with sub out show ?thesis by blast
qed

definition demo_approved :: db where
  "demo_approved = snd (Approve_approval (demo_env 0) demo_decision demo_super (appr_db\<lparr>seqs := (\<lambda>_. 1)\<rparr>))"

definition demo_event :: msg where
  "demo_event = \<lparr>ms_subject = ''spd.submitted'', ms_data = Some (marshal_submitted
     \<lparr>ev_SPDID = 1, ev_UnitID = 1, ev_UserID = 3, ev_SubmittedAt = 0\<rparr>)\<rparr>"

lemma demo_approved_runs:
  "map sp_id (spds demo_approved) = [1]" "map sp_deleted_at (spds demo_approved) = [None]" "phase demo_approved 1 = Approved"
  "msg_order demo_event = [1]" "seqs demo_approved ''approvals'' + 1 \<notin> set (map ap_id (approvals demo_approved))"
  "map us_id (users demo_approved) = [7]"
  by code_simp+

theorem redelivery_flips_decision_witness:
  "phase demo_approved 1 = Approved
     \<and> (\<exists>row d'. Reject_approval (demo_env 1) demo_decision demo_super (on_spd_submitted (calm 5) demo_event demo_approved)
          = (Inr (JSON 200 row), d') \<and> phase d' 1 = Rejected)"
proof -
  from demo_approved_runs(1) obtain r where spds: "spds demo_approved = [r]" and r: "sp_id r = 1" by auto
  have "sp_deleted_at r = None" using demo_approved_runs(2) spds by simp
  moreover have "distinct (map sp_id (spds demo_approved))" "r \<in> set (spds demo_approved)" by (simp_all add: spds)
  moreover have "7 \<in> us_id ` set (users demo_approved)"
    using demo_approved_runs(6) by (metis list.set_intros(1) list.set_map)
  ultimately have "\<exists>row d'. Reject_approval (demo_env 1) demo_decision demo_super (on_spd_submitted (calm 5) demo_event demo_approved)
      = (Inr (JSON 200 row), d') \<and> a_Status row = ''REJECTED'' \<and> phase d' (sp_id r) = Rejected"
    using demo_approved_runs(3-5) demo_decision_runs(2)
    by (intro redelivery_flips_decision [OF _ _ _ _ _ _ _ demo_super_auth _ _ demo_env_simps(2) [of 1 0]]) (simp_all add: r)
  with r demo_approved_runs(3) show ?thesis by auto
qed

end
