(* ===== verification/App.thy ===== *)
theory App
  imports RateLimit
begin

text \<open>
  What every service's \<open>main\<close> builds around its handlers: the web application with its middlewares
  in order, \<open>shared/metrics/metrics.go\<close>, the table of routes and the error handler.  The router of
  the framework is an argument (\<open>router\<close>): which routes match a request, and its own answers.
\<close>

subsection \<open>Requests and routes\<close>

record http_req =
  hq_method :: string
  hq_path :: string
  hq_authorization :: string
  hq_query :: "string \<Rightarrow> string"
  hq_ip :: string
  hq_user_agent :: string
  hq_content_type :: string
  hq_body :: bytes

text \<open>
  \<open>rt_match\<close>: the parameters of a request that matches a method and a path pattern; \<open>rt_prefix\<close>:
  whether it lies under a prefix; \<open>rt_none\<close>: the error when no route is left; \<open>rt_preflight\<close>:
  whether the CORS middleware answers it.
\<close>

record router =
  rt_match :: "string \<Rightarrow> string \<Rightarrow> http_req \<Rightarrow> (string \<Rightarrow> string) option"
  rt_prefix :: "string \<Rightarrow> http_req \<Rightarrow> bool"
  rt_none :: "http_req \<Rightarrow> err"
  rt_preflight :: "http_req \<Rightarrow> bool"

text \<open>What a handler sees of a request, for the outcome of \<open>BodyParser\<close> into its struct.\<close>

definition as_request :: "(http_req \<Rightarrow> err option \<times> 'b) \<Rightarrow> http_req \<Rightarrow> (string \<Rightarrow> string) \<Rightarrow> 'b request" where
  "as_request bp r ps =
     \<lparr>rq_authorization = hq_authorization r, rq_params = ps, rq_query = hq_query r, rq_ip = hq_ip r,
      rq_user_agent = hq_user_agent r, rq_body = bp r, rq_body_empty = (hq_body r = [])\<rparr>"

text \<open>
  A table of routes, in the order of registration.  \<open>Group p\<close> puts the bearer-token middleware in
  front of every request under \<open>p\<close>; a route has a method, a pattern, whether the middleware stands
  in front of it, and its handler.
\<close>

datatype ('p, 's) entry =
    Group string
  | Route string string bool "(string \<Rightarrow> string) \<Rightarrow> locals \<Rightarrow> 's \<Rightarrow> 'p reply res \<times> 's"

text \<open>A handler that runs with its route on record.\<close>

definition on_route :: "string \<Rightarrow> ('s \<Rightarrow> 'a \<times> 's) \<Rightarrow> 's \<times> string \<Rightarrow> 'a \<times> 's \<times> string" where
  "on_route pat f st = (case f (fst st) of (x, s) \<Rightarrow> (x, s, pat))"

text \<open>
  A request on its way through the table: the first route that matches answers; the second
  component of the state is the route on record (\<open>c.Route()\<close>).
\<close>

fun walk ::
  "router \<Rightarrow> verifier \<Rightarrow> clock \<Rightarrow> ('p, 's) entry list \<Rightarrow> http_req \<Rightarrow> locals \<Rightarrow> 's \<times> string
     \<Rightarrow> 'p reply res \<times> 's \<times> string" where
  "walk rt v gate [] r lo st = (Inl (rt_none rt r), st)"
| "walk rt v gate (Group p # es) r lo st =
     (if rt_prefix rt p r
      then JWTAuth v True gate (hq_authorization r) (\<lambda>lo st. walk rt v gate es r lo st) (fst st, p)
      else walk rt v gate es r lo st)"
| "walk rt v gate (Route m pat gated f # es) r lo st =
     (case rt_match rt m pat r of
        None \<Rightarrow> walk rt v gate es r lo st
      | Some ps \<Rightarrow>
          if gated
          then JWTAuth v True gate (hq_authorization r) (\<lambda>lo. on_route pat (f ps lo)) (fst st, pat)
          else on_route pat (f ps lo) st)"

subsection \<open>Metrics\<close>

text \<open>\<open>requests_total\<close>, by method, route and status; a histogram with the same labels goes along.\<close>

type_synonym counters = "string \<times> string \<times> string \<Rightarrow> nat"

text \<open>
  The status of the response when the middleware reads it: what the handler wrote, and 200 when it
  returned an error, since the error handler runs after the middlewares.
\<close>

definition written_status :: "'p reply res \<Rightarrow> nat" where
  "written_status res = (case res of Inl e \<Rightarrow> 200 | Inr rep \<Rightarrow> reply_status rep)"

text \<open>The code after \<open>c.Next()\<close>; a panic passes it by.\<close>

definition observe :: "http_req \<Rightarrow> string \<Rightarrow> 'p reply res \<Rightarrow> counters \<Rightarrow> counters" where
  "observe r route res m =
     (case res of
        Inl (GoPanic _) \<Rightarrow> m
      | _ \<Rightarrow>
          let route = (if route = [] then hq_path r else route);
              label = (hq_method r, route, FormatInt (int (written_status res)))
          in m(label := m label + 1))"

subsection \<open>The application\<close>

datatype 'p answer = Health | Exposition counters | Api 'p

text \<open>A process: what its handlers work on, the store of the rate limiter, and the counters.\<close>

record ('s, 'r) proc =
  pr_state :: 's
  pr_limiter :: 'r
  pr_metrics :: counters

text \<open>The error handler: \<open>WriteError\<close>.\<close>

definition respond :: "'p reply res \<Rightarrow> (ErrorResponse + 'p) reply" where
  "respond res = (case res of Inl e \<Rightarrow> map_reply Inl (WriteError e) | Inr rep \<Rightarrow> map_reply Inr rep)"

text \<open>The routes of \<open>main\<close>: the health check, the counters, then the service's own under \<open>/v1\<close>.\<close>

definition app_routes ::
  "router \<Rightarrow> verifier \<Rightarrow> clock \<Rightarrow> ('p, 's) entry list \<Rightarrow> counters \<Rightarrow> http_req \<Rightarrow> 's
     \<Rightarrow> 'p answer reply res \<times> 's \<times> string" where
  "app_routes rt v gate es m r s =
     (if rt_match rt ''GET'' ''/healthz'' r \<noteq> None then (Inr (JSON 200 Health), s, ''/healthz'')
      else if rt_match rt ''GET'' ''/metrics'' r \<noteq> None then (Inr (JSON 200 (Exposition m)), s, ''/metrics'')
      else case walk rt v gate es r no_locals (s, ''/'') of
             (res, s', route) \<Rightarrow> (map_sum (\<lambda>e. e) (map_reply Api) res, s', route))"

text \<open>
  The middlewares in their order: CORS, the rate limiter, the metrics, the routes.  \<open>failed\<close> says
  that the rate limiter's call to Redis fails, and \<open>now\<close> is when it runs.
\<close>

definition app_serve ::
  "(int \<Rightarrow> duration \<Rightarrow> string \<Rightarrow> bool \<Rightarrow> 'r \<Rightarrow> rl_out \<times> 'r) \<Rightarrow> 'r rl_config \<Rightarrow> router \<Rightarrow> verifier
     \<Rightarrow> ('p, 's) entry list \<Rightarrow> bool \<Rightarrow> gotime \<Rightarrow> clock \<Rightarrow> http_req \<Rightarrow> ('s, 'r) proc
     \<Rightarrow> (ErrorResponse + 'p answer) reply \<times> ('s, 'r) proc" where
  "app_serve fallback cfg rt v es failed now gate r p =
     (if rt_preflight rt r then (SendStatus 204, p)
      else case RateLimit fallback cfg failed now \<lparr>rr_path = hq_path r, rr_ip = hq_ip r\<rparr> (pr_limiter p) of
             (out, l) \<Rightarrow>
               (case rl_error out of
                  Some e \<Rightarrow> (respond (Inl e :: 'p answer reply res), p\<lparr>pr_limiter := l\<rparr>)
                | None \<Rightarrow>
                    (case app_routes rt v gate es (pr_metrics p) r (pr_state p) of
                       (res, s, route) \<Rightarrow>
                         (respond res, \<lparr>pr_state = s, pr_limiter = l, pr_metrics = observe r route res (pr_metrics p)\<rparr>))))"

subsection \<open>Who passes the middleware\<close>

text \<open>The request carries a bearer token that validates and is an access token.\<close>

definition authorised :: "verifier \<Rightarrow> clock \<Rightarrow> http_req \<Rightarrow> bool" where
  "authorised v gate r =
     (case SplitN2 (hq_authorization r) of
        [scheme, tok] \<Rightarrow> EqualFold scheme ''Bearer'' \<and>
          (case ParseAndValidate v gate tok of Inl e \<Rightarrow> False | Inr c \<Rightarrow> TokenType c = TokenTypeAccess)
      | _ \<Rightarrow> False)"

lemma JWTAuth_unauthorised:
  assumes "\<not> authorised v gate r"
  shows "\<exists>m. JWTAuth v True gate (hq_authorization r) next s = (Inl (FiberError 401 m), s)"
  using assms by (auto simp: JWTAuth_def authorised_def split: list.splits sum.splits if_splits)

lemma JWTAuth_authorised:
  assumes "authorised v gate r"
  shows "\<exists>c. JWTAuth v True gate (hq_authorization r) next s = next (claims_locals c) s"
  using assms by (auto simp: JWTAuth_def authorised_def SplitN2_def Let_def split: list.splits sum.splits if_splits)

text \<open>The patterns of the routes no middleware stands in front of, given the groups before them.\<close>

definition under :: "string \<Rightarrow> string \<Rightarrow> bool" where
  "under p pat \<longleftrightarrow> HasPrefix pat (p @ ''/'')"

fun open_routes :: "string list \<Rightarrow> ('p, 's) entry list \<Rightarrow> (string \<times> string) list" where
  "open_routes ps [] = []"
| "open_routes ps (Group p # es) = open_routes (p # ps) es"
| "open_routes ps (Route m pat gated f # es) =
     (if gated \<or> list_ex (\<lambda>p. under p pat) ps then open_routes ps es else (m, pat) # open_routes ps es)"

text \<open>What is relied on of the router: a request that matches a pattern under a prefix lies under it.\<close>

definition router_ok :: "router \<Rightarrow> bool" where
  "router_ok rt \<longleftrightarrow> (\<forall>m pat p r. rt_match rt m pat r \<noteq> None \<longrightarrow> under p pat \<longrightarrow> rt_prefix rt p r)"

text \<open>
  Without a valid token a request that matches no open route is refused with 401 or with the router's
  own error, and the state stays.  For the induction: it lies under no group that was passed.
\<close>

lemma walk_unauthorised:
  assumes "\<not> authorised v gate r" and "router_ok rt"
  shows "\<forall>(m, pat) \<in> set (open_routes ps es). rt_match rt m pat r = None \<Longrightarrow>
    \<forall>p \<in> set ps. \<not> rt_prefix rt p r \<Longrightarrow>
    \<exists>e route'. walk rt v gate es r lo (s, route) = (Inl e, s, route') \<and> (e = rt_none rt r \<or> (\<exists>m. e = FiberError 401 m))"
proof (induction ps es arbitrary: lo route rule: open_routes.induct)
  case (1 ps)
  show ?case by simp
next
  case (2 ps p es)
  show ?case
  proof (cases "rt_prefix rt p r")
    case True
    from JWTAuth_unauthorised [OF assms(1), of "\<lambda>lo st. walk rt v gate es r lo st" "(s, p)"] True
    show ?thesis by auto
  next
    case False
    with "2" show ?thesis by simp
  qed
next
  case (3 ps m pat gated f es)
  show ?case
  proof (cases "rt_match rt m pat r")
    case None
    have sub: "\<forall>(m, pat) \<in> set (open_routes ps es). rt_match rt m pat r = None"
      using "3.prems"(1) by (auto split: if_splits)
    from "3.IH" [OF _ sub "3.prems"(2), of lo route]
    have "\<exists>e route'. walk rt v gate es r lo (s, route) = (Inl e, s, route') \<and> (e = rt_none rt r \<or> (\<exists>m. e = FiberError 401 m))"
      by blast
    with None show ?thesis by simp
  next
    case (Some params)
    have "\<not> list_ex (\<lambda>p. under p pat) ps"
      using Some assms(2) "3.prems"(2) unfolding router_ok_def list_ex_iff by (metis option.distinct(1))
    with Some "3.prems"(1) have gated by (cases gated) auto
    with JWTAuth_unauthorised [OF assms(1), of "\<lambda>lo. on_route pat (f params lo)" "(s, pat)"] Some
    show ?thesis by auto
  qed
qed

lemma app_routes_unauthorised:
  assumes "\<not> authorised v gate r" and "router_ok rt"
    and "\<forall>(m, pat) \<in> set (open_routes [] es). rt_match rt m pat r = None"
    and "rt_match rt ''GET'' ''/healthz'' r = None" and "rt_match rt ''GET'' ''/metrics'' r = None"
  shows "\<exists>e route. app_routes rt v gate es m r s = (Inl e, s, route) \<and> (e = rt_none rt r \<or> (\<exists>m. e = FiberError 401 m))"
  using walk_unauthorised [OF assms(1,2,3), of no_locals s "''/''"] assms(4,5) by (auto simp: app_routes_def)

text \<open>A property of the answers and of the change of state that every handler has, the table has.\<close>

lemma walk_property:
  fixes P :: "'s \<Rightarrow> 'p reply res \<times> 's \<Rightarrow> bool" and es :: "('p, 's) entry list"
  assumes "\<And>m pat g f ps lo s. Route m pat g f \<in> set es \<Longrightarrow> P s (f ps lo s)"
    and "\<And>s e. P s (Inl e, s)"
  shows "P (fst st) (fst (walk rt v gate es r lo st), fst (snd (walk rt v gate es r lo st)))"
  using assms(1)
proof (induction es arbitrary: lo st)
  case Nil
  show ?case using assms(2) by simp
next
  case (Cons x es)
  have gate: "P (fst st') (fst (JWTAuth v True gate h nx st'), fst (snd (JWTAuth v True gate h nx st')))"
    if "\<And>lo. P (fst st') (fst (nx lo st'), fst (snd (nx lo st')))" for h nx and st' :: "'s \<times> string"
    using that assms(2) by (auto simp: JWTAuth_def split: list.splits sum.splits)
  have rest: "P (fst st) (fst (walk rt v gate es r lo st), fst (snd (walk rt v gate es r lo st)))" for lo st
    using Cons.prems by (intro Cons.IH) (meson list.set_intros(2))
  show ?case
  proof (cases x)
    case (Group p)
    with rest gate [of "(fst st, p)" "\<lambda>lo st. walk rt v gate es r lo st"] rest [of "(fst st, p)"] show ?thesis by auto
  next
    case (Route m pat g f)
    have h: "P (fst st') (fst (on_route pat (f ps lo) st'), fst (snd (on_route pat (f ps lo) st')))" for ps lo st'
      using Cons.prems [of m pat g f "fst st'" ps lo] Route by (auto simp: on_route_def split: prod.split)
    from rest h gate [of "(fst st, pat)" "\<lambda>lo. on_route pat (f _ lo)"] show ?thesis
      by (auto simp: Route split: option.splits)
  qed
qed

end
