(* ===== verification/Routes.thy ===== *)
theory Routes
  imports App Auth Spd Approval Budget AuditLog Notify Documents Reporting
begin

text \<open>
  The tables of routes of the eight services (\<open>RegisterRoutes\<close> of each handler, under \<open>/v1\<close>) with
  the handlers behind them.  What a handler publishes is appended to the bus, the second part of
  the state; \<open>bp\<close> is the outcome of \<open>BodyParser\<close> for the struct of a route.
\<close>

subsection \<open>Handlers on the state of their service\<close>

text \<open>A handler that publishes nothing, one that publishes, and its answer as one of the service's.\<close>

definition silent :: "('a \<Rightarrow> 'b) \<Rightarrow> ('d \<Rightarrow> 'a reply res \<times> 'd) \<Rightarrow> 'd \<times> 'm \<Rightarrow> 'b reply res \<times> 'd \<times> 'm" where
  "silent f h s = (case h (fst s) of (rep, d) \<Rightarrow> (map_sum (\<lambda>e. e) (map_reply f) rep, d, snd s))"

definition loud ::
  "('a \<Rightarrow> 'b) \<Rightarrow> ('d \<Rightarrow> 'a reply res \<times> 'd \<times> msg list) \<Rightarrow> 'd \<times> msg list \<Rightarrow> 'b reply res \<times> 'd \<times> msg list" where
  "loud f h s = (case h (fst s) of (rep, d, out) \<Rightarrow> (map_sum (\<lambda>e. e) (map_reply f) rep, d, snd s @ out))"

definition no_body :: "http_req \<Rightarrow> err option \<times> unit" where
  "no_body r = (None, ())"

subsection \<open>The tables\<close>

definition auth_routes ::
  "'c auth_handler \<Rightarrow> renv \<Rightarrow> (http_req \<Rightarrow> err option \<times> loginRequest) \<Rightarrow> (http_req \<Rightarrow> err option \<times> refreshRequest)
     \<Rightarrow> (http_req \<Rightarrow> err option \<times> mfaVerifyRequest) \<Rightarrow> http_req \<Rightarrow> (auth_payload, db) entry list" where
  "auth_routes h env bl br bm r =
     [Route ''POST'' ''/v1/auth/login'' False (\<lambda>ps lo d. reply_as TokensBody (Login h env (as_request bl r ps) d)),
      Route ''POST'' ''/v1/auth/refresh'' False (\<lambda>ps lo d. reply_as TokensBody (Refresh h env (as_request br r ps) d)),
      Route ''POST'' ''/v1/auth/logout'' True (\<lambda>ps lo d. reply_as (\<lambda>_. NoBody) (Logout h env (as_request br r ps) lo d)),
      Route ''GET'' ''/v1/auth/me'' True (\<lambda>ps lo d. reply_as MeBody (Me lo, d)),
      Route ''POST'' ''/v1/auth/mfa/enroll'' True (\<lambda>ps lo d. reply_as EnrollBody (MFAEnroll h env lo d)),
      Route ''POST'' ''/v1/auth/mfa/verify'' True
        (\<lambda>ps lo d. reply_as (\<lambda>_. NoBody) (MFAVerify h env (as_request bm r ps) lo d)),
      Route ''DELETE'' ''/v1/auth/mfa'' True
        (\<lambda>ps lo d. reply_as (\<lambda>_. NoBody) (MFADisable h env (as_request bm r ps) lo d))]"

datatype spd_payload = SpdBody spdResponse | SpdPage "spdResponse page"

definition spd_routes ::
  "spd_handler \<Rightarrow> renv \<Rightarrow> (http_req \<Rightarrow> err option \<times> spd_createRequest) \<Rightarrow> http_req
     \<Rightarrow> (spd_payload, db \<times> msg list) entry list" where
  "spd_routes h env bp r =
     [Group ''/v1/spds'',
      Route ''POST'' ''/v1/spds/'' False (\<lambda>ps lo. silent SpdBody (Create_spd h env (as_request bp r ps) lo)),
      Route ''GET'' ''/v1/spds/'' False (\<lambda>ps lo. silent SpdPage (List_spd h env (as_request no_body r ps) lo)),
      Route ''GET'' ''/v1/spds/:id'' False (\<lambda>ps lo. silent SpdBody (Get_spd h env (as_request no_body r ps) lo)),
      Route ''POST'' ''/v1/spds/:id/submit'' False
        (\<lambda>ps lo. loud SpdBody (Submit_spd h env (as_request no_body r ps) lo))]"

datatype approval_payload = ApprovalBody ApprovalRow | ApprovalPage "ApprovalRow page"

definition approval_routes ::
  "renv \<Rightarrow> (http_req \<Rightarrow> err option \<times> decisionRequest) \<Rightarrow> http_req \<Rightarrow> (approval_payload, db) entry list" where
  "approval_routes env bp r =
     [Group ''/v1/approvals'',
      Route ''GET'' ''/v1/approvals/pending'' False
        (\<lambda>ps lo d. reply_as ApprovalPage (ListPending_approval env (as_request no_body r ps) lo d)),
      Route ''POST'' ''/v1/approvals/:spd_id/approve'' False
        (\<lambda>ps lo d. reply_as ApprovalBody (Approve_approval env (as_request bp r ps) lo d)),
      Route ''POST'' ''/v1/approvals/:spd_id/reject'' False
        (\<lambda>ps lo d. reply_as ApprovalBody (Reject_approval env (as_request bp r ps) lo d))]"

definition budget_routes ::
  "budget_handler \<Rightarrow> renv \<Rightarrow> (http_req \<Rightarrow> err option \<times> budget_createRequest) \<Rightarrow> http_req
     \<Rightarrow> (budgetResponse, db \<times> msg list) entry list" where
  "budget_routes h env bp r =
     [Group ''/v1/budgets'',
      Route ''POST'' ''/v1/budgets/'' False (\<lambda>ps lo. loud (\<lambda>x. x) (Create_budget h env (as_request bp r ps) lo)),
      Route ''GET'' ''/v1/budgets/:id'' False (\<lambda>ps lo. loud (\<lambda>x. x) (Get_budget h env (as_request no_body r ps) lo))]"

definition audit_routes ::
  "(string \<Rightarrow> string) \<Rightarrow> renv \<Rightarrow> http_req \<Rightarrow> (AuditRow page, db) entry list" where
  "audit_routes inet_text env r =
     [Group ''/v1/audit'',
      Route ''GET'' ''/v1/audit/logs'' False (\<lambda>ps lo d. QueryLogs inet_text env (as_request no_body r ps) lo d)]"

definition notification_routes ::
  "err option \<Rightarrow> renv \<Rightarrow> (http_req \<Rightarrow> err option \<times> sendRequest) \<Rightarrow> http_req \<Rightarrow> (queued, msg list) entry list" where
  "notification_routes publish env bp r =
     [Group ''/v1/notifications'',
      Route ''POST'' ''/v1/notifications/test'' False
        (\<lambda>ps lo bus. case SendTest publish env (as_request bp r ps) lo of (rep, out) \<Rightarrow> (rep, bus @ out))]"

definition document_routes ::
  "document_handler \<Rightarrow> doc_env \<Rightarrow> (http_req \<Rightarrow> err option \<times> generateRequest) \<Rightarrow> http_req
     \<Rightarrow> (generated, doc_state \<times> msg list) entry list" where
  "document_routes h env bp r =
     [Group ''/v1/documents'',
      Route ''POST'' ''/v1/documents/spds/:spd_id/generate'' False
        (\<lambda>ps lo. loud (\<lambda>x. x) (Generate h env (as_request bp r ps) lo))]"

datatype 'j report_payload = SummaryBody 'j | CsvBody csv_answer

definition report_routes ::
  "'j report_handler \<Rightarrow> renv \<Rightarrow> redis_env \<Rightarrow> http_req \<Rightarrow> ('j report_payload, db \<times> redis_kv) entry list" where
  "report_routes h env renv r =
     [Group ''/v1/reports'',
      Route ''GET'' ''/v1/reports/spds/summary'' False
        (\<lambda>ps lo s. reply_as SummaryBody (Summary h env renv (as_request no_body r ps) lo s)),
      Route ''GET'' ''/v1/reports/spds/summary.csv'' False
        (\<lambda>ps lo s. case SummaryCSV h env renv (as_request no_body r ps) lo s of
                     (res, s) \<Rightarrow> (map_sum (\<lambda>e. e) (\<lambda>f. JSON 200 (CsvBody f)) res, s))]"

subsection \<open>Which routes are open\<close>

lemmas route_tables = auth_routes_def spd_routes_def approval_routes_def budget_routes_def audit_routes_def
  notification_routes_def document_routes_def report_routes_def

lemma open_routes_tables:
  "open_routes [] (auth_routes h1 env bl br bm r) = [(''POST'', ''/v1/auth/login''), (''POST'', ''/v1/auth/refresh'')]"
  "open_routes [] (spd_routes h2 env b2 r) = []"
  "open_routes [] (approval_routes env b3 r) = []"
  "open_routes [] (budget_routes h4 env b4 r) = []"
  "open_routes [] (audit_routes it env r) = []"
  "open_routes [] (notification_routes pu env b6 r) = []"
  "open_routes [] (document_routes h7 denv b7 r) = []"
  "open_routes [] (report_routes h8 env re r) = []"
  by (simp_all add: route_tables under_def HasPrefix_def)

text \<open>No handler answers without error but with one of the four statuses of success.\<close>

definition ok_answer :: "'p reply res \<Rightarrow> bool" where
  "ok_answer res = (case res of Inl e \<Rightarrow> True | Inr rep \<Rightarrow> reply_status rep \<in> {200, 201, 202, 204})"

definition answers_2xx :: "('p, 's) entry list \<Rightarrow> bool" where
  "answers_2xx es \<longleftrightarrow>
     (\<forall>m pat g f ps lo s. Route m pat g f \<in> set es \<longrightarrow> ok_answer (fst (f ps lo s)))"

lemma answers_2xxI:
  assumes "\<And>m pat g f ps lo s rep s'. Route m pat g f \<in> set es \<Longrightarrow> f ps lo s = (Inr rep, s') \<Longrightarrow>
    reply_status rep \<in> {200, 201, 202, 204}"
  shows "answers_2xx es"
  unfolding answers_2xx_def ok_answer_def using assms by (metis (no_types, lifting) old.sum.simps(5,6) prod.collapse sum.exhaust)

lemma reply_status_map [simp]: "reply_status (map_reply f rep) = reply_status rep"
  by (cases rep) simp_all

lemma reply_as_Inr: "reply_as f x = (Inr rep, s') \<longleftrightarrow> (\<exists>y. x = (Inr y, s') \<and> rep = map_reply f y)"
  by (cases x; cases "fst x") (auto simp: reply_as_def)

lemma silent_Inr: "silent f h s = (Inr rep, s') \<longleftrightarrow>
    (\<exists>y d. h (fst s) = (Inr y, d) \<and> rep = map_reply f y \<and> s' = (d, snd s))"
  by (cases "h (fst s)"; cases "fst (h (fst s))") (auto simp: silent_def)

lemma loud_Inr: "loud f h s = (Inr rep, s') \<longleftrightarrow>
    (\<exists>y d out. h (fst s) = (Inr y, d, out) \<and> rep = map_reply f y \<and> s' = (d, snd s @ out))"
  by (cases "h (fst s)"; cases "fst (h (fst s))") (auto simp: loud_def)

lemma map_sum_Inr: "map_sum f g x = Inr y \<longleftrightarrow> (\<exists>z. x = Inr z \<and> y = g z)"
  by (cases x) auto

lemmas one_handler = prod.splits option.splits sum.splits if_splits

lemma Login_2xx: "Login h env c d = (Inr rep, d') \<Longrightarrow> reply_status rep = 200"
  by (auto simp: Login_def login_issue_def split: one_handler)

lemma Refresh_2xx: "Refresh h env c d = (Inr rep, d') \<Longrightarrow> reply_status rep = 200"
  by (auto simp: Refresh_def refresh_rotate_def split: one_handler)

lemma Logout_2xx: "Logout h env c lo d = (Inr rep, d') \<Longrightarrow> reply_status rep \<in> {200, 204}"
  by (auto simp: Logout_def Let_def split: one_handler)

lemma Me_2xx: "Me lo = Inr rep \<Longrightarrow> reply_status rep = 200"
  by (auto simp: Me_def split: one_handler)

lemma MFAEnroll_2xx: "MFAEnroll h env lo d = (Inr rep, d') \<Longrightarrow> reply_status rep \<in> {200, 201}"
  by (auto simp: MFAEnroll_def Let_def split: one_handler)

lemma MFAVerify_2xx: "MFAVerify h env c lo d = (Inr rep, d') \<Longrightarrow> reply_status rep = 204"
  by (auto simp: MFAVerify_def Let_def split: one_handler)

lemma MFADisable_2xx: "MFADisable h env c lo d = (Inr rep, d') \<Longrightarrow> reply_status rep = 204"
  by (auto simp: MFADisable_def Let_def split: one_handler)

lemma spd_2xx:
  "Create_spd h env c lo d = (Inr rep, d') \<Longrightarrow> reply_status rep = 201"
  "Get_spd h env c' lo d = (Inr rep, d') \<Longrightarrow> reply_status rep = 200"
  "List_spd h env c' lo d = (Inr rep', d') \<Longrightarrow> reply_status rep' = 200"
  "Submit_spd h env c' lo d = (Inr rep, d', out) \<Longrightarrow> reply_status rep = 200"
  by (auto simp: Create_spd_def Get_spd_def List_spd_def Submit_spd_def Let_def split: one_handler)

lemma approval_2xx:
  "Approve_approval env c lo d = (Inr rep, d') \<Longrightarrow> reply_status rep = 200"
  "Reject_approval env c lo d = (Inr rep, d') \<Longrightarrow> reply_status rep = 200"
  "ListPending_approval env c' lo d = (Inr rep', d') \<Longrightarrow> reply_status rep' = 200"
  by (auto simp: Approve_approval_def Reject_approval_def decide_handler_def ListPending_approval_def Let_def
      split: one_handler)

lemma budget_2xx:
  "Create_budget h env c lo d = (Inr rep, d', out) \<Longrightarrow> reply_status rep = 201"
  "Get_budget h env c' lo d = (Inr rep, d', out) \<Longrightarrow> reply_status rep = 200"
  by (auto simp: Create_budget_def Get_budget_def Let_def split: one_handler)

lemma QueryLogs_2xx: "QueryLogs it env c lo d = (Inr rep, d') \<Longrightarrow> reply_status rep = 200"
  by (auto simp: QueryLogs_def Let_def split: one_handler)

lemma SendTest_2xx: "SendTest pu env c lo = (Inr rep, out) \<Longrightarrow> reply_status rep = 202"
  by (auto simp: SendTest_def Let_def split: one_handler)

lemma Generate_2xx: "Generate h env c lo s = (Inr rep, s', out) \<Longrightarrow> reply_status rep \<in> {201, 202}"
  by (auto simp: Generate_def Let_def split: one_handler)

lemma Summary_2xx: "Summary h env renv c lo s = (Inr rep, s') \<Longrightarrow> reply_status rep = 200"
  by (auto simp: Summary_def Let_def split: one_handler)

lemmas handlers_2xx = Login_2xx Refresh_2xx Logout_2xx Me_2xx MFAEnroll_2xx MFAVerify_2xx MFADisable_2xx spd_2xx
  approval_2xx budget_2xx QueryLogs_2xx SendTest_2xx Generate_2xx Summary_2xx

lemma tables_2xx:
  "answers_2xx (auth_routes h1 env bl br bm r)"
  "answers_2xx (spd_routes h2 env b2 r)"
  "answers_2xx (approval_routes env b3 r)"
  "answers_2xx (budget_routes h4 env b4 r)"
  "answers_2xx (audit_routes it env r)"
  "answers_2xx (notification_routes pu env b6 r)"
  "answers_2xx (document_routes h7 denv b7 r)"
  "answers_2xx (report_routes h8 env re r)"
  by (rule answers_2xxI, auto simp: route_tables reply_as_Inr silent_Inr loud_Inr map_sum_Inr split: prod.splits
      dest!: handlers_2xx)+

end
