(* ===== verification/RouteProps.thy ===== *)
theory RouteProps
  imports Routes SpdProps
begin

text \<open>
  What the applications promise at their outer edge: without a valid access token a request reaches
  no handler but login and refresh; and what the counters show.
\<close>

subsection \<open>Nothing is served without a token\<close>

text \<open>The answer is the router's own error or a 401, and the state is as it was.\<close>

definition refuses ::
  "router \<Rightarrow> verifier \<Rightarrow> clock \<Rightarrow> http_req \<Rightarrow> counters \<Rightarrow> ('p, 's) entry list \<Rightarrow> 's \<Rightarrow> bool" where
  "refuses rt v gate r m es s =
     (case app_routes rt v gate es m r s of
        (Inl e, s', route) \<Rightarrow> s' = s \<and> (e = rt_none rt r \<or> (case e of FiberError c _ \<Rightarrow> c = 401 | _ \<Rightarrow> False))
      | (Inr _, _) \<Rightarrow> False)"

lemma refuses_unauthorised:
  assumes "\<not> authorised v gate r" and "router_ok rt"
    and "\<forall>(m, pat) \<in> set (open_routes [] es). rt_match rt m pat r = None"
    and "rt_match rt ''GET'' ''/healthz'' r = None" and "rt_match rt ''GET'' ''/metrics'' r = None"
  shows "refuses rt v gate r m es s"
  using app_routes_unauthorised [OF assms, of m s] by (auto simp: refuses_def)

text \<open>
  C4. A request that carries no valid access token, and asks neither for the health check nor for
  the counters, is refused by every service, whatever its method, path and body, with the router's own
  error or a 401, and the service's database, bus, object store and cache stay as they are; only login
  and refresh of the authentication service are open.
\<close>

theorem services_closed:
  fixes h1 :: "'c auth_handler" and h8 :: "'j report_handler"
  assumes "router_ok rt" and "\<not> authorised v gate r"
    and "rt_match rt ''GET'' ''/healthz'' r = None" and "rt_match rt ''GET'' ''/metrics'' r = None"
  shows "refuses rt v gate r m (spd_routes h2 env b2 r) s2
    \<and> refuses rt v gate r m (approval_routes env b3 r) s3
    \<and> refuses rt v gate r m (budget_routes h4 env b4 r) s4
    \<and> refuses rt v gate r m (audit_routes inet_text env r) s5
    \<and> refuses rt v gate r m (notification_routes publish env b6 r) s6
    \<and> refuses rt v gate r m (document_routes h7 denv b7 r) s7
    \<and> refuses rt v gate r m (report_routes h8 env renv r) s8
    \<and> (rt_match rt ''POST'' ''/v1/auth/login'' r = None \<longrightarrow> rt_match rt ''POST'' ''/v1/auth/refresh'' r = None \<longrightarrow>
         refuses rt v gate r m (auth_routes h1 env bl br bm r) s1)"
proof -
  note refused = refuses_unauthorised [OF assms(2,1) _ assms(3,4)]
  have none: "refuses rt v gate r m es s" if "open_routes [] es = []" for es :: "('p, 's) entry list" and s
    by (rule refused) (simp add: that)
  have auth: "refuses rt v gate r m (auth_routes h1 env bl br bm r) s1"
    if "rt_match rt ''POST'' ''/v1/auth/login'' r = None" "rt_match rt ''POST'' ''/v1/auth/refresh'' r = None"
    by (rule refused) (simp add: that open_routes_tables)
  show ?thesis
    by (intro conjI impI none open_routes_tables refused) (simp_all add: open_routes_tables)
qed

text \<open>A router for concrete runs: patterns without parameters, prefixes by path.\<close>

definition demo_router :: router where
  "demo_router = \<lparr>rt_match = (\<lambda>m pat r. if hq_method r = m \<and> hq_path r = pat then Some (\<lambda>_. []) else None),
     rt_prefix = (\<lambda>p r. under p (hq_path r)), rt_none = (\<lambda>r. FiberError 404 ''Cannot GET''),
     rt_preflight = (\<lambda>r. hq_method r = ''OPTIONS'')\<rparr>"

lemma demo_router_ok: "router_ok demo_router"
  by (simp add: router_ok_def demo_router_def)

definition demo_anonymous :: http_req where
  "demo_anonymous = \<lparr>hq_method = ''GET'', hq_path = ''/v1/spds/'', hq_authorization = [], hq_query = (\<lambda>_. []),
     hq_ip = ''10.0.0.1'', hq_user_agent = ''curl'', hq_content_type = [], hq_body = []\<rparr>"

lemma demo_anonymous_facts:
  "\<not> authorised demo_verifier (\<lambda>_. 100 * second) demo_anonymous"
  "rt_match demo_router ''GET'' ''/healthz'' demo_anonymous = None"
  "rt_match demo_router ''GET'' ''/metrics'' demo_anonymous = None"
  by (simp_all add: authorised_def demo_anonymous_def demo_router_def SplitN2_def)

theorem services_closed_witness:
  "refuses demo_router demo_verifier (\<lambda>_. 100 * second) demo_anonymous (\<lambda>_. 0)
     (spd_routes demo_spd (demo_env 0) (\<lambda>_. rq_body demo_create) demo_anonymous) (spd_db0, [])"
  by (rule services_closed [OF demo_router_ok demo_anonymous_facts, THEN conjunct1])

subsection \<open>What is counted\<close>

definition is_error :: "(ErrorResponse + 'p) reply \<Rightarrow> bool" where
  "is_error rep = (case rep of JSON _ (Inl _) \<Rightarrow> True | _ \<Rightarrow> False)"

lemma is_error_respond: "is_error (respond res) \<longleftrightarrow> isl res"
proof (cases res)
  case (Inl e)
  then show ?thesis by (cases e) (simp_all add: respond_def is_error_def)
next
  case (Inr rep)
  then show ?thesis by (cases rep) (simp_all add: respond_def is_error_def)
qed

lemma observe_cases:
  "observe r route res m = m \<or>
   (\<exists>pat. observe r route res m = m((hq_method r, pat, FormatInt (int (written_status res))) :=
      m (hq_method r, pat, FormatInt (int (written_status res))) + 1))"
  by (auto simp: observe_def Let_def split: sum.split err.split)


text \<open>The anonymous request above: the client is told 401, the counters say 200.\<close>

definition demo_app_run :: "(ErrorResponse + spd_payload answer) reply \<times> (db \<times> msg list, unit) proc" where
  "demo_app_run = app_serve (\<lambda>_ _ _ _ s. (rl_next [], s)) \<lparr>rl_Service = ''spd-service'', rl_Redis = None, rl_Max = 120,
       rl_Window = 60 * second, rl_Key = None, rl_Skip = None\<rparr> demo_router demo_verifier
     (spd_routes demo_spd (demo_env 0) (\<lambda>_. rq_body demo_create) demo_anonymous) False 0 (\<lambda>_. 100 * second)
     demo_anonymous \<lparr>pr_state = (spd_db0, []), pr_limiter = (), pr_metrics = (\<lambda>_. 0)\<rparr>"

lemma demo_app_answer:
  "\<exists>p'. demo_app_run = (JSON 401 (Inl \<lparr>er_error = ''missing Authorization header''\<rparr>), p')
     \<and> pr_metrics p' (''GET'', ''/v1/spds'', ''200'') = 1"
  by (simp add: demo_app_run_def app_serve_def app_routes_def demo_router_def demo_anonymous_def RateLimit_def rl_next_def
      spd_routes_def under_def HasPrefix_def JWTAuth_def respond_def observe_def written_status_def decimal_eval)


subsection \<open>The statuses of success\<close>

definition typed_answer :: "(ErrorResponse + 'p) reply \<Rightarrow> bool" where
  "typed_answer rep \<longleftrightarrow> is_error rep \<or> reply_status rep \<in> {200, 201, 202, 204}"

lemma walk_ok: "answers_2xx es \<Longrightarrow> ok_answer (fst (walk rt v gate es r lo st))"
  using walk_property [where P = "\<lambda>s out. ok_answer (fst out)" and es = es and rt = rt and v = v and gate = gate
      and r = r and lo = lo and st = st]
  by (auto simp: answers_2xx_def ok_answer_def)

lemma ok_answer_map: "ok_answer (map_sum (\<lambda>e. e) (map_reply f) res) = ok_answer res"
  by (cases res) (simp_all add: ok_answer_def)

lemma app_routes_ok: "answers_2xx es \<Longrightarrow> ok_answer (fst (app_routes rt v gate es m r s))"
  using walk_ok [of es rt v gate r no_locals "(s, ''/'')"]
  by (auto simp: app_routes_def ok_answer_map split: prod.splits) (simp_all add: ok_answer_def)

lemma typed_respond: "ok_answer res \<Longrightarrow> typed_answer (respond res)"
  using is_error_respond [of res] by (cases res) (simp_all add: typed_answer_def ok_answer_def respond_def)

lemma app_serve_typed:
  fixes p :: "('s, 'r) proc" and es :: "('p, 's) entry list"
  assumes "answers_2xx es"
  shows "typed_answer (fst (app_serve fallback cfg rt v es failed now gate r p))"
proof -
  have "typed_answer (respond (Inl e :: 'p answer reply res))" for e
    by (rule typed_respond) (simp add: ok_answer_def)
  moreover have "typed_answer (respond res)"
    if "app_routes rt v gate es (pr_metrics p) r (pr_state p) = (res, y)" for res y
    using app_routes_ok [OF assms, of rt v gate "pr_metrics p" r "pr_state p"] that by (auto intro: typed_respond)
  moreover have "typed_answer (SendStatus 204 :: (ErrorResponse + 'p answer) reply)" by (simp add: typed_answer_def)
  ultimately show ?thesis by (auto simp: app_serve_def split: prod.splits option.splits)
qed


end
