(* ===== verification/Keys.thy ===== *)
theory Keys
  imports Jwtx
begin

text \<open>
  \<open>shared/jwtx/keys.go\<close> and the constructors of \<open>shared/jwtx/jwt.go\<close>: RSA keys in PEM files, and
  the signer and verifier made of them.  The packages \<open>encoding/pem\<close>, \<open>crypto/x509\<close> and
  \<open>crypto/rsa\<close> and the token library are arguments, on abstract types of private and public keys;
  what the code relies on of them is \<open>keys_ok\<close>.
\<close>

subsection \<open>The libraries\<close>

record pem_block =
  pb_Type :: string
  pb_Headers :: "(string \<times> string) list"
  pb_Bytes :: bytes

text \<open>What the generic parsers return: an RSA key, or a key of the named Go type.\<close>

datatype 'k any_key = RSAKey 'k | OtherKey string

record ('priv, 'pub) key_lib =
  kl_Decode :: "bytes \<Rightarrow> pem_block option"
  kl_EncodeToMemory :: "pem_block \<Rightarrow> bytes"
  kl_IsEncryptedPEMBlock :: "pem_block \<Rightarrow> bool"
  kl_DecryptPEMBlock :: "pem_block \<Rightarrow> bytes \<Rightarrow> bytes res"
  kl_ParsePKCS1PrivateKey :: "bytes \<Rightarrow> 'priv res"
  kl_ParsePKCS8PrivateKey :: "bytes \<Rightarrow> 'priv any_key res"
  kl_ParsePKIXPublicKey :: "bytes \<Rightarrow> 'pub any_key res"
  kl_ParsePKCS1PublicKey :: "bytes \<Rightarrow> 'pub res"
  kl_MarshalPKCS1PrivateKey :: "'priv \<Rightarrow> bytes"
  kl_MarshalPKIXPublicKey :: "'pub \<Rightarrow> bytes res"
  kl_GenerateKey :: "int \<Rightarrow> 'priv res"
  kl_PublicKey :: "'priv \<Rightarrow> 'pub"

type_synonym files = "string \<Rightarrow> bytes res"

text \<open>\<open>%q\<close> of a text of printable ASCII; other bytes come as \<open>\x\<close> and two digits.\<close>

definition quote_char :: "char \<Rightarrow> string" where
  "quote_char c =
     (if char_ord c = 34 \<or> char_ord c = 92 then [CHR 0x5C, c]
      else if 32 \<le> char_ord c \<and> char_ord c < 127 then [c]
      else [CHR 0x5C, CHR ''x''] @ hex_encode [byte_of_char c])"

definition Quote :: "string \<Rightarrow> string" where
  "Quote s = [CHR 0x22] @ concat (map quote_char s) @ [CHR 0x22]"

text \<open>\<open>fmt.Errorf("text: %w", err)\<close>\<close>

fun Errorf :: "string \<Rightarrow> err \<Rightarrow> err" where
  "Errorf m (OtherErr e) = OtherErr (m @ '': '' @ e)"
| "Errorf m e = e"

subsection \<open>Reading keys\<close>

definition ParsePrivateKeyPEMWithPassphrase :: "('priv, 'pub) key_lib \<Rightarrow> bytes \<Rightarrow> string \<Rightarrow> 'priv res" where
  "ParsePrivateKeyPEMWithPassphrase lib pemBytes passphrase =
     (case kl_Decode lib pemBytes of
        None \<Rightarrow> Inl (OtherErr ''invalid PEM'')
      | Some block \<Rightarrow>
          (case (if kl_IsEncryptedPEMBlock lib block
                 then if passphrase = []
                      then Inl (OtherErr ''encrypted private key; set JWT_PRIVATE_KEY_PASSPHRASE'')
                      else (case kl_DecryptPEMBlock lib block (bytes_of passphrase) of
                              Inl e \<Rightarrow> Inl (Errorf ''decrypt private key'' e)
                            | Inr der \<Rightarrow> Inr der)
                 else Inr (pb_Bytes block)) of
             Inl e \<Rightarrow> Inl e
           | Inr der \<Rightarrow>
               if pb_Type block = ''RSA PRIVATE KEY'' then kl_ParsePKCS1PrivateKey lib der
               else if pb_Type block = ''PRIVATE KEY''
               then (case kl_ParsePKCS8PrivateKey lib der of
                       Inl e \<Rightarrow> Inl e
                     | Inr (RSAKey k) \<Rightarrow> Inr k
                     | Inr (OtherKey t) \<Rightarrow> Inl (OtherErr (''unexpected private key type '' @ t)))
               else Inl (OtherErr (''unsupported private key PEM type '' @ Quote (pb_Type block)))))"

definition ParsePrivateKeyPEM :: "('priv, 'pub) key_lib \<Rightarrow> bytes \<Rightarrow> 'priv res" where
  "ParsePrivateKeyPEM lib pemBytes = ParsePrivateKeyPEMWithPassphrase lib pemBytes []"

definition ParsePublicKeyPEM :: "('priv, 'pub) key_lib \<Rightarrow> bytes \<Rightarrow> 'pub res" where
  "ParsePublicKeyPEM lib pemBytes =
     (case kl_Decode lib pemBytes of
        None \<Rightarrow> Inl (OtherErr ''invalid PEM'')
      | Some block \<Rightarrow>
          if pb_Type block = ''PUBLIC KEY''
          then (case kl_ParsePKIXPublicKey lib (pb_Bytes block) of
                  Inl e \<Rightarrow> Inl e
                | Inr (RSAKey k) \<Rightarrow> Inr k
                | Inr (OtherKey t) \<Rightarrow> Inl (OtherErr (''unexpected public key type '' @ t)))
          else if pb_Type block = ''RSA PUBLIC KEY'' then kl_ParsePKCS1PublicKey lib (pb_Bytes block)
          else Inl (OtherErr (''unsupported public key PEM type '' @ Quote (pb_Type block))))"

definition LoadPrivateKeyFromFileWithPassphrase ::
  "('priv, 'pub) key_lib \<Rightarrow> files \<Rightarrow> string \<Rightarrow> string \<Rightarrow> 'priv res" where
  "LoadPrivateKeyFromFileWithPassphrase lib fs path passphrase =
     (case fs path of Inl e \<Rightarrow> Inl e | Inr b \<Rightarrow> ParsePrivateKeyPEMWithPassphrase lib b passphrase)"

definition LoadPrivateKeyFromFile :: "('priv, 'pub) key_lib \<Rightarrow> files \<Rightarrow> string \<Rightarrow> 'priv res" where
  "LoadPrivateKeyFromFile lib fs path =
     (case fs path of Inl e \<Rightarrow> Inl e | Inr b \<Rightarrow> ParsePrivateKeyPEMWithPassphrase lib b [])"

definition LoadPublicKeyFromFile :: "('priv, 'pub) key_lib \<Rightarrow> files \<Rightarrow> string \<Rightarrow> 'pub res" where
  "LoadPublicKeyFromFile lib fs path =
     (case fs path of Inl e \<Rightarrow> Inl e | Inr b \<Rightarrow> ParsePublicKeyPEM lib b)"

subsection \<open>Making and writing keys\<close>

definition GenerateRSAKeyPair :: "('priv, 'pub) key_lib \<Rightarrow> int \<Rightarrow> ('priv \<times> 'pub) res" where
  "GenerateRSAKeyPair lib bits =
     (case kl_GenerateKey lib bits of Inl e \<Rightarrow> Inl e | Inr priv \<Rightarrow> Inr (priv, kl_PublicKey lib priv))"

definition MarshalPrivateKeyPEM :: "('priv, 'pub) key_lib \<Rightarrow> 'priv \<Rightarrow> bytes" where
  "MarshalPrivateKeyPEM lib priv =
     kl_EncodeToMemory lib
       \<lparr>pb_Type = ''RSA PRIVATE KEY'', pb_Headers = [], pb_Bytes = kl_MarshalPKCS1PrivateKey lib priv\<rparr>"

definition MarshalPublicKeyPEM :: "('priv, 'pub) key_lib \<Rightarrow> 'pub \<Rightarrow> bytes res" where
  "MarshalPublicKeyPEM lib pub =
     (case kl_MarshalPKIXPublicKey lib pub of
        Inl e \<Rightarrow> Inl e
      | Inr b \<Rightarrow> Inr (kl_EncodeToMemory lib \<lparr>pb_Type = ''PUBLIC KEY'', pb_Headers = [], pb_Bytes = b\<rparr>))"

subsection \<open>Signers and verifiers\<close>

text \<open>The token library, for a key of either kind; \<open>NewNumericDate\<close> rounds a time.\<close>

record ('priv, 'pub) jwt_lib =
  jl_SignedString :: "'priv \<Rightarrow> claims \<Rightarrow> string res"
  jl_ParseWithClaims :: "'pub \<Rightarrow> string \<Rightarrow> gotime \<Rightarrow> (claims \<times> bool) res"
  jl_NewNumericDate :: "gotime \<Rightarrow> gotime"

definition NewSigner :: "('priv, 'pub) jwt_lib \<Rightarrow> 'priv \<Rightarrow> string \<Rightarrow> string \<Rightarrow> duration \<Rightarrow> duration \<Rightarrow> signer" where
  "NewSigner jl priv issuer audience accessTTL refreshTTL =
     \<lparr>sg_sign = jl_SignedString jl priv, sg_numeric = jl_NewNumericDate jl, sg_issuer = issuer,
      sg_audience = audience, sg_accessTTL = accessTTL, sg_refreshTTL = refreshTTL\<rparr>"

definition NewVerifier :: "('priv, 'pub) jwt_lib \<Rightarrow> 'pub \<Rightarrow> string \<Rightarrow> string \<Rightarrow> verifier" where
  "NewVerifier jl pub issuer audience =
     \<lparr>vf_parse = jl_ParseWithClaims jl pub, vf_issuer = issuer, vf_audience = audience\<rparr>"

definition NewSignerFromFile ::
  "('priv, 'pub) key_lib \<Rightarrow> ('priv, 'pub) jwt_lib \<Rightarrow> files \<Rightarrow> string \<Rightarrow> string \<Rightarrow> string \<Rightarrow> duration \<Rightarrow> duration
     \<Rightarrow> signer res" where
  "NewSignerFromFile lib jl fs privateKeyPath issuer audience accessTTL refreshTTL =
     (case LoadPrivateKeyFromFile lib fs privateKeyPath of
        Inl e \<Rightarrow> Inl e
      | Inr priv \<Rightarrow> Inr (NewSigner jl priv issuer audience accessTTL refreshTTL))"

definition NewSignerFromFileWithPassphrase ::
  "('priv, 'pub) key_lib \<Rightarrow> ('priv, 'pub) jwt_lib \<Rightarrow> files \<Rightarrow> string \<Rightarrow> string \<Rightarrow> string \<Rightarrow> string \<Rightarrow> duration
     \<Rightarrow> duration \<Rightarrow> signer res" where
  "NewSignerFromFileWithPassphrase lib jl fs privateKeyPath passphrase issuer audience accessTTL refreshTTL =
     (case LoadPrivateKeyFromFileWithPassphrase lib fs privateKeyPath passphrase of
        Inl e \<Rightarrow> Inl e
      | Inr priv \<Rightarrow> Inr (NewSigner jl priv issuer audience accessTTL refreshTTL))"

definition NewVerifierFromFile ::
  "('priv, 'pub) key_lib \<Rightarrow> ('priv, 'pub) jwt_lib \<Rightarrow> files \<Rightarrow> string \<Rightarrow> string \<Rightarrow> string \<Rightarrow> verifier res" where
  "NewVerifierFromFile lib jl fs publicKeyPath issuer audience =
     (case LoadPublicKeyFromFile lib fs publicKeyPath of
        Inl e \<Rightarrow> Inl e
      | Inr pub \<Rightarrow> Inr (NewVerifier jl pub issuer audience))"

subsection \<open>What the code relies on\<close>

text \<open>
  Decoding undoes encoding of the blocks the code writes, and a block without headers is not encrypted; parsing undoes
  marshalling; a token that a private key signed is parsed by its public key to the same claims
  in their period, and \<open>NewNumericDate\<close> cuts off less than a second.
\<close>

definition keys_ok :: "('priv, 'pub) key_lib \<Rightarrow> ('priv, 'pub) jwt_lib \<Rightarrow> bool" where
  "keys_ok lib jl \<longleftrightarrow>
     (\<forall>b. pb_Headers b = [] \<longrightarrow> pb_Type b \<in> {''RSA PRIVATE KEY'', ''PUBLIC KEY''} \<longrightarrow>
        kl_Decode lib (kl_EncodeToMemory lib b) = Some b) \<and>
     (\<forall>b. kl_IsEncryptedPEMBlock lib b \<longrightarrow> pb_Headers b \<noteq> []) \<and>
     (\<forall>k. kl_ParsePKCS1PrivateKey lib (kl_MarshalPKCS1PrivateKey lib k) = Inr k) \<and>
     (\<forall>p b. kl_MarshalPKIXPublicKey lib p = Inr b \<longrightarrow> kl_ParsePKIXPublicKey lib b = Inr (RSAKey p)) \<and>
     (\<forall>k c tok now. jl_SignedString jl k c = Inr tok \<longrightarrow> lib_valid c now \<longrightarrow>
        jl_ParseWithClaims jl (kl_PublicKey lib k) tok now = Inr (c, True)) \<and>
     (\<forall>t. t - second < jl_NewNumericDate jl t \<and> jl_NewNumericDate jl t \<le> t)"

lemma private_key_roundtrip:
  assumes "keys_ok lib jl"
  shows "ParsePrivateKeyPEMWithPassphrase lib (MarshalPrivateKeyPEM lib k) p = Inr k"
  using assms unfolding keys_ok_def ParsePrivateKeyPEMWithPassphrase_def MarshalPrivateKeyPEM_def by auto

lemma public_key_roundtrip:
  assumes "keys_ok lib jl" and "MarshalPublicKeyPEM lib k = Inr b"
  shows "ParsePublicKeyPEM lib b = Inr k"
  using assms unfolding keys_ok_def ParsePublicKeyPEM_def MarshalPublicKeyPEM_def
  by (auto split: sum.splits)

text \<open>A signer and a verifier that are made of the two files of a pair are a pair.\<close>

lemma file_pair:
  assumes ok: "keys_ok lib jl"
    and sk: "fs sp = Inr (MarshalPrivateKeyPEM lib k)"
    and pk: "MarshalPublicKeyPEM lib (kl_PublicKey lib k) = Inr b" "fs' vp = Inr b"
    and s: "NewSignerFromFileWithPassphrase lib jl fs sp pass iss aud acc ref = Inr s"
    and v: "NewVerifierFromFile lib jl fs' vp iss aud = Inr v"
  shows "jwt_pair s v" "sg_issuer s = vf_issuer v" "sg_audience s = vf_audience v" "sg_accessTTL s = acc"
proof -
  have [simp]: "s = NewSigner jl k iss aud acc ref"
    using s private_key_roundtrip [OF ok] sk
    by (simp add: NewSignerFromFileWithPassphrase_def LoadPrivateKeyFromFileWithPassphrase_def)
  have [simp]: "v = NewVerifier jl (kl_PublicKey lib k) iss aud"
    using v public_key_roundtrip [OF ok pk(1)] pk(2) by (simp add: NewVerifierFromFile_def LoadPublicKeyFromFile_def)
  show "jwt_pair s v" using ok by (simp add: jwt_pair_def keys_ok_def NewSigner_def NewVerifier_def)
  show "sg_issuer s = vf_issuer v" "sg_audience s = vf_audience v" "sg_accessTTL s = acc"
    by (simp_all add: NewSigner_def NewVerifier_def)
qed

text \<open>An encrypted key never loads without a passphrase.\<close>

lemma encrypted_needs_passphrase:
  "kl_Decode lib b = Some blk \<Longrightarrow> kl_IsEncryptedPEMBlock lib blk \<Longrightarrow>
   ParsePrivateKeyPEM lib b = Inl (OtherErr ''encrypted private key; set JWT_PRIVATE_KEY_PASSPHRASE'')"
  by (simp add: ParsePrivateKeyPEM_def ParsePrivateKeyPEMWithPassphrase_def)

end
