(* ===== verification/Boot.thy ===== *)
theory Boot
  imports Routes Keys Config
begin

text \<open>
  The start of the eight services (\<open>cmd/server/main.go\<close> of each) with \<open>db.NewPool\<close>,
  \<open>shared/redisx/redisx.go\<close> and \<open>shared/logging/logging.go\<close>: what each reads from its environment,
  what it must reach, in which order, and what it does without.  What the outside answers is the
  argument \<open>world\<close>.  A start ends with the process (\<open>Fatal\<close>) or with the application it serves.
\<close>

subsection \<open>The database pool\<close>

record pool_config =
  pc_ConnString :: string
  pc_MaxConns :: int
  pc_MaxConnIdleTime :: duration
  pc_HealthCheckPeriod :: duration

record pgx =
  px_ParseConfig :: "string \<Rightarrow> pool_config res"
  px_NewWithConfig :: "pool_config \<Rightarrow> err option"
  px_Ping :: "pool_config \<Rightarrow> err option"

datatype pool_call = OpenPool pool_config | ClosePool pool_config

text \<open>\<open>NewPool\<close>, with the calls that open and close a pool.\<close>

definition NewPool :: "pgx \<Rightarrow> string \<Rightarrow> int \<Rightarrow> pool_config res \<times> pool_call list" where
  "NewPool px dsn maxConns =
     (case px_ParseConfig px dsn of
        Inl e \<Rightarrow> (Inl e, [])
      | Inr cfg \<Rightarrow>
          let cfg = cfg\<lparr>pc_MaxConns := maxConns, pc_MaxConnIdleTime := 5 * (60 * second),
                        pc_HealthCheckPeriod := 30 * second\<rparr>
          in (case px_NewWithConfig px cfg of
                Some e \<Rightarrow> (Inl e, [])
              | None \<Rightarrow>
                  (case px_Ping px cfg of
                     Some e \<Rightarrow> (Inl e, [OpenPool cfg, ClosePool cfg])
                   | None \<Rightarrow> (Inr cfg, [OpenPool cfg]))))"

text \<open>A pool is left open exactly when it is returned.\<close>

lemma NewPool_open:
  "NewPool px dsn mc = (r, calls) \<Longrightarrow>
     (case r of Inr cfg \<Rightarrow> calls = [OpenPool cfg] \<and> pc_MaxConns cfg = mc
      | Inl _ \<Rightarrow> calls = [] \<or> (\<exists>cfg. calls = [OpenPool cfg, ClosePool cfg]))"
  by (auto simp: NewPool_def Let_def split: sum.splits option.splits)

subsection \<open>Redis and logging\<close>

record redis_options =
  ro_Addr :: string
  ro_Password :: string
  ro_DB :: int

definition NewClient_redis :: "Redis \<Rightarrow> redis_options" where
  "NewClient_redis cfg = \<lparr>ro_Addr = rd_Addr cfg, ro_Password = rd_Password cfg, ro_DB = rd_DB cfg\<rparr>"

text \<open>\<open>Ping\<close>; the client is a pointer that may be nil.\<close>

definition Ping_redis :: "(redis_options \<Rightarrow> err option) \<Rightarrow> redis_options option \<Rightarrow> err option" where
  "Ping_redis ping rdb = (case rdb of None \<Rightarrow> None | Some c \<Rightarrow> ping c)"

record 'lvl logger =
  lg_Console :: bool
  lg_Service :: string
  lg_Level :: 'lvl

text \<open>\<open>logging.New\<close>, for \<open>zerolog.ParseLevel\<close> and the level \<open>InfoLevel\<close>.\<close>

definition New_logger :: "(string \<Rightarrow> 'lvl res) \<Rightarrow> 'lvl \<Rightarrow> string \<Rightarrow> string \<Rightarrow> string \<Rightarrow> 'lvl logger" where
  "New_logger parse info serviceName level env =
     \<lparr>lg_Console = EqualFold env ''development'', lg_Service = serviceName,
      lg_Level = (case parse level of Inr l \<Rightarrow> l | Inl e \<Rightarrow> info)\<rparr>"

subsection \<open>The world of a start\<close>

record ('blk, 'priv, 'pub, 'r, 'lvl) world =
  wo_env :: environ
  wo_frac :: "nat \<Rightarrow> nat \<Rightarrow> nat \<Rightarrow> nat"
  wo_files :: files
  wo_keys :: "('priv, 'pub) key_lib"
  wo_jwt :: "('priv, 'pub) jwt_lib"
  wo_NewCipher :: "bytes \<Rightarrow> 'blk res"
  wo_NewGCM :: "'blk \<Rightarrow> aead res"
  wo_pgx :: pgx
  wo_redis :: "redis_options \<Rightarrow> 'r redis_cmds"
  wo_redis_ping :: "redis_options \<Rightarrow> err option"
  wo_nats :: "string \<Rightarrow> err option"
  wo_minio :: "MinIO \<Rightarrow> err option"
  wo_ParseLevel :: "string \<Rightarrow> 'lvl res"
  wo_InfoLevel :: 'lvl

text \<open>\<open>log.Fatal().Err(err).Msg(m)\<close> ends the process.\<close>

datatype 'a boot = Fatal string "err option" | Running 'a

definition or_fatal :: "string \<Rightarrow> 'a res \<Rightarrow> ('a \<Rightarrow> 'b boot) \<Rightarrow> 'b boot" where
  "or_fatal m r k = (case r of Inl e \<Rightarrow> Fatal m (Some e) | Inr x \<Rightarrow> k x)"

text \<open>What runs: the configuration, the pool, the rate limiter, the handler, and whether it consumes messages.\<close>

record ('h, 'r, 'lvl) running =
  ru_Common :: Common
  ru_log :: "'lvl logger"
  ru_pool :: pool_config
  ru_limit :: "'r rl_config"
  ru_handler :: 'h
  ru_consumers :: bool

subsection \<open>Steps the mains share\<close>

definition common_of :: "('blk, 'priv, 'pub, 'r, 'lvl) world \<Rightarrow> string \<Rightarrow> string \<Rightarrow> int \<Rightarrow> Common" where
  "common_of w name portEnv port = LoadCommon (wo_frac w) (wo_env w) name portEnv port"

definition missing_data_key :: "Crypto \<Rightarrow> bool" where
  "missing_data_key c \<longleftrightarrow> cr_DataKeyBase64 c = [] \<or> HasPrefix (cr_DataKeyBase64 c) ''REPLACE_''"

definition init_encryption :: "('blk, 'priv, 'pub, 'r, 'lvl) world \<Rightarrow> (aead \<Rightarrow> 'a boot) \<Rightarrow> 'a boot" where
  "init_encryption w k =
     (let cryptoCfg = LoadCrypto (wo_env w)
      in if missing_data_key cryptoCfg
         then Fatal ''DATA_ENC_KEY_BASE64 is required; run scripts/gen-secrets.ps1'' None
         else or_fatal ''init encryption''
                (NewAESGCMFromBase64 (wo_NewCipher w) (wo_NewGCM w) (cr_DataKeyBase64 cryptoCfg)) k)"

definition connect_postgres :: "('blk, 'priv, 'pub, 'r, 'lvl) world \<Rightarrow> (pool_config \<Rightarrow> 'a boot) \<Rightarrow> 'a boot" where
  "connect_postgres w k =
     (let pg = LoadPostgres (wo_env w)
      in or_fatal ''connect postgres'' (fst (NewPool (wo_pgx w) (DSN pg) (pg_MaxConns pg))) k)"

text \<open>A Redis that does not answer is as if there were none.\<close>

definition redis_or_nil :: "('blk, 'priv, 'pub, 'r, 'lvl) world \<Rightarrow> redis_options option" where
  "redis_or_nil w =
     (let rdb = NewClient_redis (LoadRedis (wo_env w))
      in case Ping_redis (wo_redis_ping w) (Some rdb) of Some e \<Rightarrow> None | None \<Rightarrow> Some rdb)"

definition load_public_key :: "('blk, 'priv, 'pub, 'r, 'lvl) world \<Rightarrow> (verifier \<Rightarrow> 'a boot) \<Rightarrow> 'a boot" where
  "load_public_key w k =
     (let jwtCfg = LoadJWT (wo_frac w) (wo_env w)
      in or_fatal ''load JWT public key''
           (NewVerifierFromFile (wo_keys w) (wo_jwt w) (wo_files w) (jw_PublicKey jwtCfg) (jw_Issuer jwtCfg)
              (jw_Audience jwtCfg)) k)"

definition load_private_key :: "('blk, 'priv, 'pub, 'r, 'lvl) world \<Rightarrow> (signer \<Rightarrow> 'a boot) \<Rightarrow> 'a boot" where
  "load_private_key w k =
     (let jwtCfg = LoadJWT (wo_frac w) (wo_env w)
      in or_fatal ''load JWT private key''
           (NewSignerFromFileWithPassphrase (wo_keys w) (wo_jwt w) (wo_files w) (jw_PrivateKey jwtCfg)
              (jw_PrivateKeyPassphrase jwtCfg) (jw_Issuer jwtCfg) (jw_Audience jwtCfg) (jw_AccessTTL jwtCfg)
              (jw_RefreshTTL jwtCfg)) k)"

text \<open>\<open>nats.Connect\<close>: a connection, or nil.\<close>

definition nats_conn :: "('blk, 'priv, 'pub, 'r, 'lvl) world \<Rightarrow> unit res" where
  "nats_conn w = (case wo_nats w (na_URL (LoadNATS (wo_env w))) of Some e \<Rightarrow> Inl e | None \<Rightarrow> Inr ())"

definition limit_of :: "('blk, 'priv, 'pub, 'r, 'lvl) world \<Rightarrow> Common \<Rightarrow> redis_options option \<Rightarrow> 'r rl_config" where
  "limit_of w common rdb =
     \<lparr>rl_Service = ServiceName common, rl_Redis = map_option (wo_redis w) rdb, rl_Max = RateLimitPerMin common,
      rl_Window = 60 * second, rl_Key = None, rl_Skip = None\<rparr>"

definition started ::
  "('blk, 'priv, 'pub, 'r, 'lvl) world \<Rightarrow> Common \<Rightarrow> pool_config \<Rightarrow> redis_options option \<Rightarrow> 'h \<Rightarrow> bool
     \<Rightarrow> ('h, 'r, 'lvl) running boot" where
  "started w common pool rdb h consumers =
     Running \<lparr>ru_Common = common,
       ru_log = New_logger (wo_ParseLevel w) (wo_InfoLevel w) (ServiceName common) (LogLevel common) (Env common),
       ru_pool = pool, ru_limit = limit_of w common rdb, ru_handler = h, ru_consumers = consumers\<rparr>"

subsection \<open>The mains\<close>

text \<open>The configuration of the directory, as the client takes it.\<close>

definition ldap_config_of :: "LDAP \<Rightarrow> ldap_config" where
  "ldap_config_of c = \<lparr>lc_Mode = ld_Mode c, lc_URL = ld_URL c, lc_BaseDN = ld_BaseDN c, lc_BindDN = ld_BindDN c,
     lc_BindPassword = ld_BindPassword c, lc_UserFilter = ld_UserFilter c, lc_StartTLS = ld_StartTLS c,
     lc_InsecureSkipVerify = ld_InsecureSkipVerify c, lc_Timeout = ld_Timeout c\<rparr>"

definition auth_main ::
  "('blk, 'priv, 'pub, 'r, 'lvl) world \<Rightarrow> 'c ldap_lib \<Rightarrow> (string \<Rightarrow> string \<Rightarrow> err option)
     \<Rightarrow> ('c auth_handler, 'r, 'lvl) running boot" where
  "auth_main w ldap bcrypt =
     (let common = common_of w ''auth-service'' ''AUTH_SERVICE_PORT'' 8001;
          jwtCfg = LoadJWT (wo_frac w) (wo_env w);
          ldapCfg = LoadLDAP (wo_frac w) (wo_env w)
      in connect_postgres w (\<lambda>pool.
           let rdb = redis_or_nil w
           in init_encryption w (\<lambda>aesgcm.
              load_private_key w (\<lambda>signer.
              load_public_key w (\<lambda>verifier.
              let ldapClient = New (ldap_config_of ldapCfg)
              in started w common pool rdb
                   (NewHandler signer verifier aesgcm (Some ldapClient) ldap bcrypt (jw_Issuer jwtCfg)
                      (jw_AccessTTL jwtCfg) (jw_RefreshTTL jwtCfg)) False)))))"

definition spd_main ::
  "('blk, 'priv, 'pub, 'r, 'lvl) world \<Rightarrow> (spd_handler, 'r, 'lvl) running boot" where
  "spd_main w =
     (let common = common_of w ''spd-service'' ''SPD_SERVICE_PORT'' 8002
      in init_encryption w (\<lambda>aesgcm.
         connect_postgres w (\<lambda>pool.
         let rdb = redis_or_nil w
         in load_public_key w (\<lambda>verifier.
            let nc = is_ok (nats_conn w)
            in started w common pool rdb \<lparr>sh_verifier = verifier, sh_aesgcm = aesgcm, sh_nc = nc\<rparr> False))))"

definition budget_main ::
  "('blk, 'priv, 'pub, 'r, 'lvl) world \<Rightarrow> (budget_handler, 'r, 'lvl) running boot" where
  "budget_main w =
     (let common = common_of w ''budget-service'' ''BUDGET_SERVICE_PORT'' 8007
      in init_encryption w (\<lambda>aesgcm.
         connect_postgres w (\<lambda>pool.
         let rdb = redis_or_nil w
         in load_public_key w (\<lambda>verifier.
            let nc = is_ok (nats_conn w)
            in started w common pool rdb \<lparr>bh_verifier = verifier, bh_aesgcm = aesgcm, bh_nc = nc\<rparr> False))))"

text \<open>The approval service consumes messages when there is a bus; its handler is its verifier.\<close>

definition approval_main ::
  "('blk, 'priv, 'pub, 'r, 'lvl) world \<Rightarrow> (verifier, 'r, 'lvl) running boot" where
  "approval_main w =
     (let common = common_of w ''approval-service'' ''APPROVAL_SERVICE_PORT'' 8003
      in connect_postgres w (\<lambda>pool.
         let rdb = redis_or_nil w
         in load_public_key w (\<lambda>verifier.
            let nc = is_ok (nats_conn w)
            in started w common pool rdb verifier nc)))"

text \<open>The audit and the notification service do not start without a bus.\<close>

definition audit_main ::
  "('blk, 'priv, 'pub, 'r, 'lvl) world \<Rightarrow> (verifier, 'r, 'lvl) running boot" where
  "audit_main w =
     (let common = common_of w ''audit-service'' ''AUDIT_SERVICE_PORT'' 8008
      in connect_postgres w (\<lambda>pool.
         let rdb = redis_or_nil w
         in load_public_key w (\<lambda>verifier.
            or_fatal ''connect nats'' (nats_conn w) (\<lambda>nc. started w common pool rdb verifier True))))"

definition notification_main ::
  "('blk, 'priv, 'pub, 'r, 'lvl) world \<Rightarrow> (verifier, 'r, 'lvl) running boot" where
  "notification_main w =
     (let common = common_of w ''notification-service'' ''NOTIFICATION_SERVICE_PORT'' 8005
      in connect_postgres w (\<lambda>pool.
         let rdb = redis_or_nil w
         in load_public_key w (\<lambda>verifier.
            or_fatal ''connect nats'' (nats_conn w) (\<lambda>nc. started w common pool rdb verifier True))))"

definition document_main ::
  "('blk, 'priv, 'pub, 'r, 'lvl) world \<Rightarrow> (pdf_call list \<Rightarrow> bytes res) \<Rightarrow> (archive \<Rightarrow> bytes)
     \<Rightarrow> (document_handler, 'r, 'lvl) running boot" where
  "document_main w pdf zipped =
     (let common = common_of w ''document-service'' ''DOCUMENT_SERVICE_PORT'' 8004
      in init_encryption w (\<lambda>aesgcm.
         connect_postgres w (\<lambda>pool.
         let rdb = redis_or_nil w
         in load_public_key w (\<lambda>verifier.
            let nc = is_ok (nats_conn w)
            in or_fatal ''connect minio''
                 (case wo_minio w (LoadMinIO (wo_env w)) of Some e \<Rightarrow> Inl e | None \<Rightarrow> Inr ()) (\<lambda>mc.
               started w common pool rdb
                 \<lparr>dh_verifier = verifier, dh_aesgcm = aesgcm, dh_nc = nc, dh_pdf = pdf, dh_zip = zipped\<rparr> nc)))))"

definition reporting_main ::
  "('blk, 'priv, 'pub, 'r, 'lvl) world \<Rightarrow> (int \<Rightarrow> string option) \<Rightarrow> (report \<Rightarrow> 'j) \<Rightarrow> ('j \<Rightarrow> bytes res)
     \<Rightarrow> (bytes \<Rightarrow> 'j option) \<Rightarrow> ('j report_handler, 'r, 'lvl) running boot" where
  "reporting_main w text_arg json marshal unmarshal =
     (let common = common_of w ''reporting-service'' ''REPORTING_SERVICE_PORT'' 8006
      in connect_postgres w (\<lambda>pool.
         let rdb = redis_or_nil w;
             cache = New_cache (rdb \<noteq> None) ''reporting''
         in load_public_key w (\<lambda>verifier.
            started w common pool rdb
              \<lparr>ph_verifier = verifier, ph_cache = cache, ph_text = text_arg, ph_json = json, ph_marshal = marshal,
               ph_unmarshal = unmarshal\<rparr> False)))"

subsection \<open>Serving until a signal\<close>

text \<open>
  The rest of every \<open>main\<close>: a goroutine listens; the main one waits for a signal, then for
  \<open>app.Shutdown()\<close>, and returns.  What happens around it: listening fails, a signal comes, all
  connections have ended so that \<open>Shutdown\<close> returns, time passes.  The context with the timeout is thrown
  away, so that its end is seen by nobody.
\<close>

datatype server_event = ListenFailed string | SignalCame | ShutdownReturns | TimePassed duration

record server =
  sv_addr :: string
  sv_listening :: bool
  sv_stopping :: bool
  sv_returned :: bool
  sv_log :: "string list"

definition server_start :: "Common \<Rightarrow> server" where
  "server_start common =
     \<lparr>sv_addr = '':'' @ FormatInt (Port common), sv_listening = True, sv_stopping = False, sv_returned = False,
      sv_log = [''listening'']\<rparr>"

fun server_step :: "server \<Rightarrow> server_event \<Rightarrow> server" where
  "server_step s (ListenFailed m) =
     (if sv_returned s then s else s\<lparr>sv_listening := False, sv_log := sv_log s @ [''server stopped'']\<rparr>)"
| "server_step s SignalCame =
     (if sv_returned s then s else s\<lparr>sv_listening := False, sv_stopping := True\<rparr>)"
| "server_step s ShutdownReturns =
     (if sv_returned s \<or> \<not> sv_stopping s then s else s\<lparr>sv_returned := True, sv_log := sv_log s @ [''shutdown'']\<rparr>)"
| "server_step s (TimePassed d) = s"

definition server_run :: "Common \<Rightarrow> server_event list \<Rightarrow> server" where
  "server_run common es = foldl server_step (server_start common) es"

end
