(* ===== verification/BootProps.thy ===== *)
theory BootProps
  imports Boot AuthProps SpdProps
begin

text \<open>
  What a start needs, what a service does without, and that the services of one deployment
  understand each other: a token of the authentication service is the same user everywhere.
\<close>

subsection \<open>What a start needs\<close>

definition starts :: "'a boot \<Rightarrow> bool" where
  "starts b = (case b of Running a \<Rightarrow> True | Fatal m e \<Rightarrow> False)"

text \<open>The conditions, from the environment and the outside alone.\<close>

definition data_key_ok :: "('blk, 'priv, 'pub, 'r, 'lvl) world \<Rightarrow> bool" where
  "data_key_ok w =
     (let k = GetString (wo_env w) ''DATA_ENC_KEY_BASE64'' []
      in k \<noteq> [] \<and> \<not> HasPrefix k ''REPLACE_'' \<and>
         (case base64_decode k of
            Inl e \<Rightarrow> False
          | Inr key \<Rightarrow> length key = 32 \<and>
              (case wo_NewCipher w key of Inl e \<Rightarrow> False | Inr blk \<Rightarrow> is_ok (wo_NewGCM w blk))))"

definition database_ok :: "('blk, 'priv, 'pub, 'r, 'lvl) world \<Rightarrow> bool" where
  "database_ok w =
     (let px = wo_pgx w; pg = LoadPostgres (wo_env w)
      in case px_ParseConfig px (DSN pg) of
           Inl e \<Rightarrow> False
         | Inr cfg \<Rightarrow>
             let cfg = cfg\<lparr>pc_MaxConns := pg_MaxConns pg, pc_MaxConnIdleTime := 300 * second,
                           pc_HealthCheckPeriod := 30 * second\<rparr>
             in px_NewWithConfig px cfg = None \<and> px_Ping px cfg = None)"

definition public_key_ok :: "('blk, 'priv, 'pub, 'r, 'lvl) world \<Rightarrow> bool" where
  "public_key_ok w =
     (case wo_files w (jw_PublicKey (LoadJWT (wo_frac w) (wo_env w))) of
        Inl e \<Rightarrow> False | Inr b \<Rightarrow> is_ok (ParsePublicKeyPEM (wo_keys w) b))"

definition private_key_ok :: "('blk, 'priv, 'pub, 'r, 'lvl) world \<Rightarrow> bool" where
  "private_key_ok w =
     (let cfg = LoadJWT (wo_frac w) (wo_env w)
      in case wo_files w (jw_PrivateKey cfg) of
           Inl e \<Rightarrow> False
         | Inr b \<Rightarrow> is_ok (ParsePrivateKeyPEMWithPassphrase (wo_keys w) b (jw_PrivateKeyPassphrase cfg)))"

definition bus_ok :: "('blk, 'priv, 'pub, 'r, 'lvl) world \<Rightarrow> bool" where
  "bus_ok w \<longleftrightarrow> wo_nats w (GetString (wo_env w) ''NATS_URL'' ''nats://localhost:4222'') = None"

lemma starts_simps [simp]: "starts (Running a)" "\<not> starts (Fatal m e)"
  by (simp_all add: starts_def)

lemma starts_or_fatal: "starts (or_fatal m r k) \<longleftrightarrow> (case r of Inl e \<Rightarrow> False | Inr x \<Rightarrow> starts (k x))"
  by (simp add: or_fatal_def split: sum.split)

lemma starts_started [simp]: "starts (started w c p rdb h k)"
  by (simp add: started_def)

lemma starts_encryption:
  "(\<And>a. starts (k a) \<longleftrightarrow> P) \<Longrightarrow> starts (init_encryption w k) \<longleftrightarrow> data_key_ok w \<and> P"
  by (auto simp: init_encryption_def data_key_ok_def starts_or_fatal missing_data_key_def LoadCrypto_def Let_def
      NewAESGCMFromBase64_def NewAESGCM_def split: sum.splits err.splits)

lemma starts_postgres:
  "(\<And>a. starts (k a) \<longleftrightarrow> P) \<Longrightarrow> starts (connect_postgres w k) \<longleftrightarrow> database_ok w \<and> P"
  by (auto simp: connect_postgres_def database_ok_def starts_or_fatal NewPool_def Let_def split: sum.splits option.splits)

lemma starts_public:
  "(\<And>a. starts (k a) \<longleftrightarrow> P) \<Longrightarrow> starts (load_public_key w k) \<longleftrightarrow> public_key_ok w \<and> P"
  by (auto simp: load_public_key_def public_key_ok_def starts_or_fatal NewVerifierFromFile_def LoadPublicKeyFromFile_def
      Let_def split: sum.splits)

lemma starts_private:
  "(\<And>a. starts (k a) \<longleftrightarrow> P) \<Longrightarrow> starts (load_private_key w k) \<longleftrightarrow> private_key_ok w \<and> P"
  by (auto simp: load_private_key_def private_key_ok_def starts_or_fatal NewSignerFromFileWithPassphrase_def
      LoadPrivateKeyFromFileWithPassphrase_def Let_def split: sum.splits)

lemma nats_conn_ok: "is_ok (nats_conn w) \<longleftrightarrow> bus_ok w"
  by (simp add: nats_conn_def bus_ok_def LoadNATS_def split: option.split)

lemma starts_bus: "starts (or_fatal m (nats_conn w) (\<lambda>nc. started w c p rdb h k)) \<longleftrightarrow> bus_ok w"
  using nats_conn_ok [of w] by (auto simp: starts_or_fatal split: sum.splits)

lemma starts_minio:
  "starts (or_fatal m (case x of Some e \<Rightarrow> Inl e | None \<Rightarrow> Inr ()) (\<lambda>mc. started w c p rdb h k)) \<longleftrightarrow> x = None"
  by (simp add: starts_or_fatal split: option.split)

lemmas start_steps = starts_encryption starts_postgres starts_public starts_private

text \<open>
  C21. A service starts exactly when the things it needs are there: all need the database and the
  public key of the tokens; the authentication service its private key; the services with encrypted
  columns a data key that is set, no placeholder, and the base64 text of 32 bytes; the audit and the
  notification service the bus; the document service a client for the object store.  Redis is needed by
  none.  Without a bus the approval and the document service run and consume nothing.
\<close>

theorem service_starts:
  "(starts (auth_main w ldap bcrypt) \<longleftrightarrow> database_ok w \<and> data_key_ok w \<and> private_key_ok w \<and> public_key_ok w)
   \<and> (starts (spd_main w) \<longleftrightarrow> data_key_ok w \<and> database_ok w \<and> public_key_ok w)
   \<and> (starts (budget_main w) \<longleftrightarrow> data_key_ok w \<and> database_ok w \<and> public_key_ok w)
   \<and> (starts (approval_main w) \<longleftrightarrow> database_ok w \<and> public_key_ok w)
   \<and> (starts (audit_main w) \<longleftrightarrow> database_ok w \<and> public_key_ok w \<and> bus_ok w)
   \<and> (starts (notification_main w) \<longleftrightarrow> database_ok w \<and> public_key_ok w \<and> bus_ok w)
   \<and> (starts (document_main w pdf zipped) \<longleftrightarrow> data_key_ok w \<and> database_ok w \<and> public_key_ok w
        \<and> wo_minio w (LoadMinIO (wo_env w)) = None)
   \<and> (starts (reporting_main w text_arg json marshal unmarshal) \<longleftrightarrow> database_ok w \<and> public_key_ok w)
   \<and> (case approval_main w of Running a \<Rightarrow> ru_consumers a = bus_ok w | Fatal m e \<Rightarrow> True)
   \<and> (case document_main w pdf zipped of Running a \<Rightarrow> ru_consumers a = bus_ok w | Fatal m e \<Rightarrow> True)"
proof (intro conjI, goal_cases)
  case 1
  show ?case unfolding auth_main_def Let_def
    by (rule starts_postgres, rule starts_encryption, rule starts_private, subst starts_public [where P = True]) simp_all
next
  case 2
  show ?case unfolding spd_main_def Let_def
    by (rule starts_encryption, rule starts_postgres, subst starts_public [where P = True]) simp_all
next
  case 3
  show ?case unfolding budget_main_def Let_def
    by (rule starts_encryption, rule starts_postgres, subst starts_public [where P = True]) simp_all
next
  case 4
  show ?case unfolding approval_main_def Let_def
    by (rule starts_postgres, subst starts_public [where P = True]) simp_all
next
  case 5
  show ?case unfolding audit_main_def Let_def by (rule starts_postgres, rule starts_public, rule starts_bus)
next
  case 6
  show ?case unfolding notification_main_def Let_def by (rule starts_postgres, rule starts_public, rule starts_bus)
next
  case 7
  show ?case unfolding document_main_def Let_def
    by (rule starts_encryption, rule starts_postgres, rule starts_public, rule starts_minio)
next
  case 8
  show ?case unfolding reporting_main_def Let_def
    by (rule starts_postgres, subst starts_public [where P = True]) simp_all
next
  case 9
  show ?case unfolding approval_main_def Let_def connect_postgres_def load_public_key_def
    by (auto simp: or_fatal_def started_def nats_conn_ok split: sum.split)
next
  case 10
  show ?case unfolding document_main_def Let_def init_encryption_def connect_postgres_def load_public_key_def
    by (auto simp: or_fatal_def started_def nats_conn_ok split: sum.split)
qed

subsection \<open>One user for all services\<close>

text \<open>Whom the handlers behind the middleware see, by number and role.\<close>

definition identified :: "verifier \<Rightarrow> clock \<Rightarrow> string \<Rightarrow> (int \<times> string) option" where
  "identified v clk h =
     (case JWTAuth v True clk h (\<lambda>lo s. (Inr (AuthFromLocals lo), s)) () of
        (Inr (Some a), _) \<Rightarrow> Some (ai_UserID a, ai_Role a)
      | _ \<Rightarrow> None)"

text \<open>The verifier of a service that runs.\<close>

definition verifies :: "('h \<Rightarrow> verifier) \<Rightarrow> ('h, 'r, 'lvl) running boot \<Rightarrow> (verifier \<Rightarrow> bool) \<Rightarrow> bool" where
  "verifies sel b P = (case b of Running a \<Rightarrow> P (sel (ru_handler a)) | Fatal m e \<Rightarrow> True)"

text \<open>
  Two starts in one deployment: the same libraries, issuer and audience, and the second reads the
  public key that belongs to the private key the first reads.
\<close>

definition one_deployment ::
  "('blk, 'priv, 'pub, 'r, 'lvl) world \<Rightarrow> ('blk, 'priv, 'pub, 'r, 'lvl) world \<Rightarrow> bool" where
  "one_deployment w w' \<longleftrightarrow>
     (let c = LoadJWT (wo_frac w) (wo_env w); c' = LoadJWT (wo_frac w') (wo_env w')
      in wo_keys w' = wo_keys w \<and> wo_jwt w' = wo_jwt w \<and> jw_Issuer c' = jw_Issuer c \<and> jw_Audience c' = jw_Audience c
         \<and> (\<exists>k b. wo_files w (jw_PrivateKey c) = Inr (MarshalPrivateKeyPEM (wo_keys w) k)
              \<and> MarshalPublicKeyPEM (wo_keys w) (kl_PublicKey (wo_keys w) k) = Inr b
              \<and> wo_files w' (jw_PublicKey c') = Inr b))"

definition loads_verifier :: "('blk, 'priv, 'pub, 'r, 'lvl) world \<Rightarrow> verifier \<Rightarrow> bool" where
  "loads_verifier w v \<longleftrightarrow>
     (let c = LoadJWT (wo_frac w) (wo_env w)
      in NewVerifierFromFile (wo_keys w) (wo_jwt w) (wo_files w) (jw_PublicKey c) (jw_Issuer c) (jw_Audience c) = Inr v)"

lemmas main_steps = init_encryption_def connect_postgres_def load_public_key_def load_private_key_def or_fatal_def
  started_def verifies_def loads_verifier_def Let_def

lemma mains_load_verifier:
  "verifies sh_verifier (spd_main w) (loads_verifier w)"
  "verifies bh_verifier (budget_main w) (loads_verifier w)"
  "verifies (\<lambda>v. v) (approval_main w) (loads_verifier w)"
  "verifies (\<lambda>v. v) (audit_main w) (loads_verifier w)"
  "verifies (\<lambda>v. v) (notification_main w) (loads_verifier w)"
  "verifies dh_verifier (document_main w pdf zipped) (loads_verifier w)"
  "verifies ph_verifier (reporting_main w text_arg json marshal unmarshal) (loads_verifier w)"
  by (simp_all add: spd_main_def budget_main_def approval_main_def audit_main_def notification_main_def document_main_def
      reporting_main_def main_steps split: sum.split)

lemma auth_main_signer:
  assumes "auth_main w ldap bcrypt = Running a"
  shows "NewSignerFromFileWithPassphrase (wo_keys w) (wo_jwt w) (wo_files w)
      (jw_PrivateKey (LoadJWT (wo_frac w) (wo_env w))) (jw_PrivateKeyPassphrase (LoadJWT (wo_frac w) (wo_env w)))
      (jw_Issuer (LoadJWT (wo_frac w) (wo_env w))) (jw_Audience (LoadJWT (wo_frac w) (wo_env w)))
      (jw_AccessTTL (LoadJWT (wo_frac w) (wo_env w))) (jw_RefreshTTL (LoadJWT (wo_frac w) (wo_env w)))
    = Inr (h_signer (ru_handler a))"
proof -
  have run: "or_fatal m r k = Running a \<longleftrightarrow> (\<exists>x. r = Inr x \<and> k x = Running a)" for m r k
    by (cases r) (simp_all add: or_fatal_def)
  from assms show ?thesis
    by (auto simp: auth_main_def init_encryption_def connect_postgres_def load_public_key_def load_private_key_def
        started_def run NewHandler_def Let_def split: if_splits)
qed

lemma verifies_mono: "verifies sel b P \<Longrightarrow> (\<And>v. P v \<Longrightarrow> Q v) \<Longrightarrow> verifies sel b Q"
  by (simp add: verifies_def split: boot.splits)

lemma identified_token:
  assumes "ParseAndValidate v clk tok = Inr c" and "TokenType c = TokenTypeAccess"
  shows "identified v clk (''Bearer '' @ tok) = Some (UserID c, Role c)"
proof -
  have "SplitN2 (''Bearer '' @ tok) = [''Bearer'', tok]" by (simp add: SplitN2_pair)
  with assms show ?thesis by (simp add: identified_def JWTAuth_def EqualFold_def AuthFromLocals_claims)
qed

lemma Login_access_token:
  assumes "Login h env c d = (Inr (JSON n tr), d')"
  shows "\<exists>req u tid. rq_body c = (None, req) \<and> u \<in> set (users d) \<and> us_username u = lr_Username req
    \<and> NewAccessToken (h_signer h) (\<lambda>_. re_clock env 1) (us_id u) (us_role u) tid = Inr (tr_AccessToken tr)"
proof -
  obtain req user d0 where b: "rq_body c = (None, req)"
    and g: "GetUserByUsername (re_db env 0) (lr_Username req) d = (Inr user, d0)"
    and iss: "login_issue h env user d0 = (Inr (JSON n tr), d')"
    using assms by (auto simp: Login_def split: prod.splits option.splits sum.splits if_splits)
  from GetUserByUsername_Inr [OF g] obtain u where
    u: "u \<in> set (users d)" "us_username u = lr_Username req" "user = to_User u" by blast
  from iss obtain access refresh jti where p: "issue_pair h env 1 (u_ID user) (u_Role user) = Inr (access, refresh, jti)"
    and "tr = token_response h access refresh"
    by (auto simp: login_issue_def split: prod.splits sum.splits)
  with issue_pair_Inr [OF p] u b show ?thesis by (auto simp: to_User_def token_response_def)
qed


text \<open>A deployment for concrete runs: one key pair, a token library that knows the two tokens of a login.\<close>

definition demo_login_claims :: "string \<Rightarrow> gotime \<Rightarrow> string \<Rightarrow> string \<Rightarrow> claims" where
  "demo_login_claims kind until role i = \<lparr>Issuer = ''esppd'', Subject = ''7'', Audience = [''esppd-users''],
     IssuedAt = Some (100 * second), NotBefore = Some (95 * second), ExpiresAt = Some until,
     ID = i, UserID = 7, Role = role, TokenType = kind\<rparr>"

definition demo_access :: claims where
  "demo_access = demo_login_claims ''access'' (1000 * second) ''USER'' (hex_encode (replicate 16 0))"

definition demo_refreshing :: claims where
  "demo_refreshing = demo_login_claims ''refresh'' (604900 * second) [] (hex_encode (replicate 32 1))"

definition demo_jwt_lib :: "(unit, unit) jwt_lib" where
  "demo_jwt_lib = \<lparr>
     jl_SignedString = (\<lambda>k c. if c = demo_access then Inr ''at'' else if c = demo_refreshing then Inr ''rt''
       else Inl (OtherErr ''sign'')),
     jl_ParseWithClaims = (\<lambda>k tok now. if tok = ''at'' \<and> lib_valid demo_access now then Inr (demo_access, True)
       else if tok = ''rt'' \<and> lib_valid demo_refreshing now then Inr (demo_refreshing, True)
       else Inl (OtherErr ''token is malformed'')),
     jl_NewNumericDate = demo_numeric\<rparr>"

definition demo_key_lib :: "(unit, unit) key_lib" where
  "demo_key_lib = \<lparr>
     kl_Decode = (\<lambda>b. case b of [] \<Rightarrow> None
       | t # bs \<Rightarrow> Some \<lparr>pb_Type = (if t = 0 then ''RSA PRIVATE KEY'' else ''PUBLIC KEY''), pb_Headers = [], pb_Bytes = bs\<rparr>),
     kl_EncodeToMemory = (\<lambda>b. (if pb_Type b = ''RSA PRIVATE KEY'' then 0 else 1) # pb_Bytes b),
     kl_IsEncryptedPEMBlock = (\<lambda>b. pb_Headers b \<noteq> []), kl_DecryptPEMBlock = (\<lambda>b p. Inl (OtherErr ''no key'')),
     kl_ParsePKCS1PrivateKey = (\<lambda>b. Inr ()), kl_ParsePKCS8PrivateKey = (\<lambda>b. Inr (RSAKey ())),
     kl_ParsePKIXPublicKey = (\<lambda>b. Inr (RSAKey ())), kl_ParsePKCS1PublicKey = (\<lambda>b. Inr ()),
     kl_MarshalPKCS1PrivateKey = (\<lambda>k. [7]), kl_MarshalPKIXPublicKey = (\<lambda>k. Inr [8]),
     kl_GenerateKey = (\<lambda>n. Inr ()), kl_PublicKey = (\<lambda>k. ())\<rparr>"

definition demo_pgx :: pgx where
  "demo_pgx = \<lparr>px_ParseConfig = (\<lambda>s. Inr \<lparr>pc_ConnString = s, pc_MaxConns = 4, pc_MaxConnIdleTime = 0,
       pc_HealthCheckPeriod = 0\<rparr>), px_NewWithConfig = (\<lambda>c. None), px_Ping = (\<lambda>c. None)\<rparr>"

definition demo_world :: "(bytes, unit, unit, string \<Rightarrow> (int \<times> gotime option) option, unit) world" where
  "demo_world = \<lparr>
     wo_env = (\<lambda>k. if k = ''DATA_ENC_KEY_BASE64'' then Some demo_key else None), wo_frac = (\<lambda>_ _ _. 0),
     wo_files = (\<lambda>p. if p = ''/secrets/jwt_private.pem'' then Inr [0, 7]
       else if p = ''/secrets/jwt_public.pem'' then Inr [1, 8] else Inl (OtherErr ''no such file'')),
     wo_keys = demo_key_lib, wo_jwt = demo_jwt_lib, wo_NewCipher = (\<lambda>k. Inr k), wo_NewGCM = (\<lambda>_. Inr demo_aead),
     wo_pgx = demo_pgx, wo_redis = (\<lambda>_. demo_redis), wo_redis_ping = (\<lambda>_. Some (OtherErr ''refused'')),
     wo_nats = (\<lambda>_. None), wo_minio = (\<lambda>_. None), wo_ParseLevel = (\<lambda>_. Inr ()), wo_InfoLevel = ()\<rparr>"

lemma demo_numeric_near: "t - second < demo_numeric t" "demo_numeric t \<le> t"
  using demo_jwt_pair by (simp_all add: jwt_pair_def demo_signer_def)

lemma demo_keys_ok: "keys_ok demo_key_lib demo_jwt_lib"
  by (auto simp: keys_ok_def demo_key_lib_def demo_jwt_lib_def demo_numeric_near split: if_splits)

lemma demo_deployment: "one_deployment demo_world demo_world"
  by (simp add: one_deployment_def demo_world_def demo_key_lib_def LoadJWT_def GetString_def MarshalPrivateKeyPEM_def
      MarshalPublicKeyPEM_def)

definition demo_bcrypt :: "string \<Rightarrow> string \<Rightarrow> err option" where
  "demo_bcrypt hash pw = (if hash = pw then None else Some (OtherErr ''mismatch''))"

lemma demo_world_runs:
  "starts (spd_main demo_world)"
  "case auth_main demo_world demo_ldap demo_bcrypt of Fatal m e \<Rightarrow> False
   | Running a \<Rightarrow> (case fst (Login (ru_handler a) (demo_env 0) demo_login demo_db) of
       Inr (JSON n tr) \<Rightarrow> tr_AccessToken tr = ''at'' | _ \<Rightarrow> False)"
  by code_simp+

lemma demo_lifetime: "jw_AccessTTL (LoadJWT (wo_frac demo_world) (wo_env demo_world)) = 900 * second"
  by (simp add: LoadJWT_def GetDuration_def demo_world_def)


subsection \<open>Without a bus\<close>

text \<open>
  The SPD service that started without a bus submits orders all the same: whatever the answer, nothing is
  published, so that no approval is ever asked for.
\<close>

lemma submit_without_bus:
  assumes "spd_main w = Running s" and "\<not> bus_ok w"
  shows "snd (snd (Submit_spd (ru_handler s) env c lo d)) = []"
proof -
  have "\<not> sh_nc (ru_handler s)"
    using assms nats_conn_ok [of w]
    by (auto simp: spd_main_def init_encryption_def connect_postgres_def load_public_key_def started_def or_fatal_def
        Let_def split: if_splits sum.splits)
  then show ?thesis by (auto simp: Submit_spd_def Let_def split: prod.splits option.splits sum.splits)
qed

subsection \<open>The end of a process\<close>

lemma server_run_snoc: "server_run common (es @ [e]) = server_step (server_run common es) e"
  by (simp add: server_run_def)

lemma server_run_Nil: "server_run common [] = server_start common"
  by (simp add: server_run_def)

lemma server_returned_stopping: "sv_returned (server_run common es) \<Longrightarrow> sv_stopping (server_run common es)"
proof (induction es rule: rev_induct)
  case Nil
  then show ?case by (simp add: server_run_Nil server_start_def)
next
  case (snoc e es)
  then show ?case by (cases e) (auto simp: server_run_snoc split: if_splits)
qed

lemma server_stopping: "sv_stopping (server_run common es) \<longleftrightarrow> SignalCame \<in> set es"
proof (induction es rule: rev_induct)
  case Nil
  show ?case by (simp add: server_run_Nil server_start_def)
next
  case (snoc e es)
  then show ?case using server_returned_stopping [of common es]
    by (cases e) (auto simp: server_run_snoc split: if_splits)
qed

lemma after_signal_snoc:
  "(\<exists>xs ys zs. es @ [e] = xs @ SignalCame # ys @ ShutdownReturns # zs) \<longleftrightarrow>
   (\<exists>xs ys zs. es = xs @ SignalCame # ys @ ShutdownReturns # zs) \<or> e = ShutdownReturns \<and> SignalCame \<in> set es"
  (is "?L \<longleftrightarrow> ?R")
proof
  assume ?L
  then obtain xs ys zs where es: "es @ [e] = xs @ SignalCame # ys @ ShutdownReturns # zs" by blast
  show ?R
  proof (cases zs rule: rev_cases)
    case Nil
    then have "es = xs @ SignalCame # ys \<and> e = ShutdownReturns"
      using es by (metis (no_types, lifting) append.assoc append_Cons butlast_snoc last_snoc)
    then show ?thesis by simp
  next
    case (snoc zs' z)
    then have "es @ [e] = (xs @ SignalCame # ys @ ShutdownReturns # zs') @ [z]" using es by simp
    then show ?thesis by blast
  qed
next
  assume ?R
  then show ?L
  proof
    assume "\<exists>xs ys zs. es = xs @ SignalCame # ys @ ShutdownReturns # zs"
    then obtain xs ys zs where "es @ [e] = xs @ SignalCame # ys @ ShutdownReturns # (zs @ [e])" by auto
    then show ?L by blast
  next
    assume "e = ShutdownReturns \<and> SignalCame \<in> set es"
    then obtain xs ys where "es @ [e] = xs @ SignalCame # ys @ ShutdownReturns # []" by (auto dest: split_list)
    then show ?L by blast
  qed
qed


end
