(* ===== verification/Spec2Isabelle.thy ===== *)
theory Spec2Isabelle
  imports TotpVectors RateLimit AuthProps SpdProps ApprovalProps BudgetProps AuditProps Notify DocumentProps ReportProps EtlProps OrderLife RouteProps BootProps
begin

text \<open>
  A verification development of esppdv2, a set of Go services for travel orders (SPD, \<open>surat perintah
  perjalanan dinas\<close>).  This theory imports all others; the properties stand in the theories of their
  components.

  \<^bold>\<open>The program.\<close>  Eight services, each a process with a web application, work on one PostgreSQL
  database with row-level security (\<open>src/migrations\<close>): the authentication service issues the tokens that
  open all others; the SPD service keeps the orders, with purpose and cost encrypted, and publishes
  \<open>spd.submitted\<close>; the approval service makes a pending approval of that message, and its decisions write
  the status of the order back; the budget service keeps encrypted amounts and publishes \<open>audit.log\<close>,
  which the audit service stores; the notification service publishes and consumes
  \<open>notification.send\<close>; the document service makes PDF, DOCX and XLSX files of orders, at once or by
  way of \<open>document.generate\<close>, into an object store; the reporting service counts orders, behind a Redis
  cache.  Messages go over NATS, at most once.  The shared modules hold configuration, tokens, one-time
  passwords, encryption, the middlewares, transactions and the cache; \<open>tools/etl\<close> migrates the CSV
  exports of the predecessor.

  \<^bold>\<open>The theories\<close>, in the order of their dependence.

  \<^item> \<open>Prelude\<close>: errors and replies as values, tables as lists of rows with their updates, and the
    collections \<open>row_update\<close>, \<open>inv_step\<close>, \<open>handler_unfold\<close>.  \<open>GoStd\<close>, \<open>GoCrypto\<close>, \<open>GoTime\<close>, \<open>Csv\<close>: what the
    code calls of Go's library (strings, numbers, hex; SHA-1, HMAC, base32; dates; CSV), executable.
  \<^item> \<open>Mfax\<close>, \<open>TotpVectors\<close>: \<open>shared/mfax/totp.go\<close>, one-time passwords on 32- and 64-bit words, their
    equivalence with RFC 4226, and test vectors of RFC 6238 by evaluation.
  \<^item> \<open>Keys\<close>, \<open>Jwtx\<close>: \<open>shared/jwtx\<close>, key files, signers and verifiers, issuing and validating tokens.
  \<^item> \<open>Httpx\<close>, \<open>RateLimit\<close>: \<open>shared/httpx/httpx.go\<close>, the bearer-token middleware, errors, id parameters;
    the rate limiter with its Lua script.
  \<^item> \<open>Cryptox\<close>: \<open>shared/cryptox/aesgcm.go\<close>.  \<open>Config\<close>: \<open>shared/config/config.go\<close>.  \<open>Cachex\<close>:
    \<open>shared/cachex/cache.go\<close>.
  \<^item> \<open>Db\<close>: \<open>shared/db/db.go\<close>, the tables of \<open>0001_init.sql\<close> and the policies of \<open>0002_rls.sql\<close>; a
    transaction runs against an environment that decides which statement fails and what becomes of the
    commit.  \<open>Service\<close>: what the handlers share, messages and JSON objects among it.
  \<^item> \<open>AuthRepo\<close>, \<open>Ldap\<close>, \<open>Auth\<close>, \<open>AuthInv\<close>, \<open>AuthProps\<close>: \<open>auth-service\<close> (\<open>repo.go\<close>, \<open>ldap.go\<close>, \<open>handler.go\<close>).
  \<^item> \<open>Spd\<close> and \<open>SpdProps\<close>, \<open>Approval\<close> and \<open>ApprovalProps\<close>, \<open>Budget\<close> and \<open>BudgetProps\<close>, \<open>AuditLog\<close> and
    \<open>AuditProps\<close>, \<open>Notify\<close>, \<open>Ooxml\<close> with \<open>Documents\<close> and \<open>DocumentProps\<close>, \<open>Reporting\<close> and \<open>ReportProps\<close>:
    the repositories and handlers of the other services, with their consumers.
  \<^item> \<open>Etl\<close>, \<open>EtlProps\<close>: \<open>tools/etl/main.go\<close>.
  \<^item> \<open>Workflow\<close>, \<open>OrderLife\<close>: the services together, as an inductive step relation on the database and
    the messages on their way, and the life cycle of an order that it refines.
  \<^item> \<open>App\<close>, \<open>Routes\<close>, \<open>RouteProps\<close>: the application around the handlers, with \<open>shared/metrics\<close>, and the
    tables of routes.
  \<^item> \<open>Boot\<close>, \<open>BootProps\<close>: \<open>cmd/server/main.go\<close> of the eight services, with \<open>db.NewPool\<close>,
    \<open>shared/redisx\<close> and \<open>shared/logging\<close>, and what ends a process.

  A struct is a record, a Go \<open>error\<close> result a sum, a nil pointer \<open>None\<close>; a handler is a function from
  the outcomes of its calls (\<open>renv\<close>: clock, random bytes, fate of each database call), the request and
  the state to a reply and the state, and returns the messages it publishes.  Every early return of
  the code is a branch.  A handler's read of the clock or of randomness is numbered in the code's order.
\<close>

text \<open>
  \<^bold>\<open>What is shown.\<close>

  \<^item> Authentication: a login proves the user, the password and the second factor; refresh tokens work
    once, but for two that overlap; logout ends a session; enrolling and verifying fit together; every
    request keeps the invariant of the tables.
  \<^item> The edge: without a valid access token no service runs a handler but login and refresh; a token of a
    login is the same user at every service of a deployment; which services start with what, and what
    ends them; the rate limit; the statuses that are answered, and those that are counted.
  \<^item> Orders: what a creation stores, a reading returns; reads depend on visible rows alone; a submission
    happens once; a decision is made once; the life cycle, in any interleaving with any failures, as long
    as no message is consumed twice; and that an order can be approved.  Where the code falls short, a
    theorem shows it: a lost acknowledgement, a message delivered twice, an approver the policies stop.
  \<^item> Budgets and the audit log: amounts are independent of what a role may not see; accesses are
    audited; the query builder selects what its filters say, by parsing its own SQL.
  \<^item> Documents: the texts of a document read back as the texts of the order, whatever they contain.
    Reports: the counts are exact; the cache never serves one caller the report of another.
  \<^item> Migration: it can be repeated, never overwrites, and leaves the sequences past every id.

  \<^bold>\<open>Interfaces.\<close>  \<open>tx_relation\<close> (Db) is what a relation of databases owes so that all transactions
  respect it, \<open>auth_relation\<close> (AuthProps) extends it to the whole authentication service; \<open>int_param\<close>
  (GoStd) is a clamped query parameter, \<open>column_cipher\<close> (Cryptox) an encrypted column, \<open>token_kind\<close>
  (Httpx) a kind of token at the middleware, \<open>importer\<close> (EtlProps) a table of the migration.  Each is
  interpreted on the definitions of the code: the audit log, the ages of tokens, approvals and
  migrated tables, the copies of \<open>parseInt\<close> in four services, both kinds of tokens, the nine tables.

  \<^bold>\<open>Loops.\<close>  Recursions are structural or end by a measure that is proved (the rest of a text or of a
  number), so every function returns; the one fuel, that of the reader of conditions in \<open>AuditLog\<close>, is the
  length of the text it reads, which each condition shortens.

  \<^bold>\<open>Arguments of the model\<close> are the things outside the repository; what is relied on of them is named.
  AES-GCM (\<open>aead_ok\<close>), random bytes (\<open>rand_ok\<close>), the token library and keys (\<open>jwt_pair\<close>, \<open>keys_ok\<close>,
  \<open>parse_stable\<close>), Redis (\<open>redis_ok\<close>), the router of the web framework (\<open>router_ok\<close>), bcrypt, the LDAP
  library, the PDF and zip writers, the JSON text of a report, PostgreSQL's text of an address, the
  driver's encoding of an int as text, the float product in a fractional duration, the local rate
  limiter, the connections a service opens at its start.

  \<^bold>\<open>Bounds.\<close>  Strings are bytes and case mapping and white space those of ASCII; times are
  nanoseconds, PostgreSQL's cut to microseconds, in a session whose time zone is UTC; \<open>null\<close> in a JSON
  object is as if the member were absent; rows with equal keys come in heap order; statements of one
  transaction are not interleaved with others (interleavings of whole handlers, and of the two parts
  of a refresh, are).  A counter or sequence does not overflow.

  \<^bold>\<open>Not modelled.\<close>  The timing of calls and the timeouts of contexts; what is logged while a service
  runs; the histogram, the text of the counters and their registration with the client library; the
  closing of connections; the seed data, the deployment files and scripts; third-party packages.  Of the
  Go files what is left are package clauses, imports, the structs that only hold a pool, and tests.
\<close>

end
